(* ===== verification/Prelude.thy ===== *)
theory Prelude
  imports Main "HOL-Library.Word" "HOL-Library.AList" "HOL-Library.Multiset"
begin

unbundle bit_operations_syntax

text \<open>
  Shared ground of the development: the outcome of a Go computation (a value, a
  process exit through \<open>log.Fatal\<close>, or a run-time panic), state-passing
  computations over it with their loops, the proof rules that carry an invariant or a
  postcondition through such a computation, the interface of \<open>sync.Map\<close> with
  its model, and the generic argument from one-step invariants to reachable states.
\<close>

named_theorems go_defs \<open>definitions unfolded when a computation is evaluated\<close>
named_theorems pres_intros \<open>introduction rules for preserved invariants\<close>

type_synonym byte = "8 word"
type_synonym u16 = "16 word"
type_synonym u32 = "32 word"
type_synonym u64 = "64 word"


section \<open>Outcomes\<close>

text \<open>
  \<open>Ret\<close> is a normal return; \<open>Fatal\<close> is \<open>log.Fatal\<close>, which
  logs and exits the process; \<open>Panic\<close> is a run-time panic (nil dereference, index
  out of range, send on or close of a closed channel), which ends the process as no
  function of the program recovers; \<open>Hang\<close> is a goroutine that waits for ever
  (a send on a nil channel, a lock nobody releases).
\<close>

datatype go_panic = NilDeref | IndexRange | ClosedChan | SliceRange | ConvLen | NilMapWrite | DivZero

datatype 'a res = Ret 'a | Fatal string | Panic go_panic | Hang

definition bindR :: "'a res \<Rightarrow> ('a \<Rightarrow> 'b res) \<Rightarrow> 'b res" where
  [go_defs]: "bindR m f = (case m of Ret x \<Rightarrow> f x | Fatal e \<Rightarrow> Fatal e | Panic p \<Rightarrow> Panic p | Hang \<Rightarrow> Hang)"

lemma bindR_simps [simp]:
  "bindR (Ret x) f = f x" "bindR (Fatal e) f = Fatal e" "bindR (Panic p) f = Panic p"
  "bindR Hang f = Hang"
  by (simp_all add: bindR_def)

lemma bindR_Ret_iff: "bindR m f = Ret y \<longleftrightarrow> (\<exists>x. m = Ret x \<and> f x = Ret y)"
  by (cases m) auto

lemma bindR_assoc: "bindR (bindR m f) g = bindR m (\<lambda>x. bindR (f x) g)"
  by (cases m) auto

text \<open>A loop over a slice whose body updates local variables and may end the process.\<close>

fun foldR :: "('a \<Rightarrow> 'b \<Rightarrow> 'b res) \<Rightarrow> 'a list \<Rightarrow> 'b \<Rightarrow> 'b res" where
  "foldR f [] s = Ret s"
| "foldR f (x # xs) s = bindR (f x s) (foldR f xs)"

lemma foldR_append: "foldR f (xs @ ys) s = bindR (foldR f xs s) (foldR f ys)"
  by (induction xs arbitrary: s) (auto simp: bindR_def split: res.split)

lemma foldR_inv:
  assumes "foldR f xs s = Ret t" and "I s"
    and "\<And>x s t. x \<in> set xs \<Longrightarrow> I s \<Longrightarrow> f x s = Ret t \<Longrightarrow> I t"
  shows "I t"
  using assms
proof (induction xs arbitrary: s)
  case Nil
  then show ?case by simp
next
  case (Cons x xs)
  from Cons.prems(1) obtain s' where s': "f x s = Ret s'" "foldR f xs s' = Ret t"
    by (auto simp: bindR_Ret_iff)
  show ?case
    by (rule Cons.IH [OF s'(2)]) (use Cons.prems s' in auto)
qed


section \<open>State-passing computations\<close>

type_synonym ('s, 'a) comp = "'s \<Rightarrow> ('a \<times> 's) res"

definition retM :: "'a \<Rightarrow> ('s, 'a) comp" where
  [go_defs]: "retM x s = Ret (x, s)"

definition bindM :: "('s, 'a) comp \<Rightarrow> ('a \<Rightarrow> ('s, 'b) comp) \<Rightarrow> ('s, 'b) comp" where
  [go_defs]: "bindM m f s = bindR (m s) (\<lambda>(x, s'). f x s')"

definition thenM :: "('s, 'a) comp \<Rightarrow> ('s, 'b) comp \<Rightarrow> ('s, 'b) comp" where
  [go_defs]: "thenM m n = bindM m (\<lambda>_. n)"

definition getsM :: "('s \<Rightarrow> 'a) \<Rightarrow> ('s, 'a) comp" where
  [go_defs]: "getsM f s = Ret (f s, s)"

definition modM :: "('s \<Rightarrow> 's) \<Rightarrow> ('s, unit) comp" where
  [go_defs]: "modM f s = Ret ((), f s)"

definition fatalM :: "string \<Rightarrow> ('s, 'a) comp" where
  [go_defs]: "fatalM e s = Fatal e"

definition panicM :: "go_panic \<Rightarrow> ('s, 'a) comp" where
  [go_defs]: "panicM p s = Panic p"

definition hangM :: "('s, 'a) comp" where
  [go_defs]: "hangM s = Hang"

definition liftR :: "'a res \<Rightarrow> ('s, 'a) comp" where
  [go_defs]: "liftR m s = bindR m (\<lambda>x. Ret (x, s))"

definition skipM :: "('s, unit) comp" where
  [go_defs]: "skipM = retM ()"

text \<open>A pointer that is dereferenced: \<open>None\<close> is nil.\<close>

definition derefM :: "'a option \<Rightarrow> ('s, 'a) comp" where
  [go_defs]: "derefM p = (case p of None \<Rightarrow> panicM NilDeref | Some x \<Rightarrow> retM x)"

primrec forM :: "'a list \<Rightarrow> ('a \<Rightarrow> ('s, unit) comp) \<Rightarrow> ('s, unit) comp" where
  "forM [] f = skipM"
| "forM (x # xs) f = thenM (f x) (forM xs f)"

text \<open>
  \<open>rangeM\<close> is \<open>sync.Map.Range\<close> over the visited entries: the callback says
  whether to go on. The entries visited are those of the map when the call starts; the
  callbacks of the program delete at most the entry they are at, so no entry is skipped.
\<close>

primrec rangeM :: "'a list \<Rightarrow> ('a \<Rightarrow> ('s, bool) comp) \<Rightarrow> ('s, unit) comp" where
  "rangeM [] f = skipM"
| "rangeM (x # xs) f = bindM (f x) (\<lambda>go. if go then rangeM xs f else skipM)"

text \<open>
  \<open>loopM\<close> is a loop whose body says whether to go on, with the answer as its result
  (\<open>False\<close> when the body stopped it); \<open>foldM\<close> threads local variables
  through a loop.
\<close>

primrec loopM :: "'a list \<Rightarrow> ('a \<Rightarrow> ('s, bool) comp) \<Rightarrow> ('s, bool) comp" where
  "loopM [] f = retM True"
| "loopM (x # xs) f = bindM (f x) (\<lambda>go. if go then loopM xs f else retM False)"

primrec foldM :: "'a list \<Rightarrow> ('a \<Rightarrow> 'b \<Rightarrow> ('s, 'b) comp) \<Rightarrow> 'b \<Rightarrow> ('s, 'b) comp" where
  "foldM [] f b = retM b"
| "foldM (x # xs) f b = bindM (f x b) (foldM xs f)"

lemma retM_apply [simp]: "retM x s = Ret (x, s)" by (simp add: retM_def)
lemma getsM_apply [simp]: "getsM f s = Ret (f s, s)" by (simp add: getsM_def)
lemma modM_apply [simp]: "modM f s = Ret ((), f s)" by (simp add: modM_def)
lemma fatalM_apply [simp]: "fatalM e s = Fatal e" by (simp add: fatalM_def)
lemma panicM_apply [simp]: "panicM p s = Panic p" by (simp add: panicM_def)
lemma hangM_apply [simp]: "hangM s = Hang" by (simp add: hangM_def)
lemma skipM_apply [simp]: "skipM s = Ret ((), s)" by (simp add: skipM_def)
lemma liftR_simps [simp]:
  "liftR (Ret x) s = Ret (x, s)" "liftR (Fatal e) s = Fatal e" "liftR (Panic p) s = Panic p"
  "liftR Hang s = Hang"
  by (simp_all add: liftR_def)
lemma derefM_simps [simp]: "derefM None s = Panic NilDeref" "derefM (Some x) s = Ret (x, s)"
  by (simp_all add: derefM_def)
lemma bindM_apply: "bindM m f s = bindR (m s) (\<lambda>(x, s'). f x s')"
  by (simp add: bindM_def)
lemma thenM_apply: "thenM m n s = bindR (m s) (\<lambda>(x, s'). n s')"
  by (simp add: thenM_def bindM_def)

lemmas run_simps = bindM_apply thenM_apply bindR_simps


section \<open>Invariants and postconditions of computations\<close>

text \<open>
  \<open>preserves I m\<close>: if \<open>m\<close> returns from a state of \<open>I\<close>, the
  state it returns in satisfies \<open>I\<close>. A process that has exited or panicked has no
  state left to speak of. \<open>triple P m Q\<close> is the same with a postcondition on the
  result.
\<close>

definition triple :: "('s \<Rightarrow> bool) \<Rightarrow> ('s, 'a) comp \<Rightarrow> ('a \<Rightarrow> 's \<Rightarrow> bool) \<Rightarrow> bool" where
  "triple P m Q \<longleftrightarrow> (\<forall>s x t. P s \<longrightarrow> m s = Ret (x, t) \<longrightarrow> Q x t)"

definition preserves :: "('s \<Rightarrow> bool) \<Rightarrow> ('s, 'a) comp \<Rightarrow> bool" where
  "preserves I m \<longleftrightarrow> triple I m (\<lambda>_. I)"

lemma tripleI: "(\<And>s x t. P s \<Longrightarrow> m s = Ret (x, t) \<Longrightarrow> Q x t) \<Longrightarrow> triple P m Q"
  by (simp add: triple_def)

lemma tripleD: "triple P m Q \<Longrightarrow> P s \<Longrightarrow> m s = Ret (x, t) \<Longrightarrow> Q x t"
  by (simp add: triple_def)

lemma preservesI: "(\<And>s x t. I s \<Longrightarrow> m s = Ret (x, t) \<Longrightarrow> I t) \<Longrightarrow> preserves I m"
  by (simp add: preserves_def triple_def)

lemma preservesD: "preserves I m \<Longrightarrow> I s \<Longrightarrow> m s = Ret (x, t) \<Longrightarrow> I t"
  by (auto simp: preserves_def triple_def)

lemma triple_bindM:
  assumes "triple P m R" and "\<And>x. triple (R x) (f x) Q"
  shows "triple P (bindM m f) Q"
  using assms unfolding triple_def by (fastforce simp: bindM_def bindR_Ret_iff)

lemma triple_weaken:
  "triple P m Q \<Longrightarrow> (\<And>s. P' s \<Longrightarrow> P s) \<Longrightarrow> (\<And>x s. Q x s \<Longrightarrow> Q' x s) \<Longrightarrow> triple P' m Q'"
  unfolding triple_def by blast

lemma preserves_bindM [pres_intros]:
  "preserves I m \<Longrightarrow> (\<And>x. preserves I (f x)) \<Longrightarrow> preserves I (bindM m f)"
  unfolding preserves_def by (rule triple_bindM)

lemma preserves_thenM [pres_intros]:
  "preserves I m \<Longrightarrow> preserves I n \<Longrightarrow> preserves I (thenM m n)"
  unfolding thenM_def by (rule preserves_bindM)

lemma preserves_retM [pres_intros]: "preserves I (retM x)"
  and preserves_getsM [pres_intros]: "preserves I (getsM g)"
  and preserves_skipM [pres_intros]: "preserves I skipM"
  and preserves_fatalM [pres_intros]: "preserves I (fatalM e)"
  and preserves_panicM [pres_intros]: "preserves I (panicM p)"
  and preserves_hangM [pres_intros]: "preserves I hangM"
  by (auto intro: preservesI)

lemma preserves_liftR [pres_intros]: "preserves I (liftR m)"
  by (rule preservesI) (auto simp: liftR_def bindR_Ret_iff)

lemma preserves_derefM [pres_intros]: "preserves I (derefM p)"
  by (cases p) (auto intro: preservesI)

lemma preserves_modM: "(\<And>s. I s \<Longrightarrow> I (f s)) \<Longrightarrow> preserves I (modM f)"
  by (auto simp: preserves_def triple_def)

lemma preserves_if [pres_intros]:
  "(b \<Longrightarrow> preserves I m) \<Longrightarrow> (\<not> b \<Longrightarrow> preserves I n) \<Longrightarrow> preserves I (if b then m else n)"
  by simp

lemma preserves_option [pres_intros]:
  "(p = None \<Longrightarrow> preserves I m) \<Longrightarrow> (\<And>x. p = Some x \<Longrightarrow> preserves I (f x)) \<Longrightarrow>
    preserves I (case p of None \<Rightarrow> m | Some x \<Rightarrow> f x)"
  by (cases p) auto

lemma preserves_sum [pres_intros]:
  "(\<And>e. p = Inl e \<Longrightarrow> preserves I (m e)) \<Longrightarrow> (\<And>x. p = Inr x \<Longrightarrow> preserves I (f x)) \<Longrightarrow>
    preserves I (case p of Inl e \<Rightarrow> m e | Inr x \<Rightarrow> f x)"
  by (cases p) auto

lemma preserves_prod [pres_intros]:
  "(\<And>x y. p = (x, y) \<Longrightarrow> preserves I (f x y)) \<Longrightarrow> preserves I (case p of (x, y) \<Rightarrow> f x y)"
  by (cases p) auto

lemma preserves_let [pres_intros]: "preserves I (f x) \<Longrightarrow> preserves I (let y = x in f y)"
  by simp

lemma preserves_forM [pres_intros]:
  "(\<And>x. x \<in> set xs \<Longrightarrow> preserves I (f x)) \<Longrightarrow> preserves I (forM xs f)"
  by (induction xs) (auto intro!: pres_intros)

lemma preserves_rangeM [pres_intros]:
  "(\<And>x. x \<in> set xs \<Longrightarrow> preserves I (f x)) \<Longrightarrow> preserves I (rangeM xs f)"
  by (induction xs) (auto intro!: pres_intros)

lemma preserves_loopM [pres_intros]:
  "(\<And>x. x \<in> set xs \<Longrightarrow> preserves I (f x)) \<Longrightarrow> preserves I (loopM xs f)"
  by (induction xs) (auto intro!: pres_intros)

lemma preserves_foldM [pres_intros]:
  "(\<And>x b. x \<in> set xs \<Longrightarrow> preserves I (f x b)) \<Longrightarrow> preserves I (foldM xs f b)"
  by (induction xs arbitrary: b) (auto intro!: pres_intros)


section \<open>The interface of sync.Map\<close>

text \<open>
  What the program relies on in \<open>sync.Map\<close>: a load after a store, a delete or a
  compare-and-delete. The order in which \<open>Range\<close> visits the entries is not
  specified; operations that depend on it take the order as a parameter.
\<close>

locale sync_map =
  fixes load :: "'m \<Rightarrow> 'k \<Rightarrow> 'v option"
    and store :: "'k \<Rightarrow> 'v \<Rightarrow> 'm \<Rightarrow> 'm"
    and del :: "'k \<Rightarrow> 'm \<Rightarrow> 'm"
    and cas_del :: "'k \<Rightarrow> 'v \<Rightarrow> 'm \<Rightarrow> 'm"
  assumes load_store: "load (store k v m) k' = (if k' = k then Some v else load m k')"
    and load_del: "load (del k m) k' = (if k' = k then None else load m k')"
    and load_cas_del: "load (cas_del k v m) k' =
      (if k' = k \<and> load m k = Some v then None else load m k')"
begin

lemma load_store_same: "load (store k v m) k = Some v"
  by (simp add: load_store)

lemma load_del_Some: "load (del k m) k' = Some v \<Longrightarrow> load m k' = Some v \<and> k' \<noteq> k"
  by (simp add: load_del split: if_splits)

lemma load_cas_del_Some: "load (cas_del k v m) k' = Some u \<Longrightarrow> load m k' = Some u"
  by (simp add: load_cas_del split: if_splits)

lemma cas_del_gone:
  assumes "\<And>k'. load m k' = Some v \<Longrightarrow> k' = k"
  shows "load (cas_del k v m) k' \<noteq> Some v"
  using assms by (auto simp: load_cas_del)

end

type_synonym ('k, 'v) smap = "('k \<times> 'v) list"

definition sm_load :: "('k, 'v) smap \<Rightarrow> 'k \<Rightarrow> 'v option" where
  "sm_load m k = map_of m k"

definition sm_store :: "'k \<Rightarrow> 'v \<Rightarrow> ('k, 'v) smap \<Rightarrow> ('k, 'v) smap" where
  "sm_store k v m = AList.update k v m"

definition sm_delete :: "'k \<Rightarrow> ('k, 'v) smap \<Rightarrow> ('k, 'v) smap" where
  "sm_delete k m = AList.delete k m"

definition sm_cas_delete :: "'k \<Rightarrow> 'v \<Rightarrow> ('k, 'v) smap \<Rightarrow> ('k, 'v) smap" where
  "sm_cas_delete k v m = (if sm_load m k = Some v then sm_delete k m else m)"

interpretation sm: sync_map sm_load sm_store sm_delete sm_cas_delete
  by unfold_locales
    (simp_all add: sm_load_def sm_store_def sm_delete_def sm_cas_delete_def update_conv' delete_conv')

lemma sm_store_distinct: "distinct (map fst m) \<Longrightarrow> distinct (map fst (sm_store k v m))"
  by (simp add: sm_store_def distinct_update)

lemma sm_delete_distinct: "distinct (map fst m) \<Longrightarrow> distinct (map fst (sm_delete k m))"
  by (simp add: sm_delete_def distinct_delete)

lemma sm_cas_delete_distinct: "distinct (map fst m) \<Longrightarrow> distinct (map fst (sm_cas_delete k v m))"
  by (simp add: sm_cas_delete_def sm_delete_distinct)

lemma sm_load_in: "distinct (map fst m) \<Longrightarrow> (k, v) \<in> set m \<longleftrightarrow> sm_load m k = Some v"
  by (simp add: sm_load_def)

lemma sm_load_Nil [simp]: "sm_load [] k = None"
  by (simp add: sm_load_def)

lemmas sm_load_simps = sm.load_store sm.load_del sm.load_cas_del

text \<open>A visiting order for \<open>Range\<close>: some permutation of the entries.\<close>

type_synonym ('k, 'v) order = "('k, 'v) smap \<Rightarrow> ('k, 'v) smap"

definition range_order :: "('k, 'v) order \<Rightarrow> bool" where
  "range_order rng \<longleftrightarrow> (\<forall>m. mset (rng m) = mset m)"

lemma range_order_set: "range_order rng \<Longrightarrow> set (rng m) = set m"
  by (metis range_order_def set_mset_mset)

lemma range_order_id: "range_order id"
  by (simp add: range_order_def)


section \<open>Reachable states\<close>

text \<open>
  A machine with an initial-state predicate and a step relation, and a predicate that
  holds initially and is kept by every step: it holds in every reachable state and along
  every run.
\<close>

locale inductive_invariant =
  fixes initial :: "'s \<Rightarrow> bool" and step :: "'s \<Rightarrow> 's \<Rightarrow> bool" and inv :: "'s \<Rightarrow> bool"
  assumes inv_initial: "initial s \<Longrightarrow> inv s"
    and inv_step: "inv s \<Longrightarrow> step s t \<Longrightarrow> inv t"
begin

lemma inv_steps: "step\<^sup>*\<^sup>* s t \<Longrightarrow> inv s \<Longrightarrow> inv t"
  by (induction rule: rtranclp_induct) (auto intro: inv_step)

lemma inv_reachable: "initial s \<Longrightarrow> step\<^sup>*\<^sup>* s t \<Longrightarrow> inv t"
  by (rule inv_steps [OF _ inv_initial])

end

end
