(* ===== verification/GoStd.thy ===== *)
theory GoStd
  imports Prelude
begin

text \<open>
  The parts of Go's standard library the program calls on strings, numbers and bytes:
  \<open>strconv.ParseUint\<close>, \<open>ParseInt\<close> and \<open>Atoi\<close>, decimal and
  hexadecimal printing, \<open>hex.DecodeString\<close>, \<open>strings.Fields\<close>,
  \<open>Split\<close>, \<open>SplitN\<close> and \<open>HasPrefix\<close>, \<open>binary.BigEndian\<close>. A Go
  string is a byte sequence, here an Isabelle string of 8-bit characters. Ranging over a
  string is modelled on ASCII input, where a rune is a byte.
\<close>

section \<open>64-bit integers\<close>

text \<open>\<open>int\<close> and \<open>int64\<close> have 64 bits; sums wrap around.\<close>

definition wrap64 :: "int \<Rightarrow> int" where
  "wrap64 x = signed_take_bit 63 x"

lemma wrap64_id: "- (2 ^ 63) \<le> x \<Longrightarrow> x < 2 ^ 63 \<Longrightarrow> wrap64 x = x"
  unfolding wrap64_def by (rule signed_take_bit_int_eq_self) simp_all

lemma wrap64_range: "- (2 ^ 63) \<le> wrap64 x" "wrap64 x < 2 ^ 63"
  using signed_take_bit_int_greater_eq_minus_exp [of 63 x] signed_take_bit_int_less_exp [of 63 x]
  by (simp_all add: wrap64_def)

lemma wrap64_overflow: "wrap64 (2 ^ 63) = - (2 ^ 63)"
  by (simp add: wrap64_def)

section \<open>Characters\<close>

abbreviation code :: "char \<Rightarrow> nat" where
  "code c \<equiv> of_char c"

section \<open>Unsigned numbers from text\<close>

datatype num_err = ErrSyntax | ErrRange

text \<open>The digit value of a character as \<open>ParseUint\<close> computes it.\<close>

definition digit_val :: "char \<Rightarrow> nat option" where
  "digit_val c =
     (if 48 \<le> code c \<and> code c \<le> 57 then Some (code c - 48)
      else if 97 \<le> code c \<and> code c \<le> 122 then Some (code c - 87)
      else if 65 \<le> code c \<and> code c \<le> 90 then Some (code c - 55)
      else None)"

text \<open>The loop of \<open>ParseUint\<close>: base, upper bound, base-0 flag, value so far.\<close>

fun uint_loop :: "nat \<Rightarrow> nat \<Rightarrow> bool \<Rightarrow> nat \<Rightarrow> string \<Rightarrow> num_err + nat" where
  "uint_loop b mx b0 n [] = Inr n"
| "uint_loop b mx b0 n (c # cs) =
     (if c = CHR ''_'' \<and> b0 then uint_loop b mx b0 n cs
      else (case digit_val c of
          None \<Rightarrow> Inl ErrSyntax
        | Some d \<Rightarrow>
            if b \<le> d then Inl ErrSyntax
            else if mx < n * b + d then Inl ErrRange
            else uint_loop b mx b0 (n * b + d) cs))"

definition lower_is :: "char \<Rightarrow> char \<Rightarrow> bool" where
  "lower_is c l \<longleftrightarrow> code c = code l \<or> code c + 32 = code l"

text \<open>The base and the remaining text when base 0 is asked for.\<close>

definition base_prefix :: "string \<Rightarrow> nat \<times> string" where
  "base_prefix s =
     (case s of
        c # rest \<Rightarrow>
          if c \<noteq> CHR ''0'' then (10, s)
          else (case rest of
              x # y # r \<Rightarrow>
                if lower_is x (CHR ''b'') then (2, y # r)
                else if lower_is x (CHR ''o'') then (8, y # r)
                else if lower_is x (CHR ''x'') then (16, y # r)
                else (8, rest)
            | _ \<Rightarrow> (8, rest))
      | [] \<Rightarrow> (10, s))"

text \<open>Underscores must separate digits (or follow a base prefix).\<close>

datatype saw = SawStart | SawDigit | SawUnderscore | SawOther

fun underscore_loop :: "bool \<Rightarrow> saw \<Rightarrow> string \<Rightarrow> bool" where
  "underscore_loop hex w [] = (w \<noteq> SawUnderscore)"
| "underscore_loop hex w (c # cs) =
     (if (48 \<le> code c \<and> code c \<le> 57) \<or>
         (hex \<and> ((97 \<le> code c \<and> code c \<le> 102) \<or> (65 \<le> code c \<and> code c \<le> 70)))
      then underscore_loop hex SawDigit cs
      else if c = CHR ''_''
      then (if w \<noteq> SawDigit then False else underscore_loop hex SawUnderscore cs)
      else if w = SawUnderscore then False
      else underscore_loop hex SawOther cs)"

definition underscoreOK :: "string \<Rightarrow> bool" where
  "underscoreOK s0 =
     (let s = (case s0 of c # r \<Rightarrow> if c = CHR ''-'' \<or> c = CHR ''+'' then r else s0 | [] \<Rightarrow> s0)
      in (case s of
           c # x # r \<Rightarrow>
             if c = CHR ''0'' \<and>
                (lower_is x (CHR ''b'') \<or> lower_is x (CHR ''o'') \<or> lower_is x (CHR ''x''))
             then underscore_loop (lower_is x (CHR ''x'')) SawDigit r
             else underscore_loop False SawStart s
         | _ \<Rightarrow> underscore_loop False SawStart s))"

definition ParseUint :: "string \<Rightarrow> nat \<Rightarrow> nat \<Rightarrow> num_err + nat" where
  "ParseUint s base bits =
     (if s = [] then Inl ErrSyntax
      else
        let (b, r) = (if base = 0 then base_prefix s else (base, s)) in
        case uint_loop b (2 ^ bits - 1) (base = 0) 0 r of
          Inl e \<Rightarrow> Inl e
        | Inr n \<Rightarrow>
            if base = 0 \<and> CHR ''_'' \<in> set r \<and> \<not> underscoreOK s then Inl ErrSyntax else Inr n)"

text \<open>Signed numbers: \<open>ParseInt\<close> for an explicit base, and \<open>Atoi\<close> (64-bit).\<close>

definition ParseInt :: "string \<Rightarrow> nat \<Rightarrow> nat \<Rightarrow> num_err + int" where
  "ParseInt s0 base bits =
     (case s0 of
        [] \<Rightarrow> Inl ErrSyntax
      | c # r \<Rightarrow>
          let neg = (c = CHR ''-'');
              s = (if c = CHR ''+'' \<or> c = CHR ''-'' then r else s0) in
          case ParseUint s base 64 of
            Inl ErrSyntax \<Rightarrow> Inl ErrSyntax
          | Inl ErrRange \<Rightarrow> Inl ErrRange
          | Inr un \<Rightarrow>
              if \<not> neg \<and> 2 ^ (bits - 1) \<le> un then Inl ErrRange
              else if neg \<and> 2 ^ (bits - 1) < un then Inl ErrRange
              else Inr (if neg then - int un else int un))"

definition Atoi :: "string \<Rightarrow> num_err + int" where
  "Atoi s = ParseInt s 10 64"

lemma uint_loop_bound: "uint_loop b mx b0 n s = Inr m \<Longrightarrow> n \<le> mx \<Longrightarrow> m \<le> mx"
  by (induction b mx b0 n s rule: uint_loop.induct)
    (auto split: if_splits option.splits)

lemma ParseUint_bound: "ParseUint s base bits = Inr v \<Longrightarrow> v < 2 ^ bits"
  by (auto simp: ParseUint_def Let_def split: if_splits sum.splits prod.splits
      dest!: uint_loop_bound intro: le_less_trans)

section \<open>Printing numbers\<close>

definition digit_char :: "nat \<Rightarrow> char" where
  "digit_char d = char_of (48 + d)"

fun show_nat :: "nat \<Rightarrow> string" where
  "show_nat n = (if n < 10 then [digit_char n] else show_nat (n div 10) @ [digit_char (n mod 10)])"

declare show_nat.simps [simp del]

definition show_int :: "int \<Rightarrow> string" where
  "show_int i = (if i < 0 then CHR ''-'' # show_nat (nat (- i)) else show_nat (nat i))"

lemma code_char_of [simp]: "n < 256 \<Longrightarrow> code (char_of n) = n"
  by simp

lemma digit_chars:
  "char_of (48 :: nat) = CHR ''0''" "char_of (49 :: nat) = CHR ''1''" "char_of (50 :: nat) = CHR ''2''"
  "char_of (51 :: nat) = CHR ''3''" "char_of (52 :: nat) = CHR ''4''" "char_of (53 :: nat) = CHR ''5''"
  "char_of (54 :: nat) = CHR ''6''" "char_of (55 :: nat) = CHR ''7''" "char_of (56 :: nat) = CHR ''8''"
  "char_of (57 :: nat) = CHR ''9''" "char_of (65 :: nat) = CHR ''A''"
  by (simp_all add: char_of_eq_iff)

lemma digit_val_digit_char [simp]: "d < 10 \<Longrightarrow> digit_val (digit_char d) = Some d"
  by (simp add: digit_val_def digit_char_def)

lemma code_digit_char [simp]: "d < 10 \<Longrightarrow> code (digit_char d) = 48 + d"
  by (simp add: digit_char_def)

lemma digit_char_not_underscore [simp]: "d < 10 \<Longrightarrow> digit_char d \<noteq> CHR ''_''"
proof
  assume d: "d < 10" and "digit_char d = CHR ''_''"
  then have "code (digit_char d) = code (CHR ''_'')" by (simp only:)
  with d show False by simp
qed

lemma uint_loop_append:
  "uint_loop b mx b0 n (s @ t) =
     (case uint_loop b mx b0 n s of Inl e \<Rightarrow> Inl e | Inr m \<Rightarrow> uint_loop b mx b0 m t)"
  by (induction b mx b0 n s rule: uint_loop.induct) (auto split: option.splits)

lemma uint_loop_show_nat: "n \<le> mx \<Longrightarrow> uint_loop 10 mx b0 0 (show_nat n) = Inr n"
proof (induction n rule: show_nat.induct)
  case (1 n)
  show ?case
  proof (cases "n < 10")
    case True
    with "1.prems" show ?thesis by (simp add: show_nat.simps [of n])
  next
    case False
    with 1 have "uint_loop 10 mx b0 0 (show_nat (n div 10)) = Inr (n div 10)"
      by simp
    moreover have "n div 10 * 10 + n mod 10 = n" by simp
    ultimately show ?thesis
      using False "1.prems" by (simp add: show_nat.simps [of n] uint_loop_append)
  qed
qed

lemma show_nat_not_Nil [simp]: "show_nat n \<noteq> []"
  by (simp add: show_nat.simps [of n])

lemma set_show_nat: "c \<in> set (show_nat n) \<Longrightarrow> \<exists>d < 10. c = digit_char d"
proof (induction n rule: show_nat.induct)
  case (1 n)
  have m: "n mod 10 < 10" by simp
  show ?case
  proof (cases "n < 10")
    case True
    with "1.prems" show ?thesis by (auto simp: show_nat.simps [of n])
  next
    case False
    with "1.prems" consider "c \<in> set (show_nat (n div 10))" | "c = digit_char (n mod 10)"
      by (auto simp: show_nat.simps [of n])
    then show ?thesis
      using "1.IH" False m by cases blast+
  qed
qed

lemma uint_loop_show_nat_bits:
  "n < 2 ^ bits \<Longrightarrow> uint_loop 10 (2 ^ bits - Suc 0) b0 0 (show_nat n) = Inr n"
  by (rule uint_loop_show_nat) linarith

lemma ParseUint_show_nat: "n < 2 ^ bits \<Longrightarrow> ParseUint (show_nat n) 10 bits = Inr n"
  by (simp add: ParseUint_def uint_loop_show_nat_bits)

lemma digit_char_0_iff: "d < 10 \<Longrightarrow> digit_char d = CHR ''0'' \<longleftrightarrow> d = 0"
proof
  assume d: "d < 10" and "digit_char d = CHR ''0''"
  then have "code (digit_char d) = code (CHR ''0'')" by (simp only:)
  with d show "d = 0" by simp
qed (simp add: digit_char_def char_of_eq_iff)

lemma show_nat_hd: "0 < n \<Longrightarrow> hd (show_nat n) \<noteq> CHR ''0''"
proof (induction n rule: show_nat.induct)
  case (1 n)
  show ?case
  proof (cases "n < 10")
    case True
    with "1.prems" show ?thesis
      by (simp add: show_nat.simps [of n] digit_char_0_iff)
  next
    case False
    with "1.prems" have "hd (show_nat (n div 10)) \<noteq> CHR ''0''"
      by (intro "1.IH") simp_all
    with False show ?thesis by (simp add: show_nat.simps [of n])
  qed
qed

lemma ParseUint0_show_nat: "n < 2 ^ bits \<Longrightarrow> ParseUint (show_nat n) 0 bits = Inr n"
proof -
  assume n: "n < 2 ^ bits"
  have us: "CHR ''_'' \<notin> set (show_nat n)"
    by (metis digit_char_not_underscore set_show_nat)
  show ?thesis
  proof (cases "n = 0")
    case True
    have "show_nat 0 = ''0''" by (simp add: show_nat.simps [of 0] digit_char_def char_of_eq_iff)
    with True show ?thesis by (simp add: ParseUint_def base_prefix_def)
  next
    case False
    then have "base_prefix (show_nat n) = (10, show_nat n)"
      using show_nat_hd [of n] by (cases "show_nat n") (auto simp: base_prefix_def)
    with n us show ?thesis by (simp add: ParseUint_def uint_loop_show_nat_bits)
  qed
qed

section \<open>Hexadecimal text\<close>

definition hex_char :: "nat \<Rightarrow> char" where
  "hex_char d = (if d < 10 then char_of (48 + d) else char_of (87 + d))"

definition hex_val :: "char \<Rightarrow> nat option" where
  "hex_val c =
     (if 48 \<le> code c \<and> code c \<le> 57 then Some (code c - 48)
      else if 97 \<le> code c \<and> code c \<le> 102 then Some (code c - 87)
      else if 65 \<le> code c \<and> code c \<le> 70 then Some (code c - 55)
      else None)"

text \<open>\<open>%x\<close> of a byte slice, which is also \<open>hex.EncodeToString\<close>.\<close>

fun hex_of :: "byte list \<Rightarrow> string" where
  "hex_of [] = []"
| "hex_of (b # bs) = hex_char (unat b div 16) # hex_char (unat b mod 16) # hex_of bs"

text \<open>
  \<open>hex.DecodeString\<close>: the bytes decoded before the first error, and whether there was
  an error. Callers that drop the error use the bytes.
\<close>

fun hex_decode :: "string \<Rightarrow> byte list \<times> bool" where
  "hex_decode [] = ([], False)"
| "hex_decode [c] = ([], True)"
| "hex_decode (p # q # r) =
     (case (hex_val p, hex_val q) of
        (Some a, Some b) \<Rightarrow>
          (let (bs, e) = hex_decode r in (of_nat (16 * a + b) # bs, e))
      | _ \<Rightarrow> ([], True))"

lemma hex_val_hex_char [simp]: "d < 16 \<Longrightarrow> hex_val (hex_char d) = Some d"
  by (simp add: hex_val_def hex_char_def)

lemma word_unat_inverse: "of_nat (unat w) = w"
  by simp

lemma hex_decode_hex_of [simp]: "hex_decode (hex_of bs) = (bs, False)"
proof (induction bs)
  case Nil
  then show ?case by simp
next
  case (Cons b bs)
  have b: "unat b < 256" using unsigned_less [of b] by simp
  then have "unat b div 16 < 16" by simp
  moreover have "of_nat (16 * (unat b div 16) + unat b mod 16) = b"
    by (simp only: mult_div_mod_eq word_unat_inverse)
  ultimately show ?case using Cons by simp
qed

lemma length_hex_of [simp]: "length (hex_of bs) = 2 * length bs"
  by (induction bs) auto

lemma hex_of_append [simp]: "hex_of (xs @ ys) = hex_of xs @ hex_of ys"
  by (induction xs) auto

section \<open>Splitting strings\<close>

text \<open>
  The width in bytes of the white space a text starts with, 0 if there is none: ASCII white
  space, and the UTF-8 encodings of the other white space of \<open>unicode.IsSpace\<close>. The first
  byte of such an encoding never occurs inside another one, so the bytes can be scanned one
  by one.
\<close>

definition space_width :: "string \<Rightarrow> nat" where
  "space_width s =
     (case map code (take 3 s) of
        [] \<Rightarrow> 0
      | a # r \<Rightarrow>
          if (9 \<le> a \<and> a \<le> 13) \<or> a = 32 then 1
          else case r of
            [] \<Rightarrow> 0
          | b # r' \<Rightarrow>
              if a = 194 \<and> (b = 133 \<or> b = 160) then 2
              else case r' of
                [] \<Rightarrow> 0
              | c # _ \<Rightarrow>
                  if (a = 225 \<and> b = 154 \<and> c = 128) \<or>
                     (a = 226 \<and> b = 128 \<and> ((128 \<le> c \<and> c \<le> 138) \<or> c = 168 \<or> c = 169 \<or> c = 175)) \<or>
                     (a = 226 \<and> b = 129 \<and> c = 159) \<or> (a = 227 \<and> b = 128 \<and> c = 128)
                  then 3 else 0)"

function fields_aux :: "string \<Rightarrow> string \<Rightarrow> string list" where
  "fields_aux cur [] = (if cur = [] then [] else [rev cur])"
| "fields_aux cur (c # cs) =
     (let w = space_width (c # cs) in
      if 0 < w then (if cur = [] then fields_aux [] (drop (w - 1) cs) else rev cur # fields_aux [] (drop (w - 1) cs))
      else fields_aux (c # cur) cs)"
  by pat_completeness auto
termination
  by (relation "measure (\<lambda>(_, s). length s)") auto

definition Fields :: "string \<Rightarrow> string list" where
  "Fields s = fields_aux [] s"

text \<open>\<open>strings.Split\<close> on a one-character separator.\<close>

fun Split :: "char \<Rightarrow> string \<Rightarrow> string list" where
  "Split sep [] = [[]]"
| "Split sep (c # cs) =
     (if c = sep then [] # Split sep cs
      else (case Split sep cs of [] \<Rightarrow> [[c]] | w # ws \<Rightarrow> (c # w) # ws))"

text \<open>\<open>strings.SplitN(s, sep, 2)\<close>: cut at the first separator.\<close>

fun SplitN2 :: "char \<Rightarrow> string \<Rightarrow> string list" where
  "SplitN2 sep s =
     (if sep \<in> set s then [takeWhile (\<lambda>c. c \<noteq> sep) s, tl (dropWhile (\<lambda>c. c \<noteq> sep) s)] else [s])"

text \<open>\<open>strings.Join\<close> with a one-character separator.\<close>

fun join :: "char \<Rightarrow> string list \<Rightarrow> string" where
  "join sep [] = []"
| "join sep [w] = w"
| "join sep (w # ws) = w @ sep # join sep ws"

definition HasPrefix :: "string \<Rightarrow> string \<Rightarrow> bool" where
  "HasPrefix s p \<longleftrightarrow> take (length p) s = p"

lemma Split_not_Nil [simp]: "Split sep s \<noteq> []"
  by (induction s) (auto split: list.splits)

lemma Split_no_sep: "sep \<notin> set s \<Longrightarrow> Split sep s = [s]"
  by (induction s) auto

lemma Split_append_sep: "sep \<notin> set s \<Longrightarrow> Split sep (s @ sep # t) = s # Split sep t"
  by (induction s) auto

lemma Split_join:
  "ws \<noteq> [] \<Longrightarrow> \<forall>w \<in> set ws. sep \<notin> set w \<Longrightarrow> Split sep (join sep ws) = ws"
  by (induction sep ws rule: join.induct) (simp_all add: Split_no_sep Split_append_sep)

lemma join_append: "us \<noteq> [] \<Longrightarrow> ws \<noteq> [] \<Longrightarrow> join c (us @ ws) = join c us @ c # join c ws"
  by (induction c us rule: join.induct) (cases ws; simp)+

section \<open>Indexing and big-endian words\<close>

text \<open>\<open>xs[i]\<close>: out of range is a panic.\<close>

definition idx :: "'a list \<Rightarrow> nat \<Rightarrow> 'a res" where
  "idx xs i = (if i < length xs then Ret (xs ! i) else Panic IndexRange)"

text \<open>Indexing an array with a signed index.\<close>

definition idx_int :: "'a list \<Rightarrow> int \<Rightarrow> 'a res" where
  "idx_int xs i = (if 0 \<le> i \<and> i < int (length xs) then Ret (xs ! nat i) else Panic IndexRange)"

definition upd_int :: "'a list \<Rightarrow> int \<Rightarrow> 'a \<Rightarrow> 'a list res" where
  "upd_int xs i v = (if 0 \<le> i \<and> i < int (length xs) then Ret (xs[nat i := v]) else Panic IndexRange)"

text \<open>\<open>xs[a:b]\<close> on a slice whose capacity is its length.\<close>

definition slice :: "'a list \<Rightarrow> nat \<Rightarrow> nat \<Rightarrow> 'a list res" where
  "slice xs a b = (if a \<le> b \<and> b \<le> length xs then Ret (take (b - a) (drop a xs)) else Panic SliceRange)"

definition be32_put :: "u32 \<Rightarrow> byte list" where
  "be32_put w = [ucast (drop_bit 24 w), ucast (drop_bit 16 w), ucast (drop_bit 8 w), ucast w]"

text \<open>\<open>binary.BigEndian.Uint32\<close> reads the first four bytes; fewer is a panic.\<close>

definition be32_get :: "byte list \<Rightarrow> u32 res" where
  "be32_get bs =
     (case bs of
        a # b # c # d # _ \<Rightarrow>
          Ret (push_bit 24 (ucast a) OR push_bit 16 (ucast b) OR push_bit 8 (ucast c) OR ucast d)
      | _ \<Rightarrow> Panic IndexRange)"

lemma be32_get_put [simp]: "be32_get (be32_put w @ bs) = Ret w"
proof -
  have "push_bit 24 (ucast (ucast (drop_bit 24 w) :: byte)) OR
    push_bit 16 (ucast (ucast (drop_bit 16 w) :: byte)) OR
    push_bit 8 (ucast (ucast (drop_bit 8 w) :: byte)) OR ucast (ucast w :: byte) = w"
  proof (rule bit_word_eqI)
    fix n :: nat
    assume "n < LENGTH(32)"
    then consider "n < 8" | "8 \<le> n" "n < 16" | "16 \<le> n" "n < 24" | "24 \<le> n" "n < 32"
      by fastforce
    then show "bit (push_bit 24 (ucast (ucast (drop_bit 24 w) :: byte)) OR
        push_bit 16 (ucast (ucast (drop_bit 16 w) :: byte)) OR
        push_bit 8 (ucast (ucast (drop_bit 8 w) :: byte)) OR ucast (ucast w :: byte) :: u32) n =
        bit w n"
      by cases (auto simp: bit_simps)
  qed
  then show ?thesis by (simp add: be32_get_def be32_put_def)
qed

lemma length_be32_put [simp]: "length (be32_put w) = 4"
  by (simp add: be32_put_def)

end
