(* ===== verification/GnbTypes.thy ===== *)
theory GnbTypes
  imports GoStd
begin

text \<open>
  The data of the simulated gNodeB, from \<open>internal/control_test_engine/gnb/context\<close>:
  the UE, AMF, PDU-session and gNodeB contexts, the message a UE and a gNodeB exchange,
  and the world they live in. Contexts are shared by reference in the program (a UE
  context sits in up to three pools and in an event loop), so the world is a store: one
  heap per kind of context, with references as natural numbers and \<open>option\<close> for a
  pointer that may be nil. Channels and SCTP associations are references too; what a
  component sends on them is recorded in order in the event list.
\<close>

section \<open>References\<close>

type_synonym gnb_ref = nat
type_synonym ue_ref = nat
type_synonym amf_ref = nat
type_synonym sess_ref = nat
type_synonym chan = nat
type_synonym conn = nat

text \<open>
  Values of third-party types the program only stores and passes on: an
  \<open>aper.BitString\<close>, a \<open>nasType.GUTI5G\<close> (its octets) and a pointer to
  \<open>ngapType.UESecurityCapabilities\<close> (an address).
\<close>

record BitString =
  bs_Bytes :: "byte list option"
  bs_BitLength :: nat

type_synonym guti5g = "byte list"
type_synonym seccap_ptr = "nat option"

record FiveGSTMSI =
  AMFSetID :: BitString
  AMFPointer :: BitString
  FiveGTMSI :: "byte list"

section \<open>UE context of the gNodeB\<close>

datatype ue_state = Initialized | Ongoing | Ready | Down

record GnbPDUSession =
  pduSessionId :: int
  upfIp :: string
  sess_sst :: string
  sess_sd :: string
  uplinkTeid :: u32
  downlinkTeid :: u32
  pduType :: u64
  qosId :: int
  fiveQi :: int
  priArp :: int

record mobility =
  mob_mcc :: string
  mob_mnc :: string

record UeCtx =
  mobilityInfo :: mobility
  maskedIMEISV :: string
  pduSession :: "sess_ref option list"
  allowedSst :: "string list"
  allowedSd :: "string list"
  ctx_lenSlice :: int
  ueSecurityCapabilities :: seccap_ptr

record GNBUe =
  ranUeNgapId :: int
  amfUeNgapId :: int
  ue_amfId :: int
  ue_st :: ue_state
  sctpConnection :: "conn option"
  gnbRx :: "chan option"
  gnbTx :: "chan option"
  pRueId :: int
  tmsi :: "guti5g option"
  ue_context :: UeCtx
  newGnb :: "gnb_ref option"

section \<open>AMF context of the gNodeB\<close>

datatype amf_state = Inactive | Active | Overload

text \<open>The linked lists of supported slices and PLMNs, as the code builds them.\<close>

datatype SliceSupported = SliceSupported
  (sl_sst: string) (sl_sd: string) (sl_status: string) (sl_next: "SliceSupported option")

datatype PlmnSupported = PlmnSupported
  (pl_mcc: string) (pl_mnc: string) (pl_next: "PlmnSupported option")

record TNLAssociation =
  sctpConn :: "conn option"
  tnlaWeightFactor :: int
  usage :: int
  streams :: u16

record GNBAmf =
  amfIp :: string
  amfPort :: int
  amfId :: int
  tnla :: TNLAssociation
  relativeAmfCapacity :: int
  amf_st :: amf_state
  amf_name :: string
  regionId :: BitString
  setId :: BitString
  pointer :: BitString
  plmns :: "PlmnSupported option"
  slices :: "SliceSupported option"
  lenSlice :: int
  lenPlmn :: int
  backupAMF :: string

section \<open>gNodeB context\<close>

record DataInfo =
  data_gnbIp :: string
  data_gnbPort :: int
  data_upfIp :: string
  data_upfPort :: int
  gtpPlane :: "conn option"
  gatewayGnbIp :: string

record Slice =
  slice_sd :: string
  slice_sst :: string

record ControlInfo =
  mcc :: string
  mnc :: string
  tac :: string
  gnbId :: string
  gnbIp :: string
  gnbPort :: int
  inboundChannel :: chan
  n2 :: "conn option"

text \<open>
  A paged UE: a pointer to the S-TMSI of the paging message (its address and the value
  there) and the time it was stored.
\<close>

record PagedUE =
  pg_FiveGSTMSI :: "(nat \<times> FiveGSTMSI) option"
  pg_Timestamp :: nat

record GNBContext =
  dataInfo :: DataInfo
  controlInfo :: ControlInfo
  uePool :: "(int, ue_ref) smap"
  prUePool :: "(int, ue_ref) smap"
  amfPool :: "(int, amf_ref) smap"
  teidPool :: "(u32, ue_ref) smap"
  sliceInfo :: Slice
  idUeGenerator :: int
  idAmfGenerator :: int
  teidGenerator :: u32
  ueIpGenerator :: byte
  pagedUEs :: "PagedUE list"
  pagedUELock :: bool

section \<open>Messages between a UE and a gNodeB\<close>

record UEMessage =
  GNBPduSessions :: "sess_ref option list"
  GnbIp :: string
  GNBRx :: "chan option"
  GNBTx :: "chan option"
  GNBInboundChannel :: "chan option"
  IsNas :: bool
  Nas :: "byte list option"
  ConnectionClosed :: bool
  PrUeId :: int
  Tmsi :: "guti5g option"
  Mcc :: string
  Mnc :: string
  UEContext :: "ue_ref option"
  IsHandover :: bool
  Idle :: bool
  FetchPagedUEs :: bool
  PagedUEs :: "PagedUE list"

text \<open>Go's zero values of the types above.\<close>

definition no_sessions :: "'a option list" where
  "no_sessions = replicate 16 None"

definition zero_bits :: BitString where
  "zero_bits = \<lparr>bs_Bytes = None, bs_BitLength = 0\<rparr>"

definition zero_msg :: UEMessage where
  "zero_msg = \<lparr>GNBPduSessions = no_sessions, GnbIp = [], GNBRx = None, GNBTx = None,
     GNBInboundChannel = None, IsNas = False, Nas = None, ConnectionClosed = False, PrUeId = 0,
     Tmsi = None, Mcc = [], Mnc = [], UEContext = None, IsHandover = False, Idle = False,
     FetchPagedUEs = False, PagedUEs = []\<rparr>"

definition zero_uectx :: UeCtx where
  "zero_uectx = \<lparr>mobilityInfo = \<lparr>mob_mcc = [], mob_mnc = []\<rparr>, maskedIMEISV = [],
     pduSession = no_sessions, allowedSst = [], allowedSd = [], ctx_lenSlice = 0,
     ueSecurityCapabilities = None\<rparr>"

definition zero_gnbue :: GNBUe where
  "zero_gnbue = \<lparr>ranUeNgapId = 0, amfUeNgapId = 0, ue_amfId = 0, ue_st = Initialized,
     sctpConnection = None, gnbRx = None, gnbTx = None, pRueId = 0, tmsi = None,
     ue_context = zero_uectx, newGnb = None\<rparr>"

definition zero_session :: GnbPDUSession where
  "zero_session = \<lparr>pduSessionId = 0, upfIp = [], sess_sst = [], sess_sd = [], uplinkTeid = 0,
     downlinkTeid = 0, pduType = 0, qosId = 0, fiveQi = 0, priArp = 0\<rparr>"

definition zero_amf :: GNBAmf where
  "zero_amf = \<lparr>amfIp = [], amfPort = 0, amfId = 0,
     tnla = \<lparr>sctpConn = None, tnlaWeightFactor = 0, usage = 0, streams = 0\<rparr>,
     relativeAmfCapacity = 0, amf_st = Inactive, amf_name = [], regionId = zero_bits,
     setId = zero_bits, pointer = zero_bits, plmns = None, slices = None, lenSlice = 0,
     lenPlmn = 0, backupAMF = []\<rparr>"

section \<open>The world\<close>

text \<open>
  What leaves a component, in order: a message on a channel, the close of a channel, bytes
  written to an SCTP association, the close of an association.
\<close>

datatype event =
    ChanSend chan UEMessage
  | ChanClose chan
  | SctpWrite "conn" "byte list"
  | SctpClose "conn option"

record world =
  gnbH :: "gnb_ref \<Rightarrow> GNBContext"
  ueH :: "ue_ref \<Rightarrow> GNBUe"
  amfH :: "amf_ref \<Rightarrow> GNBAmf"
  sessH :: "sess_ref \<Rightarrow> GnbPDUSession"
  nextUe :: nat
  nextAmf :: nat
  nextSess :: nat
  nextChan :: nat
  closedChans :: "chan list"
  clock :: nat
  connCount :: int
  events :: "event list"

type_synonym 'a M = "(world, 'a) comp"

text \<open>Access to one context of the store.\<close>

definition upd_gnb :: "gnb_ref \<Rightarrow> (GNBContext \<Rightarrow> GNBContext) \<Rightarrow> world \<Rightarrow> world" where
  "upd_gnb g f w = w\<lparr>gnbH := (gnbH w)(g := f (gnbH w g))\<rparr>"

definition upd_ue :: "ue_ref \<Rightarrow> (GNBUe \<Rightarrow> GNBUe) \<Rightarrow> world \<Rightarrow> world" where
  "upd_ue u f w = w\<lparr>ueH := (ueH w)(u := f (ueH w u))\<rparr>"

definition upd_amf :: "amf_ref \<Rightarrow> (GNBAmf \<Rightarrow> GNBAmf) \<Rightarrow> world \<Rightarrow> world" where
  "upd_amf a f w = w\<lparr>amfH := (amfH w)(a := f (amfH w a))\<rparr>"

definition upd_sess :: "sess_ref \<Rightarrow> (GnbPDUSession \<Rightarrow> GnbPDUSession) \<Rightarrow> world \<Rightarrow> world" where
  "upd_sess p f w = w\<lparr>sessH := (sessH w)(p := f (sessH w p))\<rparr>"

definition emit :: "event \<Rightarrow> world \<Rightarrow> world" where
  "emit e w = w\<lparr>events := events w @ [e]\<rparr>"

lemmas upd_defs = upd_gnb_def upd_ue_def upd_amf_def upd_sess_def emit_def

text \<open>\<open>ch <- m\<close>: a send on a closed channel panics.\<close>

definition sendCh :: "chan \<Rightarrow> UEMessage \<Rightarrow> unit M" where
  "sendCh c m w = (if c \<in> set (closedChans w) then Panic ClosedChan else Ret ((), emit (ChanSend c m) w))"

text \<open>\<open>close(ch)\<close>: closing a nil or a closed channel panics.\<close>

definition closeCh :: "chan option \<Rightarrow> unit M" where
  "closeCh p w =
     (case p of
        None \<Rightarrow> Panic NilDeref
      | Some c \<Rightarrow>
          if c \<in> set (closedChans w) then Panic ClosedChan
          else Ret ((), emit (ChanClose c) (w\<lparr>closedChans := c # closedChans w\<rparr>)))"

text \<open>\<open>make(chan UEMessage, 1)\<close>.\<close>

definition makeCh :: "chan M" where
  "makeCh w = Ret (nextChan w, w\<lparr>nextChan := Suc (nextChan w)\<rparr>)"

end
