(* ===== verification/NgapTypes.thy ===== *)
theory NgapTypes
  imports GnbTypes
begin

text \<open>
  NGAP messages as the handlers and builders of \<open>gnb/ngap\<close> see them. The ASN.1
  types and their codec are third-party (\<open>free5gc/ngap\<close>, \<open>free5gc/aper\<close>):
  identifiers and enumerated values are constructors named after the constants of that
  package, a pointer field is an \<open>option\<close>, and the codec functions are fields of the
  environment \<open>ext\<close>, a parameter of every operation that uses one.
\<close>

section \<open>Identifiers and enumerations\<close>

datatype criticality = CritReject | CritIgnore | CritNotify

datatype pdu_present = PresentInitiatingMessage | PresentSuccessfulOutcome | PresentUnsuccessfulOutcome
  | PresentNothing

datatype proc_code =
    ProcDownlinkNASTransport | ProcInitialContextSetup | ProcPDUSessionResourceSetup
  | ProcPDUSessionResourceRelease | ProcUEContextRelease | ProcAMFConfigurationUpdate
  | ProcAMFStatusIndication | ProcHandoverResourceAllocation | ProcPaging | ProcErrorIndication
  | ProcNGSetup | ProcPathSwitchRequest | ProcHandoverPreparation | ProcInitialUEMessage
  | ProcUplinkNASTransport | ProcUEContextReleaseRequest | ProcHandoverNotification
  | ProcOther int

datatype ie_id =
    IEIDAMFUENGAPID | IEIDRANUENGAPID | IEIDNASPDU | IEIDUserLocationInformation
  | IEIDRRCEstablishmentCause | IEIDFiveGSTMSI | IEIDUEContextRequest | IEIDGlobalRANNodeID
  | IEIDRANNodeName | IEIDSupportedTAList | IEIDDefaultPagingDRX | IEIDCause
  | IEIDPDUSessionResourceSetupListSURes | IEIDPDUSessionResourceSetupListCxtRes
  | IEIDPDUSessionResourceReleasedListRelRes | IEIDPDUSessionResourceListCxtRelReq
  | IEIDPDUSessionResourceAdmittedList | IEIDTargetToSourceTransparentContainer
  | IEIDHandoverType | IEIDTargetID | IEIDPDUSessionResourceListHORqd
  | IEIDSourceToTargetTransparentContainer | IEIDSourceAMFUENGAPID
  | IEIDPDUSessionResourceToBeSwitchedDLList | IEIDUESecurityCapabilities

section \<open>Messages the gNodeB receives\<close>

type_synonym NASPDU = "byte list option"

record SNSSAI =
  SST :: "byte list option"
  SD :: "byte list option"

record GTPTunnel =
  TransportLayerAddress :: BitString
  GTPTEID :: "byte list"

record QosFlow =
  QosFlowIdentifier :: int
  NonDynamic5QI :: "int option"
  PriorityLevelARP :: int

text \<open>IEs of \<open>PDUSessionResourceSetupRequestTransfer\<close>.\<close>

datatype transfer_ie =
    T_ULNGUUPTNLInformation "GTPTunnel option option"
  | T_QosFlowSetupRequestList "QosFlow list option"
  | T_PDUSessionAggregateMaximumBitRate
  | T_PDUSessionType "nat option"
  | T_SecurityIndication
  | T_Other int

record setup_item =
  si_PDUSessionID :: int
  si_SNSSAI :: SNSSAI
  si_NASPDU :: "NASPDU option"
  si_Transfer :: "byte list option"

record GUAMI =
  gu_PLMNIdentity :: "byte list"
  gu_AMFRegionID :: BitString
  gu_AMFSetID :: BitString
  gu_AMFPointer :: BitString

record plmn_item =
  pi_PLMNIdentity :: "byte list"
  pi_SliceSupportList :: "SNSSAI list option"

record tnla_item =
  ti_EndpointIPAddress :: "BitString option"
  ti_Usage :: "int option"
  ti_WeightFactor :: "int option"

record unavailable_guami =
  ug_GUAMI :: GUAMI
  ug_BackupAMFName :: "string option"

record switched_item =
  sw_PDUSessionID :: int
  sw_Transfer :: "byte list"

datatype CauseRadioNetwork =
    RN_Unspecified | RN_TxnrelocoverallExpiry | RN_SuccessfulHandover
  | RN_ReleaseDueToNgranGeneratedReason | RN_ReleaseDueTo5gcGeneratedReason
  | RN_HandoverCancelled | RN_PartialHandover
  | RN_HoFailureInTarget5GCNgranNodeOrTargetSystem | RN_HoTargetNotAllowed
  | RN_TngrelocoverallExpiry | RN_TngrelocprepExpiry | RN_CellNotAvailable | RN_UnknownTargetID
  | RN_NoRadioResourcesAvailableInTargetCell | RN_UnknownLocalUENGAPID
  | RN_InconsistentRemoteUENGAPID | RN_HandoverDesirableForRadioReason | RN_TimeCriticalHandover
  | RN_ResourceOptimisationHandover | RN_ReduceLoadInServingCell | RN_UserInactivity
  | RN_RadioConnectionWithUeLost | RN_RadioResourcesNotAvailable | RN_InvalidQosCombination
  | RN_FailureInRadioInterfaceProcedure | RN_InteractionWithOtherProcedure
  | RN_UnknownPDUSessionID | RN_UnkownQosFlowID | RN_MultiplePDUSessionIDInstances
  | RN_MultipleQosFlowIDInstances
  | RN_EncryptionAndOrIntegrityProtectionAlgorithmsNotSupported
  | RN_NgIntraSystemHandoverTriggered | RN_NgInterSystemHandoverTriggered
  | RN_XnHandoverTriggered | RN_NotSupported5QIValue | RN_UeContextTransfer
  | RN_ImsVoiceEpsFallbackOrRatFallbackTriggered | RN_UpIntegrityProtectionNotPossible
  | RN_UpConfidentialityProtectionNotPossible | RN_SliceNotSupported
  | RN_UeInRrcInactiveStateNotReachable | RN_Redirection | RN_ResourcesNotAvailableForTheSlice
  | RN_UeMaxIntegrityProtectedDataRateReason | RN_ReleaseDueToCnDetectedMobility
  | RN_Other int

datatype CauseTransport = TR_TransportResourceUnavailable | TR_Unspecified | TR_Other int

datatype CauseNas =
  NAS_NormalRelease | NAS_AuthenticationFailure | NAS_Deregister | NAS_Unspecified | NAS_Other int

datatype CauseProtocol =
    PR_TransferSyntaxError | PR_AbstractSyntaxErrorReject | PR_AbstractSyntaxErrorIgnoreAndNotify
  | PR_MessageNotCompatibleWithReceiverState | PR_SemanticError
  | PR_AbstractSyntaxErrorFalselyConstructedMessage | PR_Unspecified | PR_Other int

datatype CauseMisc =
    MI_ControlProcessingOverload | MI_NotEnoughUserPlaneProcessingResources | MI_HardwareFailure
  | MI_OmIntervention | MI_UnknownPLMN | MI_Unspecified | MI_Other int

datatype Cause =
    RadioNetwork CauseRadioNetwork
  | Transport CauseTransport
  | NasCause CauseNas
  | Protocol CauseProtocol
  | Misc CauseMisc
  | CausePresentOther

text \<open>
  One IE of a received message: its identifier, and the pointer the handlers read for that
  identifier.
\<close>

datatype IE =
    IE_AMFUENGAPID "int option"
  | IE_RANUENGAPID "int option"
  | IE_NASPDU "NASPDU option"
  | IE_SecurityKey "unit option"
  | IE_GUAMI "unit option"
  | IE_AllowedNSSAI "SNSSAI list option"
  | IE_MobilityRestrictionList "byte list option"
  | IE_MaskedIMEISV "byte list option"
  | IE_UESecurityCapabilities seccap_ptr
  | IE_PDUSessionResourceSetupListCxtReq "setup_item list option"
  | IE_PDUSessionResourceSetupListSUReq "setup_item list option"
  | IE_PDUSessionResourceSetupListHOReq "setup_item list option"
  | IE_PDUSessionResourceToReleaseListRelCmd "int list option"
  | IE_AMFName "string option"
  | IE_ServedGUAMIList "GUAMI list option option"
  | IE_RelativeAMFCapacity "int option"
  | IE_PLMNSupportList "plmn_item list option"
  | IE_Cause "Cause option"
  | IE_TimeToWait "int option"
  | IE_CriticalityDiagnostics
  | IE_UENGAPIDs "int option option"
  | IE_AMFTNLAssociationToAddList "tnla_item list option"
  | IE_AMFTNLAssociationToRemoveList "tnla_item list option"
  | IE_AMFTNLAssociationToUpdateList "tnla_item list option"
  | IE_UnavailableGUAMIList "unavailable_guami list option"
  | IE_PDUSessionResourceSwitchedList "switched_item list option"
  | IE_SourceToTargetTransparentContainer "byte list option"
  | IE_UEPagingIdentity "(nat \<times> FiveGSTMSI) option option"
  | IE_TAIListForPaging "unit option"
  | IE_Other int

record NGAPMsg =
  msg_Present :: pdu_present
  msg_ProcedureCode :: proc_code
  msg_IEs :: "IE list"

section \<open>Messages the gNodeB sends\<close>

record NRLocation =
  loc_NRCGI_PLMN :: "byte list"
  loc_NRCellIdentity :: BitString
  loc_TAI_PLMN :: "byte list"
  loc_TAI_TAC :: "byte list"

record SupportedTA =
  ta_TAC :: "byte list"
  ta_PLMN :: "byte list"
  ta_SST :: "byte list"
  ta_SD :: "byte list option"

datatype ie_value =
    V_AMFUENGAPID int
  | V_RANUENGAPID int
  | V_NASPDU "byte list option"
  | V_UserLocationInformation NRLocation
  | V_RRCEstablishmentCause_MoSignalling
  | V_FiveGSTMSI FiveGSTMSI
  | V_UEContextRequest_Requested
  | V_GlobalGNBID "byte list" BitString
  | V_RANNodeName string
  | V_SupportedTAList "SupportedTA list"
  | V_PagingDRX_V128
  | V_SetupListRes "(int \<times> byte list) list"
  | V_ReleasedList "(int \<times> byte list) list"
  | V_SessionIds "int list"
  | V_Cause Cause
  | V_AdmittedList "(int \<times> byte list) list"
  | V_Container "byte list"
  | V_HandoverType_Intra5gs
  | V_TargetID "byte list" BitString "byte list" "byte list"
  | V_HORqdList "(int \<times> byte list) list"
  | V_SourceAMFUENGAPID int
  | V_SwitchedDLList "(int \<times> byte list) list"
  | V_UESecurityCapabilities seccap_ptr

record ngap_ie =
  ie_Id :: ie_id
  ie_Criticality :: criticality
  ie_Value :: ie_value

record NGAPPDU =
  pdu_Present :: pdu_present
  pdu_ProcedureCode :: proc_code
  pdu_Criticality :: criticality
  pdu_IEs :: "ngap_ie list"

text \<open>The transfers nested in those messages, before their APER encoding.\<close>

record SetupResponseTransfer =
  srt_GTPTEID :: "byte list"
  srt_Address :: BitString
  srt_QosFlowIdentifiers :: "int list"

record SourceToTargetTransfer =
  stt_RRCContainer :: "byte list"
  stt_IndexToRFSP :: "int option"
  stt_SessionInfo :: "(int \<times> int list) list option"
  stt_Target_PLMN :: "byte list"
  stt_Target_Cell :: BitString
  stt_LastVisited_PLMN :: "byte list"
  stt_LastVisited_Cell :: BitString
  stt_TimeUEStayedInCell :: int

datatype transfer =
    TransferSetupResponse SetupResponseTransfer
  | TransferHandoverRequestAck SetupResponseTransfer
  | TransferPathSwitchRequest SetupResponseTransfer
  | TransferHandoverRequired
  | TransferSourceToTarget SourceToTargetTransfer
  | TransferTargetToSource "byte list"

section \<open>The environment\<close>

text \<open>
  Code outside the repository, and choices of its run-time: the order in which
  \<open>sync.Map.Range\<close> visits a pool, the NGAP and APER codecs, address conversions, the
  SCTP socket, the accessors of \<open>nasType.GUTI5G\<close>. What the socket does may depend on
  everything the process has sent so far. \<open>ngap_Decoder\<close> is the pointer the decoder
  returns; the error beside it is only logged.
\<close>

record ext =
  amf_order :: "(int, amf_ref) order"
  ue_order :: "(int, ue_ref) order"
  ngap_Encoder :: "NGAPPDU \<Rightarrow> byte list option"
  ngap_Decoder :: "byte list option \<Rightarrow> NGAPMsg option"
  aper_Marshal :: "transfer \<Rightarrow> byte list option"
  aper_SetupRequestTransfer :: "byte list \<Rightarrow> transfer_ie list option"
  aper_PathSwitchRequestAckTransfer :: "byte list \<Rightarrow> GTPTunnel option option option"
  aper_SourceToTarget :: "byte list \<Rightarrow> int option option"
  PlmnIdToNgap :: "string \<Rightarrow> string \<Rightarrow> byte list"
  IPAddressToNgap :: "string \<Rightarrow> BitString"
  IPAddressToString :: "BitString \<Rightarrow> string"
  sctp_Resolve :: "string \<Rightarrow> bool"
  sctp_Dial :: "event list \<Rightarrow> string \<Rightarrow> string \<Rightarrow> conn option"
  sctp_Write :: "event list \<Rightarrow> conn \<Rightarrow> byte list \<Rightarrow> bool"
  guti_AMFPointer :: "guti5g \<Rightarrow> byte"
  guti_TMSI5G :: "guti5g \<Rightarrow> byte list"

end
