(* ===== verification/GnbContext.thy ===== *)
theory GnbContext
  imports NgapTypes
begin

text \<open>
  The operations of \<open>gnb/context\<close>: AMF contexts with their PLMN and slice lists
  (\<open>amf.go\<close>), UE contexts and PDU sessions (\<open>ue.go\<close>), and the gNodeB's pools
  and identifier generators (\<open>context.go\<close>).
\<close>

section \<open>amf.go: PLMN and slice lists\<close>

text \<open>
  \<open>convertMccMnc\<close> indexes its argument; a string that is too short panics.
\<close>

definition convertMccMnc :: "string \<Rightarrow> (string \<times> string) res" where
  "convertMccMnc plmn =
     bindR (idx plmn 2) (\<lambda>p2.
     bindR (idx plmn 5) (\<lambda>p5.
       let p0 = plmn ! 0; p1 = plmn ! 1; p3 = plmn ! 3; p4 = plmn ! 4 in
       if p2 = CHR ''f'' then Ret ([p1, p0, p3], [p5, p4])
       else Ret ([p1, p0, p3], [p2, p5, p4])))"

text \<open>
  The append loop of \<open>AddedPlmn\<close>: \<open>n\<close> rounds from a node \<open>mov\<close>; a
  round that finds the end of the list hangs the new element there, any other moves on.
  The loop does not break after hanging the element.
\<close>

fun addPlmn_loop :: "nat \<Rightarrow> string \<times> string \<Rightarrow> PlmnSupported \<Rightarrow> PlmnSupported" where
  "addPlmn_loop 0 e mov = mov"
| "addPlmn_loop (Suc n) e (PlmnSupported a b None) =
     addPlmn_loop n e (PlmnSupported a b (Some (PlmnSupported (fst e) (snd e) None)))"
| "addPlmn_loop (Suc n) e (PlmnSupported a b (Some nx)) =
     PlmnSupported a b (Some (addPlmn_loop n e nx))"

definition AddedPlmn :: "string \<Rightarrow> GNBAmf \<Rightarrow> GNBAmf res" where
  "AddedPlmn plmn amf =
     bindR (convertMccMnc plmn) (\<lambda>e.
       if lenPlmn amf = 0 then
         Ret (amf\<lparr>plmns := Some (PlmnSupported (fst e) (snd e) None), lenPlmn := lenPlmn amf + 1\<rparr>)
       else (case plmns amf of
           None \<Rightarrow> if 0 < lenPlmn amf then Panic NilDeref else Ret (amf\<lparr>lenPlmn := lenPlmn amf + 1\<rparr>)
         | Some mov \<Rightarrow> Ret (amf\<lparr>plmns := Some (addPlmn_loop (nat (lenPlmn amf)) e mov),
                              lenPlmn := lenPlmn amf + 1\<rparr>)))"

fun addSlice_loop :: "nat \<Rightarrow> string \<times> string \<Rightarrow> SliceSupported \<Rightarrow> SliceSupported" where
  "addSlice_loop 0 e mov = mov"
| "addSlice_loop (Suc n) e (SliceSupported a b s None) =
     addSlice_loop n e (SliceSupported a b s (Some (SliceSupported (fst e) (snd e) [] None)))"
| "addSlice_loop (Suc n) e (SliceSupported a b s (Some nx)) =
     SliceSupported a b s (Some (addSlice_loop n e nx))"

definition AddedSlice :: "string \<Rightarrow> string \<Rightarrow> GNBAmf \<Rightarrow> GNBAmf res" where
  "AddedSlice sst sd amf =
     (if lenSlice amf = 0 then
        Ret (amf\<lparr>slices := Some (SliceSupported sst sd [] None), lenSlice := lenSlice amf + 1\<rparr>)
      else (case slices amf of
          None \<Rightarrow> if 0 < lenSlice amf then Panic NilDeref else Ret (amf\<lparr>lenSlice := lenSlice amf + 1\<rparr>)
        | Some mov \<Rightarrow> Ret (amf\<lparr>slices := Some (addSlice_loop (nat (lenSlice amf)) (sst, sd) mov),
                             lenSlice := lenSlice amf + 1\<rparr>)))"

text \<open>Walking \<open>index\<close> links from the head; falling off the list panics.\<close>

fun plmn_walk :: "nat \<Rightarrow> PlmnSupported option \<Rightarrow> (string \<times> string) res" where
  "plmn_walk i None = Panic NilDeref"
| "plmn_walk 0 (Some (PlmnSupported a b nx)) = Ret (a, b)"
| "plmn_walk (Suc i) (Some (PlmnSupported a b nx)) = plmn_walk i nx"

definition GetPlmnSupport :: "int \<Rightarrow> GNBAmf \<Rightarrow> (string \<times> string) res" where
  "GetPlmnSupport index amf = plmn_walk (nat index) (plmns amf)"

fun slice_walk :: "nat \<Rightarrow> SliceSupported option \<Rightarrow> (string \<times> string) res" where
  "slice_walk i None = Panic NilDeref"
| "slice_walk 0 (Some (SliceSupported a b s nx)) = Ret (a, b)"
| "slice_walk (Suc i) (Some (SliceSupported a b s nx)) = slice_walk i nx"

definition GetSliceSupport :: "int \<Rightarrow> GNBAmf \<Rightarrow> (string \<times> string) res" where
  "GetSliceSupport index amf = slice_walk (nat index) (slices amf)"

subsection \<open>The lists as lists\<close>

text \<open>The abstract view: what the linked lists hold, and that the counters are right.\<close>

fun plmn_list :: "PlmnSupported option \<Rightarrow> (string \<times> string) list" where
  "plmn_list None = []"
| "plmn_list (Some (PlmnSupported a b nx)) = (a, b) # plmn_list nx"

fun slice_list :: "SliceSupported option \<Rightarrow> (string \<times> string) list" where
  "slice_list None = []"
| "slice_list (Some (SliceSupported a b s nx)) = (a, b) # slice_list nx"

definition plmns_ok :: "GNBAmf \<Rightarrow> bool" where
  "plmns_ok amf \<longleftrightarrow> lenPlmn amf = int (length (plmn_list (plmns amf)))"

definition slices_ok :: "GNBAmf \<Rightarrow> bool" where
  "slices_ok amf \<longleftrightarrow> lenSlice amf = int (length (slice_list (slices amf)))"

text \<open>
  With as many rounds as there are elements the loop appends exactly once; one round more
  would append twice, so the counter must not run ahead of the list.
\<close>

lemma addPlmn_loop_length:
  "plmn_list (Some (addPlmn_loop (length (plmn_list (Some mov))) e mov)) = plmn_list (Some mov) @ [e]"
proof (induction "length (plmn_list (Some mov))" arbitrary: mov)
  case 0
  then show ?case by (cases mov) simp
next
  case (Suc n)
  obtain a b nx where mov: "mov = PlmnSupported a b nx" by (cases mov)
  show ?case
  proof (cases nx)
    case None
    with Suc.hyps mov show ?thesis by simp
  next
    case (Some nd)
    with Suc.hyps(2) mov have "n = length (plmn_list (Some nd))" by simp
    from Suc.hyps(1) [OF this] show ?thesis by (simp add: mov Some)
  qed
qed

lemma addSlice_loop_length:
  "slice_list (Some (addSlice_loop (length (slice_list (Some mov))) e mov)) =
    slice_list (Some mov) @ [e]"
proof (induction "length (slice_list (Some mov))" arbitrary: mov)
  case 0
  then show ?case by (cases mov) simp
next
  case (Suc n)
  obtain a b s nx where mov: "mov = SliceSupported a b s nx" by (cases mov)
  show ?case
  proof (cases nx)
    case None
    with Suc.hyps mov show ?thesis by simp
  next
    case (Some nd)
    with Suc.hyps(2) mov have "n = length (slice_list (Some nd))" by simp
    from Suc.hyps(1) [OF this] show ?thesis by (simp add: mov Some)
  qed
qed

lemma plmn_walk_nth: "i < length (plmn_list p) \<Longrightarrow> plmn_walk i p = Ret (plmn_list p ! i)"
  by (induction i p rule: plmn_walk.induct) auto

lemma slice_walk_nth: "i < length (slice_list p) \<Longrightarrow> slice_walk i p = Ret (slice_list p ! i)"
  by (induction i p rule: slice_walk.induct) auto

lemma plmn_walk_panic: "length (plmn_list p) \<le> i \<Longrightarrow> plmn_walk i p = Panic NilDeref"
  by (induction i p rule: plmn_walk.induct) auto

lemma AddedPlmn_appends:
  assumes "plmns_ok amf" and "convertMccMnc plmn = Ret e"
  shows "\<exists>amf'. AddedPlmn plmn amf = Ret amf' \<and> plmns_ok amf' \<and>
    plmn_list (plmns amf') = plmn_list (plmns amf) @ [e] \<and>
    amf' = amf\<lparr>plmns := plmns amf', lenPlmn := lenPlmn amf + 1\<rparr>"
proof (cases "plmns amf")
  case None
  with assms show ?thesis by (simp add: AddedPlmn_def plmns_ok_def)
next
  case (Some mov)
  then have pos: "plmn_list (plmns amf) \<noteq> []" by (cases mov) simp
  with assms Some have n: "nat (lenPlmn amf) = length (plmn_list (Some mov))" "lenPlmn amf \<noteq> 0"
    by (simp_all add: plmns_ok_def)
  then show ?thesis
    using assms Some by (simp add: AddedPlmn_def plmns_ok_def addPlmn_loop_length)
qed

lemma AddedSlice_appends:
  assumes "slices_ok amf"
  shows "\<exists>amf'. AddedSlice sst sd amf = Ret amf' \<and> slices_ok amf' \<and>
    slice_list (slices amf') = slice_list (slices amf) @ [(sst, sd)] \<and>
    amf' = amf\<lparr>slices := slices amf', lenSlice := lenSlice amf + 1\<rparr>"
proof (cases "slices amf")
  case None
  with assms show ?thesis by (simp add: AddedSlice_def slices_ok_def)
next
  case (Some mov)
  then have pos: "slice_list (slices amf) \<noteq> []" by (cases mov) simp
  with assms Some have n: "nat (lenSlice amf) = length (slice_list (Some mov))" "lenSlice amf \<noteq> 0"
    by (simp_all add: slices_ok_def)
  then show ?thesis
    using assms Some by (simp add: AddedSlice_def slices_ok_def addSlice_loop_length)
qed

section \<open>ue.go: UE contexts and PDU sessions\<close>

definition upd_ctx :: "ue_ref \<Rightarrow> (UeCtx \<Rightarrow> UeCtx) \<Rightarrow> world \<Rightarrow> world" where
  "upd_ctx u f = upd_ue u (\<lambda>x. x\<lparr>ue_context := f (ue_context x)\<rparr>)"

definition CreateUeContext ::
    "ue_ref \<Rightarrow> string \<Rightarrow> string \<Rightarrow> string list \<Rightarrow> string list \<Rightarrow> seccap_ptr \<Rightarrow> unit M" where
  "CreateUeContext ue plmn imeisv sst sd cap =
     bindM (if plmn \<noteq> ''not informed'' then liftR (convertMccMnc plmn) else retM (plmn, plmn))
       (\<lambda>(mc, mn). modM (upd_ctx ue (\<lambda>c. c\<lparr>
          mobilityInfo := \<lparr>mob_mcc = mc, mob_mnc = mn\<rparr>, maskedIMEISV := imeisv,
          allowedSst := sst, allowedSd := sd, ueSecurityCapabilities := cap\<rparr>)))"

text \<open>The struct assignment copies the array of session pointers: the sessions are shared.\<close>

definition CopyFromPreviousContext :: "ue_ref \<Rightarrow> ue_ref \<Rightarrow> unit M" where
  "CopyFromPreviousContext ue old = modM (\<lambda>w.
     upd_ue ue (\<lambda>x. x\<lparr>amfUeNgapId := amfUeNgapId (ueH w old),
                      ue_context := ue_context (ueH w old)\<rparr>) w)"

definition isWantedNssai :: "string \<Rightarrow> string \<Rightarrow> UeCtx \<Rightarrow> bool" where
  "isWantedNssai sst sd c \<longleftrightarrow>
     length (allowedSst c) = length (allowedSd c) \<and>
     list_ex (\<lambda>i. allowedSst c ! i = sst \<and> allowedSd c ! i = sd) [0..<length (allowedSst c)]"

text \<open>
  \<open>CreatePduSession\<close> returns a session or an error text. The guard is the one of the
  source, a conjunction no identifier satisfies, so the array index decides.
\<close>

definition CreatePduSession ::
    "ue_ref \<Rightarrow> int \<Rightarrow> string \<Rightarrow> string \<Rightarrow> string \<Rightarrow> u64 \<Rightarrow> int \<Rightarrow> int \<Rightarrow> int \<Rightarrow> u32 \<Rightarrow> u32 \<Rightarrow>
     (string + sess_ref) M" where
  "CreatePduSession ue sid upf sst sd ptype qos arp fqi ulTeid dlTeid =
     (if sid < 1 \<and> sid > 16 then retM (Inl ''PDU Session Id must lies between 0 and 15'')
      else
        bindM (getsM (\<lambda>w. ue_context (ueH w ue))) (\<lambda>c.
        bindM (liftR (idx_int (pduSession c) (sid - 1))) (\<lambda>slot.
          if slot \<noteq> None then retM (Inl ''such PDU Session already exists'')
          else if \<not> isWantedNssai sst sd c then retM (Inl ''slice is not selected for current UE'')
          else (\<lambda>w.
            let p = nextSess w;
                s = \<lparr>pduSessionId = sid, upfIp = upf, sess_sst = sst, sess_sd = sd,
                     uplinkTeid = ulTeid, downlinkTeid = dlTeid, pduType = ptype, qosId = qos,
                     fiveQi = fqi, priArp = arp\<rparr>
            in Ret (Inr p,
                 upd_ctx ue (\<lambda>c. c\<lparr>pduSession := (pduSession c)[nat (sid - 1) := Some p]\<rparr>)
                   (w\<lparr>sessH := (sessH w)(p := s), nextSess := Suc p\<rparr>))))))"

definition GetPduSession :: "ue_ref \<Rightarrow> int \<Rightarrow> (string + sess_ref option) M" where
  "GetPduSession ue sid =
     (if sid < 1 \<and> sid > 16 then retM (Inl ''PDU Session Id must lies between 1 and 16'')
      else bindM (getsM (\<lambda>w. pduSession (ue_context (ueH w ue)))) (\<lambda>ps.
           bindM (liftR (idx_int ps (sid - 1))) (\<lambda>slot. retM (Inr slot))))"

definition DeletePduSession :: "ue_ref \<Rightarrow> int \<Rightarrow> (string option) M" where
  "DeletePduSession ue sid =
     (if sid < 1 \<and> sid > 16 then retM (Some ''PDU Session Id must lies between 1 and 16'')
      else bindM (getsM (\<lambda>w. pduSession (ue_context (ueH w ue)))) (\<lambda>ps.
           bindM (liftR (upd_int ps (sid - 1) None)) (\<lambda>ps'.
           thenM (modM (upd_ctx ue (\<lambda>c. c\<lparr>pduSession := ps'\<rparr>))) (retM None))))"

definition GetPduSessions :: "ue_ref \<Rightarrow> (sess_ref option list) M" where
  "GetPduSessions ue = getsM (\<lambda>w. pduSession (ue_context (ueH w ue)))"

definition SetPduSessions :: "ue_ref \<Rightarrow> sess_ref option list \<Rightarrow> unit M" where
  "SetPduSessions ue ps = modM (upd_ctx ue (\<lambda>c. c\<lparr>pduSession := ps\<rparr>))"

text \<open>\<open>GetSelectedNssai\<close> indexes the array with the identifier itself.\<close>

definition GetSelectedNssai :: "ue_ref \<Rightarrow> int \<Rightarrow> (string \<times> string) M" where
  "GetSelectedNssai ue sid =
     bindM (getsM (\<lambda>w. pduSession (ue_context (ueH w ue)))) (\<lambda>ps.
     bindM (liftR (idx_int ps sid)) (\<lambda>slot.
     case slot of
       Some p \<Rightarrow> getsM (\<lambda>w. (sess_sst (sessH w p), sess_sd (sessH w p)))
     | None \<Rightarrow> retM (''NSSAI was not selected'', ''NSSAI was not selected'')))"

definition GetPduType :: "GnbPDUSession \<Rightarrow> string" where
  "GetPduType s =
     (if pduType s = 0 then ''ipv4'' else if pduType s = 1 then ''ipv6''
      else if pduType s = 2 then ''Ipv4Ipv6'' else if pduType s = 3 then ''ethernet'' else [])"

definition SetAmfUeId :: "ue_ref \<Rightarrow> int \<Rightarrow> unit M" where
  "SetAmfUeId ue i = modM (upd_ue ue (\<lambda>x. x\<lparr>amfUeNgapId := i\<rparr>))"

definition SetUeState :: "ue_ref \<Rightarrow> ue_state \<Rightarrow> unit M" where
  "SetUeState ue s = modM (upd_ue ue (\<lambda>x. x\<lparr>ue_st := s\<rparr>))"

section \<open>context.go: the gNodeB\<close>

definition NewRanGnbContext ::
    "gnb_ref \<Rightarrow> string \<Rightarrow> string \<Rightarrow> string \<Rightarrow> string \<Rightarrow> string \<Rightarrow> string \<Rightarrow> string \<Rightarrow> string \<Rightarrow>
     int \<Rightarrow> int \<Rightarrow> unit M" where
  "NewRanGnbContext g gid mc mn tc sst sd ip ipData port portData =
     bindM makeCh (\<lambda>ch. modM (upd_gnb g (\<lambda>c. c\<lparr>
       controlInfo := (controlInfo c)\<lparr>mcc := mc, mnc := mn, tac := tc, gnbId := gid,
                        inboundChannel := ch, gnbIp := ip, gnbPort := port\<rparr>,
       sliceInfo := \<lparr>slice_sd = sd, slice_sst = sst\<rparr>,
       idUeGenerator := 1, idAmfGenerator := 1, teidGenerator := 1, ueIpGenerator := 3,
       dataInfo := \<lparr>data_gnbIp = ipData, data_gnbPort = portData, data_upfIp = [],
                    data_upfPort = 2152, gtpPlane = None, gatewayGnbIp = ''127.0.0.2''\<rparr>\<rparr>)))"

subsection \<open>Identifier generators\<close>

text \<open>
  The generators of RAN UE and AMF identifiers are \<open>int64\<close> counters: they hand out
  the value they hold, and their increment wraps around.
\<close>

definition getRanUeId :: "gnb_ref \<Rightarrow> int M" where
  "getRanUeId g w =
     Ret (idUeGenerator (gnbH w g), upd_gnb g (\<lambda>c. c\<lparr>idUeGenerator := wrap64 (idUeGenerator c + 1)\<rparr>) w)"

definition getRanAmfId :: "gnb_ref \<Rightarrow> int M" where
  "getRanAmfId g w =
     Ret (idAmfGenerator (gnbH w g), upd_gnb g (\<lambda>c. c\<lparr>idAmfGenerator := wrap64 (idAmfGenerator c + 1)\<rparr>) w)"

text \<open>The TEID counter is a \<open>uint32\<close> and wraps.\<close>

definition GetUeTeid :: "gnb_ref \<Rightarrow> ue_ref \<Rightarrow> u32 M" where
  "GetUeTeid g ue w =
     (let i = teidGenerator (gnbH w g) in
      Ret (i, upd_gnb g (\<lambda>c. c\<lparr>teidPool := sm_store i ue (teidPool c),
                               teidGenerator := teidGenerator c + 1\<rparr>) w))"

subsection \<open>AMFs\<close>

text \<open>
  A callback of \<open>Range\<close> that selects: the best weight so far and its AMF. The weight
  starts at \<open>-1\<close> and only a strictly larger one replaces it.
\<close>

fun select_loop :: "(amf_ref \<Rightarrow> bool) \<Rightarrow> (amf_ref \<Rightarrow> int) \<Rightarrow> (int \<times> amf_ref) list \<Rightarrow>
    int \<times> amf_ref option \<Rightarrow> int \<times> amf_ref option" where
  "select_loop elig wt [] acc = acc"
| "select_loop elig wt ((k, a) # xs) acc =
     select_loop elig wt xs (if elig a \<and> fst acc < wt a then (wt a, Some a) else acc)"

definition amf_weight :: "world \<Rightarrow> amf_ref \<Rightarrow> int" where
  "amf_weight w a = tnlaWeightFactor (tnla (amfH w a))"

definition selectAmFByActive :: "ext \<Rightarrow> gnb_ref \<Rightarrow> world \<Rightarrow> amf_ref option" where
  "selectAmFByActive E g w =
     snd (select_loop (\<lambda>a. amf_st (amfH w a) = Active) (amf_weight w)
            (amf_order E (amfPool (gnbH w g))) (-1, None))"

definition selectAmFByCapacity :: "ext \<Rightarrow> gnb_ref \<Rightarrow> world \<Rightarrow> amf_ref option" where
  "selectAmFByCapacity E g w =
     snd (select_loop (\<lambda>a. relativeAmfCapacity (amfH w a) > 0) (amf_weight w)
            (amf_order E (amfPool (gnbH w g))) (-1, None))"

definition NewGnBAmf :: "gnb_ref \<Rightarrow> string \<Rightarrow> int \<Rightarrow> amf_ref M" where
  "NewGnBAmf g ip port =
     bindM (getRanAmfId g) (\<lambda>i w.
       let a = nextAmf w;
           amf = zero_amf\<lparr>amfId := i, amfIp := ip, amfPort := port, amf_st := Inactive\<rparr>
       in Ret (a, upd_gnb g (\<lambda>c. c\<lparr>amfPool := sm_store i a (amfPool c)\<rparr>)
                    (w\<lparr>amfH := (amfH w)(a := amf), nextAmf := Suc a\<rparr>)))"

definition deleteGnBAmf :: "gnb_ref \<Rightarrow> int \<Rightarrow> unit M" where
  "deleteGnBAmf g i = modM (upd_gnb g (\<lambda>c. c\<lparr>amfPool := sm_delete i (amfPool c)\<rparr>))"

definition getGnbAmf :: "gnb_ref \<Rightarrow> int \<Rightarrow> world \<Rightarrow> string + amf_ref" where
  "getGnbAmf g i w =
     (case sm_load (amfPool (gnbH w g)) i of
        None \<Rightarrow> Inl ''AMF is not find in GNB AMF POOL ''
      | Some a \<Rightarrow> Inr a)"

subsection \<open>UEs\<close>

text \<open>
  \<open>NewGnBUe\<close> stores the new context in the pools before it looks for an AMF; without
  an active AMF it returns an error and leaves the context there.
\<close>

definition NewGnBUe ::
    "ext \<Rightarrow> gnb_ref \<Rightarrow> chan option \<Rightarrow> chan option \<Rightarrow> int \<Rightarrow> guti5g option \<Rightarrow> (string + ue_ref) M" where
  "NewGnBUe E g tx rx pr tm =
     bindM (getRanUeId g) (\<lambda>ranId.
     bindM (\<lambda>w.
       let u = nextUe w;
           ue = zero_gnbue\<lparr>ranUeNgapId := ranId, amfUeNgapId := 0, gnbRx := rx, gnbTx := tx,
                           pRueId := pr, tmsi := tm, ue_st := Initialized\<rparr>
       in Ret (u, upd_gnb g (\<lambda>c. c\<lparr>
                    uePool := sm_store ranId u (uePool c),
                    prUePool := (if pr \<noteq> 0 then sm_store pr u (prUePool c) else prUePool c)\<rparr>)
                    (w\<lparr>ueH := (ueH w)(u := ue), nextUe := Suc u\<rparr>))) (\<lambda>u w.
     case selectAmFByActive E g w of
       None \<Rightarrow> Ret (Inl ''No AMF available for this UE'', w)
     | Some a \<Rightarrow>
         Ret (Inr u, upd_ue u (\<lambda>x. x\<lparr>ue_amfId := amfId (amfH w a),
                                     sctpConnection := sctpConn (tnla (amfH w a))\<rparr>) w)))"

definition GetGnbUe :: "gnb_ref \<Rightarrow> int \<Rightarrow> world \<Rightarrow> string + ue_ref" where
  "GetGnbUe g ranId w =
     (case sm_load (uePool (gnbH w g)) ranId of
        None \<Rightarrow> Inl ''UE is not find in GNB UE POOL''
      | Some u \<Rightarrow> Inr u)"

definition GetGnbUeByPrUeId :: "gnb_ref \<Rightarrow> int \<Rightarrow> world \<Rightarrow> string + ue_ref" where
  "GetGnbUeByPrUeId g pr w =
     (case sm_load (prUePool (gnbH w g)) pr of
        None \<Rightarrow> Inl ''UE is not find in GNB PR UE POOL''
      | Some u \<Rightarrow> Inr u)"

definition GetGnbUeByTeid :: "gnb_ref \<Rightarrow> u32 \<Rightarrow> world \<Rightarrow> string + ue_ref" where
  "GetGnbUeByTeid g teid w =
     (case sm_load (teidPool (gnbH w g)) teid of
        None \<Rightarrow> Inl ''UE is not find in GNB UE POOL using TEID''
      | Some u \<Rightarrow> Inr u)"

text \<open>The downlink TEIDs of the sessions a UE context holds.\<close>

definition session_teids :: "world \<Rightarrow> ue_ref \<Rightarrow> u32 list" where
  "session_teids w u =
     map (\<lambda>p. downlinkTeid (sessH w p)) (List.map_filter id (pduSession (ue_context (ueH w u))))"

definition DeleteGnBUe :: "gnb_ref \<Rightarrow> ue_ref \<Rightarrow> unit M" where
  "DeleteGnBUe g ue =
     thenM (modM (\<lambda>w. upd_gnb g (\<lambda>c. c\<lparr>
       uePool := sm_delete (ranUeNgapId (ueH w ue)) (uePool c),
       prUePool := sm_cas_delete (pRueId (ueH w ue)) ue (prUePool c),
       teidPool := foldl (\<lambda>m t. sm_delete t m) (teidPool c) (session_teids w ue)\<rparr>) w))
     (bindM (getsM (\<lambda>w. gnbTx (ueH w ue))) (\<lambda>tx.
        if tx \<noteq> None then
          thenM (closeCh tx) (modM (upd_ue ue (\<lambda>x. x\<lparr>gnbTx := None\<rparr>)))
        else skipM))"

subsection \<open>Paging\<close>

text \<open>
  \<open>AddPagedUE\<close> appends an entry under the lock and starts a timer for it. When the timer
  fires, \<open>paged_timer\<close> looks the entry up and deletes the empty range \<open>[i, i)\<close>; if
  the entry is gone it returns with the lock held. Nothing else releases the lock, so whoever
  asks for it then waits for ever.
\<close>

definition AddPagedUE :: "gnb_ref \<Rightarrow> (nat \<times> FiveGSTMSI) option \<Rightarrow> PagedUE M" where
  "AddPagedUE g t w =
     (if pagedUELock (gnbH w g) then Hang
      else
        let e = \<lparr>pg_FiveGSTMSI = t, pg_Timestamp = clock w\<rparr> in
        Ret (e, upd_gnb g (\<lambda>c. c\<lparr>pagedUEs := pagedUEs c @ [e]\<rparr>) w))"

fun slices_Index :: "'a list \<Rightarrow> 'a \<Rightarrow> nat option" where
  "slices_Index [] x = None"
| "slices_Index (y # ys) x = (if y = x then Some 0 else map_option Suc (slices_Index ys x))"

definition slices_Delete :: "'a list \<Rightarrow> nat \<Rightarrow> nat \<Rightarrow> 'a list" where
  "slices_Delete xs i j = take i xs @ drop j xs"

definition paged_timer :: "gnb_ref \<Rightarrow> PagedUE \<Rightarrow> unit M" where
  "paged_timer g e w =
     (if pagedUELock (gnbH w g) then Hang
      else (case slices_Index (pagedUEs (gnbH w g)) e of
          None \<Rightarrow> Ret ((), upd_gnb g (\<lambda>c. c\<lparr>pagedUELock := True\<rparr>) w)
        | Some i \<Rightarrow> Ret ((), upd_gnb g (\<lambda>c. c\<lparr>pagedUEs := slices_Delete (pagedUEs c) i i\<rparr>) w)))"

definition GetPagedUEs :: "gnb_ref \<Rightarrow> PagedUE list M" where
  "GetPagedUEs g w = (if pagedUELock (gnbH w g) then Hang else Ret (pagedUEs (gnbH w g), w))"

subsection \<open>Identities as bytes\<close>

text \<open>
  \<open>reverse\<close> prepends each character; on the digit strings of the configuration a rune
  is a byte.
\<close>

definition reverse :: "string \<Rightarrow> string" where
  "reverse s = foldl (\<lambda>aux valor. valor # aux) [] s"

definition GetGnbIdInBytes :: "GNBContext \<Rightarrow> byte list" where
  "GetGnbIdInBytes c = fst (hex_decode (gnbId (controlInfo c)))"

definition GetTacInBytes :: "GNBContext \<Rightarrow> byte list" where
  "GetTacInBytes c = fst (hex_decode (tac (controlInfo c)))"

definition GetSliceInBytes :: "GNBContext \<Rightarrow> byte list \<times> byte list option" where
  "GetSliceInBytes c =
     (let sstBytes = fst (hex_decode (slice_sst (sliceInfo c))) in
      if slice_sd (sliceInfo c) \<noteq> [] then (sstBytes, Some (fst (hex_decode (slice_sd (sliceInfo c)))))
      else (sstBytes, None))"

definition GetPLMNIdentity :: "ext \<Rightarrow> GNBContext \<Rightarrow> byte list" where
  "GetPLMNIdentity E c = PlmnIdToNgap E (mcc (controlInfo c)) (mnc (controlInfo c))"

definition GetNRCellIdentity :: "GNBContext \<Rightarrow> BitString" where
  "GetNRCellIdentity c = \<lparr>bs_Bytes = Some (GetGnbIdInBytes c @ [0, 0]), bs_BitLength = 36\<rparr>"

definition GetMccAndMncInOctets :: "GNBContext \<Rightarrow> byte list res" where
  "GetMccAndMncInOctets c =
     (let mc = reverse (mcc (controlInfo c)); mn = reverse (mnc (controlInfo c)) in
      bindR (idx mc 1) (\<lambda>c1. bindR (idx mc 2) (\<lambda>c2.
        let c0 = mc ! 0 in
        if length mn = 2 then
          Ret (fst (hex_decode [c1, c2, CHR ''f'', c0, mn ! 0, mn ! 1]))
        else
          bindR (idx mn 2) (\<lambda>n2. bindR (idx mn 0) (\<lambda>n0. bindR (idx mn 1) (\<lambda>n1.
            Ret (fst (hex_decode [c1, c2, n2, c0, n0, n1]))))))))"

subsection \<open>Termination\<close>

definition Terminate :: "gnb_ref \<Rightarrow> unit M" where
  "Terminate g =
     thenM (bindM (getsM (\<lambda>w. inboundChannel (controlInfo (gnbH w g)))) (\<lambda>ch. closeCh (Some ch)))
     (bindM (getsM (\<lambda>w. n2 (controlInfo (gnbH w g)))) (\<lambda>n.
        case n of None \<Rightarrow> skipM | Some c \<Rightarrow> modM (emit (SctpClose (Some c)))))"

end
