(* ===== verification/GnbInv.thy ===== *)
theory GnbInv
  imports GnbContext
begin

text \<open>
  What the operations of the gNodeB context keep true of its pools, and what each of them
  computes: identifiers are fresh and index the context they belong to, the AMF selected for
  a UE is an active one of largest weight, a deleted UE is out of the pools, PDU sessions are
  created, found and deleted by identifier.
\<close>

section \<open>The invariant of a gNodeB\<close>

definition pools_distinct :: "GNBContext \<Rightarrow> bool" where
  "pools_distinct c \<longleftrightarrow> distinct (map fst (uePool c)) \<and> distinct (map fst (prUePool c)) \<and>
     distinct (map fst (amfPool c)) \<and> distinct (map fst (teidPool c))"

text \<open>
  Every pool entry is filed under the identifier its context carries and its reference is
  allocated. The generators are 64-bit counters that wrap around; a generator is never more
  than one above the number of contexts made, so that, as long as fewer than
  \<open>2 ^ 63 - 1\<close> contexts were made, it has not wrapped and the identifiers in use are
  below it.
\<close>

definition gens_ok :: "gnb_ref \<Rightarrow> world \<Rightarrow> bool" where
  "gens_ok g w \<longleftrightarrow>
     - (2 ^ 63) \<le> idUeGenerator (gnbH w g) \<and> idUeGenerator (gnbH w g) \<le> 1 + int (nextUe w) \<and>
     - (2 ^ 63) \<le> idAmfGenerator (gnbH w g) \<and> idAmfGenerator (gnbH w g) \<le> 1 + int (nextAmf w)"

definition uePool_ok :: "gnb_ref \<Rightarrow> world \<Rightarrow> bool" where
  "uePool_ok g w \<longleftrightarrow> (\<forall>i u. sm_load (uePool (gnbH w g)) i = Some u \<longrightarrow>
     ranUeNgapId (ueH w u) = i \<and> u < nextUe w \<and>
     (int (nextUe w) < 2 ^ 63 - 1 \<longrightarrow> i < idUeGenerator (gnbH w g)))"

definition prUePool_ok :: "gnb_ref \<Rightarrow> world \<Rightarrow> bool" where
  "prUePool_ok g w \<longleftrightarrow> (\<forall>p u. sm_load (prUePool (gnbH w g)) p = Some u \<longrightarrow>
     pRueId (ueH w u) = p \<and> p \<noteq> 0 \<and> u < nextUe w)"

definition amfPool_ok :: "gnb_ref \<Rightarrow> world \<Rightarrow> bool" where
  "amfPool_ok g w \<longleftrightarrow> (\<forall>i a. sm_load (amfPool (gnbH w g)) i = Some a \<longrightarrow>
     amfId (amfH w a) = i \<and> a < nextAmf w \<and>
     (int (nextAmf w) < 2 ^ 63 - 1 \<longrightarrow> i < idAmfGenerator (gnbH w g)))"

definition lists_ok :: "world \<Rightarrow> bool" where
  "lists_ok w \<longleftrightarrow> (\<forall>a. plmns_ok (amfH w a) \<and> slices_ok (amfH w a))"

definition sessions_ok :: "world \<Rightarrow> bool" where
  "sessions_ok w \<longleftrightarrow> (\<forall>u. length (pduSession (ue_context (ueH w u))) = 16 \<and>
     (\<forall>p. Some p \<in> set (pduSession (ue_context (ueH w u))) \<longrightarrow> p < nextSess w))"

definition gnb_wf :: "gnb_ref \<Rightarrow> world \<Rightarrow> bool" where
  "gnb_wf g w \<longleftrightarrow> pools_distinct (gnbH w g) \<and> uePool_ok g w \<and> prUePool_ok g w \<and>
     amfPool_ok g w \<and> gens_ok g w \<and> lists_ok w \<and> sessions_ok w"

lemmas wf_defs = gnb_wf_def pools_distinct_def uePool_ok_def prUePool_ok_def amfPool_ok_def
  gens_ok_def lists_ok_def sessions_ok_def

text \<open>Within that bound an increment of a generator does not wrap.\<close>

lemma wrap64_next: "- (2 ^ 63) \<le> x \<Longrightarrow> x \<le> 1 + int n \<Longrightarrow> int (Suc n) < 2 ^ 63 - 1 \<Longrightarrow> wrap64 (x + 1) = x + 1"
  by (rule wrap64_id) auto

lemma wrap64_le: "- (2 ^ 63) \<le> x \<Longrightarrow> wrap64 x \<le> x"
proof (cases "x < 2 ^ 63")
  case False
  then show ?thesis using wrap64_range(2) [of x] by linarith
qed (simp add: wrap64_id)

lemma gens_ok_next:
  assumes "- (2 ^ 63) \<le> x" and "x \<le> 1 + int n"
  shows "- 9223372036854775808 \<le> wrap64 (x + 1) \<and> wrap64 (x + 1) \<le> 2 + int n"
  using wrap64_le [of "x + 1"] wrap64_range(1) [of "x + 1"] assms by simp

lemma zero_amf_ok [simp]: "plmns_ok zero_amf" "slices_ok zero_amf"
  by (simp_all add: plmns_ok_def slices_ok_def zero_amf_def)

lemma zero_gnbue_sessions [simp]: "pduSession (ue_context zero_gnbue) = replicate 16 None"
  by (simp add: zero_gnbue_def zero_uectx_def no_sessions_def)

subsection \<open>Updates that keep it\<close>

text \<open>Identity fields of a context; updates that keep them keep the invariant.\<close>

lemma gnb_wf_upd_ue:
  assumes "gnb_wf g w"
    and "ranUeNgapId (f (ueH w u)) = ranUeNgapId (ueH w u)"
    and "pRueId (f (ueH w u)) = pRueId (ueH w u)"
    and "pduSession (ue_context (f (ueH w u))) = pduSession (ue_context (ueH w u)) \<or>
      length (pduSession (ue_context (f (ueH w u)))) = 16 \<and>
      (\<forall>p. Some p \<in> set (pduSession (ue_context (f (ueH w u)))) \<longrightarrow> p < nextSess w)"
  shows "gnb_wf g (upd_ue u f w)"
  using assms unfolding wf_defs upd_ue_def by auto

lemma gnb_wf_upd_amf:
  assumes "gnb_wf g w"
    and "amfId (f (amfH w a)) = amfId (amfH w a)"
    and "plmns_ok (f (amfH w a))" and "slices_ok (f (amfH w a))"
  shows "gnb_wf g (upd_amf a f w)"
  using assms unfolding wf_defs upd_amf_def by auto

lemma gnb_wf_upd_sess: "gnb_wf g w \<Longrightarrow> gnb_wf g (upd_sess p f w)"
  unfolding wf_defs upd_sess_def by auto

text \<open>An update of a gNodeB that files nothing new and moves no generator.\<close>

lemma gnb_wf_upd_gnb:
  assumes wf: "gnb_wf g w"
    and dist: "pools_distinct (gnbH w g') \<Longrightarrow> pools_distinct (f (gnbH w g'))"
    and ue: "\<And>i u. sm_load (uePool (f (gnbH w g'))) i = Some u \<Longrightarrow> sm_load (uePool (gnbH w g')) i = Some u"
    and pr: "\<And>i u. sm_load (prUePool (f (gnbH w g'))) i = Some u \<Longrightarrow> sm_load (prUePool (gnbH w g')) i = Some u"
    and amf: "\<And>i u. sm_load (amfPool (f (gnbH w g'))) i = Some u \<Longrightarrow> sm_load (amfPool (gnbH w g')) i = Some u"
    and gens: "idUeGenerator (f (gnbH w g')) = idUeGenerator (gnbH w g')"
    "idAmfGenerator (f (gnbH w g')) = idAmfGenerator (gnbH w g')"
  shows "gnb_wf g (upd_gnb g' f w)"
proof (cases "g = g'")
  case False
  with wf show ?thesis
    by (simp add: gnb_wf_def uePool_ok_def prUePool_ok_def amfPool_ok_def gens_ok_def lists_ok_def
        sessions_ok_def upd_gnb_def)
next
  case True
  with wf have wf': "pools_distinct (gnbH w g')" "uePool_ok g' w" "prUePool_ok g' w" "amfPool_ok g' w"
    "gens_ok g' w" "lists_ok w" "sessions_ok w"
    by (simp_all add: gnb_wf_def)
  have "uePool_ok g' (upd_gnb g' f w)"
    using wf'(2) gens(1) ue unfolding uePool_ok_def upd_gnb_def by fastforce
  moreover have "prUePool_ok g' (upd_gnb g' f w)"
    using wf'(3) pr unfolding prUePool_ok_def upd_gnb_def by fastforce
  moreover have "amfPool_ok g' (upd_gnb g' f w)"
    using wf'(4) gens(2) amf unfolding amfPool_ok_def upd_gnb_def by fastforce
  moreover have "gens_ok g' (upd_gnb g' f w)"
    using wf'(5) gens by (simp add: gens_ok_def upd_gnb_def)
  ultimately show ?thesis
    using True wf' dist by (simp add: gnb_wf_def lists_ok_def sessions_ok_def upd_gnb_def)
qed

lemma pools_distinct_simps [simp]:
  "pools_distinct (c\<lparr>idUeGenerator := i\<rparr>) = pools_distinct c"
  "pools_distinct (c\<lparr>idAmfGenerator := i\<rparr>) = pools_distinct c"
  "pools_distinct (c\<lparr>pagedUEs := ps\<rparr>) = pools_distinct c"
  "pools_distinct (c\<lparr>pagedUELock := b\<rparr>) = pools_distinct c"
  by (simp_all add: pools_distinct_def)

lemma gnb_wf_emit [simp]: "gnb_wf g (emit e w) = gnb_wf g w"
  unfolding wf_defs emit_def by simp

lemma gnb_wf_chan [simp]:
  "gnb_wf g (w\<lparr>closedChans := x\<rparr>) = gnb_wf g w"
  "gnb_wf g (w\<lparr>nextChan := n\<rparr>) = gnb_wf g w"
  "gnb_wf g (w\<lparr>connCount := k\<rparr>) = gnb_wf g w"
  unfolding wf_defs by simp_all

named_theorems wf_pres \<open>operations that preserve the invariant of a gNodeB\<close>

lemma wf_sendCh [wf_pres]: "preserves (gnb_wf g) (sendCh c m)"
  by (rule preservesI) (auto simp: sendCh_def split: if_splits)

lemma wf_closeCh [wf_pres]: "preserves (gnb_wf g) (closeCh c)"
  by (rule preservesI) (auto simp: closeCh_def split: if_splits option.splits)

lemma wf_makeCh [wf_pres]: "preserves (gnb_wf g) makeCh"
  by (rule preservesI) (auto simp: makeCh_def)

lemma wf_emit [wf_pres]: "preserves (gnb_wf g) (modM (emit e))"
  by (rule preserves_modM) simp

lemma wf_SetAmfUeId [wf_pres]: "preserves (gnb_wf g) (SetAmfUeId u i)"
  unfolding SetAmfUeId_def by (rule preserves_modM) (auto intro!: gnb_wf_upd_ue)

lemma wf_SetUeState [wf_pres]: "preserves (gnb_wf g) (SetUeState u s)"
  unfolding SetUeState_def by (rule preserves_modM) (auto intro!: gnb_wf_upd_ue)

lemma wf_CreateUeContext [wf_pres]: "preserves (gnb_wf g) (CreateUeContext u p i a b c)"
  unfolding CreateUeContext_def upd_ctx_def
  by (auto intro!: pres_intros preserves_modM gnb_wf_upd_ue)

lemma wf_sessions_of: "gnb_wf g w \<Longrightarrow> length (pduSession (ue_context (ueH w u))) = 16 \<and>
    (\<forall>p. Some p \<in> set (pduSession (ue_context (ueH w u))) \<longrightarrow> p < nextSess w)"
  by (simp add: gnb_wf_def sessions_ok_def)

lemma wf_CopyFromPreviousContext [wf_pres]: "preserves (gnb_wf g) (CopyFromPreviousContext u v)"
  unfolding CopyFromPreviousContext_def
proof (rule preserves_modM)
  fix w
  assume "gnb_wf g w"
  then show "gnb_wf g (upd_ue u (\<lambda>x. x\<lparr>amfUeNgapId := amfUeNgapId (ueH w v),
      ue_context := ue_context (ueH w v)\<rparr>) w)"
    using wf_sessions_of [of g w v] by (auto intro!: gnb_wf_upd_ue)
qed

lemma wf_GetUeTeid [wf_pres]: "preserves (gnb_wf g) (GetUeTeid g' u)"
  by (rule preservesI)
    (auto simp: GetUeTeid_def Let_def pools_distinct_def sm_store_distinct intro!: gnb_wf_upd_gnb)

lemma wf_new_session:
  assumes "gnb_wf g w"
  shows "gnb_wf g (w\<lparr>sessH := (sessH w)(p := s), nextSess := Suc (nextSess w)\<rparr>)"
  using assms unfolding wf_defs by (auto intro: less_SucI)

lemma set_list_update_Some: "Some p \<in> set (xs[i := Some q]) \<Longrightarrow> p = q \<or> Some p \<in> set xs"
  using set_update_subset_insert [of xs i "Some q"] by auto

lemma wf_CreatePduSession [wf_pres]:
  "preserves (gnb_wf g) (CreatePduSession u sid upf sst sd pt q arp f ul dl)"
proof (rule preservesI)
  fix s x t
  assume wf: "gnb_wf g s" and run: "CreatePduSession u sid upf sst sd pt q arp f ul dl s = Ret (x, t)"
  show "gnb_wf g t"
    using run wf wf_new_session [OF wf] wf_sessions_of [OF wf, of u]
    by (auto simp: CreatePduSession_def run_simps idx_int_def Let_def upd_ctx_def split: if_splits
        intro!: gnb_wf_upd_ue dest!: set_list_update_Some intro: less_SucI)
qed

lemma set_list_update_None: "Some p \<in> set (xs[i := None]) \<Longrightarrow> Some p \<in> set xs"
  using set_update_subset_insert [of xs i None] by auto

lemma wf_DeletePduSession [wf_pres]: "preserves (gnb_wf g) (DeletePduSession u sid)"
proof (rule preservesI)
  fix s x t
  assume wf: "gnb_wf g s" and run: "DeletePduSession u sid s = Ret (x, t)"
  show "gnb_wf g t"
    using run wf_sessions_of [OF wf, of u] wf
    by (auto simp: DeletePduSession_def run_simps upd_int_def upd_ctx_def split: if_splits
        intro!: gnb_wf_upd_ue dest!: set_list_update_None)
qed

lemma wf_GetPduSession [wf_pres]: "preserves (gnb_wf g) (GetPduSession u sid)"
  unfolding GetPduSession_def by (intro pres_intros)

lemma wf_GetPduSessions [wf_pres]: "preserves (gnb_wf g) (GetPduSessions u)"
  unfolding GetPduSessions_def by (intro pres_intros)

lemma wf_GetSelectedNssai [wf_pres]: "preserves (gnb_wf g) (GetSelectedNssai u sid)"
  unfolding GetSelectedNssai_def by (intro pres_intros)

lemma gnb_wf_parts:
  "gnb_wf g w \<longleftrightarrow> pools_distinct (gnbH w g) \<and> uePool_ok g w \<and> prUePool_ok g w \<and>
     amfPool_ok g w \<and> gens_ok g w \<and> lists_ok w \<and> sessions_ok w"
  by (simp add: gnb_wf_def)

text \<open>Filing a new AMF context, and a new UE context, under a fresh identifier.\<close>

lemma wf_NewGnBAmf [wf_pres]: "preserves (gnb_wf g) (NewGnBAmf g' ip port)"
proof (rule preservesI)
  fix s x t
  assume wf: "gnb_wf g s" and run: "NewGnBAmf g' ip port s = Ret (x, t)"
  let ?i = "idAmfGenerator (gnbH s g')" and ?a = "nextAmf s"
  let ?amf = "zero_amf\<lparr>amfId := ?i, amfIp := ip, amfPort := port, amf_st := Inactive\<rparr>"
  let ?c = "(gnbH s g')\<lparr>idAmfGenerator := wrap64 (?i + 1), amfPool := sm_store ?i ?a (amfPool (gnbH s g'))\<rparr>"
  have t: "t = s\<lparr>amfH := (amfH s)(?a := ?amf), nextAmf := Suc ?a, gnbH := (gnbH s)(g' := ?c)\<rparr>"
    using run by (auto simp: NewGnBAmf_def getRanAmfId_def run_simps Let_def upd_gnb_def)
  have ok: "plmns_ok ?amf" "slices_ok ?amf"
    by (simp_all add: plmns_ok_def slices_ok_def zero_amf_def)
  have "amfPool_ok g t"
    using wf unfolding gnb_wf_parts amfPool_ok_def gens_ok_def t
    by (auto simp: sm.load_store wrap64_next) (force simp: less_Suc_eq wrap64_next dest: spec)+
  moreover have "gens_ok g t"
    using wf unfolding gnb_wf_parts gens_ok_def t by (auto simp: gens_ok_next)
  moreover have "pools_distinct (gnbH t g)"
    using wf by (auto simp: gnb_wf_parts pools_distinct_def t sm_store_distinct)
  moreover have "uePool_ok g t" "prUePool_ok g t" "lists_ok t" "sessions_ok t"
    using wf ok by (auto simp: gnb_wf_parts uePool_ok_def prUePool_ok_def lists_ok_def sessions_ok_def t)
  ultimately show "gnb_wf g t"
    by (simp add: gnb_wf_parts)
qed

lemma wf_deleteGnBAmf [wf_pres]: "preserves (gnb_wf g) (deleteGnBAmf g' i)"
  unfolding deleteGnBAmf_def
  by (rule preserves_modM, rule gnb_wf_upd_gnb)
    (auto simp: pools_distinct_def sm_delete_distinct sm.load_del split: if_splits)

lemma wf_AddPagedUE [wf_pres]: "preserves (gnb_wf g) (AddPagedUE g' t)"
  by (rule preservesI) (auto simp: AddPagedUE_def Let_def split: if_splits intro!: gnb_wf_upd_gnb)

lemma wf_paged_timer [wf_pres]: "preserves (gnb_wf g) (paged_timer g' e)"
  by (rule preservesI)
    (auto simp: paged_timer_def split: if_splits option.splits intro!: gnb_wf_upd_gnb)

lemma wf_GetPagedUEs [wf_pres]: "preserves (gnb_wf g) (GetPagedUEs g')"
  by (rule preservesI) (auto simp: GetPagedUEs_def split: if_splits)

lemma gnb_wf_file_ue:
  assumes wf: "gnb_wf g s"
    and ue: "ranUeNgapId ue = idUeGenerator (gnbH s g')" "pRueId ue = pr"
      "pduSession (ue_context ue) = replicate 16 None"
    and t: "t = s\<lparr>ueH := (ueH s)(nextUe s := ue), nextUe := Suc (nextUe s),
      gnbH := (gnbH s)(g' := (gnbH s g')\<lparr>idUeGenerator := wrap64 (idUeGenerator (gnbH s g') + 1),
        uePool := sm_store (idUeGenerator (gnbH s g')) (nextUe s) (uePool (gnbH s g')),
        prUePool := (if pr \<noteq> 0 then sm_store pr (nextUe s) (prUePool (gnbH s g'))
                     else prUePool (gnbH s g'))\<rparr>)\<rparr>"
  shows "gnb_wf g t"
proof -
  have "uePool_ok g t"
    using wf ue(1) unfolding gnb_wf_parts uePool_ok_def gens_ok_def t
    by (auto simp: sm.load_store wrap64_next) (force simp: less_Suc_eq wrap64_next dest: spec)+
  moreover have "gens_ok g t"
    using wf unfolding gnb_wf_parts gens_ok_def t by (auto simp: gens_ok_next)
  moreover have "prUePool_ok g t"
    using wf ue(2) unfolding gnb_wf_parts prUePool_ok_def t
    by (auto simp: sm.load_store split: if_splits) (force simp: less_Suc_eq dest: spec)+
  moreover have "pools_distinct (gnbH t g)"
    using wf by (auto simp: gnb_wf_parts pools_distinct_def t sm_store_distinct)
  moreover have "amfPool_ok g t" "lists_ok t" "sessions_ok t"
    using wf ue(3) by (auto simp: gnb_wf_parts amfPool_ok_def lists_ok_def sessions_ok_def t)
  ultimately show ?thesis
    by (simp add: gnb_wf_parts)
qed

lemma wf_NewGnBUe [wf_pres]: "preserves (gnb_wf g) (NewGnBUe E g' tx rx pr tm)"
proof (rule preservesI)
  fix s x t
  assume wf: "gnb_wf g s" and run: "NewGnBUe E g' tx rx pr tm s = Ret (x, t)"
  let ?r = "idUeGenerator (gnbH s g')" and ?u = "nextUe s"
  let ?ue = "zero_gnbue\<lparr>ranUeNgapId := ?r, amfUeNgapId := 0, gnbRx := rx, gnbTx := tx, pRueId := pr,
    tmsi := tm, ue_st := Initialized\<rparr>"
  define s1 where "s1 = s\<lparr>ueH := (ueH s)(?u := ?ue), nextUe := Suc ?u,
      gnbH := (gnbH s)(g' := (gnbH s g')\<lparr>idUeGenerator := wrap64 (?r + 1),
        uePool := sm_store ?r ?u (uePool (gnbH s g')),
        prUePool := (if pr \<noteq> 0 then sm_store pr ?u (prUePool (gnbH s g')) else prUePool (gnbH s g'))\<rparr>)\<rparr>"
  have "gnb_wf g s1"
    by (rule gnb_wf_file_ue [OF wf _ _ _ s1_def]) simp_all
  moreover have "t = s1 \<or> (\<exists>a. t = upd_ue ?u (\<lambda>x. x\<lparr>ue_amfId := amfId (amfH s1 a),
      sctpConnection := sctpConn (tnla (amfH s1 a))\<rparr>) s1)"
    using run unfolding NewGnBUe_def getRanUeId_def run_simps Let_def upd_gnb_def
    by (auto simp: s1_def split: option.splits)
  ultimately show "gnb_wf g t"
    by (auto intro!: gnb_wf_upd_ue)
qed

lemma wf_DeleteGnBUe [wf_pres]: "preserves (gnb_wf g) (DeleteGnBUe g' u)"
proof -
  have dist: "distinct (map fst (foldl (\<lambda>m t. sm_delete t m) m ts))"
    if "distinct (map fst m)" for m :: "(u32, ue_ref) smap" and ts
    using that by (induction ts arbitrary: m) (auto simp: sm_delete_distinct)
  have "gnb_wf g (upd_gnb g' (\<lambda>c. c\<lparr>
       uePool := sm_delete (ranUeNgapId (ueH w u)) (uePool c),
       prUePool := sm_cas_delete (pRueId (ueH w u)) u (prUePool c),
       teidPool := foldl (\<lambda>m t. sm_delete t m) (teidPool c) (session_teids w u)\<rparr>) w)"
    if "gnb_wf g w" for w
  proof (rule gnb_wf_upd_gnb [OF that], goal_cases)
    case 1
    then show ?case
      by (auto simp: pools_distinct_def intro: sm_delete_distinct sm_cas_delete_distinct dist)
  next
    case (2 i v)
    then show ?case by (auto dest: sm.load_del_Some)
  next
    case (3 i v)
    then show ?case by (auto dest: sm.load_cas_del_Some)
  qed simp_all
  note del = preserves_modM [of "gnb_wf g", OF this]
  have tx: "preserves (gnb_wf g) (modM (upd_ue u (\<lambda>x. x\<lparr>gnbTx := None\<rparr>)))"
    by (rule preserves_modM, rule gnb_wf_upd_ue) simp_all
  show ?thesis
    unfolding DeleteGnBUe_def by (intro pres_intros wf_pres del tx)
qed

lemma wf_SetPduSessions_replicate [wf_pres]:
  "preserves (gnb_wf g) (SetPduSessions u (replicate 16 None))"
  unfolding SetPduSessions_def upd_ctx_def
  by (rule preserves_modM) (auto intro!: gnb_wf_upd_ue)

end
