(* ===== verification/GnbBuilders.thy ===== *)
theory GnbBuilders
  imports GnbInv
begin

text \<open>
  The NGAP messages the gNodeB builds, from \<open>gnb/ngap/message/ngap_control\<close>: one
  definition per message with its procedure code, criticality and IEs in the order the code
  appends them, and the APER transfers nested in it. A message is built from the contexts'
  values; its encoding is the third-party \<open>ngap.Encoder\<close>, \<open>None\<close> when it
  returns an error. A transfer whose encoding error the code ignores is the empty string.
\<close>

definition mk_ie :: "ie_id \<Rightarrow> criticality \<Rightarrow> ie_value \<Rightarrow> ngap_ie" where
  "mk_ie i c v = \<lparr>ie_Id = i, ie_Criticality = c, ie_Value = v\<rparr>"

definition mk_pdu :: "pdu_present \<Rightarrow> proc_code \<Rightarrow> criticality \<Rightarrow> ngap_ie list \<Rightarrow> NGAPPDU" where
  "mk_pdu p c k ies = \<lparr>pdu_Present = p, pdu_ProcedureCode = c, pdu_Criticality = k, pdu_IEs = ies\<rparr>"

text \<open>The sessions of an array of pointers, nil entries skipped.\<close>

definition live_sessions :: "(sess_ref \<Rightarrow> GnbPDUSession) \<Rightarrow> sess_ref option list \<Rightarrow> GnbPDUSession list" where
  "live_sessions h ps = map h (List.map_filter id ps)"

definition bytes_or_nil :: "byte list option \<Rightarrow> byte list" where
  "bytes_or_nil b = (case b of None \<Rightarrow> [] | Some x \<Rightarrow> x)"

definition or_fatal :: "string \<Rightarrow> 'a option \<Rightarrow> 'a res" where
  "or_fatal e x = (case x of None \<Rightarrow> Fatal e | Some v \<Rightarrow> Ret v)"

section \<open>Interface management\<close>

definition BuildNGSetupRequest :: "GNBContext \<Rightarrow> NGAPPDU res" where
  "BuildNGSetupRequest gnb =
     bindR (GetMccAndMncInOctets gnb) (\<lambda>plmn.
       let (sst, sd) = GetSliceInBytes gnb in
       Ret (mk_pdu PresentInitiatingMessage ProcNGSetup CritReject
         [mk_ie IEIDGlobalRANNodeID CritReject
            (V_GlobalGNBID plmn \<lparr>bs_Bytes = Some [0x45, 0x46, 0x47], bs_BitLength = 24\<rparr>),
          mk_ie IEIDRANNodeName CritIgnore (V_RANNodeName ''my5gRANTester''),
          mk_ie IEIDSupportedTAList CritReject
            (V_SupportedTAList [\<lparr>ta_TAC = GetTacInBytes gnb, ta_PLMN = plmn, ta_SST = sst, ta_SD = sd\<rparr>]),
          mk_ie IEIDDefaultPagingDRX CritIgnore V_PagingDRX_V128]))"

text \<open>
  \<open>NGSetupRequest\<close> overwrites, through the pointers of the first two IEs, the gNB
  identifier and the node name.
\<close>

definition set_gnb_id :: "byte list \<Rightarrow> ie_value \<Rightarrow> ie_value" where
  "set_gnb_id bs v = (case v of
     V_GlobalGNBID plmn b \<Rightarrow> V_GlobalGNBID plmn \<lparr>bs_Bytes = Some bs, bs_BitLength = 24\<rparr> | _ \<Rightarrow> v)"

definition set_node_name :: "string \<Rightarrow> ie_value \<Rightarrow> ie_value" where
  "set_node_name name v = (case v of V_RANNodeName _ \<Rightarrow> V_RANNodeName name | _ \<Rightarrow> v)"

definition NGSetupRequest :: "ext \<Rightarrow> GNBContext \<Rightarrow> string \<Rightarrow> byte list option res" where
  "NGSetupRequest E gnb name =
     bindR (BuildNGSetupRequest gnb) (\<lambda>m.
       let ies = pdu_IEs m;
           i0 = (ies ! 0)\<lparr>ie_Value := set_gnb_id (GetGnbIdInBytes gnb) (ie_Value (ies ! 0))\<rparr>;
           i1 = (ies ! 1)\<lparr>ie_Value := set_node_name name (ie_Value (ies ! 1))\<rparr>
       in Ret (ngap_Encoder E (m\<lparr>pdu_IEs := ies[0 := i0, 1 := i1]\<rparr>)))"

definition AmfConfigurationUpdateAcknowledge :: "ext \<Rightarrow> byte list option" where
  "AmfConfigurationUpdateAcknowledge E =
     ngap_Encoder E (mk_pdu PresentSuccessfulOutcome ProcAMFConfigurationUpdate CritReject [])"

section \<open>NAS transport\<close>

text \<open>The location in the initial message takes its TAI from the gNodeB's own encoder.\<close>

definition BuildInitialUEMessage ::
    "ext \<Rightarrow> int \<Rightarrow> byte list option \<Rightarrow> guti5g option \<Rightarrow> GNBContext \<Rightarrow> NGAPPDU res" where
  "BuildInitialUEMessage E ranId nas guti gnb =
     bindR (GetMccAndMncInOctets gnb) (\<lambda>tai.
     bindR (case guti of
              None \<Rightarrow> Ret []
            | Some g5 \<Rightarrow> bindR (idx g5 5) (\<lambda>o5. bindR (idx g5 6) (\<lambda>o6.
                Ret [mk_ie IEIDFiveGSTMSI CritReject (V_FiveGSTMSI
                  \<lparr>AMFSetID = \<lparr>bs_Bytes = Some [o5, o6], bs_BitLength = 10\<rparr>,
                   AMFPointer = \<lparr>bs_Bytes = Some [guti_AMFPointer E g5], bs_BitLength = 6\<rparr>,
                   FiveGTMSI = guti_TMSI5G E g5\<rparr>)]))) (\<lambda>tmsi.
       Ret (mk_pdu PresentInitiatingMessage ProcInitialUEMessage CritIgnore
         ([mk_ie IEIDRANUENGAPID CritReject (V_RANUENGAPID ranId),
           mk_ie IEIDNASPDU CritReject (V_NASPDU nas),
           mk_ie IEIDUserLocationInformation CritReject (V_UserLocationInformation
             \<lparr>loc_NRCGI_PLMN = GetPLMNIdentity E gnb, loc_NRCellIdentity = GetNRCellIdentity gnb,
              loc_TAI_PLMN = tai, loc_TAI_TAC = GetTacInBytes gnb\<rparr>),
           mk_ie IEIDRRCEstablishmentCause CritIgnore V_RRCEstablishmentCause_MoSignalling]
          @ tmsi @
          [mk_ie IEIDUEContextRequest CritIgnore V_UEContextRequest_Requested]))))"

definition SendInitialUeMessage ::
    "ext \<Rightarrow> byte list option \<Rightarrow> GNBUe \<Rightarrow> GNBContext \<Rightarrow> byte list option res" where
  "SendInitialUeMessage E nas ue gnb =
     bindR (BuildInitialUEMessage E (ranUeNgapId ue) nas (tmsi ue) gnb) (\<lambda>m. Ret (ngap_Encoder E m))"

definition user_location :: "ext \<Rightarrow> GNBContext \<Rightarrow> NRLocation" where
  "user_location E gnb =
     \<lparr>loc_NRCGI_PLMN = GetPLMNIdentity E gnb, loc_NRCellIdentity = GetNRCellIdentity gnb,
      loc_TAI_PLMN = GetPLMNIdentity E gnb, loc_TAI_TAC = GetTacInBytes gnb\<rparr>"

definition buildUplinkNasTransport ::
    "ext \<Rightarrow> int \<Rightarrow> int \<Rightarrow> byte list option \<Rightarrow> GNBContext \<Rightarrow> NGAPPDU" where
  "buildUplinkNasTransport E aId ranId nas gnb =
     mk_pdu PresentInitiatingMessage ProcUplinkNASTransport CritIgnore
       [mk_ie IEIDAMFUENGAPID CritReject (V_AMFUENGAPID aId),
        mk_ie IEIDRANUENGAPID CritReject (V_RANUENGAPID ranId),
        mk_ie IEIDNASPDU CritReject (V_NASPDU nas),
        mk_ie IEIDUserLocationInformation CritIgnore (V_UserLocationInformation (user_location E gnb))]"

definition SendUplinkNasTransport ::
    "ext \<Rightarrow> byte list option \<Rightarrow> GNBUe \<Rightarrow> GNBContext \<Rightarrow> byte list option" where
  "SendUplinkNasTransport E nas ue gnb =
     ngap_Encoder E (buildUplinkNasTransport E (amfUeNgapId ue) (ranUeNgapId ue) nas gnb)"

section \<open>PDU session management\<close>

definition GetPDUSessionResourceSetupResponseTransfer ::
    "ext \<Rightarrow> string \<Rightarrow> u32 \<Rightarrow> int \<Rightarrow> byte list" where
  "GetPDUSessionResourceSetupResponseTransfer E ipv4 teid qos =
     bytes_or_nil (aper_Marshal E (TransferSetupResponse
       \<lparr>srt_GTPTEID = be32_put teid, srt_Address = IPAddressToNgap E ipv4, srt_QosFlowIdentifiers = [qos]\<rparr>))"

definition setup_res_item :: "ext \<Rightarrow> GNBContext \<Rightarrow> GnbPDUSession \<Rightarrow> int \<times> byte list" where
  "setup_res_item E gnb s =
     (pduSessionId s,
      GetPDUSessionResourceSetupResponseTransfer E (data_gnbIp (dataInfo gnb)) (downlinkTeid s) (qosId s))"

definition PDUSessionResourceSetupResponse ::
    "ext \<Rightarrow> GnbPDUSession list \<Rightarrow> GNBUe \<Rightarrow> GNBContext \<Rightarrow> byte list option" where
  "PDUSessionResourceSetupResponse E ss ue gnb =
     ngap_Encoder E (mk_pdu PresentSuccessfulOutcome ProcPDUSessionResourceSetup CritReject
       [mk_ie IEIDAMFUENGAPID CritIgnore (V_AMFUENGAPID (amfUeNgapId ue)),
        mk_ie IEIDRANUENGAPID CritIgnore (V_RANUENGAPID (ranUeNgapId ue)),
        mk_ie IEIDPDUSessionResourceSetupListSURes CritIgnore
          (V_SetupListRes (map (setup_res_item E gnb) ss))])"

definition PDUSessionReleaseResponse :: "ext \<Rightarrow> int list \<Rightarrow> GNBUe \<Rightarrow> byte list option" where
  "PDUSessionReleaseResponse E ids ue =
     ngap_Encoder E (mk_pdu PresentSuccessfulOutcome ProcPDUSessionResourceRelease CritReject
       [mk_ie IEIDAMFUENGAPID CritIgnore (V_AMFUENGAPID (amfUeNgapId ue)),
        mk_ie IEIDRANUENGAPID CritIgnore (V_RANUENGAPID (ranUeNgapId ue)),
        mk_ie IEIDPDUSessionResourceReleasedListRelRes CritIgnore
          (V_ReleasedList (map (\<lambda>i. (i, [0])) ids))])"

section \<open>UE context management\<close>

definition InitialContextSetupResponse ::
    "ext \<Rightarrow> GnbPDUSession list \<Rightarrow> GNBUe \<Rightarrow> GNBContext \<Rightarrow> byte list option" where
  "InitialContextSetupResponse E ss ue gnb =
     ngap_Encoder E (mk_pdu PresentSuccessfulOutcome ProcInitialContextSetup CritReject
       ([mk_ie IEIDAMFUENGAPID CritReject (V_AMFUENGAPID (amfUeNgapId ue)),
         mk_ie IEIDRANUENGAPID CritReject (V_RANUENGAPID (ranUeNgapId ue))]
        @ (if ss = [] then []
           else [mk_ie IEIDPDUSessionResourceSetupListCxtRes CritIgnore
                   (V_SetupListRes (map (setup_res_item E gnb) ss))])))"

definition UeContextReleaseComplete :: "ext \<Rightarrow> GNBUe \<Rightarrow> byte list option" where
  "UeContextReleaseComplete E ue =
     ngap_Encoder E (mk_pdu PresentSuccessfulOutcome ProcUEContextRelease CritReject
       [mk_ie IEIDAMFUENGAPID CritIgnore (V_AMFUENGAPID (amfUeNgapId ue)),
        mk_ie IEIDRANUENGAPID CritIgnore (V_RANUENGAPID (ranUeNgapId ue))])"

definition UeContextReleaseRequest :: "ext \<Rightarrow> GnbPDUSession list \<Rightarrow> GNBUe \<Rightarrow> byte list option" where
  "UeContextReleaseRequest E ss ue =
     ngap_Encoder E (mk_pdu PresentInitiatingMessage ProcUEContextReleaseRequest CritReject
       ([mk_ie IEIDAMFUENGAPID CritReject (V_AMFUENGAPID (amfUeNgapId ue)),
         mk_ie IEIDRANUENGAPID CritReject (V_RANUENGAPID (ranUeNgapId ue))]
        @ (if length ss > 0
           then [mk_ie IEIDPDUSessionResourceListCxtRelReq CritReject (V_SessionIds (map pduSessionId ss))]
           else [])
        @ [mk_ie IEIDCause CritIgnore (V_Cause (RadioNetwork RN_UserInactivity))]))"

section \<open>UE mobility management\<close>

definition HandoverNotify :: "ext \<Rightarrow> GNBContext \<Rightarrow> GNBUe \<Rightarrow> byte list option" where
  "HandoverNotify E gnb ue =
     ngap_Encoder E (mk_pdu PresentInitiatingMessage ProcHandoverNotification CritReject
       [mk_ie IEIDAMFUENGAPID CritReject (V_AMFUENGAPID (amfUeNgapId ue)),
        mk_ie IEIDRANUENGAPID CritReject (V_RANUENGAPID (ranUeNgapId ue)),
        mk_ie IEIDUserLocationInformation CritIgnore (V_UserLocationInformation (user_location E gnb))])"

definition GetHandoverRequestAcknowledgeTransfer ::
    "ext \<Rightarrow> GNBContext \<Rightarrow> GnbPDUSession \<Rightarrow> byte list res" where
  "GetHandoverRequestAcknowledgeTransfer E gnb s =
     or_fatal ''aper MarshalWithParams error in GetHandoverRequestAcknowledgeTransfer''
       (aper_Marshal E (TransferHandoverRequestAck
          \<lparr>srt_GTPTEID = be32_put (downlinkTeid s),
           srt_Address = IPAddressToNgap E (data_gnbIp (dataInfo gnb)), srt_QosFlowIdentifiers = [1]\<rparr>))"

definition admitted_item ::
    "ext \<Rightarrow> GNBContext \<Rightarrow> GnbPDUSession \<Rightarrow> (int \<times> byte list) list \<Rightarrow> (int \<times> byte list) list res" where
  "admitted_item E gnb s acc =
     bindR (GetHandoverRequestAcknowledgeTransfer E gnb s) (\<lambda>b. Ret (acc @ [(pduSessionId s, b)]))"

definition HandoverRequestAcknowledge ::
    "ext \<Rightarrow> GNBContext \<Rightarrow> GnbPDUSession list \<Rightarrow> GNBUe \<Rightarrow> byte list option res" where
  "HandoverRequestAcknowledge E gnb ss ue =
     bindR (foldR (admitted_item E gnb) ss []) (\<lambda>items.
     bindR (or_fatal ''aper MarshalWithParams error in GetTargetToSourceTransparentTransfer''
              (aper_Marshal E (TransferTargetToSource [0x00, 0x00, 0x11]))) (\<lambda>container.
       Ret (ngap_Encoder E (mk_pdu PresentSuccessfulOutcome ProcHandoverResourceAllocation CritReject
         ([mk_ie IEIDAMFUENGAPID CritReject (V_AMFUENGAPID (amfUeNgapId ue)),
           mk_ie IEIDRANUENGAPID CritReject (V_RANUENGAPID (ranUeNgapId ue))]
          @ (if items = [] then []
             else [mk_ie IEIDPDUSessionResourceAdmittedList CritIgnore (V_AdmittedList items)])
          @ [mk_ie IEIDTargetToSourceTransparentContainer CritReject (V_Container container)])))))"

definition buildSourceToTargetTransparentTransfer ::
    "ext \<Rightarrow> GNBContext \<Rightarrow> GNBContext \<Rightarrow> GnbPDUSession list \<Rightarrow> int \<Rightarrow> SourceToTargetTransfer" where
  "buildSourceToTargetTransparentTransfer E source target ss prUeId =
     \<lparr>stt_RRCContainer = [0x00, 0x00, 0x11], stt_IndexToRFSP = Some prUeId,
      stt_SessionInfo = (if ss = [] then None else Some (map (\<lambda>s. (pduSessionId s, [1])) ss)),
      stt_Target_PLMN = GetPLMNIdentity E target, stt_Target_Cell = GetNRCellIdentity target,
      stt_LastVisited_PLMN = GetPLMNIdentity E source, stt_LastVisited_Cell = GetNRCellIdentity source,
      stt_TimeUEStayedInCell = 10\<rparr>"

definition HandoverRequired ::
    "ext \<Rightarrow> GNBContext \<Rightarrow> GNBContext \<Rightarrow> GnbPDUSession list \<Rightarrow> GNBUe \<Rightarrow> byte list option res" where
  "HandoverRequired E source target ss ue =
     bindR (or_fatal ''aper MarshalWithParams error in GetSourceToTargetTransparentTransfer''
              (aper_Marshal E (TransferSourceToTarget
                 (buildSourceToTargetTransparentTransfer E source target ss (pRueId ue))))) (\<lambda>container.
       Ret (ngap_Encoder E (mk_pdu PresentInitiatingMessage ProcHandoverPreparation CritReject
         ([mk_ie IEIDAMFUENGAPID CritReject (V_AMFUENGAPID (amfUeNgapId ue)),
           mk_ie IEIDRANUENGAPID CritReject (V_RANUENGAPID (ranUeNgapId ue)),
           mk_ie IEIDHandoverType CritReject V_HandoverType_Intra5gs,
           mk_ie IEIDCause CritIgnore (V_Cause (RadioNetwork RN_HandoverDesirableForRadioReason))]
          @ (if ss = [] then []
             else [mk_ie IEIDPDUSessionResourceListHORqd CritReject
                     (V_HORqdList (map (\<lambda>s. (pduSessionId s,
                        bytes_or_nil (aper_Marshal E TransferHandoverRequired))) ss))])
          @ [mk_ie IEIDTargetID CritReject (V_TargetID (GetPLMNIdentity E target)
               \<lparr>bs_Bytes = Some (GetGnbIdInBytes target),
                bs_BitLength = length (GetGnbIdInBytes target) * 8\<rparr>
               (GetPLMNIdentity E target) (GetTacInBytes target)),
             mk_ie IEIDSourceToTargetTransparentContainer CritReject (V_Container container)]))))"

definition PathSwitchRequest ::
    "ext \<Rightarrow> GNBContext \<Rightarrow> GnbPDUSession list \<Rightarrow> GNBUe \<Rightarrow> byte list option" where
  "PathSwitchRequest E gnb ss ue =
     ngap_Encoder E (mk_pdu PresentInitiatingMessage ProcPathSwitchRequest CritReject
       ([mk_ie IEIDSourceAMFUENGAPID CritReject (V_SourceAMFUENGAPID (amfUeNgapId ue)),
         mk_ie IEIDRANUENGAPID CritReject (V_RANUENGAPID (ranUeNgapId ue))]
        @ (if ss = [] then []
           else [mk_ie IEIDPDUSessionResourceToBeSwitchedDLList CritReject
             (V_SwitchedDLList (map (\<lambda>s. (pduSessionId s,
                bytes_or_nil (aper_Marshal E (TransferPathSwitchRequest
                  \<lparr>srt_GTPTEID = be32_put (downlinkTeid s),
                   srt_Address = IPAddressToNgap E (data_gnbIp (dataInfo gnb)),
                   srt_QosFlowIdentifiers = [qosId s]\<rparr>)))) ss))])
        @ [mk_ie IEIDUserLocationInformation CritIgnore (V_UserLocationInformation (user_location E gnb)),
           mk_ie IEIDUESecurityCapabilities CritIgnore
             (V_UESecurityCapabilities (ueSecurityCapabilities (ue_context ue)))]))"

end
