(* ===== verification/GnbTrigger.thy ===== *)
theory GnbTrigger
  imports GnbBuilders
begin

text \<open>
  What the gNodeB sends: to a UE over its channel (\<open>gnb/nas/message/sender\<close>), to an
  AMF over SCTP (\<open>gnb/ngap/message/sender\<close>, \<open>gnb/ngap/trigger\<close>), and the
  set-up of an SCTP association (\<open>gnb/ngap/service.go\<close>). A send on a channel is
  recorded when it happens; the channels hold one message, and the time a sender may wait
  for room is not modelled.
\<close>

section \<open>Senders\<close>

text \<open>Without a channel, or after it was closed, nothing is sent.\<close>

definition SendMessageToUe :: "ue_ref \<Rightarrow> UEMessage \<Rightarrow> unit M" where
  "SendMessageToUe ue message =
     bindM (getsM (\<lambda>w. gnbTx (ueH w ue))) (\<lambda>tx.
       case tx of None \<Rightarrow> skipM | Some c \<Rightarrow> sendCh c message)"

definition SendToUe :: "ue_ref \<Rightarrow> byte list option \<Rightarrow> unit M" where
  "SendToUe ue message =
     bindM (getsM (\<lambda>w. gnbTx (ueH w ue))) (\<lambda>tx.
       case tx of
         None \<Rightarrow> skipM
       | Some c \<Rightarrow> sendCh c (zero_msg\<lparr>IsNas := True, Nas := message\<rparr>))"

text \<open>
  \<open>SendToAmF\<close> writes on the association; the method call on a nil connection panics.
  The result is the error.
\<close>

definition SendToAmF :: "ext \<Rightarrow> byte list option \<Rightarrow> conn option \<Rightarrow> (string option) M" where
  "SendToAmF E message c =
     (case c of
        None \<Rightarrow> panicM NilDeref
      | Some k \<Rightarrow> (\<lambda>w.
          if sctp_Write E (events w) k (bytes_or_nil message)
          then Ret (None, emit (SctpWrite k (bytes_or_nil message)) w)
          else Ret (Some ''Error sending NGAP message '', w)))"

text \<open>The two ways the triggers treat an error.\<close>

definition fatal_if :: "string \<Rightarrow> string option \<Rightarrow> unit M" where
  "fatal_if e r = (case r of None \<Rightarrow> skipM | Some _ \<Rightarrow> fatalM e)"

definition send_or_fatal :: "ext \<Rightarrow> string \<Rightarrow> byte list option \<Rightarrow> conn option \<Rightarrow> unit M" where
  "send_or_fatal E e m c = bindM (SendToAmF E m c) (fatal_if e)"

definition encode_or_fatal :: "string \<Rightarrow> byte list option \<Rightarrow> (byte list option) M" where
  "encode_or_fatal e m = (case m of None \<Rightarrow> fatalM e | Some b \<Rightarrow> retM (Some b))"

section \<open>trigger.go\<close>

definition sessions_of :: "ue_ref \<Rightarrow> world \<Rightarrow> GnbPDUSession list" where
  "sessions_of ue w = live_sessions (sessH w) (pduSession (ue_context (ueH w ue)))"

definition ue_conn :: "ue_ref \<Rightarrow> (conn option) M" where
  "ue_conn ue = getsM (\<lambda>w. sctpConnection (ueH w ue))"

definition SendPduSessionResourceSetupResponse ::
    "ext \<Rightarrow> sess_ref list \<Rightarrow> ue_ref \<Rightarrow> gnb_ref \<Rightarrow> unit M" where
  "SendPduSessionResourceSetupResponse E ps ue gnb =
     bindM (getsM (\<lambda>w. PDUSessionResourceSetupResponse E (map (sessH w) ps) (ueH w ue) (gnbH w gnb))) (\<lambda>m.
     bindM (encode_or_fatal ''Error sending PDU Session Resource Setup Response'' m) (\<lambda>ngapMsg.
     thenM (SetUeState ue Ready)
     (bindM (ue_conn ue) (\<lambda>c.
        send_or_fatal E ''Error sending PDU Session Resource Setup Response.'' ngapMsg c))))"

definition SendPduSessionReleaseResponse :: "ext \<Rightarrow> int list \<Rightarrow> ue_ref \<Rightarrow> unit M" where
  "SendPduSessionReleaseResponse E ids ue =
     (if length ids = 0 then fatalM ''Trying to send a PDU Session Release Reponse for no PDU Session''
      else
        bindM (getsM (\<lambda>w. PDUSessionReleaseResponse E ids (ueH w ue))) (\<lambda>m.
        bindM (encode_or_fatal ''Error sending PDU Session Release Response.'' m) (\<lambda>ngapMsg.
        bindM (ue_conn ue) (\<lambda>c.
          send_or_fatal E ''Error sending PDU Session Release Response.'' ngapMsg c))))"

definition SendInitialContextSetupResponse :: "ext \<Rightarrow> ue_ref \<Rightarrow> gnb_ref \<Rightarrow> unit M" where
  "SendInitialContextSetupResponse E ue gnb =
     bindM (getsM (\<lambda>w. InitialContextSetupResponse E (sessions_of ue w) (ueH w ue) (gnbH w gnb))) (\<lambda>m.
     bindM (encode_or_fatal ''Error sending Initial Context Setup Response'' m) (\<lambda>ngapMsg.
     bindM (ue_conn ue) (\<lambda>c.
       send_or_fatal E ''Error sending Initial Context Setup Response'' ngapMsg c)))"

definition SendUeContextReleaseRequest :: "ext \<Rightarrow> ue_ref \<Rightarrow> unit M" where
  "SendUeContextReleaseRequest E ue =
     bindM (getsM (\<lambda>w. UeContextReleaseRequest E (sessions_of ue w) (ueH w ue))) (\<lambda>m.
     bindM (encode_or_fatal ''Error sending UE Context Release Request'' m) (\<lambda>ngapMsg.
     bindM (ue_conn ue) (\<lambda>c. send_or_fatal E ''Error sending UE Context Release Request'' ngapMsg c)))"

definition SendUeContextReleaseComplete :: "ext \<Rightarrow> ue_ref \<Rightarrow> unit M" where
  "SendUeContextReleaseComplete E ue =
     bindM (getsM (\<lambda>w. UeContextReleaseComplete E (ueH w ue))) (\<lambda>m.
     bindM (encode_or_fatal ''Error sending UE Context Complete'' m) (\<lambda>ngapMsg.
     bindM (ue_conn ue) (\<lambda>c. send_or_fatal E ''Error sending UE Context Complete'' ngapMsg c)))"

text \<open>
  The next two only log errors; after an encoding error the nil message is still written.
\<close>

definition SendAmfConfigurationUpdateAcknowledge :: "ext \<Rightarrow> amf_ref \<Rightarrow> unit M" where
  "SendAmfConfigurationUpdateAcknowledge E amf =
     bindM (getsM (\<lambda>w. sctpConn (tnla (amfH w amf)))) (\<lambda>c.
     bindM (SendToAmF E (AmfConfigurationUpdateAcknowledge E) c) (\<lambda>_. skipM))"

definition SendNgSetupRequest :: "ext \<Rightarrow> gnb_ref \<Rightarrow> amf_ref \<Rightarrow> unit M" where
  "SendNgSetupRequest E gnb amf =
     bindM (\<lambda>w. liftR (NGSetupRequest E (gnbH w gnb) ''PacketRusher'') w) (\<lambda>ngapMsg.
     bindM (getsM (\<lambda>w. sctpConn (tnla (amfH w amf)))) (\<lambda>c.
     bindM (SendToAmF E ngapMsg c) (\<lambda>_. skipM)))"

definition SendPathSwitchRequest :: "ext \<Rightarrow> gnb_ref \<Rightarrow> ue_ref \<Rightarrow> unit M" where
  "SendPathSwitchRequest E gnb ue =
     bindM (getsM (\<lambda>w. PathSwitchRequest E (gnbH w gnb) (sessions_of ue w) (ueH w ue))) (\<lambda>ngapMsg.
     bindM (ue_conn ue) (\<lambda>c. send_or_fatal E ''Error sending Path Switch Request'' ngapMsg c))"

definition SendHandoverRequestAcknowledge :: "ext \<Rightarrow> gnb_ref \<Rightarrow> ue_ref \<Rightarrow> unit M" where
  "SendHandoverRequestAcknowledge E gnb ue =
     bindM (\<lambda>w. liftR (HandoverRequestAcknowledge E (gnbH w gnb) (sessions_of ue w) (ueH w ue)) w) (\<lambda>ngapMsg.
     bindM (ue_conn ue) (\<lambda>c. send_or_fatal E ''Error sending Handover Request Acknowledge'' ngapMsg c))"

definition SendHandoverNotify :: "ext \<Rightarrow> gnb_ref \<Rightarrow> ue_ref \<Rightarrow> unit M" where
  "SendHandoverNotify E gnb ue =
     bindM (getsM (\<lambda>w. HandoverNotify E (gnbH w gnb) (ueH w ue))) (\<lambda>ngapMsg.
     bindM (ue_conn ue) (\<lambda>c. send_or_fatal E ''Error sending Handover Notify'' ngapMsg c))"

definition inbound :: "gnb_ref \<Rightarrow> world \<Rightarrow> chan" where
  "inbound g w = inboundChannel (controlInfo (gnbH w g))"

text \<open>An error of the pool lookup ends the process.\<close>

definition ue_or_fatal :: "string \<Rightarrow> (world \<Rightarrow> string + ue_ref) \<Rightarrow> ue_ref M" where
  "ue_or_fatal e f = bindM (getsM f) (\<lambda>r. case r of Inl _ \<Rightarrow> fatalM e | Inr u \<Rightarrow> retM u)"

definition TriggerXnHandover :: "gnb_ref \<Rightarrow> gnb_ref \<Rightarrow> int \<Rightarrow> unit M" where
  "TriggerXnHandover oldG newG prUeId =
     bindM (ue_or_fatal ''Error getting UE from PR UE ID'' (GetGnbUeByPrUeId oldG prUeId)) (\<lambda>ue.
     bindM makeCh (\<lambda>newGnbRx. bindM makeCh (\<lambda>newGnbTx.
     bindM (getsM (\<lambda>w. (inbound newG w, pRueId (ueH w ue)))) (\<lambda>(ch, pr).
     thenM (sendCh ch (zero_msg\<lparr>GNBRx := Some newGnbRx, GNBTx := Some newGnbTx, PrUeId := pr,
                                UEContext := Some ue, IsHandover := True\<rparr>))
     (SendMessageToUe ue (zero_msg\<lparr>GNBRx := Some newGnbRx, GNBTx := Some newGnbTx,
                                   GNBInboundChannel := Some ch\<rparr>))))))"

definition TriggerNgapHandover :: "ext \<Rightarrow> gnb_ref \<Rightarrow> gnb_ref \<Rightarrow> int \<Rightarrow> unit M" where
  "TriggerNgapHandover E oldG newG prUeId =
     bindM (ue_or_fatal ''Error getting UE from PR UE ID'' (GetGnbUeByPrUeId oldG prUeId)) (\<lambda>ue.
     thenM (modM (upd_ue ue (\<lambda>x. x\<lparr>newGnb := Some newG\<rparr>)))
     (bindM (\<lambda>w. liftR (HandoverRequired E (gnbH w oldG) (gnbH w newG) (sessions_of ue w) (ueH w ue)) w) (\<lambda>ngapMsg.
      bindM (ue_conn ue) (\<lambda>c. send_or_fatal E ''Error sending Handover Required'' ngapMsg c))))"

section \<open>service.go: the association with an AMF\<close>

definition set_sctp_conn :: "conn option \<Rightarrow> GNBAmf \<Rightarrow> GNBAmf" where
  "set_sctp_conn c a = a\<lparr>tnla := (tnla a)\<lparr>sctpConn := c\<rparr>\<rparr>"

definition InitConn :: "ext \<Rightarrow> amf_ref \<Rightarrow> gnb_ref \<Rightarrow> (string option) M" where
  "InitConn E amf gnb =
     bindM (getsM (\<lambda>w. (amfIp (amfH w amf) @ '':'' @ show_int (amfPort (amfH w amf)),
                        gnbIp (controlInfo (gnbH w gnb)) @ '':'' @
                          show_int (gnbPort (controlInfo (gnbH w gnb)) + connCount w)))) (\<lambda>(remote, lcl).
     thenM (modM (\<lambda>w. w\<lparr>connCount := connCount w + 1\<rparr>))
     (if \<not> sctp_Resolve E remote then retM (Some ''resolve remote'')
      else if \<not> sctp_Resolve E lcl then retM (Some ''resolve local'')
      else bindM (getsM (\<lambda>w. sctp_Dial E (events w) lcl remote)) (\<lambda>d.
        case d of
          None \<Rightarrow> thenM (modM (upd_amf amf (set_sctp_conn None))) (retM (Some ''dial''))
        | Some c \<Rightarrow>
            thenM (modM (upd_amf amf (set_sctp_conn (Some c))))
            (thenM (modM (upd_gnb gnb (\<lambda>g. g\<lparr>controlInfo := (controlInfo g)\<lparr>n2 := Some c\<rparr>\<rparr>)))
             (retM None)))))"

section \<open>The invariant of the gNodeB\<close>

lemma wf_SendMessageToUe [wf_pres]: "preserves (gnb_wf g) (SendMessageToUe u m)"
  unfolding SendMessageToUe_def by (intro pres_intros wf_pres)

lemma wf_SendToUe [wf_pres]: "preserves (gnb_wf g) (SendToUe u m)"
  unfolding SendToUe_def by (intro pres_intros wf_pres)

lemma wf_SendToAmF [wf_pres]: "preserves (gnb_wf g) (SendToAmF E m c)"
  by (rule preservesI) (auto simp: SendToAmF_def split: option.splits if_splits)

lemma wf_fatal_if [wf_pres]: "preserves I (fatal_if e r)"
  unfolding fatal_if_def by (intro pres_intros)

lemma wf_encode_or_fatal [wf_pres]: "preserves I (encode_or_fatal e m)"
  unfolding encode_or_fatal_def by (intro pres_intros)

lemma wf_send_or_fatal [wf_pres]: "preserves (gnb_wf g) (send_or_fatal E e m c)"
  unfolding send_or_fatal_def by (intro pres_intros wf_pres)

lemma wf_ue_conn [wf_pres]: "preserves I (ue_conn u)"
  unfolding ue_conn_def by (intro pres_intros)

lemma wf_ue_or_fatal [wf_pres]: "preserves I (ue_or_fatal e f)"
  unfolding ue_or_fatal_def by (intro pres_intros)

lemma preserves_read [pres_intros]: "preserves I (\<lambda>w. liftR (f w) w)"
  by (rule preservesI) (auto simp: liftR_def bindR_Ret_iff)

lemma wf_SendPduSessionResourceSetupResponse [wf_pres]:
    "preserves (gnb_wf g) (SendPduSessionResourceSetupResponse E ps u g')"
  and wf_SendPduSessionReleaseResponse [wf_pres]:
    "preserves (gnb_wf g) (SendPduSessionReleaseResponse E ids u)"
  and wf_SendInitialContextSetupResponse [wf_pres]:
    "preserves (gnb_wf g) (SendInitialContextSetupResponse E u g')"
  and wf_SendUeContextReleaseRequest [wf_pres]: "preserves (gnb_wf g) (SendUeContextReleaseRequest E u)"
  and wf_SendUeContextReleaseComplete [wf_pres]: "preserves (gnb_wf g) (SendUeContextReleaseComplete E u)"
  and wf_SendAmfConfigurationUpdateAcknowledge [wf_pres]:
    "preserves (gnb_wf g) (SendAmfConfigurationUpdateAcknowledge E a)"
  and wf_SendNgSetupRequest [wf_pres]: "preserves (gnb_wf g) (SendNgSetupRequest E g' a)"
  and wf_SendPathSwitchRequest [wf_pres]: "preserves (gnb_wf g) (SendPathSwitchRequest E g' u)"
  and wf_SendHandoverRequestAcknowledge [wf_pres]:
    "preserves (gnb_wf g) (SendHandoverRequestAcknowledge E g' u)"
  and wf_SendHandoverNotify [wf_pres]: "preserves (gnb_wf g) (SendHandoverNotify E g' u)"
  unfolding SendPduSessionResourceSetupResponse_def SendPduSessionReleaseResponse_def
    SendInitialContextSetupResponse_def SendUeContextReleaseRequest_def SendUeContextReleaseComplete_def
    SendAmfConfigurationUpdateAcknowledge_def SendNgSetupRequest_def SendPathSwitchRequest_def
    SendHandoverRequestAcknowledge_def SendHandoverNotify_def
  by (intro pres_intros wf_pres)+

lemma wf_set_newGnb: "preserves (gnb_wf g) (modM (upd_ue u (\<lambda>x. x\<lparr>newGnb := n\<rparr>)))"
  by (rule preserves_modM, rule gnb_wf_upd_ue) simp_all

lemma wf_set_conn: "preserves (gnb_wf g) (modM (upd_amf a (set_sctp_conn c)))"
proof (rule preserves_modM, rule gnb_wf_upd_amf)
  fix w
  assume "gnb_wf g w"
  then show "plmns_ok (set_sctp_conn c (amfH w a))" "slices_ok (set_sctp_conn c (amfH w a))"
    by (simp_all add: set_sctp_conn_def plmns_ok_def slices_ok_def gnb_wf_def lists_ok_def)
qed (simp_all add: set_sctp_conn_def)

lemma wf_set_n2: "preserves (gnb_wf g) (modM (upd_gnb g' (\<lambda>x. x\<lparr>controlInfo := (controlInfo x)\<lparr>n2 := c\<rparr>\<rparr>)))"
  by (rule preserves_modM, rule gnb_wf_upd_gnb) (simp_all add: pools_distinct_def)

lemma wf_connCount: "preserves (gnb_wf g) (modM (\<lambda>w. w\<lparr>connCount := f w\<rparr>))"
  by (rule preserves_modM) simp

lemma wf_InitConn [wf_pres]: "preserves (gnb_wf g) (InitConn E a g')"
  unfolding InitConn_def by (intro pres_intros wf_connCount wf_set_conn wf_set_n2)

lemma wf_TriggerXnHandover [wf_pres]: "preserves (gnb_wf g) (TriggerXnHandover o' n pr)"
  unfolding TriggerXnHandover_def by (intro pres_intros wf_pres)

lemma wf_TriggerNgapHandover [wf_pres]: "preserves (gnb_wf g) (TriggerNgapHandover E o' n pr)"
  unfolding TriggerNgapHandover_def by (intro pres_intros wf_pres wf_set_newGnb)

end
