(* ===== verification/GnbNgap.thy ===== *)
theory GnbNgap
  imports GnbTrigger
begin

text \<open>
  The NGAP handlers of the gNodeB (\<open>gnb/ngap/handler.go\<close>) and their dispatch
  (\<open>gnb/ngap/dispatcher.go\<close>). Each handler reads the IEs of the message in order
  into its local variables, then acts on the contexts. A missing mandatory IE is
  \<open>log.Fatal\<close> or a nil dereference, as in the code. A handler runs to its end: the
  goroutines that run handlers side by side are not interleaved.
\<close>

section \<open>Reading IEs\<close>

definition mandatory :: "string \<Rightarrow> 'a option \<Rightarrow> ('a \<Rightarrow> 'b res) \<Rightarrow> 'b res" where
  "mandatory e p f = (case p of None \<Rightarrow> Fatal e | Some x \<Rightarrow> f x)"

definition pointer_read :: "'a option \<Rightarrow> ('a \<Rightarrow> 'b res) \<Rightarrow> 'b res" where
  "pointer_read p f = (case p of None \<Rightarrow> Panic NilDeref | Some x \<Rightarrow> f x)"

text \<open>\<open>fmt.Sprintf("%x", v)\<close> on a byte slice; nil prints as nothing.\<close>

definition hex_opt :: "byte list option \<Rightarrow> string" where
  "hex_opt b = hex_of (bytes_or_nil b)"

definition hex_or :: "string \<Rightarrow> byte list option \<Rightarrow> string" where
  "hex_or s b = (case b of None \<Rightarrow> s | Some x \<Rightarrow> hex_of x)"

text \<open>
  The identifier pair every UE-associated message carries; two handlers word the failure
  differently, which the outcome does not depend on.
\<close>

fun ids_ie :: "IE \<Rightarrow> int \<times> int \<Rightarrow> (int \<times> int) res" where
  "ids_ie (IE_AMFUENGAPID p) (a, r) = mandatory ''AMF UE NGAP ID is missing'' p (\<lambda>i. Ret (i, r))"
| "ids_ie (IE_RANUENGAPID p) (a, r) = mandatory ''RAN UE NGAP ID is missing'' p (\<lambda>i. Ret (a, i))"
| "ids_ie _ ar = Ret ar"

definition getUeFromContext :: "gnb_ref \<Rightarrow> int \<Rightarrow> int \<Rightarrow> (ue_ref option) M" where
  "getUeFromContext gnb ranId amfUeId =
     bindM (getsM (GetGnbUe gnb ranId)) (\<lambda>r.
       case r of
         Inl _ \<Rightarrow> retM None
       | Inr ue \<Rightarrow> thenM (SetAmfUeId ue amfUeId) (retM (Some ue)))"

definition with_ue :: "gnb_ref \<Rightarrow> int \<times> int \<Rightarrow> (ue_ref \<Rightarrow> unit M) \<Rightarrow> unit M" where
  "with_ue gnb ar f =
     bindM (getUeFromContext gnb (snd ar) (fst ar)) (\<lambda>r. case r of None \<Rightarrow> skipM | Some ue \<Rightarrow> f ue)"

section \<open>Downlink NAS Transport\<close>

fun downlink_ie :: "IE \<Rightarrow> (int \<times> int) \<times> NASPDU \<Rightarrow> ((int \<times> int) \<times> NASPDU) res" where
  "downlink_ie (IE_NASPDU p) (ar, nas) = mandatory ''NAS PDU is missing'' p (\<lambda>n. Ret (ar, n))"
| "downlink_ie ie (ar, nas) = bindR (ids_ie ie ar) (\<lambda>ar'. Ret (ar', nas))"

definition HandlerDownlinkNasTransport :: "gnb_ref \<Rightarrow> NGAPMsg \<Rightarrow> unit M" where
  "HandlerDownlinkNasTransport gnb message =
     bindM (liftR (foldR downlink_ie (msg_IEs message) ((0, 0), None))) (\<lambda>(ar, nas).
       with_ue gnb ar (\<lambda>ue. SendToUe ue nas))"

section \<open>Initial Context Setup Request\<close>

record ics_vars =
  ics_ids :: "int \<times> int"
  ics_nas :: NASPDU
  ics_sst :: "string list"
  ics_sd :: "string list"
  ics_mobility :: string
  ics_imeisv :: string
  ics_cap :: seccap_ptr
  ics_setup :: "setup_item list option"

definition ics_zero :: ics_vars where
  "ics_zero = \<lparr>ics_ids = (0, 0), ics_nas = None, ics_sst = [], ics_sd = [],
     ics_mobility = ''not informed'', ics_imeisv = [], ics_cap = None, ics_setup = None\<rparr>"

fun ics_ie :: "IE \<Rightarrow> ics_vars \<Rightarrow> ics_vars res" where
  "ics_ie (IE_NASPDU p) v = pointer_read p (\<lambda>n. Ret (v\<lparr>ics_nas := n\<rparr>))"
| "ics_ie (IE_SecurityKey p) v = mandatory ''Security-Key is missing'' p (\<lambda>_. Ret v)"
| "ics_ie (IE_GUAMI p) v = mandatory ''GUAMI is missing'' p (\<lambda>_. Ret v)"
| "ics_ie (IE_AllowedNSSAI p) v = mandatory ''Allowed NSSAI is missing'' p (\<lambda>l.
     Ret (v\<lparr>ics_sst := map (hex_or ''not informed'' \<circ> SST) l, ics_sd := map (hex_or ''not informed'' \<circ> SD) l\<rparr>))"
| "ics_ie (IE_MobilityRestrictionList p) v = Ret (v\<lparr>ics_mobility := hex_or ''not informed'' p\<rparr>)"
| "ics_ie (IE_MaskedIMEISV p) v = Ret (v\<lparr>ics_imeisv := hex_or ''not informed'' p\<rparr>)"
| "ics_ie (IE_UESecurityCapabilities p) v =
     mandatory ''UE Security Capabilities is missing'' p (\<lambda>c. Ret (v\<lparr>ics_cap := Some c\<rparr>))"
| "ics_ie (IE_PDUSessionResourceSetupListCxtReq p) v =
     mandatory ''PDUSessionResourceSetupListCxtReq is missing'' p (\<lambda>l. Ret (v\<lparr>ics_setup := Some l\<rparr>))"
| "ics_ie ie v = bindR (ids_ie ie (ics_ids v)) (\<lambda>ar. Ret (v\<lparr>ics_ids := ar\<rparr>))"

text \<open>
  The uplink tunnel of a setup transfer, the last of its IEs winning; without one the TEID is
  empty and its conversion to 32 bits panics.
\<close>

fun tunnel_ie :: "ext \<Rightarrow> transfer_ie \<Rightarrow> string \<times> byte list \<Rightarrow> (string \<times> byte list) res" where
  "tunnel_ie E (T_ULNGUUPTNLInformation p) v =
     pointer_read p (\<lambda>q. pointer_read q (\<lambda>t.
       Ret (IPAddressToString E (TransportLayerAddress t), GTPTEID t)))"
| "tunnel_ie E _ v = Ret v"

text \<open>
  One item of a setup list of an Initial Context Setup or a Handover Request: a session with
  default QoS; an undecodable transfer skips the item, a refused session is only logged. The
  result says whether the end of the loop body was reached.
\<close>

definition setup_session :: "ext \<Rightarrow> gnb_ref \<Rightarrow> ue_ref \<Rightarrow> setup_item \<Rightarrow> bool M" where
  "setup_session E gnb ue item =
     (let sst = hex_opt (SST (si_SNSSAI item));
          sd = hex_or ''not informed'' (SD (si_SNSSAI item)) in
      case aper_SetupRequestTransfer E (bytes_or_nil (si_Transfer item)) of
        None \<Rightarrow> retM False
      | Some ies \<Rightarrow>
          bindM (liftR (foldR (tunnel_ie E) ies ([], []))) (\<lambda>(upf, teidUplink).
          bindM (liftR (be32_get teidUplink)) (\<lambda>ul.
          bindM (GetUeTeid gnb ue) (\<lambda>dl.
          bindM (CreatePduSession ue (si_PDUSessionID item) upf sst sd 0 1 0 0 ul dl) (\<lambda>_. retM True)))))"

definition HandlerInitialContextSetupRequest :: "ext \<Rightarrow> gnb_ref \<Rightarrow> NGAPMsg \<Rightarrow> unit M" where
  "HandlerInitialContextSetupRequest E gnb message =
     bindM (liftR (foldR ics_ie (msg_IEs message) ics_zero)) (\<lambda>v.
     with_ue gnb (ics_ids v) (\<lambda>ue.
       thenM (CreateUeContext ue (ics_mobility v) (ics_imeisv v) (ics_sst v) (ics_sd v) (ics_cap v))
       (thenM (if ics_nas v \<noteq> None then SendToUe ue (ics_nas v) else skipM)
       (thenM (case ics_setup v of
            None \<Rightarrow> skipM
          | Some items \<Rightarrow>
              thenM (forM items (\<lambda>item.
                bindM (setup_session E gnb ue item) (\<lambda>ok.
                  if ok then (case si_NASPDU item of None \<Rightarrow> skipM | Some nas \<Rightarrow> SendToUe ue nas)
                  else skipM)))
              (bindM (GetPduSessions ue) (\<lambda>ps.
               bindM (getsM (\<lambda>w. data_gnbIp (dataInfo (gnbH w gnb)))) (\<lambda>ip.
                 SendMessageToUe ue (zero_msg\<lparr>GNBPduSessions := ps, GnbIp := ip\<rparr>)))))
       (SendInitialContextSetupResponse E ue gnb)))))"

section \<open>PDU Session Resource Setup Request\<close>

fun setup_req_ie :: "IE \<Rightarrow> (int \<times> int) \<times> setup_item list option \<Rightarrow>
    ((int \<times> int) \<times> setup_item list option) res" where
  "setup_req_ie (IE_PDUSessionResourceSetupListSUReq p) (ar, l) =
     mandatory ''PDU SESSION RESOURCE SETUP LIST SU REQ is missing'' p (\<lambda>l'. Ret (ar, Some l'))"
| "setup_req_ie ie (ar, l) = bindR (ids_ie ie ar) (\<lambda>ar'. Ret (ar', l))"

record psr_vars =
  psr_ulTeid :: u32
  psr_upf :: "byte list"
  psr_type :: u64
  psr_qosId :: int
  psr_fiveQi :: int
  psr_arp :: int

definition psr_zero :: psr_vars where
  "psr_zero = \<lparr>psr_ulTeid = 0, psr_upf = [], psr_type = 0, psr_qosId = 0, psr_fiveQi = 0, psr_arp = 0\<rparr>"

definition qos_item :: "QosFlow \<Rightarrow> psr_vars \<Rightarrow> psr_vars res" where
  "qos_item q v = pointer_read (NonDynamic5QI q) (\<lambda>f.
     Ret (v\<lparr>psr_qosId := QosFlowIdentifier q, psr_fiveQi := f, psr_arp := PriorityLevelARP q\<rparr>))"

fun psr_transfer_ie :: "transfer_ie \<Rightarrow> psr_vars \<Rightarrow> psr_vars res" where
  "psr_transfer_ie (T_ULNGUUPTNLInformation p) v =
     pointer_read p (\<lambda>q. pointer_read q (\<lambda>t. bindR (be32_get (GTPTEID t)) (\<lambda>ul.
       Ret (v\<lparr>psr_ulTeid := ul, psr_upf := bytes_or_nil (bs_Bytes (TransportLayerAddress t))\<rparr>))))"
| "psr_transfer_ie (T_QosFlowSetupRequestList p) v = pointer_read p (\<lambda>l. foldR qos_item l v)"
| "psr_transfer_ie (T_PDUSessionType p) v = pointer_read p (\<lambda>t. Ret (v\<lparr>psr_type := of_nat t\<rparr>))"
| "psr_transfer_ie _ v = Ret v"

definition dotted :: "byte list \<Rightarrow> string res" where
  "dotted b =
     bindR (idx b 0) (\<lambda>b0. bindR (idx b 1) (\<lambda>b1. bindR (idx b 2) (\<lambda>b2. bindR (idx b 3) (\<lambda>b3.
       Ret (show_nat (unat b0) @ ''.'' @ show_nat (unat b1) @ ''.'' @ show_nat (unat b2) @ ''.'' @
            show_nat (unat b3))))))"

text \<open>
  One item. A session that is refused leaves a nil pointer, whose identifier is then read for
  the log.
\<close>

definition psr_item :: "ext \<Rightarrow> gnb_ref \<Rightarrow> ue_ref \<Rightarrow> setup_item \<Rightarrow> sess_ref list \<Rightarrow> (sess_ref list) M" where
  "psr_item E gnb ue item configured =
     bindM (liftR (mandatory ''NAS PDU is missing'' (si_NASPDU item) Ret)) (\<lambda>messageNas.
     bindM (liftR (mandatory ''Pdu Session Resource Setup Request Transfer is missing'' (si_Transfer item) (\<lambda>b.
        case aper_SetupRequestTransfer E b of
          None \<Rightarrow> Ret psr_zero
        | Some ies \<Rightarrow> foldR psr_transfer_ie ies psr_zero))) (\<lambda>v.
     bindM (liftR (dotted (psr_upf v))) (\<lambda>upfIp.
     bindM (GetUeTeid gnb ue) (\<lambda>dl.
     bindM (CreatePduSession ue (si_PDUSessionID item) upfIp
              (hex_or ''not informed'' (SST (si_SNSSAI item)))
              (hex_or ''not informed'' (SD (si_SNSSAI item)))
              (psr_type v) (psr_qosId v) (psr_arp v) (psr_fiveQi v) (psr_ulTeid v) dl) (\<lambda>r.
     bindM (derefM (case r of Inl _ \<Rightarrow> None | Inr p \<Rightarrow> Some p)) (\<lambda>p.
     bindM (getsM (\<lambda>w. pduSessionId (sessH w p))) (\<lambda>sid.
     bindM (GetSelectedNssai ue sid) (\<lambda>_.
     thenM (SendToUe ue messageNas)
     (bindM (getsM (\<lambda>w. data_gnbIp (dataInfo (gnbH w gnb)))) (\<lambda>ip.
      thenM (SendMessageToUe ue (zero_msg\<lparr>GnbIp := ip, GNBPduSessions := no_sessions[0 := Some p]\<rparr>))
        (retM (configured @ [p]))))))))))))"

definition HandlerPduSessionResourceSetupRequest :: "ext \<Rightarrow> gnb_ref \<Rightarrow> NGAPMsg \<Rightarrow> unit M" where
  "HandlerPduSessionResourceSetupRequest E gnb message =
     bindM (liftR (foldR setup_req_ie (msg_IEs message) ((0, 0), None))) (\<lambda>(ar, l).
     with_ue gnb ar (\<lambda>ue.
       bindM (derefM l) (\<lambda>items.
       bindM (foldM items (psr_item E gnb ue) []) (\<lambda>configured.
         SendPduSessionResourceSetupResponse E configured ue gnb))))"

section \<open>PDU Session Resource Release Command\<close>

fun release_ie :: "IE \<Rightarrow> (int \<times> int) \<times> NASPDU \<times> int list \<Rightarrow> ((int \<times> int) \<times> NASPDU \<times> int list) res" where
  "release_ie (IE_NASPDU p) (ar, nas, ids) = pointer_read p (\<lambda>n. Ret (ar, n, ids))"
| "release_ie (IE_PDUSessionResourceToReleaseListRelCmd p) (ar, nas, ids) =
     mandatory ''PDU SESSION RESOURCE SETUP LIST SU REQ is missing'' p (\<lambda>l. Ret (ar, nas, ids @ l))"
| "release_ie ie (ar, nas, ids) = bindR (ids_ie ie ar) (\<lambda>ar'. Ret (ar', nas, ids))"

definition release_session :: "ue_ref \<Rightarrow> int \<Rightarrow> unit M" where
  "release_session ue sid =
     bindM (GetPduSession ue sid) (\<lambda>r.
       case r of
         Inl _ \<Rightarrow> skipM
       | Inr None \<Rightarrow> skipM
       | Inr (Some _) \<Rightarrow> bindM (DeletePduSession ue sid) (\<lambda>_. skipM))"

definition HandlerPduSessionReleaseCommand :: "ext \<Rightarrow> gnb_ref \<Rightarrow> NGAPMsg \<Rightarrow> unit M" where
  "HandlerPduSessionReleaseCommand E gnb message =
     bindM (liftR (foldR release_ie (msg_IEs message) ((0, 0), None, []))) (\<lambda>(ar, nas, ids).
     with_ue gnb ar (\<lambda>ue.
       thenM (forM ids (release_session ue))
       (thenM (SendPduSessionReleaseResponse E ids ue)
       (SendToUe ue nas))))"

section \<open>NG Setup Response and Failure\<close>

definition guami_bad :: "GUAMI \<Rightarrow> bool" where
  "guami_bad g \<longleftrightarrow> bs_Bytes (gu_AMFRegionID g) = None \<or> bs_Bytes (gu_AMFPointer g) = None \<or>
     bs_Bytes (gu_AMFSetID g) = None"

definition add_slice :: "SNSSAI \<Rightarrow> GNBAmf \<Rightarrow> GNBAmf res" where
  "add_slice s amf = AddedSlice (hex_or ''was not informed'' (SST s)) (hex_or ''was not informed'' (SD s)) amf"

definition plmn_support :: "plmn_item \<Rightarrow> bool \<times> GNBAmf \<Rightarrow> (bool \<times> GNBAmf) res" where
  "plmn_support it ea =
     (case ea of (err, amf) \<Rightarrow>
        bindR (AddedPlmn (hex_of (pi_PLMNIdentity it)) amf) (\<lambda>amf'.
          case pi_SliceSupportList it of
            None \<Rightarrow> Ret (True, amf')
          | Some l \<Rightarrow> bindR (foldR add_slice l amf') (\<lambda>amf''. Ret (err, amf''))))"

fun ngsetup_ie :: "IE \<Rightarrow> bool \<times> GNBAmf \<Rightarrow> (bool \<times> GNBAmf) res" where
  "ngsetup_ie (IE_AMFName p) (err, amf) =
     (case p of None \<Rightarrow> Ret (True, amf) | Some n \<Rightarrow> Ret (err, amf\<lparr>amf_name := n\<rparr>))"
| "ngsetup_ie (IE_ServedGUAMIList p) (err, amf) =
     pointer_read p (\<lambda>l. case l of None \<Rightarrow> Ret (True, amf) | Some gs \<Rightarrow> Ret (err \<or> list_ex guami_bad gs, amf))"
| "ngsetup_ie (IE_RelativeAMFCapacity p) (err, amf) =
     (case p of None \<Rightarrow> Ret (err, amf) | Some c \<Rightarrow> Ret (err, amf\<lparr>relativeAmfCapacity := c\<rparr>))"
| "ngsetup_ie (IE_PLMNSupportList p) (err, amf) = pointer_read p (\<lambda>l. foldR plmn_support l (err, amf))"
| "ngsetup_ie _ ea = Ret ea"

text \<open>The lists are read back for the log, up to the AMF's counters.\<close>

definition show_support :: "GNBAmf \<Rightarrow> unit res" where
  "show_support amf =
     bindR (foldR (\<lambda>i _. bindR (GetPlmnSupport (int i) amf) (\<lambda>_. Ret ())) [0..<nat (lenPlmn amf)] ())
       (\<lambda>_. foldR (\<lambda>i _. bindR (GetSliceSupport (int i) amf) (\<lambda>_. Ret ())) [0..<nat (lenSlice amf)] ())"

definition HandlerNgSetupResponse :: "amf_ref \<Rightarrow> NGAPMsg \<Rightarrow> unit M" where
  "HandlerNgSetupResponse a message =
     bindM (getsM (\<lambda>w. amfH w a)) (\<lambda>amf.
     bindM (liftR (foldR ngsetup_ie (msg_IEs message) (False, amf))) (\<lambda>(err, amf').
       if err then fatalM ''AMF is inactive''
       else
         thenM (modM (upd_amf a (\<lambda>_. amf'\<lparr>amf_st := Active\<rparr>)))
         (liftR (show_support amf'))))"

fun setup_failure_ie :: "IE \<Rightarrow> unit \<Rightarrow> unit res" where
  "setup_failure_ie (IE_TimeToWait p) _ = pointer_read p (\<lambda>_. Ret ())"
| "setup_failure_ie _ _ = Ret ()"

definition HandlerNgSetupFailure :: "amf_ref \<Rightarrow> NGAPMsg \<Rightarrow> unit M" where
  "HandlerNgSetupFailure a message =
     bindM (liftR (foldR setup_failure_ie (msg_IEs message) ())) (\<lambda>_.
       modM (upd_amf a (\<lambda>x. x\<lparr>amf_st := Inactive\<rparr>)))"

section \<open>UE Context Release Command\<close>

fun ctx_release_ie :: "IE \<Rightarrow> int option \<Rightarrow> int option res" where
  "ctx_release_ie (IE_UENGAPIDs p) _ = pointer_read p (\<lambda>q. pointer_read q (\<lambda>i. Ret (Some i)))"
| "ctx_release_ie _ v = Ret v"

definition HandlerUeContextReleaseCommand :: "ext \<Rightarrow> gnb_ref \<Rightarrow> NGAPMsg \<Rightarrow> unit M" where
  "HandlerUeContextReleaseCommand E gnb message =
     bindM (liftR (foldR ctx_release_ie (msg_IEs message) None)) (\<lambda>p.
     bindM (derefM p) (\<lambda>ranId.
     bindM (getsM (GetGnbUe gnb ranId)) (\<lambda>r.
       case r of
         Inl _ \<Rightarrow> skipM
       | Inr ue \<Rightarrow> thenM (DeleteGnBUe gnb ue) (SendUeContextReleaseComplete E ue))))"

end
