(* ===== verification/GnbDispatch.thy ===== *)
theory GnbDispatch
  imports GnbNgap
begin

text \<open>
  The handlers of \<open>gnb/ngap/handler.go\<close> that concern AMFs, mobility and paging, and the
  dispatch of a decoded message to its handler (\<open>gnb/ngap/dispatcher.go\<close>).
\<close>

section \<open>AMF Configuration Update\<close>

record acu_vars =
  acu_name :: string
  acu_capacity :: int
  acu_region :: BitString
  acu_set :: BitString
  acu_pointer :: BitString

definition acu_zero :: acu_vars where
  "acu_zero = \<lparr>acu_name = [], acu_capacity = 0, acu_region = zero_bits, acu_set = zero_bits,
     acu_pointer = zero_bits\<rparr>"

definition default_sctp_port :: int where
  "default_sctp_port = 38412"

text \<open>The IPv4 part of a TNL address; other lengths give the empty string.\<close>

definition endpoint_ip :: "ext \<Rightarrow> tnla_item \<Rightarrow> string M" where
  "endpoint_ip E it = bindM (derefM (ti_EndpointIPAddress it)) (\<lambda>b.
     retM (if bs_BitLength b = 32 \<or> bs_BitLength b = 160 then IPAddressToString E b else []))"

definition amf_pool :: "gnb_ref \<Rightarrow> world \<Rightarrow> (int, amf_ref) smap" where
  "amf_pool gnb w = amfPool (gnbH w gnb)"

text \<open>The name, capacity and identity collected so far go into an AMF context, then its TNLA data.\<close>

definition set_identity :: "acu_vars \<Rightarrow> GNBAmf \<Rightarrow> GNBAmf" where
  "set_identity v a = a\<lparr>amf_name := acu_name v, relativeAmfCapacity := acu_capacity v,
     regionId := acu_region v, setId := acu_set v, pointer := acu_pointer v\<rparr>"

definition set_tnla :: "amf_ref \<Rightarrow> tnla_item \<Rightarrow> unit M" where
  "set_tnla a it =
     bindM (derefM (ti_Usage it)) (\<lambda>u.
     thenM (modM (upd_amf a (\<lambda>x. x\<lparr>tnla := (tnla x)\<lparr>usage := u\<rparr>\<rparr>)))
     (bindM (derefM (ti_WeightFactor it)) (\<lambda>wf.
        modM (upd_amf a (\<lambda>x. x\<lparr>tnla := (tnla x)\<lparr>tnlaWeightFactor := wf\<rparr>\<rparr>)))))"

definition tnla_add :: "ext \<Rightarrow> gnb_ref \<Rightarrow> acu_vars \<Rightarrow> tnla_item \<Rightarrow> unit M" where
  "tnla_add E gnb v it =
     bindM (endpoint_ip E it) (\<lambda>ip.
     bindM (getsM (\<lambda>w. list_ex (\<lambda>(k, a). amfIp (amfH w a) = ip) (amf_order E (amf_pool gnb w)))) (\<lambda>existed.
       if existed then skipM
       else
         bindM (NewGnBAmf gnb ip default_sctp_port) (\<lambda>a.
         thenM (modM (upd_amf a (set_identity v)))
         (thenM (set_tnla a it)
         (bindM (InitConn E a gnb) (\<lambda>err.
            case err of Some _ \<Rightarrow> fatalM ''Error in'' | None \<Rightarrow> SendNgSetupRequest E gnb a))))))"

text \<open>
  The pool walks of the remove and update lists: the first matching AMF is acted on. The
  remove list closes the association of \<open>amf\<close>, the AMF that sent the update.
\<close>

definition matches_endpoint :: "string \<Rightarrow> amf_ref \<Rightarrow> world \<Rightarrow> bool" where
  "matches_endpoint ip a w \<longleftrightarrow> amfIp (amfH w a) = ip \<and> amfPort (amfH w a) = default_sctp_port"

definition tnla_remove :: "ext \<Rightarrow> amf_ref \<Rightarrow> gnb_ref \<Rightarrow> tnla_item \<Rightarrow> unit M" where
  "tnla_remove E amf gnb it =
     bindM (endpoint_ip E it) (\<lambda>ip.
     bindM (getsM (\<lambda>w. amf_order E (amf_pool gnb w))) (\<lambda>entries.
       rangeM entries (\<lambda>(k, oldAmf).
         bindM (getsM (matches_endpoint ip oldAmf)) (\<lambda>m.
           if m then
             thenM (modM (\<lambda>w. emit (SctpClose (sctpConn (tnla (amfH w amf)))) w))
             (thenM (deleteGnBAmf gnb k) (retM False))
           else retM True))))"

definition tnla_update :: "ext \<Rightarrow> gnb_ref \<Rightarrow> acu_vars \<Rightarrow> tnla_item \<Rightarrow> unit M" where
  "tnla_update E gnb v it =
     bindM (endpoint_ip E it) (\<lambda>ip.
     bindM (getsM (\<lambda>w. amf_order E (amf_pool gnb w))) (\<lambda>entries.
       rangeM entries (\<lambda>(k, oldAmf).
         bindM (getsM (matches_endpoint ip oldAmf)) (\<lambda>m.
           if m then
             thenM (modM (upd_amf oldAmf (set_identity v)))
             (thenM (set_tnla oldAmf it) (retM False))
           else retM True))))"

fun acu_ie :: "ext \<Rightarrow> amf_ref \<Rightarrow> gnb_ref \<Rightarrow> IE \<Rightarrow> acu_vars \<Rightarrow> acu_vars M" where
  "acu_ie E amf gnb (IE_AMFName p) v = bindM (derefM p) (\<lambda>n. retM (v\<lparr>acu_name := n\<rparr>))"
| "acu_ie E amf gnb (IE_ServedGUAMIList p) v = bindM (derefM p) (\<lambda>l.
     retM (foldl (\<lambda>v g. v\<lparr>acu_region := gu_AMFRegionID g, acu_set := gu_AMFSetID g,
                          acu_pointer := gu_AMFPointer g\<rparr>)
             v (case l of None \<Rightarrow> [] | Some gs \<Rightarrow> gs)))"
| "acu_ie E amf gnb (IE_RelativeAMFCapacity p) v = bindM (derefM p) (\<lambda>c. retM (v\<lparr>acu_capacity := c\<rparr>))"
| "acu_ie E amf gnb (IE_AMFTNLAssociationToAddList p) v =
     bindM (derefM p) (\<lambda>l. thenM (forM l (tnla_add E gnb v)) (retM v))"
| "acu_ie E amf gnb (IE_AMFTNLAssociationToRemoveList p) v =
     bindM (derefM p) (\<lambda>l. thenM (forM l (tnla_remove E amf gnb)) (retM v))"
| "acu_ie E amf gnb (IE_AMFTNLAssociationToUpdateList p) v =
     bindM (derefM p) (\<lambda>l. thenM (forM l (tnla_update E gnb v)) (retM v))"
| "acu_ie E amf gnb _ v = retM v"

definition HandlerAmfConfigurationUpdate :: "ext \<Rightarrow> amf_ref \<Rightarrow> gnb_ref \<Rightarrow> NGAPMsg \<Rightarrow> unit M" where
  "HandlerAmfConfigurationUpdate E amf gnb message =
     bindM (foldM (msg_IEs message) (acu_ie E amf gnb) acu_zero) (\<lambda>_.
       SendAmfConfigurationUpdateAcknowledge E amf)"

section \<open>AMF Status Indication\<close>

text \<open>The PLMN of an unavailable GUAMI, decoded in place.\<close>

definition guami_plmn :: "byte list \<Rightarrow> (string \<times> string) res" where
  "guami_plmn octetStr =
     bindR (idx octetStr 0) (\<lambda>o0. bindR (idx octetStr 1) (\<lambda>o1. bindR (idx octetStr 2) (\<lambda>o2.
       let h = hex_of [o0, o1, o2] in
       Ret ([h ! 1, h ! 0, h ! 3],
            if h ! 2 \<noteq> CHR ''f'' then [h ! 2, h ! 5, h ! 4] else [h ! 5, h ! 4]))))"

text \<open>The first AMF in visiting order that has the backup's name.\<close>

definition select_backup :: "ext \<Rightarrow> gnb_ref \<Rightarrow> string option \<Rightarrow> world \<Rightarrow> amf_ref option" where
  "select_backup E gnb name w =
     map_option snd (find (\<lambda>(k, a). name \<noteq> None \<and> Some (amf_name (amfH w a)) = name)
       (amf_order E (amf_pool gnb w)))"

definition rebind_ue :: "amf_ref \<Rightarrow> amf_ref \<Rightarrow> ue_ref \<Rightarrow> unit M" where
  "rebind_ue oldAmf backup ue = modM (\<lambda>w.
     if ue_amfId (ueH w ue) = amfId (amfH w oldAmf)
     then upd_ue ue (\<lambda>x. x\<lparr>ue_amfId := amfId (amfH w backup),
                            sctpConnection := sctpConn (tnla (amfH w backup))\<rparr>) w
     else w)"

definition rebind_all :: "ext \<Rightarrow> gnb_ref \<Rightarrow> amf_ref \<Rightarrow> amf_ref \<Rightarrow> unit M" where
  "rebind_all E gnb oldAmf backup =
     thenM (bindM (getsM (\<lambda>w. ue_order E (uePool (gnbH w gnb)))) (\<lambda>es. forM es (\<lambda>(k, u). rebind_ue oldAmf backup u)))
     (bindM (getsM (\<lambda>w. ue_order E (prUePool (gnbH w gnb)))) (\<lambda>es. forM es (\<lambda>(k, u). rebind_ue oldAmf backup u)))"

text \<open>
  Whether one of an AMF's PLMNs is the unavailable one and its identity the GUAMI's; the
  loop reads the list up to the AMF's counter and stops at a match.
\<close>

fun supports_guami :: "GNBAmf \<Rightarrow> string \<times> string \<Rightarrow> GUAMI \<Rightarrow> nat list \<Rightarrow> bool res" where
  "supports_guami a p g [] = Ret False"
| "supports_guami a p g (j # js) =
     bindR (GetPlmnSupport (int j) a) (\<lambda>q.
       if q = p \<and> regionId a = gu_AMFRegionID g \<and> setId a = gu_AMFSetID g \<and> pointer a = gu_AMFPointer g
       then Ret True else supports_guami a p g js)"

definition status_item :: "ext \<Rightarrow> gnb_ref \<Rightarrow> unavailable_guami \<Rightarrow> bool M" where
  "status_item E gnb it =
     bindM (liftR (guami_plmn (gu_PLMNIdentity (ug_GUAMI it)))) (\<lambda>plmn.
     bindM (getsM (select_backup E gnb (ug_BackupAMFName it))) (\<lambda>b.
       case b of
         None \<Rightarrow> retM False
       | Some backup \<Rightarrow>
           bindM (getsM (\<lambda>w. amf_order E (amf_pool gnb w))) (\<lambda>entries.
           thenM (forM entries (\<lambda>(k, oldAmf).
             bindM (getsM (\<lambda>w. amfH w oldAmf)) (\<lambda>a.
             bindM (liftR (supports_guami a plmn (ug_GUAMI it) [0..<nat (lenPlmn a)])) (\<lambda>m.
               if m then
                 thenM (rebind_all E gnb oldAmf backup)
                 (thenM (modM (emit (SctpClose (sctpConn (tnla a)))))
                 (deleteGnBAmf gnb k))
               else skipM))))
           (retM True))))"

text \<open>The result says whether the handler goes on to the next IE.\<close>

fun status_ie :: "ext \<Rightarrow> gnb_ref \<Rightarrow> IE \<Rightarrow> bool M" where
  "status_ie E gnb (IE_UnavailableGUAMIList p) = bindM (derefM p) (\<lambda>l. loopM l (status_item E gnb))"
| "status_ie E gnb _ = retM True"

definition HandlerAmfStatusIndication :: "ext \<Rightarrow> gnb_ref \<Rightarrow> NGAPMsg \<Rightarrow> unit M" where
  "HandlerAmfStatusIndication E gnb message = bindM (loopM (msg_IEs message) (status_ie E gnb)) (\<lambda>_. skipM)"

section \<open>Path Switch Request Acknowledge\<close>

fun pathswitch_ie :: "IE \<Rightarrow> (int \<times> int) \<times> switched_item list option \<Rightarrow>
    ((int \<times> int) \<times> switched_item list option) res" where
  "pathswitch_ie (IE_PDUSessionResourceSwitchedList p) (ar, l) =
     mandatory ''PduSessionResourceSwitchedList is missing'' p (\<lambda>l'. Ret (ar, Some l'))"
| "pathswitch_ie ie (ar, l) = bindR (ids_ie ie ar) (\<lambda>ar'. Ret (ar', l))"

definition set_uplink :: "sess_ref option \<Rightarrow> u32 \<Rightarrow> string \<Rightarrow> unit M" where
  "set_uplink slot ul ip =
     bindM (derefM slot) (\<lambda>p. modM (upd_sess p (\<lambda>s. s\<lparr>uplinkTeid := ul, upfIp := ip\<rparr>)))"

definition switched_session :: "ext \<Rightarrow> gnb_ref \<Rightarrow> ue_ref \<Rightarrow> switched_item \<Rightarrow> unit M" where
  "switched_session E gnb ue it =
     bindM (GetPduSession ue (sw_PDUSessionID it)) (\<lambda>r.
       case r of
         Inl _ \<Rightarrow> skipM
       | Inr slot \<Rightarrow>
           (case aper_PathSwitchRequestAckTransfer E (sw_Transfer it) of
              None \<Rightarrow> skipM
            | Some info \<Rightarrow>
                thenM (case info of
                    None \<Rightarrow> skipM
                  | Some tun \<Rightarrow>
                      bindM (derefM tun) (\<lambda>t.
                      bindM (liftR (be32_get (GTPTEID t))) (\<lambda>ul.
                        set_uplink slot ul (IPAddressToString E (TransportLayerAddress t)))))
                (bindM (getsM (\<lambda>w. data_gnbIp (dataInfo (gnbH w gnb)))) (\<lambda>ip.
                   SendMessageToUe ue (zero_msg\<lparr>GNBPduSessions := no_sessions[0 := slot], GnbIp := ip\<rparr>)))))"

definition HandlerPathSwitchRequestAcknowledge :: "ext \<Rightarrow> gnb_ref \<Rightarrow> NGAPMsg \<Rightarrow> unit M" where
  "HandlerPathSwitchRequestAcknowledge E gnb message =
     bindM (liftR (foldR pathswitch_ie (msg_IEs message) ((0, 0), None))) (\<lambda>(ar, l).
     with_ue gnb ar (\<lambda>ue.
       case l of
         None \<Rightarrow> skipM
       | Some items \<Rightarrow> if items = [] then skipM else forM items (switched_session E gnb ue)))"

section \<open>Handover Request and Command\<close>

record ho_vars =
  ho_cap :: seccap_ptr
  ho_sst :: "string list"
  ho_sd :: "string list"
  ho_imeisv :: string
  ho_container :: "byte list option"
  ho_setup :: "setup_item list option"
  ho_amfUeId :: int

definition ho_zero :: ho_vars where
  "ho_zero = \<lparr>ho_cap = None, ho_sst = [], ho_sd = [], ho_imeisv = [], ho_container = None,
     ho_setup = None, ho_amfUeId = 0\<rparr>"

fun ho_ie :: "IE \<Rightarrow> ho_vars \<Rightarrow> ho_vars res" where
  "ho_ie (IE_AMFUENGAPID p) v = mandatory ''AMF UE ID is missing'' p (\<lambda>i. Ret (v\<lparr>ho_amfUeId := i\<rparr>))"
| "ho_ie (IE_AllowedNSSAI p) v = mandatory ''Allowed NSSAI is missing'' p (\<lambda>l.
     Ret (v\<lparr>ho_sst := map (hex_or ''not informed'' \<circ> SST) l, ho_sd := map (hex_or ''not informed'' \<circ> SD) l\<rparr>))"
| "ho_ie (IE_MaskedIMEISV p) v = Ret (v\<lparr>ho_imeisv := hex_or ''not informed'' p\<rparr>)"
| "ho_ie (IE_SourceToTargetTransparentContainer p) v =
     mandatory ''sourceToTargetContainer is missing'' p (\<lambda>b. Ret (v\<lparr>ho_container := Some b\<rparr>))"
| "ho_ie (IE_PDUSessionResourceSetupListHOReq p) v =
     mandatory ''pDUSessionResourceSetupListHOReq is missing'' p (\<lambda>l. Ret (v\<lparr>ho_setup := Some l\<rparr>))"
| "ho_ie (IE_UESecurityCapabilities p) v =
     mandatory ''UE Security Capabilities is missing'' p (\<lambda>c. Ret (v\<lparr>ho_cap := Some c\<rparr>))"
| "ho_ie _ v = Ret v"

definition HandlerHandoverRequest :: "ext \<Rightarrow> gnb_ref \<Rightarrow> NGAPMsg \<Rightarrow> unit M" where
  "HandlerHandoverRequest E gnb message =
     bindM (liftR (foldR ho_ie (msg_IEs message) ho_zero)) (\<lambda>v.
       case ho_container v of
         None \<Rightarrow> skipM
       | Some bytes \<Rightarrow>
           (case aper_SourceToTarget E bytes of
              None \<Rightarrow> skipM
            | Some None \<Rightarrow> skipM
            | Some (Some prUeId) \<Rightarrow>
                bindM (NewGnBUe E gnb None None prUeId None) (\<lambda>r.
                  case r of
                    Inl _ \<Rightarrow> fatalM ''HandoverFailure''
                  | Inr ue \<Rightarrow>
                      thenM (SetAmfUeId ue (ho_amfUeId v))
                      (thenM (CreateUeContext ue ''not informed'' (ho_imeisv v) (ho_sst v) (ho_sd v) (ho_cap v))
                      (bindM (derefM (ho_setup v)) (\<lambda>items.
                       thenM (forM items (\<lambda>it. bindM (setup_session E gnb ue it) (\<lambda>_. skipM)))
                         (SendHandoverRequestAcknowledge E gnb ue)))))))"

definition HandlerHandoverCommand :: "gnb_ref \<Rightarrow> NGAPMsg \<Rightarrow> unit M" where
  "HandlerHandoverCommand gnb message =
     bindM (liftR (foldR ids_ie (msg_IEs message) (0, 0))) (\<lambda>ar.
     with_ue gnb ar (\<lambda>ue.
       bindM (getsM (\<lambda>w. newGnb (ueH w ue))) (\<lambda>n.
         case n of
           None \<Rightarrow> skipM
         | Some target \<Rightarrow>
             bindM makeCh (\<lambda>newGnbRx. bindM makeCh (\<lambda>newGnbTx.
             bindM (getsM (\<lambda>w. (inbound target w, pRueId (ueH w ue)))) (\<lambda>(ch, pr).
             thenM (sendCh ch (zero_msg\<lparr>GNBRx := Some newGnbRx, GNBTx := Some newGnbTx,
                                        PrUeId := pr, IsHandover := True\<rparr>))
             (SendMessageToUe ue (zero_msg\<lparr>GNBRx := Some newGnbRx, GNBTx := Some newGnbTx,
                                           GNBInboundChannel := Some ch\<rparr>))))))))"

section \<open>Paging and Error Indication\<close>

fun paging_ie :: "IE \<Rightarrow> (nat \<times> FiveGSTMSI) option option \<Rightarrow> (nat \<times> FiveGSTMSI) option option res" where
  "paging_ie (IE_UEPagingIdentity p) v = mandatory ''UE Paging Identity is missing'' p (\<lambda>t. Ret (Some t))"
| "paging_ie (IE_TAIListForPaging p) v = mandatory ''TAI List For Paging is missing'' p (\<lambda>_. Ret v)"
| "paging_ie _ v = Ret v"

definition HandlerPaging :: "gnb_ref \<Rightarrow> NGAPMsg \<Rightarrow> unit M" where
  "HandlerPaging gnb message =
     bindM (liftR (foldR paging_ie (msg_IEs message) None)) (\<lambda>p.
     bindM (derefM p) (\<lambda>t. bindM (AddPagedUE gnb t) (\<lambda>_. skipM)))"

definition HandlerErrorIndication :: "NGAPMsg \<Rightarrow> unit M" where
  "HandlerErrorIndication message = bindM (liftR (foldR ids_ie (msg_IEs message) (0, 0))) (\<lambda>_. skipM)"

section \<open>Dispatch\<close>

text \<open>
  \<open>Dispatch\<close> goes on after a decoding error, so a nil PDU is dereferenced; an unknown
  procedure is only logged.
\<close>

definition dispatch_msg :: "ext \<Rightarrow> amf_ref \<Rightarrow> gnb_ref \<Rightarrow> NGAPMsg \<Rightarrow> unit M" where
  "dispatch_msg E amf gnb m =
     (case msg_Present m of
        PresentInitiatingMessage \<Rightarrow>
          (case msg_ProcedureCode m of
             ProcDownlinkNASTransport \<Rightarrow> HandlerDownlinkNasTransport gnb m
           | ProcInitialContextSetup \<Rightarrow> HandlerInitialContextSetupRequest E gnb m
           | ProcPDUSessionResourceSetup \<Rightarrow> HandlerPduSessionResourceSetupRequest E gnb m
           | ProcPDUSessionResourceRelease \<Rightarrow> HandlerPduSessionReleaseCommand E gnb m
           | ProcUEContextRelease \<Rightarrow> HandlerUeContextReleaseCommand E gnb m
           | ProcAMFConfigurationUpdate \<Rightarrow> HandlerAmfConfigurationUpdate E amf gnb m
           | ProcAMFStatusIndication \<Rightarrow> HandlerAmfStatusIndication E gnb m
           | ProcHandoverResourceAllocation \<Rightarrow> HandlerHandoverRequest E gnb m
           | ProcPaging \<Rightarrow> HandlerPaging gnb m
           | ProcErrorIndication \<Rightarrow> HandlerErrorIndication m
           | _ \<Rightarrow> skipM)
      | PresentSuccessfulOutcome \<Rightarrow>
          (case msg_ProcedureCode m of
             ProcNGSetup \<Rightarrow> HandlerNgSetupResponse amf m
           | ProcPathSwitchRequest \<Rightarrow> HandlerPathSwitchRequestAcknowledge E gnb m
           | ProcHandoverPreparation \<Rightarrow> HandlerHandoverCommand gnb m
           | _ \<Rightarrow> skipM)
      | PresentUnsuccessfulOutcome \<Rightarrow>
          (case msg_ProcedureCode m of
             ProcNGSetup \<Rightarrow> HandlerNgSetupFailure amf m
           | _ \<Rightarrow> skipM)
      | PresentNothing \<Rightarrow> skipM)"

definition Dispatch :: "ext \<Rightarrow> amf_ref \<Rightarrow> gnb_ref \<Rightarrow> byte list option \<Rightarrow> unit M" where
  "Dispatch E amf gnb message =
     bindM (derefM (ngap_Decoder E message)) (\<lambda>ngapMsg. dispatch_msg E amf gnb ngapMsg)"

end
