(* ===== verification/GnbService.thy ===== *)
theory GnbService
  imports GnbDispatch
begin

text \<open>
  The gNodeB towards its UEs (\<open>gnb/nas/service/service.go\<close>, \<open>gnb/nas/dispatcher.go\<close>,
  \<open>gnb/nas/handler/handler.go\<close>) and its start (\<open>gnb/gnb.go\<close>). The two service
  loops are given by what one received message does; the loops themselves wait on their
  channels, and the step relation of the gNodeB interleaves them.
\<close>

section \<open>NAS messages from a UE\<close>

definition read_ue_gnb :: "(GNBUe \<Rightarrow> GNBContext \<Rightarrow> 'a res) \<Rightarrow> ue_ref \<Rightarrow> gnb_ref \<Rightarrow> 'a M" where
  "read_ue_gnb f ue gnb = (\<lambda>w. liftR (f (ueH w ue) (gnbH w gnb)) w)"

text \<open>Errors are logged; after an encoding error a nil message is still written.\<close>

definition HandlerUeInitialized :: "ext \<Rightarrow> ue_ref \<Rightarrow> byte list option \<Rightarrow> gnb_ref \<Rightarrow> unit M" where
  "HandlerUeInitialized E ue message gnb =
     bindM (read_ue_gnb (SendInitialUeMessage E message) ue gnb) (\<lambda>ngap.
     thenM (SetUeState ue Ongoing)
     (bindM (ue_conn ue) (\<lambda>c. bindM (SendToAmF E ngap c) (\<lambda>_. skipM))))"

definition HandlerUeOngoing :: "ext \<Rightarrow> ue_ref \<Rightarrow> byte list option \<Rightarrow> gnb_ref \<Rightarrow> unit M" where
  "HandlerUeOngoing E ue message gnb =
     bindM (read_ue_gnb (\<lambda>u g. Ret (SendUplinkNasTransport E message u g)) ue gnb) (\<lambda>ngap.
     bindM (ue_conn ue) (\<lambda>c. bindM (SendToAmF E ngap c) (\<lambda>_. skipM)))"

definition HandlerUeReady :: "ext \<Rightarrow> ue_ref \<Rightarrow> byte list option \<Rightarrow> gnb_ref \<Rightarrow> unit M" where
  "HandlerUeReady E ue message gnb =
     bindM (read_ue_gnb (\<lambda>u g. Ret (SendUplinkNasTransport E message u g)) ue gnb) (\<lambda>ngap.
     bindM (ue_conn ue) (\<lambda>c. bindM (SendToAmF E ngap c) (\<lambda>_. skipM)))"

definition NasDispatch :: "ext \<Rightarrow> ue_ref \<Rightarrow> byte list option \<Rightarrow> gnb_ref \<Rightarrow> unit M" where
  "NasDispatch E ue message gnb =
     bindM (getsM (\<lambda>w. ue_st (ueH w ue))) (\<lambda>s.
       case s of
         Initialized \<Rightarrow> HandlerUeInitialized E ue message gnb
       | Ongoing \<Rightarrow> HandlerUeOngoing E ue message gnb
       | Ready \<Rightarrow> HandlerUeReady E ue message gnb
       | Down \<Rightarrow> skipM)"

section \<open>The inbound channel\<close>

text \<open>
  One round of \<open>gnbListen\<close>. The result is the UE context whose connection is then
  processed, if there is one. A send on a nil channel waits for ever.
\<close>

definition send_or_hang :: "chan option \<Rightarrow> UEMessage \<Rightarrow> unit M" where
  "send_or_hang p m = (case p of None \<Rightarrow> hangM | Some c \<Rightarrow> sendCh c m)"

definition ng_handover :: "ext \<Rightarrow> gnb_ref \<Rightarrow> ue_ref \<Rightarrow> UEMessage \<Rightarrow> (ue_ref option) M" where
  "ng_handover E gnb ue message =
     thenM (modM (upd_ue ue (\<lambda>x. x\<lparr>gnbRx := GNBRx message\<rparr>)))
     (thenM (modM (upd_ue ue (\<lambda>x. x\<lparr>gnbTx := GNBTx message\<rparr>)))
     (bindM (GetPduSessions ue) (\<lambda>ps.
      bindM (getsM (\<lambda>w. data_gnbIp (dataInfo (gnbH w gnb)))) (\<lambda>ip.
      thenM (SendMessageToUe ue (zero_msg\<lparr>GNBPduSessions := ps, GnbIp := ip\<rparr>))
      (thenM (SetUeState ue Ready)
      (thenM (SendHandoverNotify E gnb ue) (retM (Some ue))))))))"

definition new_connection :: "ext \<Rightarrow> gnb_ref \<Rightarrow> UEMessage \<Rightarrow> (ue_ref option) M" where
  "new_connection E gnb message =
     bindM (NewGnBUe E gnb (GNBTx message) (GNBRx message) (PrUeId message) (Tmsi message)) (\<lambda>r.
       case r of
         Inl _ \<Rightarrow> thenM (closeCh (GNBTx message)) (retM None)
       | Inr ue \<Rightarrow>
           (case UEContext message of
              Some old \<Rightarrow>
                if IsHandover message then
                  thenM (SetUeState ue Ready)
                  (thenM (CopyFromPreviousContext ue old)
                  (thenM (SendPathSwitchRequest E gnb ue) (retM (Some ue))))
                else
                  bindM (getsM (\<lambda>w. (mcc (controlInfo (gnbH w gnb)), mnc (controlInfo (gnbH w gnb))))) (\<lambda>(mc, mn).
                  thenM (send_or_hang (GNBTx message) (zero_msg\<lparr>Mcc := mc, Mnc := mn\<rparr>))
                  (thenM (SetPduSessions ue (GNBPduSessions message)) (retM (Some ue))))
            | None \<Rightarrow>
                bindM (getsM (\<lambda>w. (mcc (controlInfo (gnbH w gnb)), mnc (controlInfo (gnbH w gnb))))) (\<lambda>(mc, mn).
                thenM (send_or_hang (GNBTx message) (zero_msg\<lparr>Mcc := mc, Mnc := mn\<rparr>))
                (thenM (SetPduSessions ue (GNBPduSessions message)) (retM (Some ue))))))"

definition gnbListen_msg :: "ext \<Rightarrow> gnb_ref \<Rightarrow> UEMessage \<Rightarrow> (ue_ref option) M" where
  "gnbListen_msg E gnb message =
     (if FetchPagedUEs message then
        (case GNBTx message of
           Some c \<Rightarrow>
             bindM (GetPagedUEs gnb) (\<lambda>ps.
             thenM (sendCh c (zero_msg\<lparr>PagedUEs := ps\<rparr>))
             (thenM (closeCh (Some c)) (retM None)))
         | None \<Rightarrow> retM None)
      else
        bindM (getsM (GetGnbUeByPrUeId gnb (PrUeId message))) (\<lambda>r.
          case r of
            Inr ue \<Rightarrow> if IsHandover message then ng_handover E gnb ue message
                      else new_connection E gnb message
          | Inl _ \<Rightarrow> new_connection E gnb message))"

section \<open>The connection of a UE\<close>

text \<open>
  One round of \<open>processingConn\<close>: \<open>None\<close> is the closed channel. The result says
  whether the loop goes on.
\<close>

definition connection_closed :: "gnb_ref \<Rightarrow> ue_ref \<Rightarrow> ue_ref \<Rightarrow> unit M" where
  "connection_closed gnb ue ctx =
     thenM (SetUeState ctx Down)
     (bindM (getsM (\<lambda>w. newGnb (ueH w ctx))) (\<lambda>n.
        if n = None then DeleteGnBUe gnb ue else skipM))"

definition processingConn_msg :: "ext \<Rightarrow> gnb_ref \<Rightarrow> ue_ref \<Rightarrow> UEMessage option \<Rightarrow> bool M" where
  "processingConn_msg E gnb ue m =
     bindM (getsM (\<lambda>w. GetGnbUe gnb (ranUeNgapId (ueH w ue)) w)) (\<lambda>r.
       case m of
         None \<Rightarrow> (case r of Inl _ \<Rightarrow> retM False | Inr ctx \<Rightarrow> thenM (SetUeState ctx Down) (retM False))
       | Some message \<Rightarrow>
           (case r of
              Inl _ \<Rightarrow> retM False
            | Inr ctx \<Rightarrow>
                thenM (if ConnectionClosed message then connection_closed gnb ue ctx
                       else if IsNas message then NasDispatch E ue (Nas message) gnb
                       else if Idle message then SendUeContextReleaseRequest E ue
                       else skipM)
                (retM True)))"

section \<open>Starting a gNodeB\<close>

text \<open>The part of the configuration the start reads, and the counters of the monitor.\<close>

record AMF_conf =
  cf_Ip :: string
  cf_Port :: int

record GNodeB_conf =
  cf_GnbId :: string
  cf_Mcc :: string
  cf_Mnc :: string
  cf_Tac :: string
  cf_Sst :: string
  cf_Sd :: string
  cf_ControlIp :: string
  cf_DataIp :: string
  cf_ControlPort :: int
  cf_DataPort :: int
  cf_AMFs :: "AMF_conf list"

definition new_gnb :: "gnb_ref \<Rightarrow> GNodeB_conf \<Rightarrow> unit M" where
  "new_gnb g conf = NewRanGnbContext g (cf_GnbId conf) (cf_Mcc conf) (cf_Mnc conf) (cf_Tac conf)
     (cf_Sst conf) (cf_Sd conf) (cf_ControlIp conf) (cf_DataIp conf) (cf_ControlPort conf) (cf_DataPort conf)"

definition InitGnb :: "ext \<Rightarrow> gnb_ref \<Rightarrow> GNodeB_conf \<Rightarrow> unit M" where
  "InitGnb E g conf =
     thenM (new_gnb g conf)
     (forM (cf_AMFs conf) (\<lambda>c.
        bindM (NewGnBAmf g (cf_Ip c) (cf_Port c)) (\<lambda>a.
        bindM (InitConn E a g) (\<lambda>err.
          case err of Some _ \<Rightarrow> fatalM ''Error in'' | None \<Rightarrow> SendNgSetupRequest E g a))))"

text \<open>
  The two load tests wait one second for the answer of an AMF; \<open>wait\<close> is what happens in
  that time. The result is how often the monitor is incremented.
\<close>

definition InitGnbForLoadSeconds :: "ext \<Rightarrow> unit M \<Rightarrow> gnb_ref \<Rightarrow> GNodeB_conf \<Rightarrow> nat M" where
  "InitGnbForLoadSeconds E wait g conf =
     thenM (new_gnb g conf)
     (bindM (foldM (cf_AMFs conf) (\<lambda>c n.
        bindM (NewGnBAmf g (cf_Ip c) (cf_Port c)) (\<lambda>a.
        bindM (InitConn E a g) (\<lambda>_.
        thenM (SendNgSetupRequest E g a)
        (thenM wait
        (bindM (getsM (\<lambda>w. amf_st (amfH w a))) (\<lambda>s.
           retM (if s = Active then n + 1 else n))))))) 0) (\<lambda>n.
      thenM (Terminate g) (retM n)))"

definition InitGnbForAvaibility :: "ext \<Rightarrow> unit M \<Rightarrow> gnb_ref \<Rightarrow> GNodeB_conf \<Rightarrow> nat M" where
  "InitGnbForAvaibility E wait g conf =
     thenM (new_gnb g conf)
     (bindM (foldM (cf_AMFs conf) (\<lambda>c (live, n).
        if \<not> live then retM (live, n)
        else
          bindM (NewGnBAmf g (cf_Ip c) (cf_Port c)) (\<lambda>a.
          bindM (InitConn E a g) (\<lambda>err.
            case err of
              Some _ \<Rightarrow> retM (False, n)
            | None \<Rightarrow>
                thenM (SendNgSetupRequest E g a)
                (thenM wait
                (bindM (getsM (\<lambda>w. amf_st (amfH w a))) (\<lambda>s.
                   retM (True, if s = Active then n + 1 else n))))))) (True, 0)) (\<lambda>(live, n).
      if live then thenM (Terminate g) (retM n) else retM n))"

end
