(* ===== verification/GnbReach.thy ===== *)
theory GnbReach
  imports GnbService
begin

text \<open>
  The invariant of a gNodeB through its handlers: every NGAP message, every message of a UE
  and every timer keeps it, so it holds in every state the gNodeB reaches from its start.
\<close>

section \<open>Handlers\<close>

lemma wf_getUeFromContext [wf_pres]: "preserves (gnb_wf g) (getUeFromContext g' r a)"
  unfolding getUeFromContext_def by (intro pres_intros wf_pres)

lemma wf_with_ue [wf_pres]:
  "(\<And>ue. preserves (gnb_wf g) (f ue)) \<Longrightarrow> preserves (gnb_wf g) (with_ue g' ar f)"
  unfolding with_ue_def by (intro pres_intros wf_pres)

lemma wf_setup_session [wf_pres]: "preserves (gnb_wf g) (setup_session E g' u it)"
  unfolding setup_session_def Let_def by (intro pres_intros wf_pres)

lemma wf_psr_item [wf_pres]: "preserves (gnb_wf g) (psr_item E g' u it c)"
  unfolding psr_item_def by (intro pres_intros wf_pres)

lemma wf_release_session [wf_pres]: "preserves (gnb_wf g) (release_session u i)"
  unfolding release_session_def by (intro pres_intros wf_pres)

lemma wf_HandlerDownlinkNasTransport [wf_pres]: "preserves (gnb_wf g) (HandlerDownlinkNasTransport g' m)"
  unfolding HandlerDownlinkNasTransport_def by (intro pres_intros wf_pres)

lemma wf_HandlerInitialContextSetupRequest [wf_pres]:
  "preserves (gnb_wf g) (HandlerInitialContextSetupRequest E g' m)"
  unfolding HandlerInitialContextSetupRequest_def by (intro pres_intros wf_pres)

lemma wf_HandlerPduSessionResourceSetupRequest [wf_pres]:
  "preserves (gnb_wf g) (HandlerPduSessionResourceSetupRequest E g' m)"
  unfolding HandlerPduSessionResourceSetupRequest_def by (intro pres_intros wf_pres)

lemma wf_HandlerPduSessionReleaseCommand [wf_pres]:
  "preserves (gnb_wf g) (HandlerPduSessionReleaseCommand E g' m)"
  unfolding HandlerPduSessionReleaseCommand_def by (intro pres_intros wf_pres)

lemma wf_HandlerUeContextReleaseCommand [wf_pres]:
  "preserves (gnb_wf g) (HandlerUeContextReleaseCommand E g' m)"
  unfolding HandlerUeContextReleaseCommand_def by (intro pres_intros wf_pres)

text \<open>An AMF's lists through an NG Setup Response.\<close>

definition amf_lists_ok :: "GNBAmf \<Rightarrow> GNBAmf \<Rightarrow> bool" where
  "amf_lists_ok a b \<longleftrightarrow> plmns_ok b \<and> slices_ok b \<and> amfId b = amfId a"

lemma AddedPlmn_ok:
  assumes run: "AddedPlmn p a = Ret b" and ok: "amf_lists_ok a0 a"
  shows "amf_lists_ok a0 b"
proof -
  from run obtain e where e: "convertMccMnc p = Ret e"
    by (cases "convertMccMnc p") (simp_all add: AddedPlmn_def)
  have "plmns_ok a"
    using ok by (simp add: amf_lists_ok_def)
  from AddedPlmn_appends [OF this e] run have b: "plmns_ok b"
    and eq: "\<exists>ps. b = a\<lparr>plmns := ps, lenPlmn := lenPlmn a + 1\<rparr>"
    by (metis res.inject(1))+
  from eq obtain ps where "b = a\<lparr>plmns := ps, lenPlmn := lenPlmn a + 1\<rparr>" by blast
  with b ok show ?thesis by (simp add: amf_lists_ok_def slices_ok_def)
qed

lemma AddedSlice_ok:
  assumes run: "AddedSlice x y a = Ret b" and ok: "amf_lists_ok a0 a"
  shows "amf_lists_ok a0 b"
proof -
  have "slices_ok a"
    using ok by (simp add: amf_lists_ok_def)
  from AddedSlice_appends [OF this, of x y] run have b: "slices_ok b"
    and eq: "\<exists>ss. b = a\<lparr>slices := ss, lenSlice := lenSlice a + 1\<rparr>"
    by (metis res.inject(1))+
  from eq obtain ss where "b = a\<lparr>slices := ss, lenSlice := lenSlice a + 1\<rparr>" by blast
  with b ok show ?thesis by (simp add: amf_lists_ok_def plmns_ok_def)
qed

lemma add_slices_ok: "foldR add_slice l a = Ret b \<Longrightarrow> amf_lists_ok a0 a \<Longrightarrow> amf_lists_ok a0 b"
  by (erule foldR_inv [where I = "amf_lists_ok a0"]) (auto simp: add_slice_def dest: AddedSlice_ok)

lemma plmn_support_ok:
  "plmn_support it (e, a) = Ret (e', b) \<Longrightarrow> amf_lists_ok a0 a \<Longrightarrow> amf_lists_ok a0 b"
  by (auto simp: plmn_support_def bindR_Ret_iff split: option.splits dest!: AddedPlmn_ok add_slices_ok)

lemma ngsetup_ie_ok:
  assumes "ngsetup_ie ie ea = Ret eb" and "amf_lists_ok a0 (snd ea)"
  shows "amf_lists_ok a0 (snd eb)"
proof (cases "\<exists>p. ie = IE_PLMNSupportList p")
  case True
  then obtain p where ie: "ie = IE_PLMNSupportList p" by blast
  with assms(1) obtain l where l: "foldR plmn_support l ea = Ret eb"
    by (cases ea) (auto simp: pointer_read_def split: option.splits)
  show ?thesis
    by (rule foldR_inv [where I = "\<lambda>ea. amf_lists_ok a0 (snd ea)", OF l assms(2)])
      (metis plmn_support_ok prod.collapse)
next
  case False
  with assms show ?thesis
    by (cases ea; cases ie)
      (auto simp: pointer_read_def amf_lists_ok_def plmns_ok_def slices_ok_def split: option.splits)
qed

lemma ngsetup_ies_ok:
  assumes "foldR ngsetup_ie ies (e, a) = Ret (e', b)" and "plmns_ok a" and "slices_ok a"
  shows "amf_lists_ok a b"
proof -
  have "amf_lists_ok a (snd (e, a))"
    using assms(2, 3) by (simp add: amf_lists_ok_def)
  from foldR_inv [where I = "\<lambda>ea. amf_lists_ok a (snd ea)", OF assms(1) this] ngsetup_ie_ok
  show ?thesis by (metis snd_conv)
qed

lemma wf_HandlerNgSetupResponse [wf_pres]: "preserves (gnb_wf g) (HandlerNgSetupResponse a m)"
proof (rule preservesI)
  fix s x t
  assume wf: "gnb_wf g s" and run: "HandlerNgSetupResponse a m s = Ret (x, t)"
  from run obtain b where b: "foldR ngsetup_ie (msg_IEs m) (False, amfH s a) = Ret (False, b)"
    and t: "t = upd_amf a (\<lambda>_. b\<lparr>amf_st := Active\<rparr>) s"
    by (auto simp: HandlerNgSetupResponse_def run_simps liftR_def bindR_Ret_iff split: if_splits)
  have "amf_lists_ok (amfH s a) b"
    using ngsetup_ies_ok [OF b] wf by (simp add: gnb_wf_parts lists_ok_def)
  then show "gnb_wf g t"
    unfolding t using wf
    by (intro gnb_wf_upd_amf) (auto simp: amf_lists_ok_def plmns_ok_def slices_ok_def)
qed

lemma wf_upd_amf_lists:
  assumes "\<And>x. amfId (f x) = amfId x" "\<And>x. plmns (f x) = plmns x" "\<And>x. lenPlmn (f x) = lenPlmn x"
    "\<And>x. slices (f x) = slices x" "\<And>x. lenSlice (f x) = lenSlice x"
  shows "preserves (gnb_wf g) (modM (upd_amf a f))"
proof (rule preserves_modM, rule gnb_wf_upd_amf)
  fix w
  assume "gnb_wf g w"
  then show "plmns_ok (f (amfH w a))" "slices_ok (f (amfH w a))"
    using assms by (simp_all add: plmns_ok_def slices_ok_def gnb_wf_def lists_ok_def)
qed (use assms in simp_all)

lemma wf_HandlerNgSetupFailure [wf_pres]: "preserves (gnb_wf g) (HandlerNgSetupFailure a m)"
  unfolding HandlerNgSetupFailure_def by (intro pres_intros wf_upd_amf_lists) simp_all

lemma wf_endpoint_ip [wf_pres]: "preserves I (endpoint_ip E it)"
  unfolding endpoint_ip_def by (intro pres_intros)

lemma wf_set_tnla [wf_pres]: "preserves (gnb_wf g) (set_tnla a it)"
  unfolding set_tnla_def by (intro pres_intros wf_upd_amf_lists) simp_all

lemma wf_set_identity [wf_pres]: "preserves (gnb_wf g) (modM (upd_amf a (set_identity v)))"
  by (rule wf_upd_amf_lists) (simp_all add: set_identity_def)

lemma wf_tnla_add [wf_pres]: "preserves (gnb_wf g) (tnla_add E g' v it)"
  unfolding tnla_add_def by (intro pres_intros wf_pres)

lemma wf_emit_of [wf_pres]: "preserves (gnb_wf g) (modM (\<lambda>w. emit (f w) w))"
  by (rule preserves_modM) simp

lemma wf_tnla_remove [wf_pres]: "preserves (gnb_wf g) (tnla_remove E a g' it)"
  unfolding tnla_remove_def by (intro pres_intros wf_pres)

lemma wf_tnla_update [wf_pres]: "preserves (gnb_wf g) (tnla_update E g' v it)"
  unfolding tnla_update_def by (intro pres_intros wf_pres)

lemma wf_acu_ie [wf_pres]: "preserves (gnb_wf g) (acu_ie E a g' ie v)"
  by (cases ie) (simp_all only: acu_ie.simps, (intro pres_intros wf_pres)+)

lemma wf_HandlerAmfConfigurationUpdate [wf_pres]:
  "preserves (gnb_wf g) (HandlerAmfConfigurationUpdate E a g' m)"
  unfolding HandlerAmfConfigurationUpdate_def by (intro pres_intros wf_pres)

lemma wf_rebind_ue [wf_pres]: "preserves (gnb_wf g) (rebind_ue a b u)"
  unfolding rebind_ue_def by (rule preserves_modM) (auto intro!: gnb_wf_upd_ue)

lemma wf_rebind_all [wf_pres]: "preserves (gnb_wf g) (rebind_all E g' a b)"
  unfolding rebind_all_def by (intro pres_intros wf_pres)

lemma wf_status_item [wf_pres]: "preserves (gnb_wf g) (status_item E g' it)"
  unfolding status_item_def by (intro pres_intros wf_pres)

lemma wf_status_ie [wf_pres]: "preserves (gnb_wf g) (status_ie E g' ie)"
  by (cases ie) (simp_all only: status_ie.simps, (intro pres_intros wf_pres)+)

lemma wf_HandlerAmfStatusIndication [wf_pres]: "preserves (gnb_wf g) (HandlerAmfStatusIndication E g' m)"
  unfolding HandlerAmfStatusIndication_def by (intro pres_intros wf_pres)

lemma wf_set_uplink [wf_pres]: "preserves (gnb_wf g) (set_uplink p ul ip)"
  unfolding set_uplink_def by (intro pres_intros preserves_modM gnb_wf_upd_sess)

lemma wf_switched_session [wf_pres]: "preserves (gnb_wf g) (switched_session E g' u it)"
  unfolding switched_session_def by (intro pres_intros wf_pres)

lemma wf_HandlerPathSwitchRequestAcknowledge [wf_pres]:
  "preserves (gnb_wf g) (HandlerPathSwitchRequestAcknowledge E g' m)"
  unfolding HandlerPathSwitchRequestAcknowledge_def by (intro pres_intros wf_pres)

lemma wf_HandlerHandoverRequest [wf_pres]: "preserves (gnb_wf g) (HandlerHandoverRequest E g' m)"
  unfolding HandlerHandoverRequest_def by (intro pres_intros wf_pres)

lemma wf_HandlerHandoverCommand [wf_pres]: "preserves (gnb_wf g) (HandlerHandoverCommand g' m)"
  unfolding HandlerHandoverCommand_def by (intro pres_intros wf_pres)

lemma wf_HandlerPaging [wf_pres]: "preserves (gnb_wf g) (HandlerPaging g' m)"
  unfolding HandlerPaging_def by (intro pres_intros wf_pres)

lemma wf_HandlerErrorIndication [wf_pres]: "preserves I (HandlerErrorIndication m)"
  unfolding HandlerErrorIndication_def by (intro pres_intros)

lemma wf_dispatch_msg [wf_pres]: "preserves (gnb_wf g) (dispatch_msg E a g' m)"
  unfolding dispatch_msg_def
  by (cases "msg_Present m"; cases "msg_ProcedureCode m"; simp only: pdu_present.case proc_code.case;
      intro pres_intros wf_pres)

lemma wf_Dispatch [wf_pres]: "preserves (gnb_wf g) (Dispatch E a g' b)"
  unfolding Dispatch_def by (intro pres_intros wf_pres)

section \<open>Messages of UEs\<close>

lemma wf_read_ue_gnb [wf_pres]: "preserves I (read_ue_gnb f u g')"
  unfolding read_ue_gnb_def by (rule preserves_read)

lemma wf_NasDispatch [wf_pres]: "preserves (gnb_wf g) (NasDispatch E u m g')"
proof -
  have "preserves (gnb_wf g) (HandlerUeInitialized E u m g')"
    "preserves (gnb_wf g) (HandlerUeOngoing E u m g')" "preserves (gnb_wf g) (HandlerUeReady E u m g')"
    unfolding HandlerUeInitialized_def HandlerUeOngoing_def HandlerUeReady_def
    by (intro pres_intros wf_pres)+
  then show ?thesis
    unfolding NasDispatch_def
    by (intro preserves_bindM preserves_getsM) (auto split: ue_state.split intro: pres_intros)
qed

lemma wf_connection_closed [wf_pres]: "preserves (gnb_wf g) (connection_closed g' u c)"
  unfolding connection_closed_def by (intro pres_intros wf_pres)

lemma wf_processingConn_msg [wf_pres]: "preserves (gnb_wf g) (processingConn_msg E g' u m)"
  unfolding processingConn_msg_def by (intro pres_intros wf_pres)

lemma wf_send_or_hang [wf_pres]: "preserves (gnb_wf g) (send_or_hang c m)"
  unfolding send_or_hang_def by (intro pres_intros wf_pres)

lemma wf_ng_handover [wf_pres]: "preserves (gnb_wf g) (ng_handover E g' u m)"
proof -
  have "preserves (gnb_wf g) (modM (upd_ue u (\<lambda>x. x\<lparr>gnbRx := c\<rparr>)))"
    "preserves (gnb_wf g) (modM (upd_ue u (\<lambda>x. x\<lparr>gnbTx := c\<rparr>)))" for c
    by (rule preserves_modM, rule gnb_wf_upd_ue, simp_all)+
  then show ?thesis
    unfolding ng_handover_def by (intro pres_intros wf_pres)
qed

text \<open>
  The sessions a UE message carries come from a UE context: sixteen entries, all allocated.
\<close>

definition msg_sessions_ok :: "UEMessage \<Rightarrow> world \<Rightarrow> bool" where
  "msg_sessions_ok m w \<longleftrightarrow> length (GNBPduSessions m) = 16 \<and>
     (\<forall>p. Some p \<in> set (GNBPduSessions m) \<longrightarrow> p < nextSess w)"

definition wf_msg :: "gnb_ref \<Rightarrow> UEMessage \<Rightarrow> world \<Rightarrow> bool" where
  "wf_msg g m w \<longleftrightarrow> gnb_wf g w \<and> msg_sessions_ok m w"

lemma wf_SetPduSessions: "preserves (wf_msg g m) (SetPduSessions u (GNBPduSessions m))"
  unfolding SetPduSessions_def upd_ctx_def
proof (rule preserves_modM)
  fix w
  assume "wf_msg g m w"
  then have "gnb_wf g w" "msg_sessions_ok m w"
    by (simp_all add: wf_msg_def)
  then show "wf_msg g m (upd_ue u (\<lambda>x. x\<lparr>ue_context := (ue_context x)\<lparr>pduSession := GNBPduSessions m\<rparr>\<rparr>) w)"
    unfolding wf_msg_def
    by (intro conjI gnb_wf_upd_ue) (simp_all add: msg_sessions_ok_def upd_ue_def)
qed

lemma wf_msg_lift:
  assumes "preserves (gnb_wf g) m" and "\<And>s x t. m s = Ret (x, t) \<Longrightarrow> nextSess s \<le> nextSess t"
  shows "preserves (wf_msg g msg) m"
  using assms unfolding preserves_def triple_def wf_msg_def msg_sessions_ok_def
  by (meson less_le_trans)

lemma NewGnBUe_nextSess: "NewGnBUe E g tx rx pr tm s = Ret (x, t) \<Longrightarrow> nextSess s \<le> nextSess t"
  by (auto simp: NewGnBUe_def getRanUeId_def run_simps Let_def upd_defs split: option.splits)

lemma send_or_hang_nextSess: "send_or_hang c m s = Ret (x, t) \<Longrightarrow> nextSess s \<le> nextSess t"
  by (auto simp: send_or_hang_def sendCh_def emit_def split: option.splits if_splits)

lemma wf_msg_weaken: "preserves (gnb_wf g) m \<Longrightarrow> triple (wf_msg g msg) m (\<lambda>_. gnb_wf g)"
  unfolding preserves_def triple_def wf_msg_def by blast

lemma wf_usual_connection:
  "triple (wf_msg g m)
     (thenM (send_or_hang c x) (thenM (SetPduSessions u (GNBPduSessions m)) (retM r))) (\<lambda>_. gnb_wf g)"
  unfolding thenM_def
proof (rule triple_bindM)
  show "triple (wf_msg g m) (send_or_hang c x) (\<lambda>_. wf_msg g m)"
    using wf_msg_lift [OF wf_send_or_hang send_or_hang_nextSess] by (simp add: preserves_def)
next
  fix z
  show "triple (wf_msg g m) (bindM (SetPduSessions u (GNBPduSessions m)) (\<lambda>_. retM r)) (\<lambda>_. gnb_wf g)"
  proof (rule triple_bindM)
    show "triple (wf_msg g m) (SetPduSessions u (GNBPduSessions m)) (\<lambda>_. wf_msg g m)"
      using wf_SetPduSessions by (simp add: preserves_def)
  next
    fix y
    show "triple (wf_msg g m) (retM r) (\<lambda>_. gnb_wf g)"
      by (rule tripleI) (simp add: wf_msg_def)
  qed
qed

lemma triple_getsM_bind: "(\<And>v. triple P (f v) Q) \<Longrightarrow> triple P (bindM (getsM g) f) Q"
  by (auto simp: triple_def bindM_def)

lemma wf_new_connection: "triple (wf_msg g m) (new_connection E g' m) (\<lambda>_. gnb_wf g)"
  unfolding new_connection_def
proof (rule triple_bindM)
  show "triple (wf_msg g m) (NewGnBUe E g' (GNBTx m) (GNBRx m) (PrUeId m) (Tmsi m)) (\<lambda>_. wf_msg g m)"
    using wf_msg_lift [OF wf_NewGnBUe NewGnBUe_nextSess] by (simp add: preserves_def)
next
  fix r
  have "triple (wf_msg g m) (thenM (closeCh (GNBTx m)) (retM None)) (\<lambda>_. gnb_wf g)"
    by (rule wf_msg_weaken) (intro pres_intros wf_pres)
  moreover have "triple (wf_msg g m) (thenM (SetUeState ue Ready) (thenM (CopyFromPreviousContext ue old)
      (thenM (SendPathSwitchRequest E g' ue) (retM (Some ue))))) (\<lambda>_. gnb_wf g)" for ue old
    by (rule wf_msg_weaken) (intro pres_intros wf_pres)
  ultimately show "triple (wf_msg g m)
      (case r of
         Inl _ \<Rightarrow> thenM (closeCh (GNBTx m)) (retM None)
       | Inr ue \<Rightarrow>
           (case UEContext m of
              Some old \<Rightarrow>
                if IsHandover m then
                  thenM (SetUeState ue Ready)
                  (thenM (CopyFromPreviousContext ue old)
                  (thenM (SendPathSwitchRequest E g' ue) (retM (Some ue))))
                else
                  bindM (getsM (\<lambda>w. (mcc (controlInfo (gnbH w g')), mnc (controlInfo (gnbH w g'))))) (\<lambda>(mc, mn).
                  thenM (send_or_hang (GNBTx m) (zero_msg\<lparr>Mcc := mc, Mnc := mn\<rparr>))
                  (thenM (SetPduSessions ue (GNBPduSessions m)) (retM (Some ue))))
            | None \<Rightarrow>
                bindM (getsM (\<lambda>w. (mcc (controlInfo (gnbH w g')), mnc (controlInfo (gnbH w g'))))) (\<lambda>(mc, mn).
                thenM (send_or_hang (GNBTx m) (zero_msg\<lparr>Mcc := mc, Mnc := mn\<rparr>))
                (thenM (SetPduSessions ue (GNBPduSessions m)) (retM (Some ue)))))) (\<lambda>_. gnb_wf g)"
    by (auto split: sum.split option.split intro!: triple_getsM_bind wf_usual_connection)
qed

lemma wf_gnbListen_msg: "triple (wf_msg g m) (gnbListen_msg E g' m) (\<lambda>_. gnb_wf g)"
proof (cases "FetchPagedUEs m")
  case True
  then show ?thesis
    unfolding gnbListen_msg_def by (intro wf_msg_weaken) (simp, intro pres_intros wf_pres)
next
  case False
  have "triple (wf_msg g m) (ng_handover E g' u m) (\<lambda>_. gnb_wf g)" for u
    by (rule wf_msg_weaken [OF wf_ng_handover])
  with False wf_new_connection show ?thesis
    unfolding gnbListen_msg_def by (auto intro!: triple_getsM_bind split: sum.split)
qed

section \<open>Reachable states\<close>

text \<open>
  The state before anything has started: every context has Go's zero value. A gNodeB is
  started in a fresh context; then AMF associations, NGAP messages, UE messages, paging
  timers and handover commands come in any order, at any of the gNodeBs.
\<close>

definition zero_gnb :: GNBContext where
  "zero_gnb = \<lparr>dataInfo = \<lparr>data_gnbIp = [], data_gnbPort = 0, data_upfIp = [], data_upfPort = 0,
      gtpPlane = None, gatewayGnbIp = []\<rparr>,
     controlInfo = \<lparr>mcc = [], mnc = [], tac = [], gnbId = [], gnbIp = [], gnbPort = 0,
      inboundChannel = 0, n2 = None\<rparr>,
     uePool = [], prUePool = [], amfPool = [], teidPool = [],
     sliceInfo = \<lparr>slice_sd = [], slice_sst = []\<rparr>, idUeGenerator = 0, idAmfGenerator = 0,
     teidGenerator = 0, ueIpGenerator = 0, pagedUEs = [], pagedUELock = False\<rparr>"

definition empty_world :: world where
  "empty_world = \<lparr>gnbH = \<lambda>_. zero_gnb, ueH = \<lambda>_. zero_gnbue, amfH = \<lambda>_. zero_amf,
     sessH = \<lambda>_. zero_session, nextUe = 0, nextAmf = 0, nextSess = 0, nextChan = 0,
     closedChans = [], clock = 0, connCount = 0, events = []\<rparr>"

definition fresh_gnb :: "gnb_ref \<Rightarrow> world \<Rightarrow> bool" where
  "fresh_gnb g w \<longleftrightarrow> uePool (gnbH w g) = [] \<and> prUePool (gnbH w g) = [] \<and>
     amfPool (gnbH w g) = [] \<and> teidPool (gnbH w g) = []"

definition connect_amf :: "ext \<Rightarrow> gnb_ref \<Rightarrow> AMF_conf \<Rightarrow> unit M" where
  "connect_amf E g c =
     bindM (NewGnBAmf g (cf_Ip c) (cf_Port c)) (\<lambda>a.
     bindM (InitConn E a g) (\<lambda>err.
       case err of Some _ \<Rightarrow> fatalM ''Error in'' | None \<Rightarrow> SendNgSetupRequest E g a))"

inductive gnb_step :: "ext \<Rightarrow> world \<Rightarrow> world \<Rightarrow> bool" for E where
  start: "fresh_gnb g w \<Longrightarrow> new_gnb g conf w = Ret ((), w') \<Longrightarrow> gnb_step E w w'"
| connect: "connect_amf E g c w = Ret ((), w') \<Longrightarrow> gnb_step E w w'"
| ngap: "Dispatch E a g bytes w = Ret ((), w') \<Longrightarrow> gnb_step E w w'"
| inbound_msg: "msg_sessions_ok m w \<Longrightarrow> gnbListen_msg E g m w = Ret (r, w') \<Longrightarrow> gnb_step E w w'"
| ue_msg: "processingConn_msg E g u m w = Ret (b, w') \<Longrightarrow> gnb_step E w w'"
| paging_timer: "paged_timer g e w = Ret ((), w') \<Longrightarrow> gnb_step E w w'"
| xn_handover: "TriggerXnHandover g g' pr w = Ret ((), w') \<Longrightarrow> gnb_step E w w'"
| ngap_handover: "TriggerNgapHandover E g g' pr w = Ret ((), w') \<Longrightarrow> gnb_step E w w'"
| terminate: "Terminate g w = Ret ((), w') \<Longrightarrow> gnb_step E w w'"
| tick: "gnb_step E w (w\<lparr>clock := clock w + d\<rparr>)"

definition all_wf :: "world \<Rightarrow> bool" where
  "all_wf w \<longleftrightarrow> (\<forall>g. gnb_wf g w)"

lemma wf_Terminate [wf_pres]: "preserves (gnb_wf g) (Terminate g')"
  unfolding Terminate_def by (intro pres_intros wf_pres)

lemma wf_connect_amf [wf_pres]: "preserves (gnb_wf g) (connect_amf E g' c)"
  unfolding connect_amf_def by (intro pres_intros wf_pres)

lemma gnb_wf_empty_world: "gnb_wf g empty_world"
  by (simp add: gnb_wf_parts pools_distinct_def uePool_ok_def prUePool_ok_def amfPool_ok_def
      gens_ok_def lists_ok_def sessions_ok_def empty_world_def zero_gnb_def)

lemma wf_new_gnb:
  assumes "fresh_gnb g' s" and "new_gnb g' conf s = Ret (x, t)" and "gnb_wf g s"
  shows "gnb_wf g t"
proof -
  let ?c = "gnbH t g'"
  have t: "t = s\<lparr>nextChan := Suc (nextChan s), gnbH := (gnbH s)(g' := ?c)\<rparr>"
    and c: "uePool ?c = uePool (gnbH s g')" "prUePool ?c = prUePool (gnbH s g')"
      "amfPool ?c = amfPool (gnbH s g')" "teidPool ?c = teidPool (gnbH s g')"
      "idUeGenerator ?c = 1" "idAmfGenerator ?c = 1"
    using assms(2) by (auto simp: new_gnb_def NewRanGnbContext_def run_simps makeCh_def upd_gnb_def)
  have "gnb_wf g t" if "g' = g"
    using assms(3) assms(1) c that
    by (subst t, simp add: gnb_wf_parts pools_distinct_def uePool_ok_def prUePool_ok_def amfPool_ok_def
        gens_ok_def lists_ok_def sessions_ok_def fresh_gnb_def)
  moreover have "gnb_wf g t" if "g' \<noteq> g"
    using assms(3) that
    by (subst t, simp add: gnb_wf_parts uePool_ok_def prUePool_ok_def amfPool_ok_def
        gens_ok_def lists_ok_def sessions_ok_def)
  ultimately show ?thesis by blast
qed

text \<open>A step is a start, an inbound message, the clock, or a run of a preserving operation.\<close>

lemma gnb_step_cases:
  assumes "gnb_step E s t" and "gnb_wf g s"
  shows "gnb_wf g t"
  using assms(1)
proof cases
  case (start g' conf)
  then show ?thesis by (rule wf_new_gnb [OF _ _ assms(2)])
next
  case (inbound_msg m g' r)
  with assms(2) show ?thesis by (intro tripleD [OF wf_gnbListen_msg]) (simp add: wf_msg_def)
next
  case (tick d)
  with assms(2) show ?thesis by (simp add: gnb_wf_parts pools_distinct_def uePool_ok_def
        prUePool_ok_def amfPool_ok_def gens_ok_def lists_ok_def sessions_ok_def)
next
  case (connect g' c)
  from wf_connect_amf assms(2) connect show ?thesis by (rule preservesD)
next
  case (ngap a g' bytes)
  from wf_Dispatch assms(2) ngap show ?thesis by (rule preservesD)
next
  case (ue_msg g' u m b)
  from wf_processingConn_msg assms(2) ue_msg show ?thesis by (rule preservesD)
next
  case (paging_timer g' e)
  from wf_paged_timer assms(2) paging_timer show ?thesis by (rule preservesD)
next
  case (xn_handover g1 g2 pr)
  from wf_TriggerXnHandover assms(2) xn_handover show ?thesis by (rule preservesD)
next
  case (ngap_handover g1 g2 pr)
  from wf_TriggerNgapHandover assms(2) ngap_handover show ?thesis by (rule preservesD)
next
  case (terminate g')
  from wf_Terminate assms(2) terminate show ?thesis by (rule preservesD)
qed

lemma wf_gnb_step: "gnb_step E s t \<Longrightarrow> all_wf s \<Longrightarrow> all_wf t"
  using gnb_step_cases by (auto simp: all_wf_def)

interpretation gnb_machine: inductive_invariant "\<lambda>w. w = empty_world" "gnb_step E" all_wf for E
proof unfold_locales
  show "all_wf s" if "s = empty_world" for s
    using that by (simp add: all_wf_def gnb_wf_empty_world)
qed (rule wf_gnb_step)

definition reachable :: "ext \<Rightarrow> world \<Rightarrow> bool" where
  "reachable E w \<longleftrightarrow> (gnb_step E)\<^sup>*\<^sup>* empty_world w"

lemma reachable_wf: "reachable E w \<Longrightarrow> gnb_wf g w"
  using gnb_machine.inv_reachable [of empty_world E w] by (simp add: reachable_def all_wf_def)

end
