(* ===== verification/GnbDemo.thy ===== *)
theory GnbDemo
  imports GnbReach
begin

text \<open>
  A concrete environment and a concrete run of a gNodeB, at which the properties of the
  gNodeB are instantiated: a gNodeB starts, connects to one AMF, receives its NG Setup
  Response, and two UEs connect.
\<close>

declare wrap64_id [simp]

definition demo_setup_response :: NGAPMsg where
  "demo_setup_response = \<lparr>msg_Present = PresentSuccessfulOutcome, msg_ProcedureCode = ProcNGSetup,
     msg_IEs = [IE_AMFName (Some ''amf1''),
                IE_ServedGUAMIList (Some (Some [])),
                IE_RelativeAMFCapacity (Some 255),
                IE_PLMNSupportList (Some [\<lparr>pi_PLMNIdentity = [0x02, 0xf8, 0x39],
                   pi_SliceSupportList = Some [\<lparr>SST = Some [1], SD = Some [1, 2, 3]\<rparr>]\<rparr>])]\<rparr>"

definition demo_ext :: ext where
  "demo_ext = \<lparr>amf_order = (\<lambda>m. m), ue_order = (\<lambda>m. m),
     ngap_Encoder = (\<lambda>p. Some [of_nat (length (pdu_IEs p))]),
     ngap_Decoder = (\<lambda>b. if b = Some [21] then Some demo_setup_response else None),
     aper_Marshal = (\<lambda>_. Some [0]),
     aper_SetupRequestTransfer = (\<lambda>_. Some [T_ULNGUUPTNLInformation (Some (Some
        \<lparr>TransportLayerAddress = \<lparr>bs_Bytes = Some [10, 0, 0, 9], bs_BitLength = 32\<rparr>,
         GTPTEID = [0, 0, 0, 9]\<rparr>))]),
     aper_PathSwitchRequestAckTransfer = (\<lambda>_. Some None),
     aper_SourceToTarget = (\<lambda>_. Some (Some 7)),
     PlmnIdToNgap = (\<lambda>a b. [0x02, 0xf8, 0x39]),
     IPAddressToNgap = (\<lambda>_. zero_bits),
     IPAddressToString = (\<lambda>_. ''10.0.0.9''),
     sctp_Resolve = (\<lambda>_. True), sctp_Dial = (\<lambda>_ _ _. Some 5), sctp_Write = (\<lambda>_ _ _. True),
     guti_AMFPointer = (\<lambda>_. 0), guti_TMSI5G = (\<lambda>g. drop 7 g)\<rparr>"

definition demo_conf :: GNodeB_conf where
  "demo_conf = \<lparr>cf_GnbId = ''000008'', cf_Mcc = ''208'', cf_Mnc = ''93'', cf_Tac = ''000001'',
     cf_Sst = ''01'', cf_Sd = ''010203'', cf_ControlIp = ''127.0.0.1'', cf_DataIp = ''127.0.0.1'',
     cf_ControlPort = 9487, cf_DataPort = 2152, cf_AMFs = []\<rparr>"

definition demo_inbound :: "int \<Rightarrow> chan \<Rightarrow> UEMessage" where
  "demo_inbound pr c = zero_msg\<lparr>GNBTx := Some c, GNBRx := Some (c + 1), PrUeId := pr\<rparr>"

definition demo_gnb :: GNBContext where
  "demo_gnb = zero_gnb\<lparr>
     dataInfo := \<lparr>data_gnbIp = ''127.0.0.1'', data_gnbPort = 2152, data_upfIp = [],
        data_upfPort = 2152, gtpPlane = None, gatewayGnbIp = ''127.0.0.2''\<rparr>,
     controlInfo := \<lparr>mcc = ''208'', mnc = ''93'', tac = ''000001'', gnbId = ''000008'',
        gnbIp = ''127.0.0.1'', gnbPort = 9487, inboundChannel = 0, n2 = None\<rparr>,
     sliceInfo := \<lparr>slice_sd = ''010203'', slice_sst = ''01''\<rparr>,
     idUeGenerator := 1, idAmfGenerator := 1, teidGenerator := 1, ueIpGenerator := 3\<rparr>"

definition demo_amf0 :: GNBAmf where
  "demo_amf0 = zero_amf\<lparr>amfId := 1, amfIp := ''10.0.0.1'', amfPort := 38412,
     GNBAmf.tnla := \<lparr>sctpConn = Some 5, tnlaWeightFactor = 0, usage = 0, streams = 0\<rparr>\<rparr>"

definition demo_amf :: GNBAmf where
  "demo_amf = demo_amf0\<lparr>amf_name := ''amf1'', relativeAmfCapacity := 255, amf_st := Active,
     plmns := Some (PlmnSupported ''208'' ''93'' None), lenPlmn := 1,
     slices := Some (SliceSupported ''01'' ''010203'' [] None), lenSlice := 1\<rparr>"

definition demo_ue :: GNBUe where
  "demo_ue = zero_gnbue\<lparr>ranUeNgapId := 1, gnbTx := Some 10, gnbRx := Some 11, pRueId := 1,
     ue_amfId := 1, sctpConnection := Some 5\<rparr>"

text \<open>The states after each step of the run.\<close>

definition demo1 :: world where
  "demo1 = empty_world\<lparr>gnbH := (\<lambda>_. zero_gnb)(0 := demo_gnb), nextChan := 1\<rparr>"

definition demo_gnb2 :: GNBContext where
  "demo_gnb2 = demo_gnb\<lparr>amfPool := [(1, 0)], idAmfGenerator := 2,
     controlInfo := (controlInfo demo_gnb)\<lparr>n2 := Some 5\<rparr>\<rparr>"

definition demo2 :: world where
  "demo2 = demo1\<lparr>gnbH := (\<lambda>_. zero_gnb)(0 := demo_gnb2), amfH := (\<lambda>_. zero_amf)(0 := demo_amf0),
     nextAmf := 1, connCount := 1, events := [SctpWrite 5 [4]]\<rparr>"

definition demo3 :: world where
  "demo3 = demo2\<lparr>amfH := (\<lambda>_. zero_amf)(0 := demo_amf)\<rparr>"

definition demo_gnb4 :: GNBContext where
  "demo_gnb4 = demo_gnb2\<lparr>uePool := [(1, 0)], prUePool := [(1, 0)], idUeGenerator := 2\<rparr>"

definition demo4 :: world where
  "demo4 = demo3\<lparr>gnbH := (\<lambda>_. zero_gnb)(0 := demo_gnb4), ueH := (\<lambda>_. zero_gnbue)(0 := demo_ue),
     nextUe := 1,
     events := [SctpWrite 5 [4], ChanSend 10 (zero_msg\<lparr>Mcc := ''208'', Mnc := ''93''\<rparr>)]\<rparr>"

text \<open>A UE that comes before any AMF is turned away; its context stays in the pools.\<close>

definition demo_alone :: world where
  "demo_alone = demo1\<lparr>gnbH := (\<lambda>_. zero_gnb)(0 := demo_gnb\<lparr>uePool := [(1, 0)], prUePool := [(1, 0)],
       idUeGenerator := 2\<rparr>),
     ueH := (\<lambda>_. zero_gnbue)(0 := zero_gnbue\<lparr>ranUeNgapId := 1, gnbTx := Some 10, gnbRx := Some 11,
       pRueId := 1\<rparr>),
     nextUe := 1, closedChans := [10], events := [ChanClose 10]\<rparr>"

lemmas demo_data = demo_conf_def demo_ext_def demo_inbound_def demo_setup_response_def zero_msg_def
  no_sessions_def demo_gnb_def demo_amf0_def demo_amf_def demo_ue_def zero_gnb_def zero_amf_def
  zero_gnbue_def zero_uectx_def zero_bits_def zero_session_def demo_gnb2_def demo_gnb4_def

lemmas demo_worlds = demo1_def demo2_def demo3_def demo4_def demo_alone_def empty_world_def

lemma fun_upd_const [simp]: "(\<lambda>_. c)(a := c) = (\<lambda>_. c)"
  by auto

lemma msg_sessions_ok_demo [simp]: "msg_sessions_ok (demo_inbound pr c) w"
  by (simp add: msg_sessions_ok_def demo_inbound_def zero_msg_def no_sessions_def)

lemma hex_char_digits:
  "hex_char 0 = CHR ''0''" "hex_char 1 = CHR ''1''" "hex_char (Suc 0) = CHR ''1''" "hex_char 2 = CHR ''2''"
  "hex_char 3 = CHR ''3''" "hex_char 4 = CHR ''4''" "hex_char 5 = CHR ''5''" "hex_char 6 = CHR ''6''"
  "hex_char 7 = CHR ''7''" "hex_char 8 = CHR ''8''" "hex_char 9 = CHR ''9''" "hex_char 10 = CHR ''a''"
  "hex_char 11 = CHR ''b''" "hex_char 12 = CHR ''c''" "hex_char 13 = CHR ''d''" "hex_char 14 = CHR ''e''"
  "hex_char 15 = CHR ''f''"
  by (simp_all add: hex_char_def char_of_def bit_iff_odd)

lemma demo_run1: "new_gnb 0 demo_conf empty_world = Ret ((), demo1)"
  by (simp add: demo_data demo_worlds new_gnb_def NewRanGnbContext_def run_simps makeCh_def upd_defs)

lemma demo_run2:
  "connect_amf demo_ext 0 \<lparr>cf_Ip = ''10.0.0.1'', cf_Port = 38412\<rparr> demo1 = Ret ((), demo2)"
  by (simp add: demo_data demo_worlds run_simps connect_amf_def NewGnBAmf_def getRanAmfId_def Let_def
      InitConn_def set_sctp_conn_def SendNgSetupRequest_def NGSetupRequest_def BuildNGSetupRequest_def
      GetMccAndMncInOctets_def SendToAmF_def upd_defs sm_store_def reverse_def idx_def
      GetSliceInBytes_def mk_pdu_def bytes_or_nil_def)

lemma demo_run3: "Dispatch demo_ext 0 0 (Some [21]) demo2 = Ret ((), demo3)"
  by (simp add: demo_data demo_worlds run_simps Dispatch_def dispatch_msg_def HandlerNgSetupResponse_def
      pointer_read_def plmn_support_def AddedPlmn_def convertMccMnc_def idx_def add_slice_def
      AddedSlice_def hex_or_def show_support_def GetPlmnSupport_def GetSliceSupport_def upd_defs
      hex_char_digits Let_def)

lemma demo_run4: "gnbListen_msg demo_ext 0 (demo_inbound 1 10) demo3 = Ret (Some 0, demo4)"
  by (simp add: demo_data demo_worlds run_simps gnbListen_msg_def GetGnbUeByPrUeId_def
      new_connection_def NewGnBUe_def getRanUeId_def selectAmFByActive_def sm_store_def Let_def
      amf_weight_def send_or_hang_def sendCh_def SetPduSessions_def upd_ctx_def upd_defs)

lemma demo_run_alone: "gnbListen_msg demo_ext 0 (demo_inbound 1 10) demo1 = Ret (None, demo_alone)"
  by (simp add: demo_data demo_worlds run_simps gnbListen_msg_def GetGnbUeByPrUeId_def
      new_connection_def NewGnBUe_def getRanUeId_def selectAmFByActive_def sm_store_def Let_def
      closeCh_def upd_defs)

lemma fresh_empty [simp]: "fresh_gnb g empty_world"
  by (simp add: fresh_gnb_def empty_world_def zero_gnb_def)

lemma reachable_step: "reachable E s \<Longrightarrow> gnb_step E s t \<Longrightarrow> reachable E t"
  by (simp add: reachable_def)

lemma reachable_demo1: "reachable demo_ext demo1"
  by (rule reachable_step [of _ empty_world]) (simp add: reachable_def, rule gnb_step.start [OF fresh_empty demo_run1])

lemma reachable_demo_alone: "reachable demo_ext demo_alone"
  by (rule reachable_step [OF reachable_demo1 gnb_step.inbound_msg [OF msg_sessions_ok_demo demo_run_alone]])

lemma reachable_demo4: "reachable demo_ext demo4"
  by (rule reachable_step [OF reachable_step [OF reachable_step [OF reachable_demo1
        gnb_step.connect [OF demo_run2]] gnb_step.ngap [OF demo_run3]]
        gnb_step.inbound_msg [OF msg_sessions_ok_demo demo_run4]])

end
