(* ===== verification/GnbProps.thy ===== *)
theory GnbProps
  imports GnbDemo
begin

text \<open>
  Properties of the gNodeB context: identifiers, AMF selection, PDU sessions, the pools, PLMN
  encodings and paging, each with a concrete instance.
\<close>

section \<open>The pools in every reachable state\<close>

text \<open>
  C1: In every state a gNodeB reaches, whatever NGAP and UE messages arrived in whatever
  order, a UE context found in its pool under a RAN UE NGAP ID carries that ID, two IDs never
  lead to the same context, and every UE context has sixteen session slots. The generator is
  a 64-bit counter that wraps around: as long as fewer than \<open>2 ^ 63 - 1\<close> UE contexts
  were made, every ID in the pool has been issued before (it is below the generator), so that
  the next one issued replaces no context.
\<close>

theorem ran_ue_id_invariant:
  assumes "reachable E w"
    and "sm_load (uePool (gnbH w g)) i = Some u" and "sm_load (uePool (gnbH w g)) j = Some v"
  shows "ranUeNgapId (ueH w u) = i \<and> (u = v \<longleftrightarrow> i = j) \<and>
    length (pduSession (ue_context (ueH w u))) = 16 \<and>
    (int (nextUe w) < 2 ^ 63 - 1 \<longrightarrow> i < idUeGenerator (gnbH w g) \<and>
       (\<forall>w' n. getRanUeId g w = Ret (n, w') \<longrightarrow> sm_load (uePool (gnbH w g)) n = None))"
proof -
  have ok: "uePool_ok g w" "sessions_ok w"
    using reachable_wf [OF assms(1), of g] by (simp_all add: gnb_wf_parts)
  then have "ranUeNgapId (ueH w u) = i" "ranUeNgapId (ueH w v) = j"
    using assms(2, 3) by (simp_all add: uePool_ok_def)
  moreover from this assms(2, 3) have "u = v \<longleftrightarrow> i = j" by (metis option.inject)
  moreover have "length (pduSession (ue_context (ueH w u))) = 16"
    using ok(2) by (simp add: sessions_ok_def)
  moreover have "i < idUeGenerator (gnbH w g) \<and>
       (\<forall>w' n. getRanUeId g w = Ret (n, w') \<longrightarrow> sm_load (uePool (gnbH w g)) n = None)"
    if small: "int (nextUe w) < 2 ^ 63 - 1"
  proof -
    let ?n = "idUeGenerator (gnbH w g)"
    have below: "k < ?n" if "sm_load (uePool (gnbH w g)) k = Some x" for k x
      using ok(1) small that by (simp add: uePool_ok_def)
    have "sm_load (uePool (gnbH w g)) ?n = None"
      using below by (metis less_irrefl option.exhaust)
    then show ?thesis
      using below [OF assms(2)] by (auto simp: getRanUeId_def)
  qed
  ultimately show ?thesis by blast
qed

lemma ran_ue_id_invariant_witness:
  "sm_load (uePool (gnbH demo4 0)) 1 = Some 0 \<and> ranUeNgapId (ueH demo4 0) = 1"
proof -
  have "sm_load (uePool (gnbH demo4 0)) 1 = Some 0"
    by (simp add: demo_worlds demo_gnb4_def sm_load_def)
  with ran_ue_id_invariant [OF reachable_demo4 this this] show ?thesis by simp
qed

section \<open>AMF selection\<close>

lemma select_loop_ge: "fst acc \<le> fst (select_loop elig wt xs acc)"
  by (induction elig wt xs acc rule: select_loop.induct) (auto intro: order.trans)

lemma select_loop_max: "(k, a) \<in> set xs \<Longrightarrow> elig a \<Longrightarrow> wt a \<le> fst (select_loop elig wt xs acc)"
proof (induction elig wt xs acc rule: select_loop.induct)
  case (2 elig wt k' a' xs acc)
  show ?case
  proof (cases "(k, a) = (k', a')")
    case True
    with 2(3) select_loop_ge [of "if elig a \<and> fst acc < wt a then (wt a, Some a) else acc" elig wt xs]
    show ?thesis by (auto split: if_splits)
  next
    case False
    with 2 show ?thesis by (auto simp del: select_loop.simps simp add: select_loop.simps(2) split del: if_split)
  qed
qed simp

lemma select_loop_from:
  "snd (select_loop elig wt xs acc) = Some a \<Longrightarrow>
    (snd acc = Some a \<and> fst (select_loop elig wt xs acc) = fst acc) \<or>
    ((\<exists>k. (k, a) \<in> set xs) \<and> elig a \<and> fst acc < wt a \<and> fst (select_loop elig wt xs acc) = wt a)"
  by (induction elig wt xs acc rule: select_loop.induct) (auto split: if_splits)

lemma select_loop_None: "snd (select_loop elig wt xs acc) = None \<Longrightarrow> fst (select_loop elig wt xs acc) = fst acc"
proof (induction elig wt xs acc rule: select_loop.induct)
  case (2 elig wt k a xs acc)
  have "snd (select_loop elig wt xs (m, Some b)) \<noteq> None" for m b
    by (induction xs arbitrary: m b) (auto split: if_splits)
  from this [of "wt a" a] 2 show ?case by (auto split: if_splits)
qed simp

lemma select_loop_best:
  assumes "select_loop elig wt xs (- 1, None) = (m, r)"
  shows "case r of
      None \<Rightarrow> \<forall>(k, a) \<in> set xs. elig a \<longrightarrow> wt a < 0
    | Some a \<Rightarrow> (\<exists>k. (k, a) \<in> set xs) \<and> elig a \<and> 0 \<le> wt a \<and>
        (\<forall>(k, b) \<in> set xs. elig b \<longrightarrow> wt b \<le> wt a)"
proof -
  have max: "wt a \<le> m" if "(k, a) \<in> set xs" "elig a" for k a
    using select_loop_max [of k a xs elig wt "(- 1, None)"] that assms by simp
  show ?thesis
  proof (cases r)
    case None
    with select_loop_None [of elig wt xs "(- 1, None)"] assms have "m = - 1" by simp
    with None max show ?thesis by fastforce
  next
    case (Some a)
    with select_loop_from [of elig wt xs "(- 1, None)" a] assms
    have "\<exists>k. (k, a) \<in> set xs" "elig a" "- 1 < wt a" "m = wt a" by simp_all
    with Some max show ?thesis by fastforce
  qed
qed

text \<open>
  C27: \<open>selectAmFByActive\<close>, the choice made for every new UE, returns an AMF of the pool
  that is active and whose TNLA weight no other active AMF of the pool exceeds, whatever the
  order in which the pool is visited; it returns none only if every active AMF has a negative
  weight, in particular if no AMF is active. The comment at the call in \<open>NewGnBUe\<close>
  announces an AMF whose capacity is more than 0; the capacity plays no part in the choice
  (\<open>selectAmFByActive_ignores_capacity\<close>).
\<close>

theorem selectAmFByActive_best:
  assumes "range_order (amf_order E)" and "reachable E w"
  shows "case selectAmFByActive E g w of
      None \<Rightarrow> \<forall>k a. sm_load (amfPool (gnbH w g)) k = Some a \<and> amf_st (amfH w a) = Active \<longrightarrow> amf_weight w a < 0
    | Some a \<Rightarrow> sm_load (amfPool (gnbH w g)) (amfId (amfH w a)) = Some a \<and> amf_st (amfH w a) = Active \<and>
        (\<forall>k b. sm_load (amfPool (gnbH w g)) k = Some b \<and> amf_st (amfH w b) = Active \<longrightarrow>
           amf_weight w b \<le> amf_weight w a)"
proof -
  let ?xs = "amf_order E (amfPool (gnbH w g))"
  have wf: "pools_distinct (gnbH w g)" "amfPool_ok g w"
    using reachable_wf [OF assms(2), of g] by (auto simp: gnb_wf_parts)
  have mem: "(k, a) \<in> set ?xs \<longleftrightarrow> sm_load (amfPool (gnbH w g)) k = Some a" for k a
    using wf(1) range_order_set [OF assms(1)] sm_load_in by (metis pools_distinct_def)
  obtain m r where "select_loop (\<lambda>a. amf_st (amfH w a) = Active) (amf_weight w) ?xs (- 1, None) = (m, r)"
    by fastforce
  from select_loop_best [OF this] this show ?thesis
    using wf(2) by (cases r) (auto simp: selectAmFByActive_def mem amfPool_ok_def)
qed

lemma selectAmFByActive_best_witness:
  "selectAmFByActive demo_ext 0 demo4 = Some 0 \<and> amf_st (amfH demo4 0) = Active"
proof -
  have "range_order (amf_order demo_ext)"
    by (simp add: range_order_def demo_ext_def)
  moreover have "selectAmFByActive demo_ext 0 demo4 = Some 0"
    by (simp add: selectAmFByActive_def demo_worlds demo_data amf_weight_def)
  ultimately show ?thesis
    using selectAmFByActive_best [OF _ reachable_demo4, of 0] by auto
qed

lemma selectAmFByActive_frame:
  "amfPool (gnbH w' g) = amfPool (gnbH w g) \<Longrightarrow> amfH w' = amfH w \<Longrightarrow>
    selectAmFByActive E g w' = selectAmFByActive E g w"
  by (simp add: selectAmFByActive_def amf_weight_def [abs_def])

text \<open>
  The relative capacities of the AMFs do not matter: whatever they are changed to, also to 0,
  the same AMF is chosen.
\<close>

theorem selectAmFByActive_ignores_capacity:
  "selectAmFByActive E g (w\<lparr>amfH := \<lambda>a. (amfH w a)\<lparr>relativeAmfCapacity := c a\<rparr>\<rparr>) = selectAmFByActive E g w"
  by (simp add: selectAmFByActive_def amf_weight_def [abs_def])

text \<open>
  A UE that connects while no AMF is active is refused with an error, but its context has
  been filed before the check: it stays in the UE pool under its RAN UE NGAP ID, and in the
  pool of test-tool identifiers when it has one.
\<close>

theorem NewGnBUe_without_amf_leaks:
  assumes "selectAmFByActive E g w = None"
  shows "\<exists>w'. NewGnBUe E g tx rx pr tm w = Ret (Inl ''No AMF available for this UE'', w') \<and>
    GetGnbUe g (idUeGenerator (gnbH w g)) w' = Inr (nextUe w) \<and>
    (pr \<noteq> 0 \<longrightarrow> GetGnbUeByPrUeId g pr w' = Inr (nextUe w))"
proof -
  have none: "selectAmFByActive E g w' = None"
    if "amfPool (gnbH w' g) = amfPool (gnbH w g)" "amfH w' = amfH w" for w'
    using selectAmFByActive_frame [OF that] assms by simp
  show ?thesis
    by (simp add: NewGnBUe_def getRanUeId_def run_simps Let_def upd_gnb_def GetGnbUe_def none
        GetGnbUeByPrUeId_def sm_load_simps)
qed

lemma NewGnBUe_without_amf_leaks_witness:
  "\<exists>w'. NewGnBUe demo_ext 0 (Some 10) (Some 11) 1 None demo1 = Ret (Inl ''No AMF available for this UE'', w') \<and>
    GetGnbUe 0 1 w' = Inr 0"
proof -
  have "selectAmFByActive demo_ext 0 demo1 = None" "idUeGenerator (gnbH demo1 0) = 1" "nextUe demo1 = 0"
    by (simp_all add: selectAmFByActive_def demo_worlds demo_data)
  with NewGnBUe_without_amf_leaks [of demo_ext 0 demo1 "Some 10" "Some 11" 1 None] show ?thesis
    by auto
qed

section \<open>Tunnel identifiers\<close>

definition alloc_teids :: "gnb_ref \<Rightarrow> ue_ref \<Rightarrow> nat \<Rightarrow> (u32 list) M" where
  "alloc_teids g ue n =
     foldM [0..<n] (\<lambda>_ ts. bindM (GetUeTeid g ue) (\<lambda>t. retM (ts @ [t]))) []"

lemma foldM_snoc: "foldM (xs @ [x]) f b = bindM (foldM xs f b) (f x)"
  by (induction xs arbitrary: b)
    (auto simp: fun_eq_iff bindM_apply bindR_def split: res.splits prod.splits)

lemma alloc_teids_result:
  "\<exists>w'. alloc_teids g ue n w = Ret (map (\<lambda>k. teidGenerator (gnbH w g) + of_nat k) [0..<n], w') \<and>
    teidGenerator (gnbH w' g) = teidGenerator (gnbH w g) + of_nat n"
proof (induction n)
  case 0
  then show ?case by (simp add: alloc_teids_def)
next
  case (Suc n)
  then obtain w' where w': "alloc_teids g ue n w = Ret (map (\<lambda>k. teidGenerator (gnbH w g) + of_nat k) [0..<n], w')"
    "teidGenerator (gnbH w' g) = teidGenerator (gnbH w g) + of_nat n"
    by blast
  have "alloc_teids g ue (Suc n) =
      bindM (alloc_teids g ue n) (\<lambda>ts. bindM (GetUeTeid g ue) (\<lambda>t. retM (ts @ [t])))"
    by (simp add: alloc_teids_def foldM_snoc)
  with w' show ?case
    by (simp add: bindM_apply GetUeTeid_def Let_def upd_gnb_def algebra_simps)
qed

lemma of_nat_u32_inj: "i < 2 ^ 32 \<Longrightarrow> j < 2 ^ 32 \<Longrightarrow> (of_nat i :: u32) = of_nat j \<longleftrightarrow> i = j"
  by (simp add: word_unat_eq_iff unsigned_of_nat take_bit_nat_eq_self)

lemma of_nat_u32_not_inj: "2 ^ 32 < n \<Longrightarrow> \<not> inj_on (of_nat :: nat \<Rightarrow> u32) {0..<n}"
  unfolding inj_on_def by (rule notI, drule bspec [of _ _ 0], simp, drule bspec [of _ _ "2 ^ 32"]) auto

text \<open>
  C34: The downlink TEIDs a gNodeB hands out one after the other are distinct exactly as long
  as no more than \<open>2 ^ 32\<close> are handed out: the 32-bit counter wraps and the TEID pool is
  not asked whether an identifier is still in use.
\<close>

theorem GetUeTeid_distinct:
  "\<exists>ts w'. alloc_teids g ue n w = Ret (ts, w') \<and> length ts = n \<and> (distinct ts \<longleftrightarrow> n \<le> 2 ^ 32)"
proof -
  let ?f = "\<lambda>k. teidGenerator (gnbH w g) + of_nat k"
  have "distinct (map ?f [0..<n]) \<longleftrightarrow> inj_on (of_nat :: nat \<Rightarrow> u32) {0..<n}"
    by (simp add: distinct_map inj_on_def)
  moreover have "inj_on (of_nat :: nat \<Rightarrow> u32) {0..<n} \<longleftrightarrow> n \<le> 2 ^ 32"
  proof
    assume "inj_on (of_nat :: nat \<Rightarrow> u32) {0..<n}"
    then show "n \<le> 2 ^ 32" using of_nat_u32_not_inj not_less by blast
  next
    assume "n \<le> 2 ^ 32"
    then show "inj_on (of_nat :: nat \<Rightarrow> u32) {0..<n}"
      by (intro inj_onI) (simp add: of_nat_u32_inj del: of_nat_eq_iff)
  qed
  ultimately show ?thesis
    using alloc_teids_result [of g ue n w] by fastforce
qed

section \<open>PLMN identities\<close>

text \<open>
  The identities of the configuration: three decimal digits of MCC, two or three of MNC.
\<close>

definition plmn_digits :: "string \<Rightarrow> string \<Rightarrow> bool" where
  "plmn_digits mc mn \<longleftrightarrow> length mc = 3 \<and> (length mn = 2 \<or> length mn = 3) \<and>
     list_all (\<lambda>c. 48 \<le> code c \<and> code c \<le> 57) (mc @ mn)"

lemma digit_hex_char: "48 \<le> code c \<Longrightarrow> code c \<le> 57 \<Longrightarrow> \<exists>d < 10. c = hex_char d"
proof (rule exI [of _ "code c - 48"])
  assume "48 \<le> code c" "code c \<le> 57"
  then have "code c - 48 < 10" "48 + (code c - 48) = code c" by arith+
  then show "code c - 48 < 10 \<and> c = hex_char (code c - 48)"
    by (simp add: hex_char_def)
qed

lemma hex_char_not_f [simp]: "d < 10 \<Longrightarrow> hex_char d \<noteq> CHR ''f''"
proof
  assume "d < 10" and "hex_char d = CHR ''f''"
  then have "hex_val (hex_char d) = hex_val (hex_char 15)"
    by (simp add: hex_char_digits(17))
  with \<open>d < 10\<close> show False by simp
qed

lemma hex_of_hex_pair:
  assumes "a < 16" and "b < 16"
  shows "hex_of (fst (hex_decode (hex_char a # hex_char b # s))) =
    hex_char a # hex_char b # hex_of (fst (hex_decode s))"
proof -
  have "unat (of_nat (16 * a + b) :: byte) = 16 * a + b"
    using assms by (simp add: unsigned_of_nat take_bit_nat_eq_self del: of_nat_add of_nat_mult)
  then show ?thesis
    using assms by (cases "hex_decode s") (simp del: of_nat_add of_nat_mult)
qed

text \<open>
  C33: The PLMN identity a gNodeB sends, built from the MCC and MNC of its configuration,
  decodes with the function used on the PLMNs of an AMF to the same MCC and MNC, for MNCs of
  two and of three digits.
\<close>

theorem plmn_roundtrip:
  assumes "plmn_digits (mcc (controlInfo c)) (mnc (controlInfo c))"
  shows "bindR (GetMccAndMncInOctets c) (\<lambda>octets. convertMccMnc (hex_of octets)) =
    Ret (mcc (controlInfo c), mnc (controlInfo c))"
proof -
  obtain m0 m1 m2 where mc: "mcc (controlInfo c) = [m0, m1, m2]"
    using assms by (auto simp: plmn_digits_def numeral_3_eq_3 length_Suc_conv)
  have dig: "\<exists>d < 10. x = hex_char d" if "x \<in> set [m0, m1, m2] \<union> set (mnc (controlInfo c))" for x
    using assms that by (intro digit_hex_char) (auto simp: plmn_digits_def mc list_all_iff)
  then obtain d0 d1 d2 where d: "m0 = hex_char d0" "m1 = hex_char d1" "m2 = hex_char d2"
    "d0 < 10" "d1 < 10" "d2 < 10"
    by (metis UnI1 list.set_intros)
  consider n0 n1 where "mnc (controlInfo c) = [n0, n1]"
    | n0 n1 n2 where "mnc (controlInfo c) = [n0, n1, n2]"
    using assms by (auto simp: plmn_digits_def numeral_2_eq_2 numeral_3_eq_3 length_Suc_conv)
  then show ?thesis
  proof cases
    case 1
    then obtain e0 e1 where e: "n0 = hex_char e0" "n1 = hex_char e1" "e0 < 10" "e1 < 10"
      using dig by (metis UnI2 list.set_intros)
    have "hex_of (fst (hex_decode [m1, m0, CHR ''f'', m2, n1, n0])) = [m1, m0, CHR ''f'', m2, n1, n0]"
      unfolding d e hex_char_digits(17) [symmetric]
      using d(4-) e(3-) by (simp add: hex_of_hex_pair del: hex_decode.simps(3))
    then show ?thesis
      by (simp add: GetMccAndMncInOctets_def mc 1 reverse_def idx_def Let_def convertMccMnc_def
          del: hex_decode.simps length_hex_of)
  next
    case 2
    then obtain e0 e1 e2 where e: "n0 = hex_char e0" "n1 = hex_char e1" "n2 = hex_char e2"
      "e0 < 10" "e1 < 10" "e2 < 10"
      using dig by (metis UnI2 list.set_intros)
    have "hex_of (fst (hex_decode [m1, m0, n0, m2, n2, n1])) = [m1, m0, n0, m2, n2, n1]"
      unfolding d e using d(4-) e(4-) by (simp add: hex_of_hex_pair del: hex_decode.simps(3))
    then show ?thesis
      using e by (simp add: GetMccAndMncInOctets_def mc 2 reverse_def idx_def Let_def convertMccMnc_def
          numeral_3_eq_3 del: hex_decode.simps length_hex_of)
  qed
qed

lemma plmn_roundtrip_witness:
  "bindR (GetMccAndMncInOctets demo_gnb) (\<lambda>octets. convertMccMnc (hex_of octets)) = Ret (''208'', ''93'')"
proof -
  have "plmn_digits (mcc (controlInfo demo_gnb)) (mnc (controlInfo demo_gnb))"
    by (simp add: plmn_digits_def demo_gnb_def)
  from plmn_roundtrip [OF this] show ?thesis
    by (simp add: demo_gnb_def)
qed

text \<open>
  The PLMN that the AMF Status Indication handler decodes in place is the one
  \<open>convertMccMnc\<close> gives for the same three octets, so the comparison with the PLMNs
  stored at NG Setup compares like with like.
\<close>

theorem guami_plmn_is_convertMccMnc: "guami_plmn [o0, o1, o2] = convertMccMnc (hex_of [o0, o1, o2])"
  by (simp add: guami_plmn_def convertMccMnc_def idx_def Let_def)

end
