(* ===== verification/GnbSessions.thy ===== *)
theory GnbSessions
  imports GnbDemo
begin

text \<open>
  Properties of the PDU sessions of a UE context, of the removal of a UE and of paging.
\<close>

section \<open>PDU sessions\<close>

abbreviation sessions :: "ue_ref \<Rightarrow> world \<Rightarrow> sess_ref option list" where
  "sessions u w \<equiv> pduSession (ue_context (ueH w u))"

lemma idx_int_in: "1 \<le> sid \<Longrightarrow> sid \<le> 16 \<Longrightarrow> length xs = 16 \<Longrightarrow> idx_int xs (sid - 1) = Ret (xs ! nat (sid - 1))"
  by (simp add: idx_int_def)

lemma idx_int_out: "sid < 1 \<or> 16 < sid \<Longrightarrow> length xs = 16 \<Longrightarrow> idx_int xs (sid - 1) = Panic IndexRange"
  by (auto simp: idx_int_def)

lemma GetPduSession_slot:
  "1 \<le> sid \<Longrightarrow> sid \<le> 16 \<Longrightarrow> length (sessions u w) = 16 \<Longrightarrow>
    GetPduSession u sid w = Ret (Inr (sessions u w ! nat (sid - 1)), w)"
  by (simp add: GetPduSession_def run_simps idx_int_in)

lemma DeletePduSession_slot:
  "1 \<le> sid \<Longrightarrow> sid \<le> 16 \<Longrightarrow> length (sessions u w) = 16 \<Longrightarrow>
    DeletePduSession u sid w =
      Ret (None, upd_ctx u (\<lambda>c. c\<lparr>pduSession := (sessions u w)[nat (sid - 1) := None]\<rparr>) w)"
  by (simp add: DeletePduSession_def run_simps upd_int_def)

text \<open>
  The three operations on the session array reject no identifier: the guard meant to keep
  identifiers between 1 and 16 is never true, and outside that range the array access panics.
\<close>

theorem session_id_out_of_range_panics:
  assumes "length (sessions u w) = 16" and "sid < 1 \<or> 16 < sid"
  shows "CreatePduSession u sid upf sst sd pt q arp f ul dl w = Panic IndexRange \<and>
    GetPduSession u sid w = Panic IndexRange \<and> DeletePduSession u sid w = Panic IndexRange"
proof -
  have "upd_int (sessions u w) (sid - 1) None = Panic IndexRange"
    using assms by (auto simp: upd_int_def)
  then show ?thesis
    using idx_int_out [OF assms(2, 1)] assms
    by (auto simp: CreatePduSession_def GetPduSession_def DeletePduSession_def run_simps)
qed

lemma session_id_out_of_range_panics_witness:
  "GetPduSession 0 0 demo4 = Panic IndexRange \<and> DeletePduSession 0 17 demo4 = Panic IndexRange"
proof -
  have "length (sessions 0 demo4) = 16"
    by (simp add: demo_worlds demo_data)
  with session_id_out_of_range_panics [of demo4 0 0] session_id_out_of_range_panics [of demo4 0 17]
  show ?thesis by simp
qed

text \<open>
  C17: A PDU session that is created is the one found under its identifier afterwards, under a
  fresh reference, and holds exactly the data it was created with: identifier, UPF address,
  slice, session type, QoS identifier, 5QI, ARP and the two TEIDs; the data of every other
  session stay; the other identifiers find what they found before; and deleting it frees the
  identifier again. Creation succeeds exactly for a free
  identifier from 1 to 16 whose slice is among the allowed ones.
\<close>

theorem CreatePduSession_then_lookup:
  assumes "length (sessions u w) = 16" and "1 \<le> sid" and "sid \<le> 16"
  shows "if sessions u w ! nat (sid - 1) = None \<and> isWantedNssai sst sd (ue_context (ueH w u)) then
      (\<exists>w'. CreatePduSession u sid upf sst sd pt q arp f ul dl w = Ret (Inr (nextSess w), w') \<and>
         GetPduSession u sid w' = Ret (Inr (Some (nextSess w)), w') \<and>
         sessH w' (nextSess w) = \<lparr>pduSessionId = sid, upfIp = upf, sess_sst = sst, sess_sd = sd,
           uplinkTeid = ul, downlinkTeid = dl, pduType = pt, qosId = q, fiveQi = f, priArp = arp\<rparr> \<and>
         (\<forall>p. p \<noteq> nextSess w \<longrightarrow> sessH w' p = sessH w p) \<and> nextSess w' = Suc (nextSess w) \<and>
         (\<forall>j x. 1 \<le> j \<and> j \<le> 16 \<and> j \<noteq> sid \<and> GetPduSession u j w = Ret (x, w) \<longrightarrow>
            GetPduSession u j w' = Ret (x, w')) \<and>
         (\<exists>w''. DeletePduSession u sid w' = Ret (None, w'') \<and> sessions u w'' = sessions u w))
    else (\<exists>e. CreatePduSession u sid upf sst sd pt q arp f ul dl w = Ret (Inl e, w))"
proof (cases "sessions u w ! nat (sid - 1) = None \<and> isWantedNssai sst sd (ue_context (ueH w u))")
  case False
  then show ?thesis
    using assms by (auto simp: CreatePduSession_def run_simps idx_int_in)
next
  case True
  let ?p = "nextSess w"
  let ?s = "\<lparr>pduSessionId = sid, upfIp = upf, sess_sst = sst, sess_sd = sd, uplinkTeid = ul,
    downlinkTeid = dl, pduType = pt, qosId = q, fiveQi = f, priArp = arp\<rparr>"
  let ?w' = "upd_ctx u (\<lambda>c. c\<lparr>pduSession := (sessions u w)[nat (sid - 1) := Some ?p]\<rparr>)
    (w\<lparr>sessH := (sessH w)(?p := ?s), nextSess := Suc ?p\<rparr>)"
  have run: "CreatePduSession u sid upf sst sd pt q arp f ul dl w = Ret (Inr ?p, ?w')"
    using True assms by (simp add: CreatePduSession_def run_simps idx_int_in Let_def upd_ctx_def upd_ue_def)
  have ss: "sessions u ?w' = (sessions u w)[nat (sid - 1) := Some ?p]"
    "sessH ?w' ?p = ?s" "\<forall>p. p \<noteq> ?p \<longrightarrow> sessH ?w' p = sessH w p" "nextSess ?w' = Suc ?p"
    by (simp_all add: upd_ctx_def upd_ue_def)
  then have len: "length (sessions u ?w') = 16" using assms(1) by simp
  have others: "GetPduSession u j ?w' = Ret (x, ?w')"
    if "1 \<le> j" "j \<le> 16" "j \<noteq> sid" "GetPduSession u j w = Ret (x, w)" for j x
    using that GetPduSession_slot [OF that(1, 2) assms(1)] GetPduSession_slot [OF that(1, 2) len] assms ss
    by (auto simp: nth_list_update nat_eq_iff)
  have del: "\<exists>w''. DeletePduSession u sid ?w' = Ret (None, w'') \<and> sessions u w'' = sessions u w"
    using DeletePduSession_slot [OF assms(2, 3) len] True assms
    by (simp add: ss(1) upd_ctx_def upd_ue_def list_update_same_conv)
  have "GetPduSession u sid ?w' = Ret (Inr (Some ?p), ?w')"
    using GetPduSession_slot [OF assms(2, 3) len] assms by (simp add: ss(1))
  with True run ss(2-4) others del show ?thesis
    by (simp only: if_True simp_thms) (intro exI [of _ ?w'], simp)
qed

definition demo_slices :: world where
  "demo_slices = upd_ctx 0 (\<lambda>c. c\<lparr>allowedSst := [''01''], allowedSd := [''010203'']\<rparr>) demo4"

lemma CreatePduSession_then_lookup_witness:
  "\<exists>w'. CreatePduSession 0 5 [] ''01'' ''010203'' 0 1 0 0 9 1 demo_slices = Ret (Inr 0, w') \<and>
    GetPduSession 0 5 w' = Ret (Inr (Some 0), w')"
proof -
  have "length (sessions 0 demo_slices) = 16" "sessions 0 demo_slices ! nat (5 - 1) = None"
    "nextSess demo_slices = 0" "isWantedNssai ''01'' ''010203'' (ue_context (ueH demo_slices 0))"
    by (simp_all add: demo_slices_def upd_ctx_def upd_ue_def demo_worlds demo_data isWantedNssai_def)
  with CreatePduSession_then_lookup [of demo_slices 0 5 "''01''" "''010203''" "[]" 0 1 0 0 9 1]
  show ?thesis by auto
qed

text \<open>
  \<open>GetSelectedNssai\<close> looks one slot too far: right after a session with identifier
  \<open>sid\<close> was created in an otherwise empty array, it reports that no slice was selected for
  \<open>sid\<close>, returns the slice under \<open>sid - 1\<close>, and for identifier 16 it panics.
\<close>

theorem GetSelectedNssai_off_by_one:
  assumes "sessions u w = (replicate 16 None)[nat (sid - 1) := Some p]" and "1 \<le> sid" and "sid \<le> 16"
  shows "(sid < 16 \<longrightarrow> GetSelectedNssai u sid w = Ret ((''NSSAI was not selected'', ''NSSAI was not selected''), w)) \<and>
    (sid = 16 \<longrightarrow> GetSelectedNssai u sid w = Panic IndexRange) \<and>
    GetSelectedNssai u (sid - 1) w = Ret ((sess_sst (sessH w p), sess_sd (sessH w p)), w)"
  using assms by (auto simp: GetSelectedNssai_def run_simps idx_int_def nth_list_update)

lemma GetSelectedNssai_off_by_one_witness:
  "GetSelectedNssai 0 1 (upd_ctx 0 (\<lambda>c. c\<lparr>pduSession := (replicate 16 None)[0 := Some 0]\<rparr>) demo4) =
    Ret ((''NSSAI was not selected'', ''NSSAI was not selected''),
      upd_ctx 0 (\<lambda>c. c\<lparr>pduSession := (replicate 16 None)[0 := Some 0]\<rparr>) demo4)"
  using GetSelectedNssai_off_by_one [of "upd_ctx 0 (\<lambda>c. c\<lparr>pduSession := (replicate 16 None)[0 := Some 0]\<rparr>) demo4" 0 1 0]
  by (simp add: upd_ctx_def upd_ue_def)

section \<open>Removing a UE\<close>

lemma delete_all: "sm_load (foldl (\<lambda>m t. sm_delete t m) m ts) k = (if k \<in> set ts then None else sm_load m k)"
  by (induction ts arbitrary: m) (simp_all add: sm.load_del)

lemma session_teids_in:
  "t \<in> set (session_teids w u) \<longleftrightarrow> (\<exists>p. Some p \<in> set (sessions u w) \<and> downlinkTeid (sessH w p) = t)"
  by (simp add: session_teids_def List.map_filter_def image_iff Bex_def) (metis (lifting) not_None_eq option.sel)

text \<open>
  C20: Deleting a UE context removes three kinds of entries and no others: its own in the pool
  of RAN UE NGAP IDs; in the pool of test-tool identifiers the one under its identifier, unless
  another context has taken its place there; and in the TEID pool the entries under the
  downlink TEIDs of the sessions it holds at that moment, also an entry that leads to another
  UE meanwhile. The TEIDs of sessions it released before stay in the pool. Its channel, when
  it has one, is closed, and it forgets the channel; the other contexts, the sessions, the
  AMFs and the other gNodeBs are untouched.
\<close>

theorem DeleteGnBUe_removes:
  assumes "reachable E w" and "sm_load (uePool (gnbH w g)) i = Some u"
    and "case gnbTx (ueH w u) of None \<Rightarrow> True | Some c \<Rightarrow> c \<notin> set (closedChans w)"
  shows "\<exists>w'. DeleteGnBUe g u w = Ret ((), w') \<and>
    (\<forall>j. GetGnbUe g j w' = (if j = i then Inl ''UE is not find in GNB UE POOL'' else GetGnbUe g j w)) \<and>
    (\<forall>p. GetGnbUeByPrUeId g p w' =
       (if GetGnbUeByPrUeId g p w = Inr u then Inl ''UE is not find in GNB PR UE POOL''
        else GetGnbUeByPrUeId g p w)) \<and>
    (\<forall>t. GetGnbUeByTeid g t w' =
       (if \<exists>p. Some p \<in> set (sessions u w) \<and> downlinkTeid (sessH w p) = t
        then Inl ''UE is not find in GNB UE POOL using TEID'' else GetGnbUeByTeid g t w)) \<and>
    ueH w' = (ueH w)(u := (ueH w u)\<lparr>gnbTx := None\<rparr>) \<and>
    sessH w' = sessH w \<and> amfH w' = amfH w \<and> (\<forall>h. h \<noteq> g \<longrightarrow> gnbH w' h = gnbH w h) \<and>
    amfPool (gnbH w' g) = amfPool (gnbH w g) \<and>
    closedChans w' = (case gnbTx (ueH w u) of None \<Rightarrow> closedChans w | Some c \<Rightarrow> c # closedChans w)"
proof -
  have wf: "uePool_ok g w" "prUePool_ok g w"
    using reachable_wf [OF assms(1), of g] by (simp_all add: gnb_wf_parts)
  then have i: "ranUeNgapId (ueH w u) = i"
    using assms(2) by (simp add: uePool_ok_def)
  have pr: "sm_load (sm_cas_delete (pRueId (ueH w u)) u (prUePool (gnbH w g))) p =
      (if sm_load (prUePool (gnbH w g)) p = Some u then None else sm_load (prUePool (gnbH w g)) p)" for p
    using wf(2) by (auto simp: sm.load_cas_del prUePool_ok_def)
  let ?w1 = "upd_gnb g (\<lambda>c. c\<lparr>
       uePool := sm_delete (ranUeNgapId (ueH w u)) (uePool c),
       prUePool := sm_cas_delete (pRueId (ueH w u)) u (prUePool c),
       teidPool := foldl (\<lambda>m t. sm_delete t m) (teidPool c) (session_teids w u)\<rparr>) w"
  have "\<exists>w'. DeleteGnBUe g u w = Ret ((), w') \<and> gnbH w' = gnbH ?w1 \<and>
    ueH w' = (ueH w)(u := (ueH w u)\<lparr>gnbTx := None\<rparr>) \<and> sessH w' = sessH w \<and> amfH w' = amfH w \<and>
    closedChans w' = (case gnbTx (ueH w u) of None \<Rightarrow> closedChans w | Some c \<Rightarrow> c # closedChans w)"
  proof (cases "gnbTx (ueH w u)")
    case None
    then have "(ueH w u)\<lparr>gnbTx := None\<rparr> = ueH w u" by (cases "ueH w u") simp
    then have "(ueH w)(u := (ueH w u)\<lparr>gnbTx := None\<rparr>) = ueH w" by (simp add: fun_upd_idem)
    with None show ?thesis by (simp add: DeleteGnBUe_def run_simps upd_gnb_def)
  next
    case (Some c)
    with assms(3) show ?thesis
      by (simp add: DeleteGnBUe_def run_simps closeCh_def upd_gnb_def upd_ue_def emit_def)
  qed
  then obtain w' where w': "DeleteGnBUe g u w = Ret ((), w')" "gnbH w' = gnbH ?w1"
    "ueH w' = (ueH w)(u := (ueH w u)\<lparr>gnbTx := None\<rparr>)" "sessH w' = sessH w" "amfH w' = amfH w"
    "closedChans w' = (case gnbTx (ueH w u) of None \<Rightarrow> closedChans w | Some c \<Rightarrow> c # closedChans w)"
    by blast
  have pools: "uePool (gnbH w' g) = sm_delete i (uePool (gnbH w g))"
    "prUePool (gnbH w' g) = sm_cas_delete (pRueId (ueH w u)) u (prUePool (gnbH w g))"
    "teidPool (gnbH w' g) = foldl (\<lambda>m t. sm_delete t m) (teidPool (gnbH w g)) (session_teids w u)"
    "amfPool (gnbH w' g) = amfPool (gnbH w g)" "\<forall>h. h \<noteq> g \<longrightarrow> gnbH w' h = gnbH w h"
    by (simp_all add: w'(2) upd_gnb_def i)
  have "\<forall>j. GetGnbUe g j w' = (if j = i then Inl ''UE is not find in GNB UE POOL'' else GetGnbUe g j w)"
    by (simp add: GetGnbUe_def pools(1) sm.load_del)
  moreover have "\<forall>p. GetGnbUeByPrUeId g p w' =
       (if GetGnbUeByPrUeId g p w = Inr u then Inl ''UE is not find in GNB PR UE POOL''
        else GetGnbUeByPrUeId g p w)"
    by (simp add: GetGnbUeByPrUeId_def pools(2) pr split: option.split)
  moreover have "\<forall>t. GetGnbUeByTeid g t w' =
       (if \<exists>p. Some p \<in> set (sessions u w) \<and> downlinkTeid (sessH w p) = t
        then Inl ''UE is not find in GNB UE POOL using TEID'' else GetGnbUeByTeid g t w)"
    by (simp only: GetGnbUeByTeid_def pools(3) delete_all session_teids_in) (simp split: option.split)
  ultimately show ?thesis
    using w'(1, 3-6) pools(4, 5) by blast
qed

lemma DeleteGnBUe_removes_witness:
  "\<exists>w'. DeleteGnBUe 0 0 demo4 = Ret ((), w') \<and> GetGnbUe 0 1 w' = Inl ''UE is not find in GNB UE POOL''"
proof -
  have "sm_load (uePool (gnbH demo4 0)) 1 = Some 0"
    "case gnbTx (ueH demo4 0) of None \<Rightarrow> True | Some c \<Rightarrow> c \<notin> set (closedChans demo4)"
    by (simp_all add: demo_worlds demo_data sm_load_def)
  from DeleteGnBUe_removes [OF reachable_demo4 this] show ?thesis by auto
qed

section \<open>Paging\<close>

lemma slices_Delete_empty: "slices_Delete xs i i = xs"
  by (simp add: slices_Delete_def)

lemma pagedUEs_self: "c\<lparr>pagedUEs := pagedUEs c\<rparr> = c"
  by (cases c) simp

lemma upd_gnb_same:
  assumes "f (gnbH w g) = gnbH w g"
  shows "upd_gnb g f w = w"
proof -
  have "(gnbH w)(g := f (gnbH w g)) = gnbH w"
    using assms by (simp add: fun_upd_idem)
  then show ?thesis by (simp add: upd_gnb_def)
qed

lemma slices_Index_append: "\<exists>i. slices_Index (xs @ [e]) e = Some i"
  by (induction xs) (auto split: option.splits)

text \<open>
  A paged UE is never forgotten: the timer meant to remove its entry after a second
  deletes an empty range, so that the entry is still there for every UE that asks for the
  paged UEs afterwards, and the list only grows.
\<close>

theorem paged_ue_never_expires:
  assumes "\<not> pagedUELock (gnbH w g)"
  shows "\<exists>e w1 w2. AddPagedUE g t w = Ret (e, w1) \<and> paged_timer g e w1 = Ret ((), w2) \<and>
    GetPagedUEs g w2 = Ret (pagedUEs (gnbH w g) @ [e], w2)"
proof -
  let ?e = "\<lparr>pg_FiveGSTMSI = t, pg_Timestamp = clock w\<rparr>"
  let ?w1 = "upd_gnb g (\<lambda>c. c\<lparr>pagedUEs := pagedUEs c @ [?e]\<rparr>) w"
  obtain i where "slices_Index (pagedUEs (gnbH w g) @ [?e]) ?e = Some i"
    by (rule exE [OF slices_Index_append [of "pagedUEs (gnbH w g)" ?e]])
  moreover have w1: "pagedUEs (gnbH ?w1 g) = pagedUEs (gnbH w g) @ [?e]" "\<not> pagedUELock (gnbH ?w1 g)"
    using assms by (simp_all add: upd_gnb_def)
  moreover have "upd_gnb g (\<lambda>c. c\<lparr>pagedUEs := slices_Delete (pagedUEs c) i i\<rparr>) ?w1 = ?w1"
    by (rule upd_gnb_same) (simp only: slices_Delete_empty pagedUEs_self)
  ultimately have "paged_timer g ?e ?w1 = Ret ((), ?w1)"
    by (simp only: paged_timer_def if_False option.case)
  moreover have "AddPagedUE g t w = Ret (?e, ?w1)"
    using assms by (simp only: AddPagedUE_def if_False Let_def)
  moreover have "GetPagedUEs g ?w1 = Ret (pagedUEs (gnbH w g) @ [?e], ?w1)"
    using w1 by (simp only: GetPagedUEs_def if_False)
  ultimately show ?thesis by blast
qed

lemma paged_ue_never_expires_witness:
  "\<exists>e w1 w2. AddPagedUE 0 None demo4 = Ret (e, w1) \<and> paged_timer 0 e w1 = Ret ((), w2) \<and>
    GetPagedUEs 0 w2 = Ret ([e], w2)"
proof -
  have "\<not> pagedUELock (gnbH demo4 0)" "pagedUEs (gnbH demo4 0) = []"
    by (simp_all add: demo_worlds demo_data)
  with paged_ue_never_expires [of demo4 0 None] show ?thesis by simp
qed

end
