(* ===== verification/GnbHandlers.thy ===== *)
theory GnbHandlers
  imports GnbProps GnbSessions
begin

text \<open>
  Properties of the handlers: NAS transport in both directions, PDU session set-up and
  release, NG Setup, the updates of the AMF list and the rebinding of UEs, handover.
\<close>

section \<open>NAS messages of a UE\<close>

definition initial_pdu :: "ext \<Rightarrow> GNBUe \<Rightarrow> GNBContext \<Rightarrow> byte list \<Rightarrow> byte list option \<Rightarrow> NGAPPDU" where
  "initial_pdu E u c tai nas =
     mk_pdu PresentInitiatingMessage ProcInitialUEMessage CritIgnore
       [mk_ie IEIDRANUENGAPID CritReject (V_RANUENGAPID (ranUeNgapId u)),
        mk_ie IEIDNASPDU CritReject (V_NASPDU nas),
        mk_ie IEIDUserLocationInformation CritReject (V_UserLocationInformation
          \<lparr>loc_NRCGI_PLMN = GetPLMNIdentity E c, loc_NRCellIdentity = GetNRCellIdentity c,
           loc_TAI_PLMN = tai, loc_TAI_TAC = GetTacInBytes c\<rparr>),
        mk_ie IEIDRRCEstablishmentCause CritIgnore V_RRCEstablishmentCause_MoSignalling,
        mk_ie IEIDUEContextRequest CritIgnore V_UEContextRequest_Requested]"

lemma SendInitialUeMessage_pdu:
  assumes "GetMccAndMncInOctets c = Ret tai" and "tmsi u = None"
  shows "SendInitialUeMessage E nas u c = Ret (ngap_Encoder E (initial_pdu E u c tai nas))"
  using assms by (simp add: SendInitialUeMessage_def BuildInitialUEMessage_def initial_pdu_def)

text \<open>The association of a UE is up: every write on it succeeds.\<close>

definition conn_up :: "ext \<Rightarrow> conn \<Rightarrow> bool" where
  "conn_up E c \<longleftrightarrow> (\<forall>ev b. sctp_Write E ev c b)"

lemma SendToAmF_up: "conn_up E c \<Longrightarrow> SendToAmF E m (Some c) w = Ret (None, emit (SctpWrite c (bytes_or_nil m)) w)"
  by (simp add: SendToAmF_def conn_up_def)

lemma uplink_run:
  assumes "ue_st (ueH w ue) = Ongoing \<or> ue_st (ueH w ue) = Ready"
    and "sctpConnection (ueH w ue) = Some c" and "conn_up E c"
  shows "NasDispatch E ue nas g w =
    Ret ((), emit (SctpWrite c (bytes_or_nil (SendUplinkNasTransport E nas (ueH w ue) (gnbH w g)))) w)"
  using assms
  by (auto simp: NasDispatch_def HandlerUeOngoing_def HandlerUeReady_def read_ue_gnb_def run_simps
      ue_conn_def SendToAmF_up)

lemma uplinks_run:
  assumes "ue_st (ueH w ue) = Ongoing" and "sctpConnection (ueH w ue) = Some c" and "conn_up E c"
  shows "forM ms (\<lambda>n. NasDispatch E ue n g) w = Ret ((), w\<lparr>events := events w @
    map (\<lambda>n. SctpWrite c (bytes_or_nil (SendUplinkNasTransport E n (ueH w ue) (gnbH w g)))) ms\<rparr>)"
  using assms(1, 2)
proof (induction ms arbitrary: w)
  case Nil
  then show ?case by simp
next
  case (Cons n ms)
  have "NasDispatch E ue n g w =
      Ret ((), emit (SctpWrite c (bytes_or_nil (SendUplinkNasTransport E n (ueH w ue) (gnbH w g)))) w)"
    using uplink_run [OF disjI1 [OF Cons.prems(1)] Cons.prems(2) assms(3)] .
  with Cons.IH [of "emit (SctpWrite c (bytes_or_nil (SendUplinkNasTransport E n (ueH w ue) (gnbH w g)))) w"]
    Cons.prems show ?case
    by (simp add: thenM_apply emit_def)
qed

text \<open>
  Of the NAS messages a newly connected UE sends, the first goes to the AMF in an Initial
  UE Message, with the UE's RAN UE NGAP ID, and every later one in an Uplink NAS Transport
  with both of its NGAP identifiers; each is sent exactly once and in order on the UE's
  association, and the UE leaves the state \<open>Initialized\<close> for \<open>Ongoing\<close>.
\<close>

theorem ue_nas_initial_then_uplink:
  assumes "ue_st (ueH w ue) = Initialized" and "tmsi (ueH w ue) = None"
    and "sctpConnection (ueH w ue) = Some c" and "conn_up E c"
    and "GetMccAndMncInOctets (gnbH w g) = Ret tai"
  shows "\<exists>w'. forM (m # ms) (\<lambda>n. NasDispatch E ue n g) w = Ret ((), w') \<and> ue_st (ueH w' ue) = Ongoing \<and>
    events w' = events w @ SctpWrite c (bytes_or_nil (ngap_Encoder E (initial_pdu E (ueH w ue) (gnbH w g) tai m))) #
      map (\<lambda>n. SctpWrite c (bytes_or_nil (ngap_Encoder E
        (buildUplinkNasTransport E (amfUeNgapId (ueH w ue)) (ranUeNgapId (ueH w ue)) n (gnbH w g))))) ms"
proof -
  let ?w1 = "emit (SctpWrite c (bytes_or_nil (ngap_Encoder E (initial_pdu E (ueH w ue) (gnbH w g) tai m))))
    (upd_ue ue (\<lambda>x. x\<lparr>ue_st := Ongoing\<rparr>) w)"
  have first: "NasDispatch E ue m g w = Ret ((), ?w1)"
    using assms SendInitialUeMessage_pdu [OF assms(5, 2)]
    by (simp add: NasDispatch_def HandlerUeInitialized_def read_ue_gnb_def run_simps ue_conn_def
        SetUeState_def upd_ue_def SendToAmF_up)
  have "ue_st (ueH ?w1 ue) = Ongoing" "sctpConnection (ueH ?w1 ue) = Some c"
    using assms by (simp_all add: emit_def upd_ue_def)
  from uplinks_run [OF this assms(4), of ms g] first show ?thesis
    by (simp add: thenM_apply emit_def upd_ue_def SendUplinkNasTransport_def)
qed

lemma ue_nas_initial_then_uplink_witness:
  "\<exists>w'. forM [Some [1], Some [2]] (\<lambda>n. NasDispatch demo_ext 0 n 0) demo4 = Ret ((), w') \<and>
    ue_st (ueH w' 0) = Ongoing \<and> events w' = events demo4 @ [SctpWrite 5 [5], SctpWrite 5 [4]]"
proof -
  have "ue_st (ueH demo4 0) = Initialized" "tmsi (ueH demo4 0) = None"
    "sctpConnection (ueH demo4 0) = Some 5" "conn_up demo_ext 5"
    by (simp_all add: demo_worlds demo_data conn_up_def)
  moreover obtain tai where "GetMccAndMncInOctets (gnbH demo4 0) = Ret tai"
    by (simp add: demo_worlds demo_data GetMccAndMncInOctets_def reverse_def idx_def Let_def)
  moreover have "ngap_Encoder demo_ext (initial_pdu demo_ext u c t n) = Some [5]"
    "ngap_Encoder demo_ext (buildUplinkNasTransport demo_ext a r n c) = Some [4]" for u c t n a r
    by (simp_all add: demo_ext_def initial_pdu_def buildUplinkNasTransport_def mk_pdu_def)
  ultimately show ?thesis
    using ue_nas_initial_then_uplink [of demo4 0 5 demo_ext 0 tai "Some [1]" "[Some [2]]"]
    by (simp add: bytes_or_nil_def)
qed

section \<open>Downlink NAS Transport\<close>

text \<open>
  A Downlink NAS Transport reaches exactly the UE its RAN UE NGAP ID names: its NAS PDU is
  sent unchanged on that UE's channel and the AMF UE NGAP ID of the message is recorded; for
  an identifier the gNodeB does not know nothing happens at all.
\<close>

theorem downlink_nas_delivery:
  assumes "msg_IEs m = [IE_AMFUENGAPID (Some a), IE_RANUENGAPID (Some r), IE_NASPDU (Some nas)]"
  shows "(GetGnbUe g r w = Inl e \<longrightarrow> HandlerDownlinkNasTransport g m w = Ret ((), w)) \<and>
    (GetGnbUe g r w = Inr u \<and> gnbTx (ueH w u) = Some c \<and> c \<notin> set (closedChans w) \<longrightarrow>
      HandlerDownlinkNasTransport g m w =
        Ret ((), emit (ChanSend c (zero_msg\<lparr>IsNas := True, Nas := nas\<rparr>))
                   (upd_ue u (\<lambda>x. x\<lparr>amfUeNgapId := a\<rparr>) w)))"
  using assms
  by (auto simp: HandlerDownlinkNasTransport_def run_simps mandatory_def with_ue_def
      getUeFromContext_def SetAmfUeId_def SendToUe_def sendCh_def upd_ue_def)

lemma downlink_nas_delivery_witness:
  "HandlerDownlinkNasTransport 0 \<lparr>msg_Present = PresentInitiatingMessage,
      msg_ProcedureCode = ProcDownlinkNASTransport,
      msg_IEs = [IE_AMFUENGAPID (Some 7), IE_RANUENGAPID (Some 1), IE_NASPDU (Some (Some [9]))]\<rparr> demo4 =
    Ret ((), emit (ChanSend 10 (zero_msg\<lparr>IsNas := True, Nas := Some [9]\<rparr>))
                   (upd_ue 0 (\<lambda>x. x\<lparr>amfUeNgapId := 7\<rparr>) demo4))"
proof -
  have "GetGnbUe 0 1 demo4 = Inr 0" "gnbTx (ueH demo4 0) = Some 10" "10 \<notin> set (closedChans demo4)"
    by (simp_all add: GetGnbUe_def demo_worlds demo_data sm_load_def)
  with downlink_nas_delivery [of "\<lparr>msg_Present = PresentInitiatingMessage,
      msg_ProcedureCode = ProcDownlinkNASTransport,
      msg_IEs = [IE_AMFUENGAPID (Some 7), IE_RANUENGAPID (Some 1), IE_NASPDU (Some (Some [9]))]\<rparr>" 7 1 "Some [9]"]
  show ?thesis by simp
qed

section \<open>PDU session set-up and release\<close>

text \<open>
  A PDU Session Resource Setup Request for a session identifier the UE already has ends the
  process: the refusal of \<open>CreatePduSession\<close> is logged, and then the identifier of the
  session it did not return is read through a nil pointer.
\<close>

theorem setup_of_existing_session_panics:
  assumes "msg_IEs m = [IE_AMFUENGAPID (Some a), IE_RANUENGAPID (Some r),
      IE_PDUSessionResourceSetupListSUReq (Some (it # its))]"
    and "GetGnbUe g r w = Inr u" and "length (sessions u w) = 16"
    and "1 \<le> si_PDUSessionID it" and "si_PDUSessionID it \<le> 16"
    and "sessions u w ! nat (si_PDUSessionID it - 1) \<noteq> None"
    and "si_NASPDU it = Some nas" and "si_Transfer it = Some b"
    and "aper_SetupRequestTransfer E b = Some ies" and "foldR psr_transfer_ie ies psr_zero = Ret v"
    and "4 \<le> length (psr_upf v)"
  shows "HandlerPduSessionResourceSetupRequest E g m w = Panic NilDeref"
proof -
  let ?w1 = "upd_ue u (\<lambda>x. x\<lparr>amfUeNgapId := a\<rparr>) w"
  have dot: "\<exists>ip. dotted (psr_upf v) = Ret ip"
  proof -
    have "0 < length (psr_upf v)" "1 < length (psr_upf v)" "2 < length (psr_upf v)" "3 < length (psr_upf v)"
      using assms(11) by linarith+
    then show ?thesis by (simp only: dotted_def idx_def if_True bindR_simps) blast
  qed
  obtain dl w2 where w2: "GetUeTeid g u ?w1 = Ret (dl, w2)" "sessions u w2 = sessions u w"
    by (simp add: GetUeTeid_def Let_def upd_defs)
  have "CreatePduSession u (si_PDUSessionID it) upf sst sd pt q arp f ul dl w2 =
      Ret (Inl ''such PDU Session already exists'', w2)" for upf sst sd pt q arp f ul
    using assms(3-6) by (simp add: CreatePduSession_def run_simps w2(2) idx_int_in)
  with dot w2(1) have "psr_item E g u it [] ?w1 = Panic NilDeref"
    using assms(7-10) by (auto simp: psr_item_def run_simps mandatory_def)
  then show ?thesis
    using assms(1, 2)
    by (simp add: HandlerPduSessionResourceSetupRequest_def run_simps mandatory_def with_ue_def
        getUeFromContext_def SetAmfUeId_def)
qed

definition demo_session :: world where
  "demo_session = upd_ctx 0 (\<lambda>c. c\<lparr>pduSession := Some 0 # replicate 15 None\<rparr>) demo4"

definition demo_setup_item :: setup_item where
  "demo_setup_item = \<lparr>si_PDUSessionID = 1, si_SNSSAI = \<lparr>SST = Some [1], SD = None\<rparr>,
     si_NASPDU = Some (Some [7]), si_Transfer = Some [1]\<rparr>"

definition demo_transfer :: "transfer_ie list" where
  "demo_transfer = [T_ULNGUUPTNLInformation (Some (Some
     \<lparr>TransportLayerAddress = \<lparr>bs_Bytes = Some [10, 0, 0, 9], bs_BitLength = 32\<rparr>,
      GTPTEID = [0, 0, 0, 9]\<rparr>))]"

lemma setup_of_existing_session_panics_witness:
  "HandlerPduSessionResourceSetupRequest demo_ext 0 \<lparr>msg_Present = PresentInitiatingMessage,
     msg_ProcedureCode = ProcPDUSessionResourceSetup,
     msg_IEs = [IE_AMFUENGAPID (Some 7), IE_RANUENGAPID (Some 1),
       IE_PDUSessionResourceSetupListSUReq (Some [demo_setup_item])]\<rparr> demo_session = Panic NilDeref"
  by (rule setup_of_existing_session_panics [where it = demo_setup_item and its = "[]" and a = 7 and r = 1
        and u = 0 and nas = "Some [7]" and b = "[1]" and ies = demo_transfer and v = "psr_zero\<lparr>psr_ulTeid := 9, psr_upf := [10, 0, 0, 9]\<rparr>"])
    (simp_all add: demo_setup_item_def demo_session_def upd_ctx_def upd_ue_def demo_worlds demo_data
      GetGnbUe_def sm_load_def pointer_read_def be32_get_def idx_def bytes_or_nil_def psr_zero_def demo_transfer_def)

text \<open>Releasing sessions one after the other.\<close>

definition freed :: "int list \<Rightarrow> 'a option list \<Rightarrow> 'a option list" where
  "freed ids xs = foldl (\<lambda>xs i. xs[nat (i - 1) := None]) xs ids"

lemma freed_length [simp]: "length (freed ids xs) = length xs"
  by (induction ids arbitrary: xs) (simp_all add: freed_def)

lemma freed_nth: "k < length xs \<Longrightarrow> freed ids xs ! k = (if \<exists>i \<in> set ids. nat (i - 1) = k then None else xs ! k)"
proof (induction ids arbitrary: xs)
  case Nil
  then show ?case by (simp add: freed_def)
next
  case (Cons i ids)
  have "freed (i # ids) xs = freed ids (xs[nat (i - 1) := None])"
    by (simp add: freed_def)
  with Cons.IH [of "xs[nat (i - 1) := None]"] Cons.prems show ?case
    by (auto simp: nth_list_update)
qed

lemma upd_ctx_twice:
  "upd_ctx u (\<lambda>c. c\<lparr>pduSession := ys\<rparr>) (upd_ctx u (\<lambda>c. c\<lparr>pduSession := xs\<rparr>) w) =
    upd_ctx u (\<lambda>c. c\<lparr>pduSession := ys\<rparr>) w"
  by (simp add: upd_ctx_def upd_ue_def)

lemma sessions_upd_ctx [simp]: "sessions u (upd_ctx u (\<lambda>c. c\<lparr>pduSession := xs\<rparr>) w) = xs"
  by (simp add: upd_ctx_def upd_ue_def)

lemma upd_ctx_same: "upd_ctx u (\<lambda>c. c\<lparr>pduSession := sessions u w\<rparr>) w = w"
proof -
  have "(ueH w u)\<lparr>ue_context := (ue_context (ueH w u))\<lparr>pduSession := sessions u w\<rparr>\<rparr> = ueH w u"
    by (cases "ueH w u"; cases "ue_context (ueH w u)") simp
  then show ?thesis
    by (simp only: upd_ctx_def upd_ue_def fun_upd_triv) simp
qed

lemma release_session_run:
  assumes "1 \<le> i" and "i \<le> 16" and "length (sessions u w) = 16"
  shows "release_session u i w =
    Ret ((), upd_ctx u (\<lambda>c. c\<lparr>pduSession := (sessions u w)[nat (i - 1) := None]\<rparr>) w)"
proof (cases "sessions u w ! nat (i - 1)")
  case None
  then have "(sessions u w)[nat (i - 1) := None] = sessions u w"
    by (metis list_update_id)
  with None show ?thesis
    using assms by (simp add: release_session_def bindM_apply GetPduSession_slot upd_ctx_same)
next
  case (Some p)
  then show ?thesis
    using assms by (simp add: release_session_def bindM_apply GetPduSession_slot DeletePduSession_slot)
qed

lemma release_sessions_run:
  assumes "\<forall>i \<in> set ids. 1 \<le> i \<and> i \<le> 16" and "length (sessions u w) = 16"
  shows "forM ids (release_session u) w =
    Ret ((), upd_ctx u (\<lambda>c. c\<lparr>pduSession := freed ids (sessions u w)\<rparr>) w)"
  using assms
proof (induction ids arbitrary: w)
  case Nil
  then show ?case by (simp add: freed_def upd_ctx_same)
next
  case (Cons i ids)
  let ?w1 = "upd_ctx u (\<lambda>c. c\<lparr>pduSession := (sessions u w)[nat (i - 1) := None]\<rparr>) w"
  have "release_session u i w = Ret ((), ?w1)"
    using Cons.prems by (intro release_session_run) simp_all
  moreover have "forM ids (release_session u) ?w1 =
      Ret ((), upd_ctx u (\<lambda>c. c\<lparr>pduSession := freed ids (sessions u ?w1)\<rparr>) ?w1)"
    using Cons.prems by (intro Cons.IH) simp_all
  ultimately show ?case
    by (simp add: thenM_apply upd_ctx_twice freed_def)
qed

text \<open>
  C21: A PDU Session Resource Release Command for a known UE frees exactly the named session
  identifiers, answers the AMF once and then hands the NAS message to the UE. The downlink
  TEIDs of the released sessions stay in the TEID pool.
\<close>

theorem release_command_frees_sessions:
  assumes "msg_IEs m = [IE_AMFUENGAPID (Some a), IE_RANUENGAPID (Some r),
      IE_PDUSessionResourceToReleaseListRelCmd (Some ids), IE_NASPDU (Some nas)]"
    and "GetGnbUe g r w = Inr u" and "length (sessions u w) = 16"
    and "ids \<noteq> []" and "\<forall>i \<in> set ids. 1 \<le> i \<and> i \<le> 16"
    and "sctpConnection (ueH w u) = Some c" and "conn_up E c" and "\<forall>p. ngap_Encoder E p \<noteq> None"
    and "gnbTx (ueH w u) = Some tx" and "tx \<notin> set (closedChans w)"
  shows "\<exists>w' b. HandlerPduSessionReleaseCommand E g m w = Ret ((), w') \<and>
    (\<forall>k < 16. sessions u w' ! k = (if \<exists>i \<in> set ids. nat (i - 1) = k then None else sessions u w ! k)) \<and>
    events w' = events w @ [SctpWrite c b, ChanSend tx (zero_msg\<lparr>IsNas := True, Nas := nas\<rparr>)] \<and>
    teidPool (gnbH w' g) = teidPool (gnbH w g)"
proof -
  let ?w1 = "upd_ue u (\<lambda>x. x\<lparr>amfUeNgapId := a\<rparr>) w"
  let ?w2 = "upd_ctx u (\<lambda>c. c\<lparr>pduSession := freed ids (sessions u w)\<rparr>) ?w1"
  have s1: "sessions u ?w1 = sessions u w" by (simp add: upd_ue_def)
  have rel: "forM ids (release_session u) ?w1 = Ret ((), ?w2)"
    using release_sessions_run [OF assms(5), of ?w1 u] assms(3) by (simp add: s1)
  obtain b where b: "PDUSessionReleaseResponse E ids (ueH ?w2 u) = Some b"
    using assms(8) by (auto simp: PDUSessionReleaseResponse_def)
  have "SendPduSessionReleaseResponse E ids u ?w2 = Ret ((), emit (SctpWrite c b) ?w2)"
    using assms(4, 6, 7) b
    by (simp add: SendPduSessionReleaseResponse_def run_simps encode_or_fatal_def ue_conn_def
        send_or_fatal_def SendToAmF_up fatal_if_def upd_ctx_def upd_ue_def bytes_or_nil_def)
  moreover have "SendToUe u nas (emit (SctpWrite c b) ?w2) =
      Ret ((), emit (ChanSend tx (zero_msg\<lparr>IsNas := True, Nas := nas\<rparr>)) (emit (SctpWrite c b) ?w2))"
    using assms(9, 10) by (simp add: SendToUe_def run_simps sendCh_def upd_ctx_def upd_ue_def emit_def)
  ultimately have "HandlerPduSessionReleaseCommand E g m w =
      Ret ((), emit (ChanSend tx (zero_msg\<lparr>IsNas := True, Nas := nas\<rparr>)) (emit (SctpWrite c b) ?w2))"
    using assms(1, 2) rel
    by (simp add: HandlerPduSessionReleaseCommand_def run_simps mandatory_def pointer_read_def
        with_ue_def getUeFromContext_def SetAmfUeId_def)
  then show ?thesis
    using assms(3) by (auto simp: freed_nth emit_def upd_ctx_def upd_ue_def)
qed

lemma release_command_frees_sessions_witness:
  "\<exists>w' b. HandlerPduSessionReleaseCommand demo_ext 0 \<lparr>msg_Present = PresentInitiatingMessage,
     msg_ProcedureCode = ProcPDUSessionResourceRelease,
     msg_IEs = [IE_AMFUENGAPID (Some 7), IE_RANUENGAPID (Some 1),
       IE_PDUSessionResourceToReleaseListRelCmd (Some [1]), IE_NASPDU (Some (Some [9]))]\<rparr> demo_session =
      Ret ((), w') \<and> sessions 0 w' ! 0 = None"
proof -
  have h: "GetGnbUe 0 1 demo_session = Inr 0" "length (sessions 0 demo_session) = 16"
    "sctpConnection (ueH demo_session 0) = Some 5" "conn_up demo_ext 5"
    "\<forall>p. ngap_Encoder demo_ext p \<noteq> None" "gnbTx (ueH demo_session 0) = Some 10"
    "10 \<notin> set (closedChans demo_session)"
    by (simp_all add: demo_session_def upd_ctx_def upd_ue_def demo_worlds demo_data conn_up_def
        GetGnbUe_def sm_load_def)
  from release_command_frees_sessions [OF _ h(1, 2) _ _ h(3-7), where ids = "[1]" and a = 7 and nas = "Some [9]" and
      m = "\<lparr>msg_Present = PresentInitiatingMessage, msg_ProcedureCode = ProcPDUSessionResourceRelease,
     msg_IEs = [IE_AMFUENGAPID (Some 7), IE_RANUENGAPID (Some 1),
       IE_PDUSessionResourceToReleaseListRelCmd (Some [1]), IE_NASPDU (Some (Some [9]))]\<rparr>"]
  show ?thesis by auto
qed

end
