(* ===== verification/GnbAmf.thy ===== *)
theory GnbAmf
  imports GnbHandlers
begin

text \<open>
  Properties of the handlers that concern AMFs and mobility: the lists an NG Setup Response
  records, the removal of a TNL association, the rebinding of UEs to a backup AMF, and the
  context a Handover Request prepares for the UE that arrives.
\<close>

section \<open>NG Setup Response\<close>

lemma add_slices_run:
  assumes "slices_ok a"
  shows "\<exists>b. foldR add_slice l a = Ret b \<and> slices_ok b \<and>
    slice_list (slices b) = slice_list (slices a) @
      map (\<lambda>s. (hex_or ''was not informed'' (SST s), hex_or ''was not informed'' (SD s))) l \<and>
    b = a\<lparr>slices := slices b, lenSlice := lenSlice b\<rparr>"
  using assms
proof (induction l arbitrary: a)
  case Nil
  have "a = a\<lparr>slices := slices a, lenSlice := lenSlice a\<rparr>" by (cases a) simp
  with Nil show ?case by simp
next
  case (Cons s l)
  let ?x = "(hex_or ''was not informed'' (SST s), hex_or ''was not informed'' (SD s))"
  obtain a1 where a1: "add_slice s a = Ret a1" "slices_ok a1"
    "slice_list (slices a1) = slice_list (slices a) @ [?x]"
    "a1 = a\<lparr>slices := slices a1, lenSlice := lenSlice a + 1\<rparr>"
    using AddedSlice_appends [OF Cons.prems, of "fst ?x" "snd ?x"] by (auto simp: add_slice_def)
  from Cons.IH [OF a1(2)] obtain b where b: "foldR add_slice l a1 = Ret b" "slices_ok b"
    "slice_list (slices b) = slice_list (slices a1) @
      map (\<lambda>s. (hex_or ''was not informed'' (SST s), hex_or ''was not informed'' (SD s))) l"
    "b = a1\<lparr>slices := slices b, lenSlice := lenSlice b\<rparr>"
    by blast
  from a1(4) obtain x where "a1 = a\<lparr>slices := x, lenSlice := lenSlice a + 1\<rparr>" by blast
  with b(4) have "b = a\<lparr>slices := slices b, lenSlice := lenSlice b\<rparr>"
    by simp
  with a1(1, 3) b(1-3) show ?case by simp
qed

definition plmn_of :: "plmn_item \<Rightarrow> (string \<times> string) res" where
  "plmn_of it = convertMccMnc (hex_of (pi_PLMNIdentity it))"

definition slices_of :: "plmn_item \<Rightarrow> (string \<times> string) list" where
  "slices_of it = map (\<lambda>s. (hex_or ''was not informed'' (SST s), hex_or ''was not informed'' (SD s)))
     (case pi_SliceSupportList it of None \<Rightarrow> [] | Some l \<Rightarrow> l)"

definition item_ok :: "plmn_item \<Rightarrow> bool" where
  "item_ok it \<longleftrightarrow> length (pi_PLMNIdentity it) = 3 \<and> pi_SliceSupportList it \<noteq> None"

text \<open>What the lists of a response leave alone.\<close>

definition same_identity :: "GNBAmf \<Rightarrow> GNBAmf \<Rightarrow> bool" where
  "same_identity a b \<longleftrightarrow> amf_name b = amf_name a \<and> relativeAmfCapacity b = relativeAmfCapacity a \<and>
     amfId b = amfId a \<and> amfIp b = amfIp a \<and> amfPort b = amfPort a \<and> tnla b = tnla a"

lemma plmn_of_ok: "item_ok it \<Longrightarrow> \<exists>e. plmn_of it = Ret e"
  by (auto simp: item_ok_def plmn_of_def convertMccMnc_def idx_def Let_def)

lemma plmn_support_run:
  assumes "item_ok it" and "plmns_ok a" and "slices_ok a" and "plmn_of it = Ret e"
  shows "\<exists>b. plmn_support it (err, a) = Ret (err, b) \<and> plmns_ok b \<and> slices_ok b \<and>
    plmn_list (plmns b) = plmn_list (plmns a) @ [e] \<and>
    slice_list (slices b) = slice_list (slices a) @ slices_of it \<and> same_identity a b"
proof -
  obtain l where l: "pi_SliceSupportList it = Some l"
    using assms(1) by (auto simp: item_ok_def)
  from AddedPlmn_appends [OF assms(2), of "hex_of (pi_PLMNIdentity it)" e] assms(4)
  obtain a1 where a1: "AddedPlmn (hex_of (pi_PLMNIdentity it)) a = Ret a1" "plmns_ok a1"
    "plmn_list (plmns a1) = plmn_list (plmns a) @ [e]"
    and eq1: "\<exists>x. a1 = a\<lparr>plmns := x, lenPlmn := lenPlmn a + 1\<rparr>"
    by (auto simp: plmn_of_def)
  from eq1 have s1: "slices_ok a1" "slices a1 = slices a"
    using assms(3) by (auto simp: slices_ok_def)
  from add_slices_run [OF s1(1), of l] obtain b where b: "foldR add_slice l a1 = Ret b" "slices_ok b"
    "slice_list (slices b) = slice_list (slices a1) @
      map (\<lambda>s. (hex_or ''was not informed'' (SST s), hex_or ''was not informed'' (SD s))) l"
    and eq2: "\<exists>x y. b = a1\<lparr>slices := x, lenSlice := y\<rparr>"
    by blast
  from eq2 a1(2, 3) have "plmns_ok b" "plmn_list (plmns b) = plmn_list (plmns a) @ [e]"
    by (auto simp: plmns_ok_def)
  moreover from eq1 eq2 have "same_identity a b"
    by (auto simp: same_identity_def)
  ultimately show ?thesis
    using a1(1) b s1(2) l by (simp add: plmn_support_def slices_of_def)
qed

lemma plmn_supports_run:
  assumes "\<forall>it \<in> set l. item_ok it" and "plmns_ok a" and "slices_ok a"
  shows "\<exists>b. foldR plmn_support l (err, a) = Ret (err, b) \<and> plmns_ok b \<and> slices_ok b \<and>
    map Ret (plmn_list (plmns b)) = map Ret (plmn_list (plmns a)) @ map plmn_of l \<and>
    slice_list (slices b) = slice_list (slices a) @ concat (map slices_of l) \<and> same_identity a b"
  using assms
proof (induction l arbitrary: a)
  case Nil
  then show ?case by (simp add: same_identity_def)
next
  case (Cons it l)
  obtain e where e: "plmn_of it = Ret e"
    using Cons.prems(1) plmn_of_ok by (metis list.set_intros(1))
  from plmn_support_run [OF _ Cons.prems(2, 3) e, of err] Cons.prems(1) obtain a1 where
    a1: "plmn_support it (err, a) = Ret (err, a1)" "plmns_ok a1" "slices_ok a1"
      "plmn_list (plmns a1) = plmn_list (plmns a) @ [e]"
      "slice_list (slices a1) = slice_list (slices a) @ slices_of it" "same_identity a a1"
    by auto
  from Cons.IH [OF _ a1(2, 3)] Cons.prems(1) obtain b where
    "foldR plmn_support l (err, a1) = Ret (err, b)" "plmns_ok b" "slices_ok b"
    "map Ret (plmn_list (plmns b)) = map Ret (plmn_list (plmns a1)) @ map plmn_of l"
    "slice_list (slices b) = slice_list (slices a1) @ concat (map slices_of l)" "same_identity a1 b"
    by auto
  with a1 e show ?case by (simp add: same_identity_def)
qed

lemma foldR_unit: "\<forall>x \<in> set xs. f x = Ret () \<Longrightarrow> foldR (\<lambda>x _. f x) xs () = Ret ()"
  by (induction xs) auto

lemma show_support_ok: "plmns_ok a \<Longrightarrow> slices_ok a \<Longrightarrow> show_support a = Ret ()"
  unfolding show_support_def
  by (subst foldR_unit, simp add: GetPlmnSupport_def plmn_walk_nth plmns_ok_def)
    (simp, rule foldR_unit, simp add: GetSliceSupport_def slice_walk_nth slices_ok_def)

text \<open>
  C26: A complete NG Setup Response makes the AMF active and records its name, its capacity,
  every PLMN of the message, decoded and in order, after those recorded before, and the slices
  of those PLMNs in order; its identifier, address and TNLA data stay, other AMFs are
  untouched, and reading the lists back for the log never walks off their ends.
\<close>

theorem ng_setup_response_records:
  assumes "reachable E w"
    and "msg_IEs m = [IE_AMFName (Some n), IE_ServedGUAMIList (Some (Some gs)),
      IE_RelativeAMFCapacity (Some c), IE_PLMNSupportList (Some l)]"
    and "\<not> list_ex guami_bad gs" and "\<forall>it \<in> set l. item_ok it"
  shows "\<exists>w'. HandlerNgSetupResponse a m w = Ret ((), w') \<and>
    amf_st (amfH w' a) = Active \<and> amf_name (amfH w' a) = n \<and> relativeAmfCapacity (amfH w' a) = c \<and>
    amfId (amfH w' a) = amfId (amfH w a) \<and> amfIp (amfH w' a) = amfIp (amfH w a) \<and>
    amfPort (amfH w' a) = amfPort (amfH w a) \<and> tnla (amfH w' a) = tnla (amfH w a) \<and>
    (\<forall>b. b \<noteq> a \<longrightarrow> amfH w' b = amfH w b) \<and>
    map Ret (plmn_list (plmns (amfH w' a))) = map Ret (plmn_list (plmns (amfH w a))) @ map plmn_of l \<and>
    slice_list (slices (amfH w' a)) = slice_list (slices (amfH w a)) @ concat (map slices_of l)"
proof -
  let ?a1 = "(amfH w a)\<lparr>amf_name := n, relativeAmfCapacity := c\<rparr>"
  have "lists_ok w"
    using reachable_wf [OF assms(1)] by (simp add: gnb_wf_parts)
  then have ok: "plmns_ok ?a1" "slices_ok ?a1"
    by (simp_all add: lists_ok_def plmns_ok_def slices_ok_def)
  from plmn_supports_run [OF assms(4) ok, of False] obtain b where
    b: "foldR plmn_support l (False, ?a1) = Ret (False, b)" "plmns_ok b" "slices_ok b"
      "map Ret (plmn_list (plmns b)) = map Ret (plmn_list (plmns (amfH w a))) @ map plmn_of l"
      "slice_list (slices b) = slice_list (slices (amfH w a)) @ concat (map slices_of l)"
      "same_identity ?a1 b"
    by auto
  have "foldR ngsetup_ie (msg_IEs m) (False, amfH w a) = Ret (False, b)"
    using assms(2, 3) b(1) by (simp add: pointer_read_def)
  then have "HandlerNgSetupResponse a m w = Ret ((), upd_amf a (\<lambda>_. b\<lparr>amf_st := Active\<rparr>) w)"
    by (simp add: HandlerNgSetupResponse_def run_simps show_support_ok [OF b(2, 3)])
  with b(4-6) show ?thesis
    by (simp add: upd_amf_def same_identity_def)
qed

lemma ng_setup_response_records_witness:
  "\<exists>w'. HandlerNgSetupResponse 0 demo_setup_response demo4 = Ret ((), w') \<and>
    slice_list (slices (amfH w' 0)) = [(''01'', ''010203''), (hex_of [1], hex_of [1, 2, 3])]"
proof -
  let ?l = "[\<lparr>pi_PLMNIdentity = [0x02, 0xf8, 0x39],
     pi_SliceSupportList = Some [\<lparr>SST = Some [1], SD = Some [1, 2, 3]\<rparr>]\<rparr>]"
  have "msg_IEs demo_setup_response = [IE_AMFName (Some ''amf1''), IE_ServedGUAMIList (Some (Some [])),
      IE_RelativeAMFCapacity (Some 255), IE_PLMNSupportList (Some ?l)]"
    by (simp add: demo_setup_response_def)
  from ng_setup_response_records [OF reachable_demo4 this, of 0]
  obtain w' where "HandlerNgSetupResponse 0 demo_setup_response demo4 = Ret ((), w')"
    "slice_list (slices (amfH w' 0)) = slice_list (slices (amfH demo4 0)) @ concat (map slices_of ?l)"
    by (auto simp: item_ok_def)
  moreover have "slice_list (slices (amfH demo4 0)) = [(''01'', ''010203'')]"
    by (simp add: demo_worlds demo_amf_def)
  moreover have "concat (map slices_of ?l) = [(hex_of [1], hex_of [1, 2, 3])]"
    by (simp add: slices_of_def hex_or_def del: hex_of.simps)
  ultimately show ?thesis by (metis append_Cons append_Nil)
qed

section \<open>Removing a TNL association\<close>

lemma rangeM_find:
  assumes "\<And>k a. f (k, a) w = (if P a then Ret (False, h k) else Ret (True, w))"
  shows "rangeM es f w = Ret ((), case find (\<lambda>(k, a). P a) es of None \<Rightarrow> w | Some (k, a) \<Rightarrow> h k)"
proof (induction es)
  case Nil
  then show ?case by simp
next
  case (Cons e es)
  obtain k a where e: "e = (k, a)" by (cases e)
  show ?case
    using Cons assms [of k a] by (simp add: e bindM_apply)
qed

text \<open>
  When the AMF asks to remove a TNL association, the first AMF of the pool at that address
  and the default port leaves the pool, but the association that is closed is the one of the
  AMF that sent the update, whichever AMF is removed; without a match nothing changes.
\<close>

theorem tnla_remove_closes_sender:
  assumes "ti_EndpointIPAddress it = Some b" and "bs_BitLength b = 32 \<or> bs_BitLength b = 160"
  shows "tnla_remove E amf g it w = Ret ((),
    case find (\<lambda>(k, a). matches_endpoint (IPAddressToString E b) a w) (amf_order E (amfPool (gnbH w g))) of
      None \<Rightarrow> w
    | Some (k, a) \<Rightarrow> upd_gnb g (\<lambda>c. c\<lparr>amfPool := sm_delete k (amfPool c)\<rparr>)
        (emit (SctpClose (sctpConn (tnla (amfH w amf)))) w))"
proof -
  let ?body = "\<lambda>(k, oldAmf).
    bindM (getsM (matches_endpoint (IPAddressToString E b) oldAmf)) (\<lambda>m.
      if m then
        thenM (modM (\<lambda>w. emit (SctpClose (sctpConn (tnla (amfH w amf)))) w))
          (thenM (deleteGnBAmf g k) (retM False))
      else retM True)"
  have "?body (k, a) w = (if matches_endpoint (IPAddressToString E b) a w
      then Ret (False, upd_gnb g (\<lambda>c. c\<lparr>amfPool := sm_delete k (amfPool c)\<rparr>)
        (emit (SctpClose (sctpConn (tnla (amfH w amf)))) w)) else Ret (True, w))" for k a
    by (simp add: run_simps deleteGnBAmf_def)
  from rangeM_find [where f = ?body, OF this] assms show ?thesis
    by (simp add: tnla_remove_def endpoint_ip_def run_simps amf_pool_def)
qed

text \<open>Two AMFs: the first, on association 5, asks to remove the second, on association 6.\<close>

definition demo_two :: world where
  "demo_two = demo4\<lparr>
     gnbH := (\<lambda>_. zero_gnb)(0 := demo_gnb4\<lparr>amfPool := [(1, 0), (2, 1)], idAmfGenerator := 3\<rparr>),
     amfH := (\<lambda>_. zero_amf)(0 := demo_amf, 1 := demo_amf\<lparr>amfId := 2, amfIp := ''10.0.0.9'',
       amf_name := ''amf2'',
       GNBAmf.tnla := \<lparr>sctpConn = Some 6, tnlaWeightFactor = 1, usage = 0, streams = 0\<rparr>\<rparr>),
     nextAmf := 2\<rparr>"

lemma tnla_remove_closes_sender_witness:
  "tnla_remove demo_ext 0 0 \<lparr>ti_EndpointIPAddress = Some \<lparr>bs_Bytes = Some [10, 0, 0, 9], bs_BitLength = 32\<rparr>,
     ti_Usage = None, ti_WeightFactor = None\<rparr> demo_two =
   Ret ((), upd_gnb 0 (\<lambda>c. c\<lparr>amfPool := sm_delete 2 (amfPool c)\<rparr>) (emit (SctpClose (Some 5)) demo_two))"
  using tnla_remove_closes_sender [of "\<lparr>ti_EndpointIPAddress = Some \<lparr>bs_Bytes = Some [10, 0, 0, 9], bs_BitLength = 32\<rparr>,
     ti_Usage = None, ti_WeightFactor = None\<rparr>" "\<lparr>bs_Bytes = Some [10, 0, 0, 9], bs_BitLength = 32\<rparr>" demo_ext 0 0 demo_two]
  by (simp add: demo_two_def demo_worlds demo_data matches_endpoint_def default_sctp_port_def)

section \<open>Rebinding to a backup AMF\<close>

definition rebound :: "GNBAmf \<Rightarrow> GNBAmf \<Rightarrow> GNBUe \<Rightarrow> GNBUe" where
  "rebound o' b x = (if ue_amfId x = amfId o'
     then x\<lparr>ue_amfId := amfId b, sctpConnection := sctpConn (GNBAmf.tnla b)\<rparr> else x)"

lemma rebound_idem: "rebound o' b (rebound o' b x) = rebound o' b x"
  by (simp add: rebound_def)

lemma rebind_ue_run:
  "rebind_ue o' b u w = Ret ((), w\<lparr>ueH := (ueH w)(u := rebound (amfH w o') (amfH w b) (ueH w u))\<rparr>)"
  by (simp add: rebind_ue_def rebound_def upd_ue_def fun_upd_idem)

lemma rebind_list_run:
  "forM es (\<lambda>(k, u). rebind_ue o' b u) w = Ret ((), w\<lparr>ueH := (\<lambda>u. if u \<in> snd ` set es
     then rebound (amfH w o') (amfH w b) (ueH w u) else ueH w u)\<rparr>)"
proof (induction es arbitrary: w)
  case Nil
  then show ?case by simp
next
  case (Cons e es)
  obtain k v where e: "e = (k, v)" by (cases e)
  let ?w1 = "w\<lparr>ueH := (ueH w)(v := rebound (amfH w o') (amfH w b) (ueH w v))\<rparr>"
  have "forM (e # es) (\<lambda>(k, u). rebind_ue o' b u) w = forM es (\<lambda>(k, u). rebind_ue o' b u) ?w1"
    by (simp only: forM.simps thenM_apply e prod.case rebind_ue_run bindR_simps)
  also have "\<dots> = Ret ((), ?w1\<lparr>ueH := (\<lambda>u. if u \<in> snd ` set es
     then rebound (amfH ?w1 o') (amfH ?w1 b) (ueH ?w1 u) else ueH ?w1 u)\<rparr>)"
    by (rule Cons)
  also have "?w1\<lparr>ueH := (\<lambda>u. if u \<in> snd ` set es
     then rebound (amfH ?w1 o') (amfH ?w1 b) (ueH ?w1 u) else ueH ?w1 u)\<rparr> =
    w\<lparr>ueH := (\<lambda>u. if u \<in> snd ` set (e # es) then rebound (amfH w o') (amfH w b) (ueH w u) else ueH w u)\<rparr>"
  proof -
    have "(\<lambda>u. if u \<in> snd ` set es
       then rebound (amfH ?w1 o') (amfH ?w1 b) (ueH ?w1 u) else ueH ?w1 u) =
     (\<lambda>u. if u \<in> snd ` set (e # es) then rebound (amfH w o') (amfH w b) (ueH w u) else ueH w u)"
      by (auto simp: fun_eq_iff e rebound_idem)
    then show ?thesis by simp
  qed
  finally show ?case .
qed

text \<open>
  When an AMF becomes unavailable, every UE in the gNodeB's two pools that was bound to it
  is bound to the backup AMF, with the backup's association; no other UE is touched, and a UE
  bound to a third AMF keeps its binding. This holds for every order of visiting the pools.
\<close>

theorem rebind_all_moves_ues:
  assumes "range_order (ue_order E)"
  shows "\<exists>w'. rebind_all E g o' b w = Ret ((), w') \<and>
    (\<forall>u. ueH w' u =
       (if (u \<in> snd ` set (uePool (gnbH w g)) \<or> u \<in> snd ` set (prUePool (gnbH w g))) \<and>
           ue_amfId (ueH w u) = amfId (amfH w o')
        then (ueH w u)\<lparr>ue_amfId := amfId (amfH w b), sctpConnection := sctpConn (GNBAmf.tnla (amfH w b))\<rparr>
        else ueH w u))"
  using range_order_set [OF assms]
  by (auto simp: rebind_all_def thenM_apply bindM_apply rebind_list_run rebound_idem)
    (auto simp: rebound_def)

lemma rebind_all_moves_ues_witness:
  "\<exists>w'. rebind_all demo_ext 0 0 1 demo_two = Ret ((), w') \<and> ue_amfId (ueH w' 0) = 2 \<and>
    sctpConnection (ueH w' 0) = Some 6"
proof -
  have "range_order (ue_order demo_ext)" by (simp add: range_order_def demo_ext_def)
  from rebind_all_moves_ues [OF this, of 0 0 1 demo_two] obtain w' where
    w': "rebind_all demo_ext 0 0 1 demo_two = Ret ((), w')" and
    u: "ueH w' 0 = (if (0 \<in> snd ` set (uePool (gnbH demo_two 0)) \<or> 0 \<in> snd ` set (prUePool (gnbH demo_two 0))) \<and>
           ue_amfId (ueH demo_two 0) = amfId (amfH demo_two 0)
        then (ueH demo_two 0)\<lparr>ue_amfId := amfId (amfH demo_two 1),
          sctpConnection := sctpConn (GNBAmf.tnla (amfH demo_two 1))\<rparr>
        else ueH demo_two 0)"
    by blast
  have "ue_amfId (ueH w' 0) = 2 \<and> sctpConnection (ueH w' 0) = Some 6"
    by (simp add: u demo_two_def demo_worlds demo_data)
  with w' show ?thesis by blast
qed

section \<open>Handover over NGAP\<close>

text \<open>Operations that leave a gNodeB's pool of test-tool identifiers alone.\<close>

named_theorems pr_pres \<open>operations that leave the pool of test-tool identifiers alone\<close>

lemma pr_upd [simp]:
  "prUePool (gnbH (upd_ue u f w) g) = prUePool (gnbH w g)"
  "prUePool (gnbH (upd_ctx u h w) g) = prUePool (gnbH w g)"
  "prUePool (gnbH (emit e w) g) = prUePool (gnbH w g)"
  by (simp_all add: upd_defs upd_ctx_def)

lemma pr_GetUeTeid [pr_pres]: "preserves (\<lambda>w. prUePool (gnbH w g) = P) (GetUeTeid g' u)"
  by (rule preservesI) (auto simp: GetUeTeid_def Let_def upd_gnb_def split: if_splits)

lemma pr_CreatePduSession [pr_pres]:
  "preserves (\<lambda>w. prUePool (gnbH w g) = P) (CreatePduSession u sid upf sst sd pt q arp f ul dl)"
  by (rule preservesI)
    (auto simp: CreatePduSession_def run_simps idx_int_def Let_def split: if_splits)

lemma pr_SetAmfUeId [pr_pres]: "preserves (\<lambda>w. prUePool (gnbH w g) = P) (SetAmfUeId u i)"
  unfolding SetAmfUeId_def by (rule preserves_modM) simp

lemma pr_CreateUeContext [pr_pres]: "preserves (\<lambda>w. prUePool (gnbH w g) = P) (CreateUeContext u p i a b c)"
  unfolding CreateUeContext_def by (intro pres_intros preserves_modM) simp

lemma pr_setup_session [pr_pres]: "preserves (\<lambda>w. prUePool (gnbH w g) = P) (setup_session E g' u it)"
  unfolding setup_session_def Let_def by (intro pres_intros pr_pres)

lemma pr_SendToAmF [pr_pres]: "preserves (\<lambda>w. prUePool (gnbH w g) = P) (SendToAmF E m c)"
  by (rule preservesI) (auto simp: SendToAmF_def split: option.splits if_splits)

lemma pr_SendHandoverRequestAcknowledge [pr_pres]:
  "preserves (\<lambda>w. prUePool (gnbH w g) = P) (SendHandoverRequestAcknowledge E g' u)"
  unfolding SendHandoverRequestAcknowledge_def send_or_fatal_def ue_conn_def fatal_if_def
  by (intro pres_intros pr_pres)

lemma NewGnBUe_files:
  assumes "NewGnBUe E g tx rx pr tm w = Ret (Inr u, w1)" and "pr \<noteq> 0"
  shows "u = nextUe w \<and> sm_load (prUePool (gnbH w1 g)) pr = Some u"
  using assms
  by (auto simp: NewGnBUe_def getRanUeId_def run_simps Let_def upd_gnb_def upd_ue_def sm.load_store
      split: option.splits)

text \<open>
  C25: An NGAP handover meets the UE it was prepared for: after the target gNodeB has handled a
  Handover Request whose container carries the identifier of a UE, the connection of that UE,
  announced as a handover, is given the context created for the request and no new one.
\<close>

theorem handover_request_prepares_context:
  assumes "HandlerHandoverRequest E g m w = Ret ((), w')"
    and "foldR ho_ie (msg_IEs m) ho_zero = Ret v" and "ho_container v = Some bytes"
    and "aper_SourceToTarget E bytes = Some (Some prUeId)" and "prUeId \<noteq> 0"
    and "IsHandover um" and "\<not> FetchPagedUEs um" and "PrUeId um = prUeId"
  shows "GetGnbUeByPrUeId g prUeId w' = Inr (nextUe w) \<and>
    gnbListen_msg E g um w' = ng_handover E g (nextUe w) um w'"
proof -
  let ?rest = "\<lambda>ue. thenM (SetAmfUeId ue (ho_amfUeId v))
      (thenM (CreateUeContext ue ''not informed'' (ho_imeisv v) (ho_sst v) (ho_sd v) (ho_cap v))
      (bindM (derefM (ho_setup v)) (\<lambda>items.
       thenM (forM items (\<lambda>it. bindM (setup_session E g ue it) (\<lambda>_. skipM)))
         (SendHandoverRequestAcknowledge E g ue))))"
  from assms(1-4) obtain r w1 where r: "NewGnBUe E g None None prUeId None w = Ret (r, w1)"
    and rest: "(case r of Inl _ \<Rightarrow> fatalM ''HandoverFailure'' | Inr ue \<Rightarrow> ?rest ue) w1 = Ret ((), w')"
    by (auto simp: HandlerHandoverRequest_def bindM_apply bindR_Ret_iff)
  then obtain u where u: "r = Inr u" and run: "?rest u w1 = Ret ((), w')"
    by (cases r) auto
  have "preserves (\<lambda>w. prUePool (gnbH w g) = prUePool (gnbH w1 g)) (?rest u)"
    by (intro pres_intros pr_pres)
  from preservesD [OF this refl run] NewGnBUe_files [OF r [unfolded u] assms(5)]
  have "GetGnbUeByPrUeId g prUeId w' = Inr (nextUe w)"
    by (simp add: GetGnbUeByPrUeId_def)
  then show ?thesis
    using assms(6-8) by (simp add: gnbListen_msg_def bindM_apply)
qed

definition demo_ho_request :: NGAPMsg where
  "demo_ho_request = \<lparr>msg_Present = PresentInitiatingMessage,
     msg_ProcedureCode = ProcHandoverResourceAllocation,
     msg_IEs = [IE_AMFUENGAPID (Some 7), IE_SourceToTargetTransparentContainer (Some [1]),
       IE_PDUSessionResourceSetupListHOReq (Some [])]\<rparr>"

lemma handover_request_prepares_context_witness:
  "\<exists>w'. HandlerHandoverRequest demo_ext 0 demo_ho_request demo3 = Ret ((), w') \<and>
    GetGnbUeByPrUeId 0 7 w' = Inr 0"
proof -
  let ?v = "ho_zero\<lparr>ho_amfUeId := 7, ho_container := Some [1], ho_setup := Some []\<rparr>"
  have v: "foldR ho_ie (msg_IEs demo_ho_request) ho_zero = Ret ?v"
    by (simp add: demo_ho_request_def mandatory_def)
  have "\<exists>w'. HandlerHandoverRequest demo_ext 0 demo_ho_request demo3 = Ret ((), w')"
    by (simp add: HandlerHandoverRequest_def run_simps demo_ho_request_def mandatory_def ho_zero_def demo_worlds demo_data
        NewGnBUe_def getRanUeId_def Let_def selectAmFByActive_def amf_weight_def upd_defs
        SetAmfUeId_def CreateUeContext_def upd_ctx_def SendHandoverRequestAcknowledge_def
        HandoverRequestAcknowledge_def or_fatal_def ue_conn_def send_or_fatal_def SendToAmF_def fatal_if_def
        sessions_of_def live_sessions_def map_filter_def)
  then obtain w' where w': "HandlerHandoverRequest demo_ext 0 demo_ho_request demo3 = Ret ((), w')" by blast
  have "aper_SourceToTarget demo_ext [1] = Some (Some 7)" "nextUe demo3 = 0"
    by (simp_all add: demo_ext_def demo_worlds)
  with handover_request_prepares_context [OF w' v, of "[1]" 7 "zero_msg\<lparr>IsHandover := True, PrUeId := 7\<rparr>"] w'
  show ?thesis by (auto simp: zero_msg_def)
qed

end
