(* ===== verification/Suci.thy ===== *)
theory Suci
  imports GoStd
begin

text \<open>
  The concealment of a subscriber identity (\<open>internal/common/sidf\<close>): the UE encrypts
  its MSIN for its home network and sends a SUCI, the home network turns the SUCI back into a
  SUPI. The cryptographic primitives of Go's \<open>crypto\<close> packages are parameters, fields of
  the record \<open>crypto\<close>; everything around them (TBCD, key derivation, the layout of the
  scheme output, the textual SUCI and the regular expression that parses it) is modelled.
\<close>

section \<open>Cryptographic primitives\<close>

text \<open>
  Keys are byte strings. \<open>GenerateKey\<close> yields the private key made from the random
  bytes read (an argument), or fails. \<open>ctr_stream\<close> is the key stream of AES in counter
  mode. A curve point is the pair of its coordinates.
\<close>

type_synonym key = "byte list"
type_synonym point = "nat \<times> nat"

record crypto =
  x25519_GenerateKey :: "nat \<Rightarrow> key option"
  x25519_PublicKey :: "key \<Rightarrow> key"
  x25519_NewPublicKey :: "byte list \<Rightarrow> key option"
  x25519_ECDH :: "key \<Rightarrow> key \<Rightarrow> byte list option"
  p256_GenerateKey :: "nat \<Rightarrow> key option"
  p256_PublicKey :: "key \<Rightarrow> key"
  p256_NewPublicKey :: "byte list \<Rightarrow> key option"
  p256_ECDH :: "key \<Rightarrow> key \<Rightarrow> byte list option"
  p256_Unmarshal :: "byte list \<Rightarrow> point option"
  p256_UnmarshalCompressed :: "byte list \<Rightarrow> point option"
  p256_Marshal :: "point \<Rightarrow> byte list"
  p256_MarshalCompressed :: "point \<Rightarrow> byte list"
  sha256_Sum256 :: "byte list \<Rightarrow> byte list"
  hmac_sha256 :: "byte list \<Rightarrow> byte list \<Rightarrow> byte list"
  ctr_stream :: "byte list \<Rightarrow> byte list \<Rightarrow> nat \<Rightarrow> byte list"

text \<open>A function that returns \<open>(T, error)\<close>: an error text or a value, inside \<open>res\<close>.\<close>

type_synonym 'a fallible = "(string + 'a) res"

definition ok :: "'a \<Rightarrow> 'a fallible" where
  [simp]: "ok x = Ret (Inr x)"

definition err :: "string \<Rightarrow> 'a fallible" where
  [simp]: "err e = Ret (Inl e)"

definition tryR :: "'a fallible \<Rightarrow> ('a \<Rightarrow> 'b fallible) \<Rightarrow> 'b fallible" where
  "tryR m f = bindR m (\<lambda>r. case r of Inl e \<Rightarrow> err e | Inr x \<Rightarrow> f x)"

lemma tryR_simps [simp]:
  "tryR (Ret (Inr x)) f = f x" "tryR (Ret (Inl e)) f = Ret (Inl e)" "tryR (Panic p) f = Panic p"
  by (simp_all add: tryR_def)

definition opt_err :: "string \<Rightarrow> 'a option \<Rightarrow> 'a fallible" where
  "opt_err e p = (case p of None \<Rightarrow> err e | Some x \<Rightarrow> ok x)"

lemma opt_err_simps [simp]: "opt_err e None = err e" "opt_err e (Some x) = ok x"
  by (simp_all add: opt_err_def)

section \<open>TBCD\<close>

text \<open>Padding to even length, swapping in pairs, dropping a final filler.\<close>

fun swap_pairs :: "'a list \<Rightarrow> 'a list" where
  "swap_pairs (a # b # r) = b # a # swap_pairs r"
| "swap_pairs r = r"

definition Tbcd :: "string \<Rightarrow> string res" where
  "Tbcd value =
     (let padded = (if odd (length value) then value @ [CHR ''F''] else value);
          swapped = swap_pairs padded in
      if swapped = [] then Panic IndexRange
      else if last swapped = CHR ''F'' \<or> last swapped = CHR ''f'' then Ret (butlast swapped)
      else Ret swapped)"

section \<open>Key derivation and symmetric operations\<close>

definition ProfileAMacKeyLen :: nat where "ProfileAMacKeyLen = 32"
definition ProfileAEncKeyLen :: nat where "ProfileAEncKeyLen = 16"
definition ProfileAIcbLen :: nat where "ProfileAIcbLen = 16"
definition ProfileAMacLen :: nat where "ProfileAMacLen = 8"
definition ProfileAHashLen :: nat where "ProfileAHashLen = 32"
definition ProfileBMacKeyLen :: nat where "ProfileBMacKeyLen = 32"
definition ProfileBEncKeyLen :: nat where "ProfileBEncKeyLen = 16"
definition ProfileBIcbLen :: nat where "ProfileBIcbLen = 16"
definition ProfileBMacLen :: nat where "ProfileBMacLen = 8"
definition ProfileBHashLen :: nat where "ProfileBHashLen = 32"

lemmas profile_lens [simp] =
  ProfileAMacKeyLen_def ProfileAEncKeyLen_def ProfileAIcbLen_def ProfileAMacLen_def ProfileAHashLen_def
  ProfileBMacKeyLen_def ProfileBEncKeyLen_def ProfileBIcbLen_def ProfileBMacLen_def ProfileBHashLen_def

definition HmacSha256 :: "crypto \<Rightarrow> byte list \<Rightarrow> byte list \<Rightarrow> nat \<Rightarrow> (byte list) fallible" where
  "HmacSha256 C input macKey macLen =
     bindR (slice (hmac_sha256 C macKey input) 0 macLen) (\<lambda>mac. ok mac)"

text \<open>\<open>NewCipher\<close> fails for a bad key size, \<open>NewCTR\<close> panics for a bad block size.\<close>

definition Aes128ctr :: "crypto \<Rightarrow> byte list \<Rightarrow> byte list \<Rightarrow> byte list \<Rightarrow> (byte list) fallible" where
  "Aes128ctr C input encKey icb =
     (if length encKey \<notin> {16, 24, 32} then err ''AES128 CTR error''
      else if length icb \<noteq> 16 then Panic ConvLen
      else ok (map2 (XOR) input (ctr_stream C encKey icb (length input))))"

fun kdf_loop :: "crypto \<Rightarrow> byte list \<Rightarrow> byte list \<Rightarrow> u32 \<Rightarrow> nat \<Rightarrow> byte list" where
  "kdf_loop C sharedKey publicKey counter 0 = []"
| "kdf_loop C sharedKey publicKey counter (Suc n) =
     sha256_Sum256 C (sharedKey @ be32_put counter @ publicKey) @
     kdf_loop C sharedKey publicKey (counter + 1) n"

definition AnsiX963KDF :: "crypto \<Rightarrow> byte list \<Rightarrow> byte list \<Rightarrow> nat \<Rightarrow> nat \<Rightarrow> nat \<Rightarrow> byte list" where
  "AnsiX963KDF C sharedKey publicKey encKeyLen macKeyLen hashLen =
     kdf_loop C sharedKey publicKey 1 ((encKeyLen + macKeyLen + hashLen - 1) div hashLen)"

text \<open>\<open>hex.DecodeString\<close> with its error checked.\<close>

definition decode_hex :: "string \<Rightarrow> (byte list) fallible" where
  "decode_hex s = (let (bs, e) = hex_decode s in if e then err ''encoding/hex'' else ok bs)"

section \<open>Encryption\<close>

text \<open>What both profiles do once the shared key is known.\<close>

definition seal :: "crypto \<Rightarrow> byte list \<Rightarrow> byte list \<Rightarrow> string \<Rightarrow> nat \<Rightarrow> nat \<Rightarrow> nat \<Rightarrow> nat \<Rightarrow> nat \<Rightarrow> string fallible" where
  "seal C sharedKey pub msin encLen macKeyLen hashLen icbLen macLen =
     bindR (Tbcd msin) (\<lambda>t.
     tryR (decode_hex t) (\<lambda>plainBCD.
       let kdfKey = AnsiX963KDF C sharedKey pub encLen macKeyLen hashLen in
       bindR (slice kdfKey 0 encLen) (\<lambda>encKey.
       bindR (slice kdfKey encLen (encLen + icbLen)) (\<lambda>iv.
       bindR (slice kdfKey (length kdfKey - macKeyLen) (length kdfKey)) (\<lambda>macKey.
       tryR (Aes128ctr C plainBCD encKey iv) (\<lambda>cipherText.
       tryR (HmacSha256 C cipherText macKey macLen) (\<lambda>mac.
         ok (hex_of (pub @ cipherText @ mac)))))))))"

definition profileAEncrypt :: "crypto \<Rightarrow> nat \<Rightarrow> string \<Rightarrow> key option \<Rightarrow> string fallible" where
  "profileAEncrypt C rnd msin hnPubkey =
     tryR (opt_err ''failed to generate ephemeral X25519 key'' (x25519_GenerateKey C rnd)) (\<lambda>eph.
       case hnPubkey of
         None \<Rightarrow> Panic NilDeref
       | Some pk \<Rightarrow>
           tryR (opt_err ''failed to compute ECDH'' (x25519_ECDH C eph pk)) (\<lambda>sharedKey.
             seal C sharedKey (x25519_PublicKey C eph) msin ProfileAEncKeyLen ProfileAMacKeyLen
               ProfileAHashLen ProfileAIcbLen ProfileAMacLen))"

definition profileBEncrypt :: "crypto \<Rightarrow> nat \<Rightarrow> string \<Rightarrow> key option \<Rightarrow> string fallible" where
  "profileBEncrypt C rnd msin hnPubkey =
     tryR (opt_err ''failed to generate ephemeral P256 key'' (p256_GenerateKey C rnd)) (\<lambda>eph.
       case hnPubkey of
         None \<Rightarrow> Panic NilDeref
       | Some pk \<Rightarrow>
           tryR (opt_err ''failed to compute ECDH'' (p256_ECDH C eph pk)) (\<lambda>sharedKey.
           tryR (opt_err ''failed to unmarshal ephemeral public key''
                   (p256_Unmarshal C (p256_PublicKey C eph))) (\<lambda>p.
             seal C sharedKey (p256_MarshalCompressed C p) msin ProfileBEncKeyLen ProfileBMacKeyLen
               ProfileBHashLen ProfileBIcbLen ProfileBMacLen)))"

section \<open>Decryption\<close>

definition decryptWithKdf :: "crypto \<Rightarrow> byte list \<Rightarrow> byte list \<Rightarrow> byte list \<Rightarrow> byte list \<Rightarrow>
    nat \<Rightarrow> nat \<Rightarrow> nat \<Rightarrow> nat \<Rightarrow> nat \<Rightarrow> (byte list) fallible" where
  "decryptWithKdf C sharedKey kdfPubKey cipherText providedMac encKeyLen macKeyLen hashLen icbLen macLen =
     (let kdfKey = AnsiX963KDF C sharedKey kdfPubKey encKeyLen macKeyLen hashLen in
      bindR (slice kdfKey 0 encKeyLen) (\<lambda>encKey.
      bindR (slice kdfKey encKeyLen (encKeyLen + icbLen)) (\<lambda>icb.
      bindR (slice kdfKey (length kdfKey - macKeyLen) (length kdfKey)) (\<lambda>macKey.
      tryR (HmacSha256 C cipherText macKey macLen) (\<lambda>computedMac.
        if computedMac \<noteq> providedMac then err ''decryption MAC failed''
        else Aes128ctr C cipherText encKey icb)))))"

definition ecdhX25519 :: "crypto \<Rightarrow> key option \<Rightarrow> byte list \<Rightarrow> (byte list) fallible" where
  "ecdhX25519 C privateKey peerPubKey =
     tryR (opt_err ''private key is nil'' privateKey) (\<lambda>priv.
     tryR (opt_err ''failed to parse X25519 public key'' (x25519_NewPublicKey C peerPubKey)) (\<lambda>pub.
       opt_err ''crypto/ecdh'' (x25519_ECDH C priv pub)))"

definition ecdhP256 :: "crypto \<Rightarrow> key option \<Rightarrow> byte list \<Rightarrow> (byte list \<times> byte list) fallible" where
  "ecdhP256 C privateKey transmittedPubKey =
     tryR (opt_err ''private key is nil'' privateKey) (\<lambda>priv.
     bindR (idx transmittedPubKey 0) (\<lambda>b0.
     tryR (if b0 = 2 \<or> b0 = 3 then
             tryR (opt_err ''failed to uncompress public key'' (p256_UnmarshalCompressed C transmittedPubKey))
               (\<lambda>p. ok (p256_Marshal C p, transmittedPubKey))
           else if b0 = 4 then
             tryR (opt_err ''failed to unmarshal uncompressed public key'' (p256_Unmarshal C transmittedPubKey))
               (\<lambda>p. ok (transmittedPubKey, p256_MarshalCompressed C p))
           else err ''unknown public key format'') (\<lambda>(pubKeyForECDH, kdfPubKey).
     tryR (opt_err ''failed to create P-256 public key'' (p256_NewPublicKey C pubKeyForECDH)) (\<lambda>pub.
     tryR (opt_err ''failed to compute ECDH'' (p256_ECDH C priv pub)) (\<lambda>sharedKey.
       ok (sharedKey, kdfPubKey))))))"

definition profileADecrypt :: "crypto \<Rightarrow> string \<Rightarrow> key option \<Rightarrow> string fallible" where
  "profileADecrypt C input privateKey =
     tryR (decode_hex input) (\<lambda>s.
       if length s < 32 + ProfileAMacLen then err ''suci input too short''
       else
         let peerPubKey = take 32 s;
             cipherText = take (length s - ProfileAMacLen - 32) (drop 32 s);
             providedMac = drop (length s - ProfileAMacLen) s in
         tryR (ecdhX25519 C privateKey peerPubKey) (\<lambda>sharedKey.
         tryR (decryptWithKdf C sharedKey peerPubKey cipherText providedMac ProfileAEncKeyLen
                 ProfileAMacKeyLen ProfileAHashLen ProfileAIcbLen ProfileAMacLen) (\<lambda>plainText.
         bindR (Tbcd (hex_of plainText)) ok)))"

definition profileBDecrypt :: "crypto \<Rightarrow> string \<Rightarrow> key option \<Rightarrow> string fallible" where
  "profileBDecrypt C input privateKey =
     (let (s, e) = hex_decode input in
      if e \<or> length s < 1 then err ''hex DecodeString error''
      else
        tryR (if s ! 0 = 2 \<or> s ! 0 = 3 then ok (33 :: nat) else if s ! 0 = 4 then ok 65
              else err ''suci input error: unknown public key format'') (\<lambda>pubKeyLen.
        if length s < pubKeyLen + ProfileBMacLen then err ''suci input too short''
        else
          let transmittedPubKey = take pubKeyLen s;
              cipherText = take (length s - ProfileBMacLen - pubKeyLen) (drop pubKeyLen s);
              providedMac = drop (length s - ProfileBMacLen) s in
          tryR (ecdhP256 C privateKey transmittedPubKey) (\<lambda>(sharedKey, kdfPubKey).
          tryR (decryptWithKdf C sharedKey kdfPubKey cipherText providedMac ProfileBEncKeyLen
                  ProfileBMacKeyLen ProfileBHashLen ProfileBIcbLen ProfileBMacLen) (\<lambda>plainText.
          bindR (Tbcd (hex_of plainText)) ok))))"

section \<open>The textual SUCI\<close>

record Suci =
  SupiType :: string
  suci_Mcc :: string
  suci_Mnc :: string
  HomeNetworkId :: string
  suci_RoutingIndicator :: string
  ProtectionScheme :: string
  PublicKeyID :: string
  SchemeOutput :: string
  Raw :: string

definition is_digit :: "char \<Rightarrow> bool" where
  "is_digit c \<longleftrightarrow> 48 \<le> code c \<and> code c \<le> 57"

text \<open>The groups of the regular expression: \<open>\d{n,m}\<close>, the key identifier, the output.\<close>

definition digits :: "nat \<Rightarrow> nat \<Rightarrow> string \<Rightarrow> bool" where
  "digits n m s \<longleftrightarrow> n \<le> length s \<and> length s \<le> m \<and> list_all is_digit s"

definition public_key_id :: "string \<Rightarrow> bool" where
  "public_key_id s \<longleftrightarrow> digits 1 2 s \<or>
     (digits 3 3 s \<and>
       (s ! 0 = CHR ''1'' \<or>
        (s ! 0 = CHR ''2'' \<and> (code (s ! 1) \<le> 52 \<or> (s ! 1 = CHR ''5'' \<and> code (s ! 2) \<le> 53)))))"

definition hex_string :: "string \<Rightarrow> bool" where
  "hex_string s \<longleftrightarrow> s \<noteq> [] \<and> list_all (\<lambda>c. hex_val c \<noteq> None) s"

definition suci_tail :: "string \<Rightarrow> string \<Rightarrow> string \<Rightarrow> string \<Rightarrow> bool" where
  "suci_tail ri ps pk so \<longleftrightarrow>
     digits 1 4 ri \<and> ps \<in> {''0'', ''1'', ''2''} \<and> public_key_id pk \<and> hex_string so"

text \<open>
  \<open>suciRegex\<close>. No group but the network identifier of a NAI can contain a dash, so a match
  is determined by the dash-separated fields: a NAI's identifier takes all fields but the last
  four. The first group spans the type and the identifiers after it.
\<close>

definition ParseSuci :: "string \<Rightarrow> Suci option" where
  "ParseSuci input =
     (case Split (CHR ''-'') input of
        pre # kind # rest \<Rightarrow>
          if pre \<noteq> ''suci'' then None
          else if kind = ''0'' then
            (case rest of
               [mcc, mnc, ri, ps, pk, so] \<Rightarrow>
                 if digits 3 3 mcc \<and> digits 2 3 mnc \<and> suci_tail ri ps pk so
                 then Some \<lparr>SupiType = join (CHR ''-'') [''0'', mcc, mnc], suci_Mcc = mcc, suci_Mnc = mnc,
                   HomeNetworkId = [], suci_RoutingIndicator = ri, ProtectionScheme = ps,
                   PublicKeyID = pk, SchemeOutput = so, Raw = input\<rparr>
                 else None
             | _ \<Rightarrow> None)
          else if kind = ''1'' then
            (case rev rest of
               so # pk # ps # ri # n # ns \<Rightarrow>
                 let nai = join (CHR ''-'') (''1'' # rev (n # ns)) in
                 if suci_tail ri ps pk so \<and> char_of (10 :: nat) \<notin> set nai
                 then Some \<lparr>SupiType = nai, suci_Mcc = [], suci_Mnc = [],
                   HomeNetworkId = nai, suci_RoutingIndicator = ri, ProtectionScheme = ps,
                   PublicKeyID = pk, SchemeOutput = so, Raw = input\<rparr>
                 else None
             | _ \<Rightarrow> None)
          else None
      | _ \<Rightarrow> None)"

record HomeNetworkPublicKey =
  pub_ProtectionScheme :: string
  pub_PublicKey :: "key option"
  pub_PublicKeyID :: string

record HomeNetworkPrivateKey =
  priv_ProtectionScheme :: string
  priv_PrivateKey :: "key option"

text \<open>A SUCI whose text does not parse is a nil pointer, returned without an error.\<close>

definition CipherSuci :: "crypto \<Rightarrow> nat \<Rightarrow> string \<Rightarrow> string \<Rightarrow> string \<Rightarrow> string \<Rightarrow>
    HomeNetworkPublicKey \<Rightarrow> (Suci option) fallible" where
  "CipherSuci C rnd msin mcc mnc routingIndicator profile =
     (if length msin + length mcc + length mnc < 14 then err ''supi length must be 15''
      else
        tryR (if pub_ProtectionScheme profile = ''0'' then ok msin
              else if pub_ProtectionScheme profile = ''1'' then profileAEncrypt C rnd msin (pub_PublicKey profile)
              else if pub_ProtectionScheme profile = ''2'' then profileBEncrypt C rnd msin (pub_PublicKey profile)
              else err ''unsupported protection scheme'') (\<lambda>schemeOutput.
          ok (ParseSuci (join (CHR ''-'') [''suci'', ''0'', mcc, mnc, routingIndicator,
            pub_ProtectionScheme profile, pub_PublicKeyID profile, schemeOutput]))))"

definition ToSupi :: "crypto \<Rightarrow> string \<Rightarrow> HomeNetworkPrivateKey list \<Rightarrow> string fallible" where
  "ToSupi C suci suciProfiles =
     (case ParseSuci suci of
        None \<Rightarrow> if HasPrefix suci ''imsi-'' \<or> HasPrefix suci ''nai-'' then ok suci else err ''unknown suci''
      | Some p \<Rightarrow>
          let scheme = ProtectionScheme p; mccMnc = suci_Mcc p @ suci_Mnc p in
          if \<not> HasPrefix (SupiType p) ''0'' then err ''unsupported suciType NAI''
          else if scheme = ''0'' then ok (''imsi-'' @ mccMnc @ SchemeOutput p)
          else case Atoi (PublicKeyID p) of
            Inl _ \<Rightarrow> err ''parse HNPublicKeyID error''
          | Inr keyIndex \<Rightarrow>
              if keyIndex < 1 \<or> keyIndex > int (length suciProfiles) then err ''keyIndex out of range''
              else
                bindR (idx_int suciProfiles (keyIndex - 1)) (\<lambda>profile.
                if scheme \<noteq> priv_ProtectionScheme profile then err ''protect Scheme mismatch''
                else if scheme = ''1'' then
                  tryR (profileADecrypt C (SchemeOutput p) (priv_PrivateKey profile))
                    (\<lambda>result. ok (''imsi-'' @ mccMnc @ result))
                else if scheme = ''2'' then
                  tryR (profileBDecrypt C (SchemeOutput p) (priv_PrivateKey profile))
                    (\<lambda>result. ok (''imsi-'' @ mccMnc @ result))
                else err ''protect Scheme is not supported''))"

end
