(* ===== verification/NasTypes.thy ===== *)
theory NasTypes
  imports GnbTypes Suci
begin

text \<open>
  The NAS messages a simulated UE receives and sends: of a received message what the UE's
  handlers read, of a sent one the values its builder sets.
\<close>

section \<open>Received messages\<close>

text \<open>
  Of a decoded message, what the UE's handlers read. An element of one octet is zero for
  \<open>reflect\<close>'s \<open>IsZero\<close> when its octet is; for the others the record says so. An
  element that may be absent is an option.
\<close>

record nas_hdr =
  EPD :: byte
  SpareHalfOctet :: byte
  SecHdrType :: byte
  MessageIdentity :: byte

record AuthenticationRequest =
  ar_hdr :: nas_hdr
  ar_ngksi_Spare :: byte
  ar_NasKeySetIdentifiler :: byte
  ar_ABBA_IsZero :: bool
  ar_ABBAContents :: "byte list option"
  ar_RAND :: "byte list option"
  ar_AUTN :: "byte list option"

datatype ScType = ScType_NATIVE | ScType_MAPPED

record SecurityModeCommand =
  smc_hdr :: nas_hdr
  smc_CipheringAlg :: byte
  smc_IntegrityAlg :: byte
  smc_ngksi_Spare :: byte
  smc_NasKeySetIdentifiler :: byte
  smc_TSC :: ScType
  smc_Replayed_IsZero :: bool
  smc_RINMR :: "byte option"

record RegistrationAccept =
  ra_hdr :: nas_hdr
  ra_Result_IsZero :: bool
  ra_ResultValue :: byte
  ra_GUTI5G :: "guti5g option"
  ra_AllowedNSSAI :: "byte list option"

record IdentityRequest =
  ir_hdr :: nas_hdr
  ir_IdentityType_IsZero :: bool
  ir_TypeOfIdentity :: byte

record DLNASTransport =
  dl_hdr :: nas_hdr
  dl_PayloadType_IsZero :: bool
  dl_PayloadType :: byte
  dl_Container_IsZero :: bool
  dl_Contents :: "byte list option"
  dl_PduSessionID2_Iei :: "byte option"

text \<open>
  The two embedded pointers of \<open>nas.Message\<close>. A message of mobility management fills the
  first; its body is the pointer that belongs to its type.
\<close>

record GmmMessage =
  GmmMessageType :: byte
  body_AuthenticationRequest :: "AuthenticationRequest option"
  body_SecurityModeCommand :: "SecurityModeCommand option"
  body_RegistrationAccept :: "RegistrationAccept option"
  body_IdentityRequest :: "IdentityRequest option"
  body_ConfigurationUpdateCommand :: "nas_hdr option"
  body_DLNASTransport :: "DLNASTransport option"
  body_ServiceReject :: "byte option"
  body_RegistrationReject :: "byte option"
  body_Status5GMM :: "byte option"

record EstablishmentAccept =
  ea_EPD :: byte
  ea_PDUSessionID :: byte
  ea_PTI :: byte
  ea_MessageIdentity :: byte
  ea_SSCType_IsZero :: bool
  ea_PDUSessionType :: byte
  ea_QosRules_IsZero :: bool
  ea_AMBR_IsZero :: bool
  ea_PDUAddress :: "byte list option"
  ea_DNN :: "string option"
  ea_SNSSAI :: "unit option"

record GsmMessage =
  GsmMessageType :: byte
  body_EstablishmentAccept :: "EstablishmentAccept option"
  body_ReleaseCommand :: "byte option"
  body_EstablishmentReject :: "byte option"
  body_Status5GSM :: "byte option"

text \<open>\<open>nm_Other\<close> stands for all the rest of a message, which the UE only encodes again.\<close>

record NasMessage =
  nm_Gmm :: "GmmMessage option"
  nm_Gsm :: "GsmMessage option"
  nm_Other :: "byte list"

text \<open>Codes of TS 24.501, tables 9.3.1, 9.7.1 and 9.7.2.\<close>

definition "SecurityHeaderTypePlainNas = (0 :: byte)"
definition "SecurityHeaderTypeIntegrityProtected = (1 :: byte)"
definition "SecurityHeaderTypeIntegrityProtectedAndCiphered = (2 :: byte)"
definition "SecurityHeaderTypeIntegrityProtectedWithNew5gNasSecurityContext = (3 :: byte)"
definition "SecurityHeaderTypeIntegrityProtectedAndCipheredWithNew5gNasSecurityContext = (4 :: byte)"

definition "MsgTypeRegistrationAccept = (66 :: byte)"
definition "MsgTypeRegistrationReject = (68 :: byte)"
definition "MsgTypeServiceReject = (77 :: byte)"
definition "MsgTypeServiceAccept = (78 :: byte)"
definition "MsgTypeConfigurationUpdateCommand = (84 :: byte)"
definition "MsgTypeAuthenticationRequest = (86 :: byte)"
definition "MsgTypeAuthenticationReject = (88 :: byte)"
definition "MsgTypeIdentityRequest = (91 :: byte)"
definition "MsgTypeSecurityModeCommand = (93 :: byte)"
definition "MsgTypeStatus5GMM = (100 :: byte)"
definition "MsgTypeDLNASTransport = (104 :: byte)"
definition "MsgTypePDUSessionEstablishmentAccept = (194 :: byte)"
definition "MsgTypePDUSessionEstablishmentReject = (195 :: byte)"
definition "MsgTypePDUSessionReleaseCommand = (211 :: byte)"
definition "MsgTypeStatus5GSM = (214 :: byte)"

definition "Epd5GSMobilityManagementMessage = (126 :: byte)"
definition "Epd5GSSessionManagementMessage = (46 :: byte)"

lemmas sec_hdr_defs = SecurityHeaderTypePlainNas_def SecurityHeaderTypeIntegrityProtected_def
  SecurityHeaderTypeIntegrityProtectedAndCiphered_def
  SecurityHeaderTypeIntegrityProtectedWithNew5gNasSecurityContext_def
  SecurityHeaderTypeIntegrityProtectedAndCipheredWithNew5gNasSecurityContext_def

lemmas msg_type_defs = MsgTypeRegistrationAccept_def MsgTypeRegistrationReject_def
  MsgTypeServiceReject_def MsgTypeServiceAccept_def MsgTypeConfigurationUpdateCommand_def
  MsgTypeAuthenticationRequest_def MsgTypeAuthenticationReject_def MsgTypeIdentityRequest_def
  MsgTypeSecurityModeCommand_def MsgTypeStatus5GMM_def MsgTypeDLNASTransport_def
  MsgTypePDUSessionEstablishmentAccept_def MsgTypePDUSessionEstablishmentReject_def
  MsgTypePDUSessionReleaseCommand_def MsgTypeStatus5GSM_def

section \<open>Sent messages\<close>

text \<open>
  A mobile identity is the UE's SUCI (its octets and length) or its 5G-GUTI. The elements
  that are constant in every message of a type (discriminators, header type, message type) are
  left to the constructor.
\<close>

record MobileIdentity5GS =
  mi_Buffer :: "byte list"
  mi_Len :: u16

datatype mobile_id = Id_Suci MobileIdentity5GS | Id_Guti guti5g

record UESecurityCapability =
  IA0 :: bool
  IA1 :: bool
  IA2 :: bool
  IA3 :: bool
  EA0 :: bool
  EA1 :: bool
  EA2 :: bool
  EA3 :: bool

record RegistrationRequest =
  rr_Ksi :: byte
  rr_RegistrationType :: byte
  rr_FOR :: byte
  rr_MobileIdentity :: mobile_id
  rr_Capability5GMM :: "byte list option"
  rr_UESecurityCapability :: UESecurityCapability
  rr_RequestedNSSAI :: "byte list option"
  rr_UplinkDataStatus :: "byte list option"
  rr_PDUSessionStatus :: "byte list option"
  rr_NASMessageContainer :: "byte list option"

record ServiceRequest =
  sr_ServiceType :: byte
  sr_Ksi :: byte
  sr_AMFSetID :: u16
  sr_AMFPointer :: byte
  sr_TypeOfIdentity :: byte
  sr_TMSI5G :: "byte list"
  sr_UplinkDataStatus :: "byte list option"
  sr_PDUSessionStatus :: "byte list option"
  sr_NASMessageContainer :: "byte list option"

record ULNASTransport =
  ul_PduSessionID2Value :: byte
  ul_RequestType :: "byte option"
  ul_DNN :: "string option"
  ul_SNSSAI :: "(byte \<times> byte list option) option"
  ul_PayloadContainer :: "byte list option"

text \<open>Request types: initial request and existing PDU session.\<close>

definition "RequestTypeInitialRequest = (1 :: byte)"
definition "RequestTypeExistingPduSession = (2 :: byte)"

datatype gmm_out =
    Out_RegistrationRequest RegistrationRequest
  | Out_AuthenticationResponse "byte list option"
  | Out_AuthenticationFailure byte "byte list option"
  | Out_SecurityModeComplete "byte list option"
  | Out_RegistrationComplete "byte list option"
  | Out_ConfigurationUpdateComplete
  | Out_IdentityResponse MobileIdentity5GS
  | Out_DeregistrationRequest byte mobile_id
  | Out_ServiceRequest ServiceRequest
  | Out_ULNASTransport ULNASTransport

text \<open>
  The messages of session management: the octets of the header, and for an Establishment Request
  the maximum data rates, the session type and the protocol configuration options it asks for,
  in the order they are added; their octets are the library's.
\<close>

definition "MsgTypePDUSessionEstablishmentRequest = (193 :: byte)"
definition "MsgTypePDUSessionReleaseRequest = (209 :: byte)"
definition "MsgTypePDUSessionReleaseComplete = (212 :: byte)"

record gsm_hdr =
  gh_EPD :: byte
  gh_PDUSessionID :: byte
  gh_PTI :: byte
  gh_MessageType :: byte

datatype configuration_option =
  IPAddressAllocationViaNASSignallingUL | DNSServerIPv4AddressRequest | DNSServerIPv6AddressRequest

record EstablishmentRequest =
  er_hdr :: gsm_hdr
  er_MaximumDataRateDownLink :: byte
  er_MaximumDataRateUpLink :: byte
  er_PDUSessionType :: byte
  er_ConfigurationOptions :: "configuration_option list"

datatype gsm_out =
    Out_EstablishmentRequest EstablishmentRequest
  | Out_ReleaseRequest gsm_hdr
  | Out_ReleaseComplete gsm_hdr

end
