(* ===== verification/UeTypes.thy ===== *)
theory UeTypes
  imports NasTypes
begin

text \<open>
  The state of a simulated UE (\<open>ue/context/context.go\<close>), what it does to the outside, and
  what it uses of code outside the repository: the NAS codec, ciphering and integrity
  functions, the NAS COUNT, Milenage and the 3GPP key derivation function (\<open>free5gc/nas\<close>,
  \<open>free5gc/util\<close>), the netlink library.
\<close>

type_synonym count = u32

section \<open>State\<close>

text \<open>
  The state of a UE is its context, the PDU sessions it points to, those of the gNodeB it was
  given pointers to, the channels it has closed and the list of everything it has sent or asked
  of the operating system, in order.
\<close>

datatype state_mm = MM5G_NULL | MM5G_DEREGISTERED | MM5G_REGISTERED_INITIATED | MM5G_REGISTERED
  | MM5G_SERVICE_REQ_INIT | MM5G_DEREGISTERED_INIT | MM5G_IDLE

datatype state_sm = SM5G_PDU_SESSION_INACTIVE | SM5G_PDU_SESSION_ACTIVE_PENDING | SM5G_PDU_SESSION_ACTIVE

datatype TunnelMode = TunnelDisabled | TunnelTun | TunnelVrf

text \<open>Objects of the netlink library, by what the program put into them.\<close>

record tun_rule =
  rule_Priority :: int
  rule_Table :: int
  rule_Src :: string

record vrf_device =
  vrf_Name :: string
  vrf_Table :: u32

record tun_route =
  route_LinkIndex :: nat
  route_Table :: int

record UEPDUSession =
  us_Id :: byte
  us_GnbPduSession :: "sess_ref option"
  ueIP :: string
  ueGnbIP :: string
  us_tun :: "string option"
  us_rule :: "tun_rule option"
  us_routeTun :: "tun_route option"
  us_vrf :: "vrf_device option"
  stopSignal :: "chan option"
  us_Wait :: chan
  T3580Retries :: int
  StateSM :: state_sm

record AuthenticationSubscription =
  PermanentKeyValue :: string
  OpcValue :: string
  OpValue :: string
  AuthenticationManagementField :: string
  SequenceNumber :: string

record SECURITY =
  Supi :: string
  Msin :: string
  sec_mcc :: string
  sec_mnc :: string
  ULCount :: count
  DLCount :: count
  UeSecurityCapability :: UESecurityCapability
  IntegrityAlg :: byte
  CipheringAlg :: byte
  Ksi :: int
  Tsc :: ScType
  Snn :: string
  KnasEnc :: "byte list"
  KnasInt :: "byte list"
  Kamf :: "byte list"
  AuthenticationSubs :: AuthenticationSubscription
  sec_Suci :: MobileIdentity5GS
  suciPublicKey :: HomeNetworkPublicKey
  RoutingIndicator :: string
  Guti :: "guti5g option"

record UEContext =
  ue_id :: byte
  prUeId :: int
  UeSecurity :: SECURITY
  StateMM :: state_mm
  ue_gnbInboundChannel :: chan
  ue_gnbRx :: "chan option"
  ue_gnbTx :: "chan option"
  drx :: "bool option"
  PduSession :: "nat option list"
  amf_mcc :: string
  amf_mnc :: string
  Dnn :: string
  Snssai_Sst :: int
  Snssai_Sd :: string
  ue_TunnelMode :: TunnelMode
  scenarioChan :: chan

text \<open>Channels by what they carry: messages to and from a gNodeB, the end of a session, a stop signal, state changes.\<close>

datatype uchan = MsgCh chan | WaitCh chan | StopCh chan | ScenarioCh chan

text \<open>
  What a UE does to the outside: messages to a gNodeB, state changes told to the scenario,
  channels closed, the stop signal of a data plane, a timer started (for a session, in
  seconds), commands to the kernel.
\<close>

datatype kernel_op =
    GtpLinkDel string
  | GtpLinkAdd string int string chan
  | GtpAddFAR "string list"
  | GtpAddPDR "string list"
  | GtpAddQER "string list"
  | AddrAdd string string
  | RuleDel tun_rule
  | RuleAdd tun_rule
  | VrfDel vrf_device
  | VrfAdd vrf_device
  | LinkSetMaster string string
  | LinkSetUp string
  | LinkSetDown string
  | LinkDel string
  | RouteReplace tun_route
  | RouteDel tun_route

datatype uevent =
    ToGnb chan UEMessage
  | ToScenario state_mm
  | Closed uchan
  | StopSignal chan
  | StartT3580 nat nat
  | Kernel kernel_op

record ustate =
  ueC :: UEContext
  usessH :: "nat \<Rightarrow> UEPDUSession"
  uGnbSess :: "sess_ref \<Rightarrow> GnbPDUSession"
  uNextSess :: nat
  uNextChan :: nat
  uClosed :: "uchan list"
  uevents :: "uevent list"

type_synonym 'a UM = "(ustate, 'a) comp"

section \<open>The environment of a UE\<close>

text \<open>
  \<open>GmmMessageEncode\<close> and \<open>GsmMessageEncode\<close> give what is in the buffer after the call
  (an encoding error is printed and otherwise ignored). \<open>PlainNasDecode\<close> gives the decoded
  message and whether there was an error, \<open>PlainNasEncode\<close> the octets of a decoded
  message. \<open>NASEncrypt\<close> and \<open>NASMacCalculate\<close> take algorithm, key, count, direction
  (true for uplink) and payload. What is received next on a channel, whether a kernel command
  succeeds and what an interface name resolves to may depend on everything the UE has done;
  receiving nothing means waiting for ever, a closed channel gives the zero message.
\<close>

datatype fc = FC_KAUSF | FC_RES_STAR | FC_KSEAF | FC_KAMF | FC_ALGORITHM_KEY

record uext =
  ux_crypto :: crypto
  ux_random :: nat
  GetSecurityHeaderType :: "byte list \<Rightarrow> byte"
  PlainNasDecode :: "byte list \<Rightarrow> NasMessage \<times> bool"
  PlainNasEncode :: "NasMessage \<Rightarrow> byte list option"
  GmmMessageEncode :: "gmm_out \<Rightarrow> byte list option"
  GsmMessageEncode :: "gsm_out \<Rightarrow> byte list option"
  NASEncrypt :: "byte \<Rightarrow> byte list \<Rightarrow> u32 \<Rightarrow> bool \<Rightarrow> byte list \<Rightarrow> byte list option"
  NASMacCalculate :: "byte \<Rightarrow> byte list \<Rightarrow> u32 \<Rightarrow> bool \<Rightarrow> byte list \<Rightarrow> byte list option"
  Count_Get :: "count \<Rightarrow> u32"
  Count_SQN :: "count \<Rightarrow> byte"
  Count_Overflow :: "count \<Rightarrow> u16"
  Count_Set :: "u16 \<Rightarrow> byte \<Rightarrow> count \<Rightarrow> count"
  Count_SetSQN :: "byte \<Rightarrow> count \<Rightarrow> count"
  Count_SetOverflow :: "u16 \<Rightarrow> count \<Rightarrow> count"
  Count_AddOne :: "count \<Rightarrow> count"
  milenage_F1 :: "byte list \<Rightarrow> byte list \<Rightarrow> byte list \<Rightarrow> byte list \<Rightarrow> byte list \<Rightarrow> byte list \<times> byte list"
  milenage_F2345 :: "byte list \<Rightarrow> byte list \<Rightarrow> byte list \<Rightarrow>
    byte list \<times> byte list \<times> byte list \<times> byte list \<times> byte list"
  GetKDFValue :: "byte list \<Rightarrow> fc \<Rightarrow> byte list list \<Rightarrow> byte list option"
  KDFLen :: "byte list \<Rightarrow> byte list"
  NNASEncAlg :: byte
  NNASIntAlg :: byte
  guti_SetID :: "guti5g \<Rightarrow> u16"
  guti_Pointer :: "guti5g \<Rightarrow> byte"
  guti_TMSI :: "guti5g \<Rightarrow> byte list"
  chan_recv :: "uevent list \<Rightarrow> chan \<Rightarrow> UEMessage option"
  kernel_ok :: "uevent list \<Rightarrow> kernel_op \<Rightarrow> bool"
  link_by_name :: "uevent list \<Rightarrow> string \<Rightarrow> nat option"
  ParseIP_String :: "string \<Rightarrow> string"

end
