(* ===== verification/UeContext.thy ===== *)
theory UeContext
  imports UeTypes GnbContext
begin

text \<open>
  The context of a simulated UE and its operations (\<open>ue/context/context.go\<close>), with the
  algorithm selection and key derivation they call (\<open>common/auth\<close>) and the part of the
  configuration they start from.
\<close>

section \<open>Access to the state\<close>

definition upd_ctxU :: "(UEContext \<Rightarrow> UEContext) \<Rightarrow> ustate \<Rightarrow> ustate" where
  [simp]: "upd_ctxU f s = s\<lparr>ueC := f (ueC s)\<rparr>"

definition upd_sec :: "(SECURITY \<Rightarrow> SECURITY) \<Rightarrow> ustate \<Rightarrow> ustate" where
  [simp]: "upd_sec f s = s\<lparr>ueC := (ueC s)\<lparr>UeSecurity := f (UeSecurity (ueC s))\<rparr>\<rparr>"

definition upd_usess :: "nat \<Rightarrow> (UEPDUSession \<Rightarrow> UEPDUSession) \<Rightarrow> ustate \<Rightarrow> ustate" where
  [simp]: "upd_usess p f s = s\<lparr>usessH := (usessH s)(p := f (usessH s p))\<rparr>"

definition emitU :: "uevent \<Rightarrow> ustate \<Rightarrow> ustate" where
  [simp]: "emitU e s = s\<lparr>uevents := uevents s @ [e]\<rparr>"

abbreviation sec :: "ustate \<Rightarrow> SECURITY" where
  "sec s \<equiv> UeSecurity (ueC s)"

text \<open>\<open>make(chan T)\<close> and \<open>close(ch)\<close> of a channel the UE owns.\<close>

definition makeChU :: "chan UM" where
  "makeChU s = Ret (uNextChan s, s\<lparr>uNextChan := Suc (uNextChan s)\<rparr>)"

definition closeChU :: "uchan \<Rightarrow> unit UM" where
  "closeChU c s =
     (if c \<in> set (uClosed s) then Panic ClosedChan
      else Ret ((), emitU (Closed c) (s\<lparr>uClosed := c # uClosed s\<rparr>)))"

section \<open>Configuration\<close>

text \<open>What a UE is configured with, and the security capabilities made from it.\<close>

record UeConf =
  conf_Msin :: string
  conf_Key :: string
  conf_Opc :: string
  conf_Amf :: string
  conf_Sqn :: string
  conf_Dnn :: string
  conf_ProtectionScheme :: int
  conf_HomeNetworkPublicKey :: string
  conf_HomeNetworkPublicKeyID :: byte
  conf_RoutingIndicator :: string
  conf_Mcc :: string
  conf_Mnc :: string
  conf_Sst :: int
  conf_Sd :: string
  conf_Nia :: "bool \<times> bool \<times> bool \<times> bool"
  conf_Nea :: "bool \<times> bool \<times> bool \<times> bool"
  conf_TunnelMode :: TunnelMode

definition GetUESecurityCapability :: "UeConf \<Rightarrow> UESecurityCapability" where
  "GetUESecurityCapability c =
     (let (i0, i1, i2, i3) = conf_Nia c; (e0, e1, e2, e3) = conf_Nea c in
      \<lparr>IA0 = i0, IA1 = i1, IA2 = i2, IA3 = i3, EA0 = e0, EA1 = e1, EA2 = e2, EA3 = e3\<rparr>)"

definition read_public_key :: "string \<Rightarrow> (byte list \<Rightarrow> key option) \<Rightarrow> UeConf \<Rightarrow> HomeNetworkPublicKey res" where
  "read_public_key e new c =
     (let (key, bad) = hex_decode (conf_HomeNetworkPublicKey c) in
      if bad then Fatal e
      else case new key of
          None \<Rightarrow> Fatal e
        | Some pk \<Rightarrow> Ret \<lparr>pub_ProtectionScheme = show_int (conf_ProtectionScheme c), pub_PublicKey = Some pk,
            pub_PublicKeyID = show_nat (unat (conf_HomeNetworkPublicKeyID c))\<rparr>)"

definition GetHomeNetworkPublicKey :: "crypto \<Rightarrow> UeConf \<Rightarrow> HomeNetworkPublicKey res" where
  "GetHomeNetworkPublicKey C c =
     (if conf_ProtectionScheme c = 0
      then Ret \<lparr>pub_ProtectionScheme = ''0'', pub_PublicKey = None, pub_PublicKeyID = ''0''\<rparr>
      else if conf_ProtectionScheme c = 1
      then read_public_key ''Invalid Home Network Public Key in configuration for Profile A'' (x25519_NewPublicKey C) c
      else if conf_ProtectionScheme c = 2
      then read_public_key ''Invalid Home Network Public Key in configuration for Profile B'' (p256_NewPublicKey C) c
      else Fatal ''Invalid Protection Scheme for SUCI. Valid values are 0, 1 and 2'')"

section \<open>Security functions\<close>

text \<open>The algorithms a UE starts with: the first it has, in order; none is algorithm 0.\<close>

definition SelectAlgorithms :: "UESecurityCapability \<Rightarrow> byte \<times> byte" where
  "SelectAlgorithms c =
     (if IA0 c then 0 else if IA1 c then 1 else if IA2 c then 2 else if IA3 c then 3 else 0,
      if EA0 c then 0 else if EA1 c then 1 else if EA2 c then 2 else if EA3 c then 3 else 0)"

text \<open>The keys written so far, and whether there was an error.\<close>

definition AlgorithmKeyDerivation :: "uext \<Rightarrow> byte \<Rightarrow> byte list \<Rightarrow> byte \<Rightarrow> byte list \<times> byte list \<Rightarrow>
    ((byte list \<times> byte list) \<times> bool) res" where
  "AlgorithmKeyDerivation X cipheringAlg kamf integrityAlg keys =
     (let derive = (\<lambda>d a. GetKDFValue X kamf FC_ALGORITHM_KEY [[d], KDFLen X [d], [a], KDFLen X [a]]) in
      case derive (NNASEncAlg X) cipheringAlg of
        None \<Rightarrow> Ret (keys, True)
      | Some kenc \<Rightarrow> bindR (slice kenc 16 32) (\<lambda>ke.
          case derive (NNASIntAlg X) integrityAlg of
            None \<Rightarrow> Ret ((ke, snd keys), True)
          | Some kint \<Rightarrow> bindR (slice kint 16 32) (\<lambda>ki. Ret ((ke, ki), False))))"

definition DerivateAlgKey :: "uext \<Rightarrow> unit UM" where
  "DerivateAlgKey X =
     bindM (getsM sec) (\<lambda>c.
     bindM (liftR (AlgorithmKeyDerivation X (CipheringAlg c) (Kamf c) (IntegrityAlg c) (KnasEnc c, KnasInt c)))
       (\<lambda>((ke, ki), _). modM (upd_sec (\<lambda>c. c\<lparr>KnasEnc := ke, KnasInt := ki\<rparr>))))"

section \<open>Identities\<close>

text \<open>
  The order of NAS: the last digit of a three-digit MNC shares an octet with the last digit of
  the MCC. (The gNodeB encodes in the order of NGAP.)
\<close>

definition ue_GetMccAndMncInOctets :: "SECURITY \<Rightarrow> byte list res" where
  "ue_GetMccAndMncInOctets c =
     (let mc = reverse (sec_mcc c); mn = reverse (sec_mnc c) in
      bindR (idx mc 1) (\<lambda>c1. bindR (idx mc 2) (\<lambda>c2.
        let c0 = mc ! 0 in
        if length mn = 2 then
          Ret (fst (hex_decode [c1, c2, CHR ''f'', c0, mn ! 0, mn ! 1]))
        else
          bindR (idx mn 2) (\<lambda>n2. bindR (idx mn 0) (\<lambda>n0. bindR (idx mn 1) (\<lambda>n1.
            Ret (fst (hex_decode [c1, c2, n0, c0, n1, n2]))))))))"

text \<open>The indicator, set to 0 when empty, and its octets.\<close>

definition GetRoutingIndicatorInOctets :: "SECURITY \<Rightarrow> (byte list \<times> SECURITY) res" where
  "GetRoutingIndicatorInOctets c =
     (let ri = (if RoutingIndicator c = [] then ''0'' else RoutingIndicator c);
          c' = c\<lparr>RoutingIndicator := ri\<rparr> in
      if length ri > 4 then Fatal ''Routing indicator must be 4 digits maximum''
      else
        let (bs, bad) = hex_decode (swap_pairs (ri @ replicate (4 - length ri) (CHR ''F''))) in
        if bad then Fatal ''Unable to encode routing indicator'' else Ret (bs, c'))"

text \<open>\<open>copy(dst[i:], src)\<close>.\<close>

definition copy_at :: "nat \<Rightarrow> 'a list \<Rightarrow> 'a list \<Rightarrow> 'a list" where
  "copy_at i src dst = take i dst @ take (length dst - i) src @ drop (i + length src) dst"

definition ParseUint8 :: "string \<Rightarrow> nat" where
  "ParseUint8 s = (case ParseUint s 10 8 of Inr n \<Rightarrow> n | Inl ErrRange \<Rightarrow> 255 | Inl ErrSyntax \<Rightarrow> 0)"

definition EncodeSuci :: "uext \<Rightarrow> SECURITY \<Rightarrow> (MobileIdentity5GS \<times> SECURITY) res" where
  "EncodeSuci X c =
     (let pk = suciPublicKey c;
          protScheme = ParseUint8 (pub_ProtectionScheme pk);
          hnPubKeyId = ParseUint8 (pub_PublicKeyID pk) in
      bindR (if protScheme = 0 then bindR (Tbcd (Msin c)) (\<lambda>t. Ret (fst (hex_decode t)))
             else
               bindR (CipherSuci (ux_crypto X) (ux_random X) (Msin c) (sec_mcc c) (sec_mnc c) (RoutingIndicator c) pk)
                 (\<lambda>r. case r of
                     Inl _ \<Rightarrow> Fatal ''Unable to cipher SUCI''
                   | Inr None \<Rightarrow> Panic NilDeref
                   | Inr (Some suci) \<Rightarrow> Ret (fst (hex_decode (SchemeOutput suci)))))
        (\<lambda>schemeOutput.
      bindR (ue_GetMccAndMncInOctets c) (\<lambda>plmn.
      bindR (GetRoutingIndicatorInOctets c) (\<lambda>(ri, c').
        let buffer = replicate (8 + length schemeOutput) 0;
            b1 = copy_at 4 ri (copy_at 1 plmn (buffer[0 := 1]));
            b2 = copy_at 8 schemeOutput (b1[6 := of_nat protScheme, 7 := of_nat hnPubKeyId]) in
        Ret (\<lparr>mi_Buffer = b2, mi_Len = of_nat (length b2)\<rparr>, c')))))"

definition deriveSNN :: "string \<Rightarrow> string \<Rightarrow> string" where
  "deriveSNN mcc' mnc' =
     (if length mnc' = 2 then ''5G:mnc0'' @ mnc' @ ''.mcc'' @ mcc' @ ''.3gppnetwork.org''
      else ''5G:mnc'' @ mnc' @ ''.mcc'' @ mcc' @ ''.3gppnetwork.org'')"

definition SetAmfMccAndMnc :: "string \<Rightarrow> string \<Rightarrow> unit UM" where
  "SetAmfMccAndMnc mcc' mnc' =
     thenM (modM (upd_ctxU (\<lambda>c. c\<lparr>amf_mcc := mcc', amf_mnc := mnc'\<rparr>)))
       (modM (upd_sec (\<lambda>c. c\<lparr>Snn := deriveSNN mcc' mnc'\<rparr>)))"

definition ue_GetTMSI5G :: "uext \<Rightarrow> SECURITY \<Rightarrow> byte list" where
  "ue_GetTMSI5G X c = (case Guti c of Some g \<Rightarrow> guti_TMSI X g | None \<Rightarrow> [0, 0, 0, 0])"

section \<open>A new context\<close>

definition zero_security :: SECURITY where
  "zero_security = \<lparr>Supi = [], Msin = [], sec_mcc = [], sec_mnc = [], ULCount = 0, DLCount = 0,
     UeSecurityCapability = \<lparr>IA0 = False, IA1 = False, IA2 = False, IA3 = False,
       EA0 = False, EA1 = False, EA2 = False, EA3 = False\<rparr>,
     IntegrityAlg = 0, CipheringAlg = 0, Ksi = 0, Tsc = ScType_NATIVE, Snn = [],
     KnasEnc = replicate 16 0, KnasInt = replicate 16 0, Kamf = [],
     AuthenticationSubs = \<lparr>PermanentKeyValue = [], OpcValue = [], OpValue = [],
       AuthenticationManagementField = [], SequenceNumber = []\<rparr>,
     sec_Suci = \<lparr>mi_Buffer = [], mi_Len = 0\<rparr>,
     suciPublicKey = \<lparr>pub_ProtectionScheme = [], pub_PublicKey = None, pub_PublicKeyID = []\<rparr>,
     RoutingIndicator = [], Guti = None\<rparr>"

definition SetAuthSubscription :: "string \<Rightarrow> string \<Rightarrow> string \<Rightarrow> string \<Rightarrow> string \<Rightarrow> SECURITY \<Rightarrow> SECURITY" where
  "SetAuthSubscription k opc op amf sqn c = c\<lparr>AuthenticationSubs := \<lparr>PermanentKeyValue = k,
     OpcValue = opc, OpValue = op, AuthenticationManagementField = amf, SequenceNumber = sqn\<rparr>\<rparr>"

text \<open>The security part of \<open>NewRanUeContext\<close>, up to the SUCI, and the whole context.\<close>

definition new_security :: "uext \<Rightarrow> UeConf \<Rightarrow> HomeNetworkPublicKey \<Rightarrow> string \<Rightarrow> SECURITY res" where
  "new_security X conf pk op =
     (let cap = GetUESecurityCapability conf; (integAlg, cipherAlg) = SelectAlgorithms cap;
          c = (SetAuthSubscription (conf_Key conf) (conf_Opc conf) op (conf_Amf conf) (conf_Sqn conf) zero_security)
            \<lparr>Msin := conf_Msin conf, UeSecurityCapability := cap, IntegrityAlg := integAlg,
             CipheringAlg := cipherAlg, Ksi := 7, Tsc := ScType_NATIVE, sec_mcc := conf_Mcc conf,
             sec_mnc := conf_Mnc conf, RoutingIndicator := conf_RoutingIndicator conf, suciPublicKey := pk,
             Supi := ''imsi-'' @ conf_Mcc conf @ conf_Mnc conf @ conf_Msin conf\<rparr> in
      bindR (EncodeSuci X c) (\<lambda>(suci, c'). Ret (c'\<lparr>sec_Suci := suci\<rparr>)))"

definition NewRanUeContext :: "uext \<Rightarrow> UeConf \<Rightarrow> HomeNetworkPublicKey \<Rightarrow> string \<Rightarrow> chan \<Rightarrow> chan \<Rightarrow> int \<Rightarrow>
    UEContext res" where
  "NewRanUeContext X conf pk op scenario inbound i =
     bindR (new_security X conf pk op) (\<lambda>s.
       Ret \<lparr>ue_id = of_int i, prUeId = i, UeSecurity = s, StateMM = MM5G_NULL,
         ue_gnbInboundChannel = inbound, ue_gnbRx = None, ue_gnbTx = None, drx = None,
         PduSession = replicate 16 None, amf_mcc = [], amf_mnc = [], Dnn = conf_Dnn conf,
         Snssai_Sst = conf_Sst conf, Snssai_Sd = conf_Sd conf, ue_TunnelMode = conf_TunnelMode conf,
         scenarioChan = scenario\<rparr>)"

section \<open>Mobility-management state\<close>

text \<open>The setters tell the scenario of the new state, all but the one for \<open>NULL\<close>.\<close>

definition SetStateMM :: "state_mm \<Rightarrow> unit UM" where
  "SetStateMM st =
     thenM (modM (upd_ctxU (\<lambda>c. c\<lparr>StateMM := st\<rparr>)))
     (bindM (getsM (\<lambda>s. ScenarioCh (scenarioChan (ueC s)) \<in> set (uClosed s))) (\<lambda>closed.
        if closed then panicM ClosedChan else modM (emitU (ToScenario st))))"

definition SetStateMM_NULL :: "unit UM" where
  "SetStateMM_NULL = modM (upd_ctxU (\<lambda>c. c\<lparr>StateMM := MM5G_NULL\<rparr>))"

section \<open>PDU sessions\<close>

definition zero_usession :: UEPDUSession where
  "zero_usession = \<lparr>us_Id = 0, us_GnbPduSession = None, ueIP = [], ueGnbIP = [], us_tun = None,
     us_rule = None, us_routeTun = None, us_vrf = None, stopSignal = None, us_Wait = 0,
     T3580Retries = 0, StateSM = SM5G_PDU_SESSION_INACTIVE\<rparr>"

text \<open>The first free slot.\<close>

fun free_slot :: "nat \<Rightarrow> 'a option list \<Rightarrow> nat option" where
  "free_slot i [] = None"
| "free_slot i (p # ps) = (if p = None then Some i else free_slot (Suc i) ps)"

definition CreatePDUSession :: "(string + nat) UM" where
  "CreatePDUSession =
     bindM (getsM (\<lambda>s. free_slot 0 (PduSession (ueC s)))) (\<lambda>slot.
       case slot of
         None \<Rightarrow> retM (Inl ''unable to create an additional PDU Session, we already created the max number of PDU Session'')
       | Some i \<Rightarrow>
           bindM makeChU (\<lambda>wait.
           bindM (getsM uNextSess) (\<lambda>p.
           thenM (modM (\<lambda>s. s\<lparr>uNextSess := Suc p,
             usessH := (usessH s)(p := zero_usession\<lparr>us_Id := of_nat (i + 1), us_Wait := wait\<rparr>)\<rparr>))
           (thenM (modM (upd_ctxU (\<lambda>c. c\<lparr>PduSession := (PduSession c)[i := Some p]\<rparr>)))
             (retM (Inr p))))))"

text \<open>
  The slot of an identifier: the guard excludes identifiers above 15, the index is computed in
  eight bits.
\<close>

definition session_slot :: "byte \<Rightarrow> (nat option option) UM" where
  "session_slot i =
     (if 15 < i then retM None
      else bindM (getsM (\<lambda>s. PduSession (ueC s))) (\<lambda>ps.
        bindM (liftR (idx ps (unat (i - 1)))) (\<lambda>p. retM (Some p))))"

definition ue_GetPduSession :: "byte \<Rightarrow> (string + nat) UM" where
  "ue_GetPduSession i =
     bindM (session_slot i) (\<lambda>r. case r of
         Some (Some p) \<Rightarrow> retM (Inr p)
       | _ \<Rightarrow> retM (Inl ''Unable to find GnbPDUSession ID''))"

definition ue_GetPduSessions :: "ustate \<Rightarrow> sess_ref option list" where
  "ue_GetPduSessions s =
     map (\<lambda>p. case p of None \<Rightarrow> None | Some q \<Rightarrow> us_GnbPduSession (usessH s q)) (PduSession (ueC s))"

text \<open>Sending the stop signal; on a closed channel it panics.\<close>

definition stopU :: "chan \<Rightarrow> unit UM" where
  "stopU c s = (if StopCh c \<in> set (uClosed s) then Panic ClosedChan else Ret ((), emitU (StopSignal c) s))"

definition ue_DeletePduSession :: "byte \<Rightarrow> (string option) UM" where
  "ue_DeletePduSession i =
     bindM (session_slot i) (\<lambda>r. case r of
         Some (Some p) \<Rightarrow>
           bindM (getsM (\<lambda>s. usessH s p)) (\<lambda>x.
           thenM (closeChU (WaitCh (us_Wait x)))
           (thenM (case stopSignal x of None \<Rightarrow> skipM | Some c \<Rightarrow> stopU c)
           (thenM (modM (upd_ctxU (\<lambda>c. c\<lparr>PduSession := (PduSession c)[unat (i - 1) := None]\<rparr>)))
             (retM None))))
       | _ \<Rightarrow> retM (Some ''Unable to find GnbPDUSession ID''))"

definition SetIp :: "nat \<Rightarrow> byte list \<Rightarrow> unit UM" where
  "SetIp p ip =
     bindM (liftR (bindR (idx ip 0) (\<lambda>a. bindR (idx ip 1) (\<lambda>b. bindR (idx ip 2) (\<lambda>c. bindR (idx ip 3) (\<lambda>d.
       Ret (join (CHR ''.'') (map (show_nat \<circ> unat) [a, b, c, d])))))))) (\<lambda>t.
       modM (upd_usess p (\<lambda>x. x\<lparr>ueIP := t\<rparr>)))"

definition SetStateSM :: "nat \<Rightarrow> state_sm \<Rightarrow> unit UM" where
  "SetStateSM p st = modM (upd_usess p (\<lambda>x. x\<lparr>StateSM := st\<rparr>))"

end
