(* ===== verification/UeMessages.thy ===== *)
theory UeMessages
  imports UeContext GnbBuilders
begin

text \<open>
  The NAS messages a UE builds and their protection (\<open>ue/nas/message/nas_control\<close>). The
  builders return what the codec wrote; \<open>EncodeNasPduWithSecurity\<close> decodes that again and
  \<open>NASEncode\<close> adds sequence number, MAC and security header.
\<close>

section \<open>Protection\<close>

definition protect :: "uext \<Rightarrow> SECURITY \<Rightarrow> byte \<Rightarrow> byte list \<Rightarrow> string + byte list" where
  "protect X c hdr payload =
     (let plain = (hdr = SecurityHeaderTypeIntegrityProtected \<or>
            hdr = SecurityHeaderTypeIntegrityProtectedWithNew5gNasSecurityContext);
          n = Count_Get X (ULCount c) in
      case (if plain then Some payload else NASEncrypt X (CipheringAlg c) (KnasEnc c) n True payload) of
        None \<Rightarrow> Inl ''Error while encrypting NAS Message''
      | Some p \<Rightarrow>
          let q = Count_SQN X (ULCount c) # p in
          case NASMacCalculate X (IntegrityAlg c) (KnasInt c) n True q of
            None \<Rightarrow> Inl ''Error while calculating MAC of NAS Message''
          | Some mac32 \<Rightarrow> Inr ([Epd5GSMobilityManagementMessage, hdr] @ mac32 @ q))"

definition NASEncode :: "uext \<Rightarrow> NasMessage \<Rightarrow> byte \<Rightarrow> bool \<Rightarrow> bool \<Rightarrow> (string + byte list) UM" where
  "NASEncode X msg hdr securityContextAvailable newSecurityContext =
     (let plain = (case PlainNasEncode X msg of None \<Rightarrow> Inl ''PlainNasEncode'' | Some p \<Rightarrow> Inr p) in
      if \<not> securityContextAvailable then retM plain
      else
        thenM (if newSecurityContext
               then modM (upd_sec (\<lambda>c. c\<lparr>ULCount := Count_Set X 0 0 (ULCount c), DLCount := Count_Set X 0 0 (DLCount c)\<rparr>))
               else skipM)
        (case plain of
           Inl e \<Rightarrow> retM (Inl e)
         | Inr payload \<Rightarrow>
             bindM (getsM (\<lambda>s. protect X (sec s) hdr payload)) (\<lambda>r.
               case r of
                 Inl e \<Rightarrow> retM (Inl e)
               | Inr pdu \<Rightarrow>
                   thenM (modM (upd_sec (\<lambda>c. c\<lparr>ULCount := Count_AddOne X (ULCount c)\<rparr>)))
                     (retM (Inr pdu)))))"

definition EncodeNasPduWithSecurity :: "uext \<Rightarrow> byte list option \<Rightarrow> byte \<Rightarrow> bool \<Rightarrow> bool \<Rightarrow> (string + byte list) UM" where
  "EncodeNasPduWithSecurity X pdu hdr securityContextAvailable newSecurityContext =
     (let (m, bad) = PlainNasDecode X (bytes_or_nil pdu) in
      if bad then retM (Inl ''PlainNasDecode'')
      else NASEncode X m hdr securityContextAvailable newSecurityContext)"

section \<open>Registration and service request\<close>

definition boolToUint16 :: "bool \<Rightarrow> u16" where
  "boolToUint16 b = (if b then 1 else 0)"

text \<open>One bit per PDU session, at its identifier; the shift is in sixteen bits.\<close>

definition pduFlag :: "UEContext \<Rightarrow> u16" where
  "pduFlag ue = foldl (\<lambda>f (i, p). f + push_bit (i + 1) (boolToUint16 (p \<noteq> None))) 0
     (enumerate 0 (PduSession ue))"

definition le16_put :: "u16 \<Rightarrow> byte list" where
  "le16_put w = [ucast w, ucast (drop_bit 8 w)]"

definition mobile_identity :: "UEContext \<Rightarrow> mobile_id" where
  "mobile_identity ue =
     (case Guti (UeSecurity ue) of Some g \<Rightarrow> Id_Guti g | None \<Rightarrow> Id_Suci (sec_Suci (UeSecurity ue)))"

definition encrypt_uplink :: "uext \<Rightarrow> SECURITY \<Rightarrow> byte list option \<Rightarrow> byte list option" where
  "encrypt_uplink X c p = NASEncrypt X (CipheringAlg c) (KnasEnc c) (Count_Get X (ULCount c)) True (bytes_or_nil p)"

text \<open>
  With PDU sessions to report, the whole request is ciphered into a container of a second
  request without them; if ciphering fails, the first request is returned as it is.
\<close>

definition GetRegistrationRequest :: "uext \<Rightarrow> byte \<Rightarrow> byte list option \<Rightarrow> bool \<Rightarrow> UEContext \<Rightarrow> byte list option" where
  "GetRegistrationRequest X registrationType requestedNSSAI capability ue =
     (let flag = pduFlag ue;
          status = (if flag \<noteq> 0 then Some (le16_put flag) else None);
          req = \<lparr>rr_Ksi = of_int (Ksi (UeSecurity ue)), rr_RegistrationType = registrationType, rr_FOR = 1,
            rr_MobileIdentity = mobile_identity ue,
            rr_Capability5GMM = (if capability then Some (7 # replicate 12 0) else None),
            rr_UESecurityCapability = UeSecurityCapability (UeSecurity ue),
            rr_RequestedNSSAI = requestedNSSAI, rr_UplinkDataStatus = status,
            rr_PDUSessionStatus = status, rr_NASMessageContainer = None\<rparr>;
          nasPdu = GmmMessageEncode X (Out_RegistrationRequest req) in
      if flag \<noteq> 0 then
        (case encrypt_uplink X (UeSecurity ue) nasPdu of
           None \<Rightarrow> nasPdu
         | Some container \<Rightarrow> GmmMessageEncode X (Out_RegistrationRequest
             (req\<lparr>rr_NASMessageContainer := Some container, rr_UplinkDataStatus := None,
                  rr_PDUSessionStatus := None\<rparr>)))
      else nasPdu)"

definition GetServiceRequest :: "uext \<Rightarrow> UEContext \<Rightarrow> byte list option res" where
  "GetServiceRequest X ue =
     (case Guti (UeSecurity ue) of
        None \<Rightarrow> Panic NilDeref
      | Some g \<Rightarrow>
          let status = Some (le16_put (pduFlag ue));
              req = \<lparr>sr_ServiceType = 1, sr_Ksi = of_int (Ksi (UeSecurity ue)), sr_AMFSetID = guti_SetID X g,
                sr_AMFPointer = guti_Pointer X g, sr_TypeOfIdentity = 4, sr_TMSI5G = ue_GetTMSI5G X (UeSecurity ue),
                sr_UplinkDataStatus = status, sr_PDUSessionStatus = status, sr_NASMessageContainer = None\<rparr>;
              nasPdu = GmmMessageEncode X (Out_ServiceRequest req) in
          Ret (case encrypt_uplink X (UeSecurity ue) nasPdu of
             None \<Rightarrow> nasPdu
           | Some container \<Rightarrow> GmmMessageEncode X (Out_ServiceRequest
               (req\<lparr>sr_NASMessageContainer := Some container, sr_UplinkDataStatus := None,
                    sr_PDUSessionStatus := None\<rparr>))))"

section \<open>Other mobility-management messages\<close>

definition AuthenticationFailure :: "uext \<Rightarrow> string \<Rightarrow> byte list option \<Rightarrow> byte list option" where
  "AuthenticationFailure X cause paramAutn =
     GmmMessageEncode X (Out_AuthenticationFailure
       (if cause = ''MAC failure'' then 20 else if cause = ''SQN failure'' then 21 else 0)
       (if cause = ''SQN failure'' then Some (bytes_or_nil paramAutn) else None))"

text \<open>The EAP branch is taken with an EAP message only, which no caller passes.\<close>

definition AuthenticationResponse :: "uext \<Rightarrow> byte list option \<Rightarrow> byte list option res" where
  "AuthenticationResponse X authenticationResponseParam =
     (let p = bytes_or_nil authenticationResponseParam in
      if p \<noteq> [] then bindR (slice p 0 16) (\<lambda>res. Ret (GmmMessageEncode X (Out_AuthenticationResponse (Some res))))
      else Ret (GmmMessageEncode X (Out_AuthenticationResponse None)))"

definition IdentityResponse :: "uext \<Rightarrow> UEContext \<Rightarrow> byte list option" where
  "IdentityResponse X ue = GmmMessageEncode X (Out_IdentityResponse (sec_Suci (UeSecurity ue)))"

definition getRegistrationComplete :: "uext \<Rightarrow> byte list option \<Rightarrow> byte list option" where
  "getRegistrationComplete X sorTransparentContainer =
     GmmMessageEncode X (Out_RegistrationComplete sorTransparentContainer)"

definition RegistrationComplete :: "uext \<Rightarrow> (string + byte list) UM" where
  "RegistrationComplete X =
     EncodeNasPduWithSecurity X (getRegistrationComplete X None) SecurityHeaderTypeIntegrityProtectedAndCiphered True False"

definition ConfigurationUpdateComplete :: "uext \<Rightarrow> (string + byte list) UM" where
  "ConfigurationUpdateComplete X =
     EncodeNasPduWithSecurity X (GmmMessageEncode X Out_ConfigurationUpdateComplete)
       SecurityHeaderTypeIntegrityProtectedAndCiphered True False"

definition getDeregistrationRequest :: "uext \<Rightarrow> UEContext \<Rightarrow> byte list option" where
  "getDeregistrationRequest X ue =
     GmmMessageEncode X (Out_DeregistrationRequest (of_int (Ksi (UeSecurity ue))) (mobile_identity ue))"

definition DeregistrationRequest :: "uext \<Rightarrow> (string + byte list) UM" where
  "DeregistrationRequest X =
     bindM (getsM (\<lambda>s. getDeregistrationRequest X (ueC s))) (\<lambda>pdu.
       EncodeNasPduWithSecurity X pdu SecurityHeaderTypeIntegrityProtectedAndCiphered True False)"

definition getSecurityModeComplete :: "uext \<Rightarrow> byte list option \<Rightarrow> byte list option" where
  "getSecurityModeComplete X nasMessageContainer =
     GmmMessageEncode X (Out_SecurityModeComplete nasMessageContainer)"

text \<open>Both branches on the RINMR bit repeat the registration request.\<close>

definition SecurityModeComplete :: "uext \<Rightarrow> byte \<Rightarrow> (string + byte list) UM" where
  "SecurityModeComplete X rinmr =
     bindM (getsM (\<lambda>s. if rinmr = 1 then GetRegistrationRequest X 1 None True (ueC s)
                       else GetRegistrationRequest X 1 None True (ueC s))) (\<lambda>registrationRequest.
       EncodeNasPduWithSecurity X (getSecurityModeComplete X registrationRequest)
         SecurityHeaderTypeIntegrityProtectedAndCipheredWithNew5gNasSecurityContext True True)"

section \<open>Session-management messages in an UL NAS Transport\<close>

definition snssai_of :: "int \<Rightarrow> string \<Rightarrow> byte \<times> byte list option" where
  "snssai_of sst sd =
     (of_int sst, if sd = [] then None else Some (copy_at 0 (fst (hex_decode sd)) [0, 0, 0]))"

definition getUlNasTransport :: "uext \<Rightarrow> byte list option \<Rightarrow> byte \<Rightarrow> byte option \<Rightarrow> string \<Rightarrow>
    (byte \<times> byte list option) option \<Rightarrow> byte list option" where
  "getUlNasTransport X payload i requestType dnn snssai =
     GmmMessageEncode X (Out_ULNASTransport
       \<lparr>ul_PduSessionID2Value = i, ul_RequestType = requestType,
        ul_DNN = (if dnn \<noteq> [] then Some dnn else None), ul_SNSSAI = snssai, ul_PayloadContainer = payload\<rparr>)"

text \<open>The messages of session management; every one has the procedure transaction identity 1.\<close>

definition gsm_header :: "byte \<Rightarrow> byte \<Rightarrow> gsm_hdr" where
  "gsm_header messageType i = \<lparr>gh_EPD = Epd5GSSessionManagementMessage, gh_PDUSessionID = i, gh_PTI = 1,
     gh_MessageType = messageType\<rparr>"

definition GetPduSessionEstablishmentRequest :: "uext \<Rightarrow> byte \<Rightarrow> byte list option" where
  "GetPduSessionEstablishmentRequest X i =
     GsmMessageEncode X (Out_EstablishmentRequest
       \<lparr>er_hdr = gsm_header MsgTypePDUSessionEstablishmentRequest i,
        er_MaximumDataRateDownLink = 0xFF, er_MaximumDataRateUpLink = 0xFF, er_PDUSessionType = 1,
        er_ConfigurationOptions = [IPAddressAllocationViaNASSignallingUL, DNSServerIPv4AddressRequest, DNSServerIPv6AddressRequest]\<rparr>)"

definition GetPduSessionReleaseRequest :: "uext \<Rightarrow> byte \<Rightarrow> byte list option" where
  "GetPduSessionReleaseRequest X i =
     GsmMessageEncode X (Out_ReleaseRequest (gsm_header MsgTypePDUSessionReleaseRequest i))"

definition GetPduSessionReleaseComplete :: "uext \<Rightarrow> byte \<Rightarrow> byte list option" where
  "GetPduSessionReleaseComplete X i =
     GsmMessageEncode X (Out_ReleaseComplete (gsm_header MsgTypePDUSessionReleaseComplete i))"

definition getUlNasTransport_PduSessionEstablishmentRequest :: "uext \<Rightarrow> byte \<Rightarrow> UEContext \<Rightarrow> byte list option" where
  "getUlNasTransport_PduSessionEstablishmentRequest X i ue =
     getUlNasTransport X (GetPduSessionEstablishmentRequest X i) i (Some RequestTypeInitialRequest)
       (Dnn ue) (Some (snssai_of (Snssai_Sst ue) (Snssai_Sd ue)))"

definition getUlNasTransport_PduSessionEstablishmentRelease :: "uext \<Rightarrow> byte \<Rightarrow> byte list option" where
  "getUlNasTransport_PduSessionEstablishmentRelease X i =
     getUlNasTransport X (GetPduSessionReleaseRequest X i) i None [] None"

definition getUlNasTransport_PduSessionReleaseComplete :: "uext \<Rightarrow> byte \<Rightarrow> UEContext \<Rightarrow> byte list option" where
  "getUlNasTransport_PduSessionReleaseComplete X i ue =
     getUlNasTransport X (GetPduSessionReleaseComplete X i) i (Some RequestTypeExistingPduSession)
       (Dnn ue) (Some (snssai_of (Snssai_Sst ue) (Snssai_Sd ue)))"

definition protected_or_error :: "uext \<Rightarrow> byte list option \<Rightarrow> (string + byte list) UM" where
  "protected_or_error X pdu =
     (if pdu = None then retM (Inl ''Error encoding IMSI UE PduSession Establishment Request Msg'')
      else EncodeNasPduWithSecurity X pdu SecurityHeaderTypeIntegrityProtectedAndCiphered True False)"

definition Request_UlNasTransport :: "uext \<Rightarrow> nat \<Rightarrow> (string + byte list) UM" where
  "Request_UlNasTransport X p =
     bindM (getsM (\<lambda>s. getUlNasTransport_PduSessionEstablishmentRequest X (us_Id (usessH s p)) (ueC s)))
       (protected_or_error X)"

definition Release_UlNasTransport :: "uext \<Rightarrow> nat \<Rightarrow> (string + byte list) UM" where
  "Release_UlNasTransport X p =
     bindM (getsM (\<lambda>s. getUlNasTransport_PduSessionEstablishmentRelease X (us_Id (usessH s p))))
       (protected_or_error X)"

definition ReleasComplete_UlNasTransport :: "uext \<Rightarrow> nat \<Rightarrow> (string + byte list) UM" where
  "ReleasComplete_UlNasTransport X p =
     bindM (getsM (\<lambda>s. getUlNasTransport_PduSessionReleaseComplete X (us_Id (usessH s p)) (ueC s)))
       (protected_or_error X)"

end
