(* ===== verification/UeAuth.thy ===== *)
theory UeAuth
  imports UeContext
begin

text \<open>
  Authentication and key agreement on the side of the UE: \<open>deriveAUTN\<close>,
  \<open>DeriveRESstarAndSetKey\<close> and \<open>DerivateKamf\<close> of \<open>ue/context/context.go\<close>. Milenage
  and the key derivation function are parameters.
\<close>

text \<open>The comparison \<open>bytes.Compare(a, b) < 0\<close>.\<close>

fun bytes_less :: "byte list \<Rightarrow> byte list \<Rightarrow> bool" where
  "bytes_less [] ys = (ys \<noteq> [])"
| "bytes_less (x # xs) [] = False"
| "bytes_less (x # xs) (y # ys) = (x < y \<or> (x = y \<and> bytes_less xs ys))"

text \<open>The digits after \<open>imsi-\<close> or \<open>supi-\<close>, five to fifteen: the regular expression's group.\<close>

fun supi_digits :: "string \<Rightarrow> string option" where
  "supi_digits [] = None"
| "supi_digits (c # r) =
     (let s = c # r; ds = takeWhile is_digit (drop 5 s) in
      if (HasPrefix s ''imsi-'' \<or> HasPrefix s ''supi-'') \<and> 5 \<le> length ds then Some (take 15 ds)
      else supi_digits r)"

definition or_fatalR :: "string \<Rightarrow> 'a option \<Rightarrow> 'a res" where
  [simp]: "or_fatalR e p = (case p of None \<Rightarrow> Fatal e | Some x \<Rightarrow> Ret x)"

definition hex_or_fatal :: "string \<Rightarrow> string \<Rightarrow> byte list res" where
  "hex_or_fatal e s = (let (bs, bad) = hex_decode s in if bad then Fatal e else Ret bs)"

definition str_bytes :: "string \<Rightarrow> byte list" where
  "str_bytes s = map (\<lambda>c. of_nat (code c)) s"

definition xor_bytes :: "byte list \<Rightarrow> byte list \<Rightarrow> byte list" where
  "xor_bytes = map2 (XOR)"

text \<open>SQN, AMF and MAC-A of the network's AUTN.\<close>

definition deriveAUTN :: "byte list \<Rightarrow> byte list \<Rightarrow> (byte list \<times> byte list \<times> byte list) res" where
  "deriveAUTN autn ak =
     bindR (slice autn 0 6) (\<lambda>SQNxorAK.
     bindR (slice autn 6 8) (\<lambda>amf.
     bindR (slice autn 8 (length autn)) (\<lambda>mac_a.
       Ret (xor_bytes SQNxorAK ak, amf, mac_a))))"

definition kdf_or_fatal :: "uext \<Rightarrow> string \<Rightarrow> byte list \<Rightarrow> fc \<Rightarrow> byte list list \<Rightarrow> byte list res" where
  "kdf_or_fatal X e key f ps =
     or_fatalR e (GetKDFValue X key f (concat (map (\<lambda>p. [p, KDFLen X p]) ps)))"

definition kamf_of :: "uext \<Rightarrow> string \<Rightarrow> byte list \<Rightarrow> string \<Rightarrow> byte list \<Rightarrow> byte list \<Rightarrow> byte list res" where
  "kamf_of X supi key snName SQN AK =
     bindR (kdf_or_fatal X ''Error while deriving Kausf'' key FC_KAUSF [str_bytes snName, xor_bytes SQN AK]) (\<lambda>Kausf.
     bindR (kdf_or_fatal X ''Error while deriving Kseaf'' Kausf FC_KSEAF [str_bytes snName]) (\<lambda>Kseaf.
     case supi_digits supi of
       None \<Rightarrow> Panic IndexRange
     | Some ds \<Rightarrow> kdf_or_fatal X ''Error while deriving Kamf'' Kseaf FC_KAMF [str_bytes ds, [0, 0]]))"

definition DerivateKamf :: "uext \<Rightarrow> byte list \<Rightarrow> string \<Rightarrow> byte list \<Rightarrow> byte list \<Rightarrow> unit UM" where
  "DerivateKamf X key snName SQN AK =
     bindM (getsM (\<lambda>s. Supi (sec s))) (\<lambda>supi.
     bindM (liftR (kamf_of X supi key snName SQN AK)) (\<lambda>k.
       modM (upd_sec (\<lambda>c. c\<lparr>Kamf := k\<rparr>))))"

text \<open>The failure parameter (AUTS) of a synchronisation failure.\<close>

definition auts :: "uext \<Rightarrow> byte list \<Rightarrow> byte list \<Rightarrow> byte list \<Rightarrow> byte list \<Rightarrow> byte list \<Rightarrow> byte list res" where
  "auts X OPC K RAND sqnUe AKstar =
     (if length sqnUe > 6 then Panic IndexRange
      else
        let (_, mac_s) = milenage_F1 X OPC K RAND sqnUe [0, 0] in
        Ret (xor_bytes sqnUe AKstar @ replicate (6 - length sqnUe) 0 @ mac_s))"

definition DeriveRESstarAndSetKey :: "uext \<Rightarrow> AuthenticationSubscription \<Rightarrow> byte list \<Rightarrow> string \<Rightarrow> byte list \<Rightarrow>
    (byte list option \<times> string) UM" where
  "DeriveRESstarAndSetKey X authSubs RAND snNmae AUTN =
     bindM (liftR (hex_or_fatal ''OPC error'' (OpcValue authSubs))) (\<lambda>OPC.
     bindM (liftR (hex_or_fatal ''K error'' (PermanentKeyValue authSubs))) (\<lambda>K.
     bindM (liftR (hex_or_fatal ''sqn error'' (SequenceNumber authSubs))) (\<lambda>sqnUe.
     bindM (liftR (hex_or_fatal ''AuthenticationManagementField error'' (AuthenticationManagementField authSubs))) (\<lambda>AMF.
       let (RES, CK, IK, AK, AKstar) = milenage_F2345 X OPC K RAND in
       bindM (liftR (deriveAUTN AUTN AK)) (\<lambda>(sqnHn, _, mac_aHn).
         let (mac_a, _) = milenage_F1 X OPC K RAND sqnHn AMF in
         if mac_a \<noteq> mac_aHn then retM (None, ''MAC failure'')
         else if bytes_less sqnHn sqnUe then
           bindM (liftR (auts X OPC K RAND sqnUe AKstar)) (\<lambda>failureParam.
             retM (Some failureParam, ''SQN failure''))
         else
           thenM (DerivateKamf X (CK @ IK) snNmae sqnHn AK)
           (bindM (liftR (kdf_or_fatal X ''Error while deriving KDF'' (CK @ IK) FC_RES_STAR
               [str_bytes snNmae, RAND, RES])) (\<lambda>v.
             retM (Some (drop (length v div 2) v), ''successful'')))))))) "

end
