(* ===== verification/UeTrigger.thy ===== *)
theory UeTrigger
  imports UeMessages UeAuth
begin

text \<open>
  What a UE does on its own account: sending to its gNodeB (\<open>ue/nas/message/sender\<close>), the
  connection to a gNodeB (\<open>ue/nas/service\<close>) and the triggers of the NAS procedures
  (\<open>ue/nas/trigger\<close>).
\<close>

section \<open>Sending and connecting\<close>

definition SendToGnbMsg :: "UEMessage \<Rightarrow> unit UM" where
  "SendToGnbMsg message s =
     (case ue_gnbRx (ueC s) of
        None \<Rightarrow> Ret ((), s)
      | Some c \<Rightarrow> if MsgCh c \<in> set (uClosed s) then Panic ClosedChan else Ret ((), emitU (ToGnb c message) s))"

definition SendToGnb :: "byte list option \<Rightarrow> unit UM" where
  "SendToGnb message = SendToGnbMsg (zero_msg\<lparr>IsNas := True, Nas := message\<rparr>)"

definition recvGnb :: "uext \<Rightarrow> chan \<Rightarrow> UEMessage UM" where
  "recvGnb X c = bindM (getsM (\<lambda>s. chan_recv X (uevents s) c)) (\<lambda>m.
     case m of None \<Rightarrow> hangM | Some msg \<Rightarrow> retM msg)"

definition connect_msg :: "UEContext \<Rightarrow> UEMessage" where
  "connect_msg ue = zero_msg\<lparr>GNBTx := ue_gnbTx ue, GNBRx := ue_gnbRx ue, PrUeId := prUeId ue,
     Tmsi := Guti (UeSecurity ue)\<rparr>"

definition ue_InitConn :: "uext \<Rightarrow> unit UM" where
  "ue_InitConn X =
     bindM (getsM (\<lambda>s. ue_gnbInboundChannel (ueC s))) (\<lambda>inbound.
     bindM makeChU (\<lambda>rx.
     thenM (modM (upd_ctxU (\<lambda>c. c\<lparr>ue_gnbRx := Some rx\<rparr>)))
     (bindM makeChU (\<lambda>tx.
     thenM (modM (upd_ctxU (\<lambda>c. c\<lparr>ue_gnbTx := Some tx\<rparr>)))
     (thenM (modM (\<lambda>s. emitU (ToGnb inbound (connect_msg (ueC s))) s))
     (bindM (recvGnb X tx) (\<lambda>msg.
       SetAmfMccAndMnc (Mcc msg) (Mnc msg))))))))"

section \<open>Triggers\<close>

text \<open>An encoding error ends the process; otherwise the result goes on.\<close>

definition sent_or_fatal :: "string \<Rightarrow> (string + byte list) UM \<Rightarrow> (byte list \<Rightarrow> unit UM) \<Rightarrow> unit UM" where
  "sent_or_fatal e m f = bindM m (\<lambda>r. case r of Inl _ \<Rightarrow> fatalM e | Inr pdu \<Rightarrow> f pdu)"

definition InitRegistration :: "uext \<Rightarrow> unit UM" where
  "InitRegistration X =
     bindM (getsM (\<lambda>s. GetRegistrationRequest X 1 None False (ueC s))) (\<lambda>registrationRequest.
     thenM
       (bindM (getsM (\<lambda>s. Kamf (sec s))) (\<lambda>k.
          if k \<noteq> [] then
            sent_or_fatal ''Unable to encode with integrity protection Registration Request''
              (EncodeNasPduWithSecurity X registrationRequest SecurityHeaderTypeIntegrityProtected True False)
              (\<lambda>pdu. SendToGnb (Some pdu))
          else SendToGnb registrationRequest))
       (SetStateMM MM5G_DEREGISTERED))"

definition InitPduSessionRequestInner :: "uext \<Rightarrow> nat \<Rightarrow> unit UM" where
  "InitPduSessionRequestInner X p =
     sent_or_fatal ''Error sending ul nas transport and pdu session establishment request''
       (Request_UlNasTransport X p)
       (\<lambda>ulNasTransport. thenM (SetStateSM p SM5G_PDU_SESSION_ACTIVE_PENDING) (SendToGnb (Some ulNasTransport)))"

definition InitPduSessionRequest :: "uext \<Rightarrow> unit UM" where
  "InitPduSessionRequest X =
     bindM CreatePDUSession (\<lambda>r.
       case r of Inl e \<Rightarrow> fatalM e | Inr p \<Rightarrow> InitPduSessionRequestInner X p)"

definition InitPduSessionRelease :: "uext \<Rightarrow> nat \<Rightarrow> unit UM" where
  "InitPduSessionRelease X p =
     bindM (getsM (\<lambda>s. StateSM (usessH s p))) (\<lambda>st.
       if st \<noteq> SM5G_PDU_SESSION_ACTIVE then skipM
       else
         sent_or_fatal ''Error sending ul nas transport and pdu session establishment request''
           (Release_UlNasTransport X p)
           (\<lambda>ulNasTransport. thenM (SetStateSM p SM5G_PDU_SESSION_INACTIVE) (SendToGnb (Some ulNasTransport))))"

definition InitPduSessionReleaseComplete :: "uext \<Rightarrow> nat \<Rightarrow> unit UM" where
  "InitPduSessionReleaseComplete X p =
     bindM (getsM (\<lambda>s. StateSM (usessH s p))) (\<lambda>st.
       if st \<noteq> SM5G_PDU_SESSION_INACTIVE then skipM
       else
         sent_or_fatal ''Error sending ul nas transport and pdu session establishment request''
           (ReleasComplete_UlNasTransport X p) (\<lambda>ulNasTransport. SendToGnb (Some ulNasTransport)))"

definition InitDeregistration :: "uext \<Rightarrow> unit UM" where
  "InitDeregistration X =
     sent_or_fatal ''Error sending deregistration request'' (DeregistrationRequest X)
       (\<lambda>pdu. thenM (SendToGnb (Some pdu)) (SetStateMM MM5G_DEREGISTERED))"

definition InitIdentifyResponse :: "uext \<Rightarrow> unit UM" where
  "InitIdentifyResponse X = bindM (getsM (\<lambda>s. IdentityResponse X (ueC s))) SendToGnb"

definition InitConfigurationUpdateComplete :: "uext \<Rightarrow> unit UM" where
  "InitConfigurationUpdateComplete X =
     sent_or_fatal ''Error sending Configuration Update Complete'' (ConfigurationUpdateComplete X)
       (\<lambda>pdu. SendToGnb (Some pdu))"

definition InitServiceRequest :: "uext \<Rightarrow> unit UM" where
  "InitServiceRequest X =
     bindM (getsM ueC) (\<lambda>ue.
     bindM (liftR (GetServiceRequest X ue)) (\<lambda>serviceRequest.
       sent_or_fatal ''Error encoding IMSI UE PduSession Establishment Request Msg''
         (EncodeNasPduWithSecurity X serviceRequest SecurityHeaderTypeIntegrityProtected True False)
         (\<lambda>pdu. SendToGnb (Some pdu))))"

definition SwitchToIdle :: "unit UM" where
  "SwitchToIdle = SendToGnbMsg (zero_msg\<lparr>Idle := True\<rparr>)"

end
