(* ===== verification/UeHandlers.thy ===== *)
theory UeHandlers
  imports UeTrigger
begin

text \<open>
  The handlers of downlink NAS messages (\<open>ue/nas/handler/handler.go\<close>) and their dispatch,
  with the removal of the security protection (\<open>ue/nas/dispatcher.go\<close>). A check of a
  mandatory field that fails is \<open>log.Fatal\<close>; a body the decoder did not fill is a nil
  pointer.
\<close>

section \<open>Checks\<close>

fun checks :: "(bool \<times> string) list \<Rightarrow> unit res" where
  "checks [] = Ret ()"
| "checks ((bad, e) # cs) = (if bad then Fatal e else checks cs)"

text \<open>
  Discriminator, spare half octet, header type and message type, in the order most handlers
  check them; the wording of the four messages differs from handler to handler.
\<close>

definition hdr_checks :: "string \<Rightarrow> string \<Rightarrow> string \<Rightarrow> string \<Rightarrow> string \<Rightarrow> byte \<Rightarrow> nas_hdr \<Rightarrow> (bool \<times> string) list" where
  "hdr_checks name epd spare hdr missing mt h =
     [(EPD h = 0, name @ epd @ '' is missing''),
      (EPD h \<noteq> 126, name @ epd @ '' not the expected value''),
      (SpareHalfOctet h \<noteq> 0, name @ spare @ '' not the expected value''),
      (SecHdrType h \<noteq> 0, name @ hdr @ '' not the expected value''),
      (MessageIdentity h = 0, name @ missing),
      (MessageIdentity h \<noteq> mt, name @ ''Message Type not the expected value'')]"

definition body :: "'a option \<Rightarrow> ('s, 'a) comp" where
  "body p = derefM p"

section \<open>Authentication\<close>

definition HandlerAuthenticationReject :: "unit UM" where
  "HandlerAuthenticationReject = SetStateMM MM5G_DEREGISTERED"

definition authentication_checks :: "AuthenticationRequest \<Rightarrow> (bool \<times> string) list" where
  "authentication_checks m = hdr_checks ''Error in Authentication Request, ''
       ''Extended Protocol'' ''Spare Half Octet'' ''Security Header Type'' ''Message Type is missing'' 86 (ar_hdr m) @
     [(ar_ngksi_Spare m \<noteq> 0, ''Error in Authentication Request, Spare Half Octet not the expected value''),
      (ar_NasKeySetIdentifiler m = 7, ''Error in Authentication Request, ngKSI not the expected value''),
      (ar_ABBA_IsZero m, ''Error in Authentication Request, ABBA is missing''),
      (ar_ABBAContents m = None, ''Error in Authentication Request, ABBA Content is missing'')]"

definition authentication_answer :: "uext \<Rightarrow> byte list option \<Rightarrow> string \<Rightarrow> (byte list option) UM" where
  "authentication_answer X paramAutn check =
     (if check = ''MAC failure'' then retM (AuthenticationFailure X ''MAC failure'' paramAutn)
      else if check = ''SQN failure'' then retM (AuthenticationFailure X ''SQN failure'' paramAutn)
      else if check = ''successful'' then
        bindM (liftR (AuthenticationResponse X paramAutn)) (\<lambda>r.
          thenM (SetStateMM MM5G_REGISTERED_INITIATED) (retM r))
      else retM None)"

definition HandlerAuthenticationRequest :: "uext \<Rightarrow> GmmMessage \<Rightarrow> unit UM" where
  "HandlerAuthenticationRequest X message =
     bindM (body (body_AuthenticationRequest message)) (\<lambda>m.
     thenM (liftR (checks (authentication_checks m)))
     (bindM (body (ar_RAND m)) (\<lambda>RAND.
     bindM (body (ar_AUTN m)) (\<lambda>autn.
     bindM (getsM sec) (\<lambda>c.
     bindM (DeriveRESstarAndSetKey X (AuthenticationSubs c) RAND (Snn c) autn) (\<lambda>(paramAutn, check).
     bindM (authentication_answer X paramAutn check) SendToGnb))))))"

section \<open>Security mode and registration\<close>

definition security_mode_checks :: "SecurityModeCommand \<Rightarrow> (bool \<times> string) list" where
  "security_mode_checks m =
     [(EPD (smc_hdr m) = 0, ''Error in Security Mode Command, Extended Protocol is missing''),
      (EPD (smc_hdr m) \<noteq> 126, ''Error in Security Mode Command, Extended Protocol not the expected value''),
      (SecHdrType (smc_hdr m) \<noteq> 0, ''Error in Security Mode Command, Security Header Type not the expected value''),
      (SpareHalfOctet (smc_hdr m) \<noteq> 0, ''Error in Security Mode Command, Spare Half Octet not the expected value''),
      (MessageIdentity (smc_hdr m) = 0, ''Error in Security Mode Command, Message Type is missing''),
      (MessageIdentity (smc_hdr m) \<noteq> 93, ''Error in Security Mode Command, Message Type not the expected value''),
      (smc_CipheringAlg m = 0 \<and> smc_IntegrityAlg m = 0,
        ''Error in Security Mode Command, NAS Security Algorithms is missing''),
      (smc_ngksi_Spare m \<noteq> 0, ''Error in Security Mode Command, Spare Half Octet is missing''),
      (smc_NasKeySetIdentifiler m = 7, ''Error in Security Mode Command, ngKSI not the expected value''),
      (smc_Replayed_IsZero m, ''Error in Security Mode Command, Replayed UE Security Capabilities is missing'')]"

definition HandlerSecurityModeCommand :: "uext \<Rightarrow> GmmMessage \<Rightarrow> unit UM" where
  "HandlerSecurityModeCommand X message =
     bindM (body (body_SecurityModeCommand message)) (\<lambda>m.
     thenM (liftR (checks (security_mode_checks m)))
     (thenM (modM (upd_sec (\<lambda>c. c\<lparr>Ksi := uint (smc_NasKeySetIdentifiler m), Tsc := smc_TSC m\<rparr>)))
     (sent_or_fatal ''Error sending Security Mode Complete''
       (SecurityModeComplete X (case smc_RINMR m of None \<Rightarrow> 0 | Some r \<Rightarrow> r))
       (\<lambda>pdu. SendToGnb (Some pdu)))))"

definition registration_checks :: "RegistrationAccept \<Rightarrow> (bool \<times> string) list" where
  "registration_checks m = hdr_checks ''Error in Registration Accept, ''
       ''Extended Protocol'' ''Spare Half'' ''Security Header'' ''Message Type is missing'' 66 (ra_hdr m) @
     [(ra_Result_IsZero m, ''Error in Registration Accept, Registration Result 5GS is missing''),
      (ra_ResultValue m \<noteq> 1, ''Error in Registration Accept, Registration Result 5GS not the expected value'')]"

text \<open>\<open>%x\<close> of an octet, without leading zero.\<close>

definition show_hex :: "byte \<Rightarrow> string" where
  "show_hex b = (if unat b < 16 then [hex_char (unat b)] else [hex_char (unat b div 16), hex_char (unat b mod 16)])"

definition use_allowed_nssai :: "RegistrationAccept \<Rightarrow> unit UM" where
  "use_allowed_nssai m =
     bindM (body (ra_AllowedNSSAI m)) (\<lambda>snssai.
     bindM (liftR (idx snssai 1)) (\<lambda>sst.
     thenM (modM (upd_ctxU (\<lambda>c. c\<lparr>Snssai_Sst := uint sst\<rparr>)))
     (bindM (liftR (idx snssai 2)) (\<lambda>a. bindM (liftR (idx snssai 3)) (\<lambda>b. bindM (liftR (idx snssai 4)) (\<lambda>d.
       modM (upd_ctxU (\<lambda>c. c\<lparr>Snssai_Sd := concat (map (\<lambda>x. CHR ''0'' # show_hex x) [a, b, d])\<rparr>))))))))"

definition HandlerRegistrationAccept :: "uext \<Rightarrow> GmmMessage \<Rightarrow> unit UM" where
  "HandlerRegistrationAccept X message =
     bindM (body (body_RegistrationAccept message)) (\<lambda>m.
     thenM (liftR (checks (registration_checks m)))
     (thenM (SetStateMM MM5G_REGISTERED)
     (thenM (case ra_GUTI5G m of
          None \<Rightarrow> skipM
        | Some g \<Rightarrow> modM (upd_sec (\<lambda>c. c\<lparr>Guti := Some g\<rparr>)))
     (thenM (bindM (getsM (\<lambda>s. Snssai_Sst (ueC s))) (\<lambda>sst. if sst = 0 then use_allowed_nssai m else skipM))
     (sent_or_fatal ''Error sending Registration Complete'' (RegistrationComplete X)
       (\<lambda>pdu. SendToGnb (Some pdu)))))))"

definition HandlerServiceAccept :: "unit UM" where
  "HandlerServiceAccept = SetStateMM MM5G_REGISTERED"

section \<open>Identity and configuration\<close>

definition HandlerIdentityRequest :: "uext \<Rightarrow> GmmMessage \<Rightarrow> unit UM" where
  "HandlerIdentityRequest X message =
     bindM (body (body_IdentityRequest message)) (\<lambda>m.
     thenM (liftR (checks (hdr_checks ''Error in Identity Request, ''
       ''Extended Protocol'' ''Spare Half Octet'' ''Security Header Type'' ''Message Type is missing'' 91 (ir_hdr m) @
       [(ir_IdentityType_IsZero m, ''Error in Identity Request, Spare Half Octet And Identity Type is missing''),
        (ir_TypeOfIdentity m \<noteq> 1, ''Only SUCI identity is supported for now inside PacketRusher'')])))
     (InitIdentifyResponse X))"

definition HandlerConfigurationUpdateCommand :: "uext \<Rightarrow> GmmMessage \<Rightarrow> unit UM" where
  "HandlerConfigurationUpdateCommand X message =
     bindM (body (body_ConfigurationUpdateCommand message)) (\<lambda>h.
     thenM (liftR (checks (hdr_checks ''Error in Configuration Update Command, ''
       ''Extended Protocol Discriminator'' ''Spare Half'' ''Security Header'' ''Message type not the expected value'' 84 h)))
     (InitConfigurationUpdateComplete X))"

section \<open>DL NAS Transport\<close>

definition dl_checks :: "DLNASTransport \<Rightarrow> (bool \<times> string) list" where
  "dl_checks m =
     [(EPD (dl_hdr m) = 0, ''Error in DL NAS Transport, Extended Protocol is missing''),
      (EPD (dl_hdr m) \<noteq> 126, ''Error in DL NAS Transport, Extended Protocol not expected value''),
      (SpareHalfOctet (dl_hdr m) \<noteq> 0, ''Error in DL NAS Transport, Spare Half not expected value''),
      (SecHdrType (dl_hdr m) \<noteq> 0, ''Error in DL NAS Transport, Security Header not expected value''),
      (MessageIdentity (dl_hdr m) \<noteq> 104, ''Error in DL NAS Transport, Message Type is missing or not expected value''),
      (dl_PayloadType_IsZero m, ''Error in DL NAS Transport, Payload Container Type is missing''),
      (dl_PayloadType m \<noteq> 1, ''Error in DL NAS Transport, Payload Container Type not expected value''),
      (dl_Container_IsZero m \<or> dl_Contents m = None, ''Error in DL NAS Transport, Payload Container is missing''),
      (dl_PduSessionID2_Iei m = None, ''Error in DL NAS Transport, PDU Session ID is missing''),
      (dl_PduSessionID2_Iei m \<noteq> Some 18, ''Error in DL NAS Transport, PDU Session ID not expected value'')]"

definition accept_checks :: "EstablishmentAccept \<Rightarrow> (bool \<times> string) list" where
  "accept_checks m =
     (let e = ''Error in PDU Session Establishment Accept'' in
     [(ea_EPD m = 0, e @ '', Extended Protocol Discriminator is missing''),
      (ea_EPD m \<noteq> 46, e @ '', Extended Protocol Discriminator not expected value''),
      (ea_PDUSessionID m = 0, e @ '', PDU Session ID is missing or not expected value''),
      (ea_PTI m = 0, e @ '', PTI is missing''),
      (ea_PTI m \<noteq> 1, e @ '', PTI not the expected value''),
      (ea_MessageIdentity m \<noteq> 194, e @ '', Message Type is missing or not expected value''),
      (ea_SSCType_IsZero m, e @ '', SSC Mode or PDU Session Type is missing''),
      (ea_PDUSessionType m \<noteq> 1, e @ '', PDU Session Type not the expected value''),
      (ea_QosRules_IsZero m, e @ '', Authorized QoS Rules is missing''),
      (ea_AMBR_IsZero m, e @ '', Session AMBR is missing'')])"

text \<open>
  The state of the session is set before the error of its lookup is looked at. After the
  address, DNN and S-NSSAI are read for the log.
\<close>

definition establishment_accept :: "EstablishmentAccept \<Rightarrow> unit UM" where
  "establishment_accept m =
     thenM (liftR (checks (accept_checks m)))
     (bindM (ue_GetPduSession (ea_PDUSessionID m)) (\<lambda>r.
       case r of
         Inl _ \<Rightarrow> panicM NilDeref
       | Inr p \<Rightarrow>
           thenM (SetStateSM p SM5G_PDU_SESSION_ACTIVE)
           (bindM (body (ea_PDUAddress m)) (\<lambda>UeIp.
           thenM (SetIp p UeIp)
           (thenM (bindM (body (ea_DNN m)) (\<lambda>_. skipM))
           (bindM (body (ea_SNSSAI m)) (\<lambda>_. skipM)))))))"

definition release_command :: "uext \<Rightarrow> byte \<Rightarrow> unit UM" where
  "release_command X sid =
     bindM (ue_GetPduSession sid) (\<lambda>r.
       case r of
         Inl _ \<Rightarrow> skipM
       | Inr p \<Rightarrow>
           bindM (ue_DeletePduSession sid) (\<lambda>_. InitPduSessionReleaseComplete X p))"

text \<open>A refused session is asked for again later, up to five times, with growing delays.\<close>

definition establishment_reject :: "byte \<Rightarrow> unit UM" where
  "establishment_reject sid =
     bindM (ue_GetPduSession sid) (\<lambda>r.
       case r of
         Inl _ \<Rightarrow> skipM
       | Inr p \<Rightarrow>
           bindM (getsM (\<lambda>s. T3580Retries (usessH s p))) (\<lambda>n.
             if n < 5 then modM (emitU (StartT3580 p (5 ^ nat n))) else skipM))"

definition T3580_expired :: "uext \<Rightarrow> nat \<Rightarrow> unit UM" where
  "T3580_expired X p =
     thenM (InitPduSessionRequestInner X p)
       (modM (upd_usess p (\<lambda>x. x\<lparr>T3580Retries := T3580Retries x + 1\<rparr>)))"

definition GetNasPduFromPduAccept :: "uext \<Rightarrow> DLNASTransport \<Rightarrow> NasMessage option" where
  "GetNasPduFromPduAccept X m =
     (let (n, bad) = PlainNasDecode X (bytes_or_nil (dl_Contents m)) in if bad then None else Some n)"

definition HandlerDlNasTransportPduaccept :: "uext \<Rightarrow> GmmMessage \<Rightarrow> unit UM" where
  "HandlerDlNasTransportPduaccept X message =
     bindM (body (body_DLNASTransport message)) (\<lambda>m.
     thenM (liftR (checks (dl_checks m)))
     (bindM (body (GetNasPduFromPduAccept X m)) (\<lambda>payloadContainer.
     bindM (body (nm_Gsm payloadContainer)) (\<lambda>g.
       if GsmMessageType g = MsgTypePDUSessionEstablishmentAccept then
         bindM (body (body_EstablishmentAccept g)) establishment_accept
       else if GsmMessageType g = MsgTypePDUSessionReleaseCommand then
         bindM (body (body_ReleaseCommand g)) (release_command X)
       else if GsmMessageType g = MsgTypePDUSessionEstablishmentReject then
         bindM (body (body_EstablishmentReject g)) establishment_reject
       else skipM))))"

section \<open>Security protection of a received message\<close>

text \<open>
  The message once its protection is checked and removed, or nothing if it is dropped; whether
  it established a new security context.
\<close>

definition count_downlink :: "uext \<Rightarrow> byte \<Rightarrow> unit UM" where
  "count_downlink X sequenceNumber = modM (upd_sec (\<lambda>c.
     let d = (if Count_SQN X (DLCount c) > sequenceNumber
              then Count_SetOverflow X (Count_Overflow X (DLCount c) + 1) (DLCount c) else DLCount c) in
     c\<lparr>DLCount := Count_SetSQN X sequenceNumber d\<rparr>))"

definition decipher :: "uext \<Rightarrow> bool \<Rightarrow> byte list \<Rightarrow> SECURITY \<Rightarrow> byte list option" where
  "decipher X cph payload c =
     (if cph then NASEncrypt X (CipheringAlg c) (KnasEnc c) (Count_Get X (DLCount c)) False payload
      else Some payload)"

text \<open>A Security Mode Command in a new security context brings algorithms and keys with it.\<close>

definition new_context :: "uext \<Rightarrow> NasMessage \<Rightarrow> bool UM" where
  "new_context X m =
     bindM (body (nm_Gmm m)) (\<lambda>g.
       if GmmMessageType g = MsgTypeSecurityModeCommand then
         thenM (modM (upd_sec (\<lambda>c. c\<lparr>DLCount := Count_Set X 0 0 (DLCount c)\<rparr>)))
         (bindM (body (body_SecurityModeCommand g)) (\<lambda>smc.
         thenM (modM (upd_sec (\<lambda>c. c\<lparr>CipheringAlg := smc_CipheringAlg smc, IntegrityAlg := smc_IntegrityAlg smc\<rparr>)))
         (thenM (DerivateAlgKey X) (retM True))))
       else retM False)"

definition mac_ok :: "uext \<Rightarrow> byte list \<Rightarrow> byte list \<Rightarrow> SECURITY \<Rightarrow> bool" where
  "mac_ok X macReceived protected c =
     (NASMacCalculate X (IntegrityAlg c) (KnasInt c) (Count_Get X (DLCount c)) False protected = Some macReceived)"

definition unprotect :: "uext \<Rightarrow> byte \<Rightarrow> byte list \<Rightarrow> (NasMessage option) UM" where
  "unprotect X hdr message =
     bindM (liftR (idx message 6)) (\<lambda>sequenceNumber.
     bindM (liftR (slice message 2 6)) (\<lambda>macReceived.
     bindM (liftR (slice message 7 (length message))) (\<lambda>payload.
       if hdr = SecurityHeaderTypeIntegrityProtectedAndCipheredWithNew5gNasSecurityContext then retM None
       else
         let cph = (hdr = SecurityHeaderTypeIntegrityProtectedAndCiphered);
             newSecurityContext = (hdr = SecurityHeaderTypeIntegrityProtectedWithNew5gNasSecurityContext) in
         thenM (count_downlink X sequenceNumber)
         (bindM (getsM (\<lambda>s. decipher X cph payload (sec s))) (\<lambda>d.
           case d of
             None \<Rightarrow> retM None
           | Some plain \<Rightarrow>
               let m = fst (PlainNasDecode X plain) in
               bindM (if newSecurityContext then new_context X m else retM True) (\<lambda>go.
                 if \<not> go then retM None
                 else bindM (getsM (\<lambda>s. mac_ok X macReceived (drop 6 message) (sec s))) (\<lambda>okay.
                   retM (if okay then Some m else None))))))))"

section \<open>Dispatch\<close>

definition dispatch_gmm :: "uext \<Rightarrow> NasMessage \<Rightarrow> unit UM" where
  "dispatch_gmm X m =
     bindM (body (nm_Gmm m)) (\<lambda>g.
     let t = GmmMessageType g in
     if t = MsgTypeAuthenticationRequest then HandlerAuthenticationRequest X g
     else if t = MsgTypeAuthenticationReject then HandlerAuthenticationReject
     else if t = MsgTypeIdentityRequest then HandlerIdentityRequest X g
     else if t = MsgTypeSecurityModeCommand then HandlerSecurityModeCommand X g
     else if t = MsgTypeRegistrationAccept then HandlerRegistrationAccept X g
     else if t = MsgTypeConfigurationUpdateCommand then HandlerConfigurationUpdateCommand X g
     else if t = MsgTypeDLNASTransport then HandlerDlNasTransportPduaccept X g
     else if t = MsgTypeServiceAccept then HandlerServiceAccept
     else if t = MsgTypeServiceReject then bindM (body (body_ServiceReject g)) (\<lambda>_. skipM)
     else if t = MsgTypeRegistrationReject then bindM (body (body_RegistrationReject g)) (\<lambda>_. skipM)
     else if t = MsgTypeStatus5GMM then bindM (body (body_Status5GMM g)) (\<lambda>_. skipM)
     else if t = MsgTypeStatus5GSM then
       bindM (body (nm_Gsm m)) (\<lambda>gsm. bindM (body (body_Status5GSM gsm)) (\<lambda>_. skipM))
     else skipM)"

definition DispatchNas :: "uext \<Rightarrow> byte list option \<Rightarrow> unit UM" where
  "DispatchNas X msg =
     (case msg of
        None \<Rightarrow> fatalM ''NAS message is nil''
      | Some message \<Rightarrow>
          let hdr = GetSecurityHeaderType X message AND 15 in
          if hdr \<noteq> SecurityHeaderTypePlainNas then
            bindM (unprotect X hdr message) (\<lambda>r. case r of None \<Rightarrow> skipM | Some m \<Rightarrow> dispatch_gmm X m)
          else dispatch_gmm X (fst (PlainNasDecode X message)))"

end
