(* ===== verification/UeLoop.thy ===== *)
theory UeLoop
  imports UeHandlers GnbReach
begin

text \<open>
  The event loop of a UE (\<open>ue/ue.go\<close>), the set-up of its data plane
  (\<open>ue/gtp/service/service.go\<close>), its termination, and the UE as a state machine.
\<close>

section \<open>Data plane\<close>

definition kernel :: "kernel_op \<Rightarrow> unit UM" where
  "kernel op = modM (emitU (Kernel op))"

definition kernel_or_fatal :: "uext \<Rightarrow> kernel_op \<Rightarrow> unit UM" where
  "kernel_or_fatal X op =
     bindM (getsM (\<lambda>s. kernel_ok X (uevents s) op)) (\<lambda>okay.
       thenM (kernel op) (if okay then skipM else fatalM ''kernel command''))"

definition nameInf :: "UEContext \<Rightarrow> string" where
  "nameInf ue = ''val'' @ Msin (UeSecurity ue)"

definition vrfInf :: "UEContext \<Rightarrow> string" where
  "vrfInf ue = ''vrf'' @ Msin (UeSecurity ue)"

text \<open>The argument lists of the tunnel commands, for a session of the gNodeB.\<close>

definition far_commands :: "string \<Rightarrow> GnbPDUSession \<Rightarrow> string list list" where
  "far_commands name g =
     [[name, ''1'', ''--action'', ''2''],
      [name, ''2'', ''--action'', ''2'', ''--hdr-creation'', ''0'', show_nat (unat (uplinkTeid g)), upfIp g, ''2152'']]"

definition pdr_downlink :: "string \<Rightarrow> string \<Rightarrow> string \<Rightarrow> GnbPDUSession \<Rightarrow> string list" where
  "pdr_downlink name ip gnb g =
     [name, ''1'', ''--pcd'', ''1'', ''--hdr-rm'', ''0'', ''--ue-ipv4'', ip, ''--f-teid'',
      show_nat (unat (downlinkTeid g)), gnb, ''--far-id'', ''1'']"

definition pdr_uplink :: "string \<Rightarrow> string \<Rightarrow> bool \<Rightarrow> string list" where
  "pdr_uplink name ip qer =
     [name, ''2'', ''--pcd'', ''2'', ''--ue-ipv4'', ip, ''--far-id'', ''2'', ''--source-interface'', ''0''] @
     (if qer then [''--qer-id'', ''1''] else [])"

definition qer_command :: "string \<Rightarrow> int \<Rightarrow> string list" where
  "qer_command name qfi = [name, ''1'', ''--qfi'', show_int qfi]"

definition tunnel_rules :: "uext \<Rightarrow> string \<Rightarrow> string \<Rightarrow> string \<Rightarrow> GnbPDUSession \<Rightarrow> unit UM" where
  "tunnel_rules X name ip gnb g =
     thenM (forM (far_commands name g) (\<lambda>c. kernel_or_fatal X (GtpAddFAR c)))
     (thenM (kernel_or_fatal X (GtpAddPDR (pdr_downlink name ip gnb g)))
     (thenM (if 0 < qosId g then kernel_or_fatal X (GtpAddQER (qer_command name (qosId g))) else skipM)
     (kernel_or_fatal X (GtpAddPDR (pdr_uplink name ip (0 < qosId g))))))"

text \<open>Routing by policy rule or by VRF. Results of deletions are ignored.\<close>

definition route_traffic :: "uext \<Rightarrow> nat \<Rightarrow> string \<Rightarrow> int \<Rightarrow> unit UM" where
  "route_traffic X p ip tableId =
     bindM (getsM ueC) (\<lambda>ue.
       case ue_TunnelMode ue of
         TunnelTun \<Rightarrow>
           (let r = \<lparr>rule_Priority = 100, rule_Table = tableId, rule_Src = ip\<rparr> in
            thenM (kernel (RuleDel r))
            (thenM (kernel_or_fatal X (RuleAdd r))
            (modM (upd_usess p (\<lambda>x. x\<lparr>us_rule := Some r\<rparr>)))))
       | TunnelVrf \<Rightarrow>
           (let v = \<lparr>vrf_Name = vrfInf ue, vrf_Table = of_int tableId\<rparr> in
            thenM (kernel (VrfDel v))
            (thenM (kernel_or_fatal X (VrfAdd v))
            (thenM (kernel_or_fatal X (LinkSetMaster (nameInf ue) (vrfInf ue)))
            (thenM (kernel_or_fatal X (LinkSetUp (vrfInf ue)))
            (modM (upd_usess p (\<lambda>x. x\<lparr>us_vrf := Some v\<rparr>)))))))
       | TunnelDisabled \<Rightarrow> skipM)"

definition configure_interface :: "uext \<Rightarrow> nat \<Rightarrow> string \<Rightarrow> GnbPDUSession \<Rightarrow> unit UM" where
  "configure_interface X p gip' g =
     bindM (getsM (\<lambda>s. (nameInf (ueC s), ueIP (usessH s p), ueGnbIP (usessH s p)))) (\<lambda>(name, ip, gip).
     bindM makeChU (\<lambda>stop.
     thenM (kernel (GtpLinkDel name))
     (thenM (bindM (getsM (\<lambda>s. stopSignal (usessH s p))) (\<lambda>old.
        case old of None \<Rightarrow> skipM | Some c \<Rightarrow> closeChU (StopCh c)))
     (thenM (kernel (GtpLinkAdd name 1 gip stop))
     (thenM (modM (upd_usess p (\<lambda>x. x\<lparr>stopSignal := Some stop\<rparr>)))
     (thenM (tunnel_rules X name ip gip' g)
     (bindM (getsM (\<lambda>s. link_by_name X (uevents s) name)) (\<lambda>link.
     thenM (modM (upd_usess p (\<lambda>x. x\<lparr>us_tun := map_option (\<lambda>_. name) link\<rparr>)))
     (bindM (derefM link) (\<lambda>index.
     thenM (kernel_or_fatal X (AddrAdd name ip))
     (let tableId = uint (uplinkTeid g); r = \<lparr>route_LinkIndex = index, route_Table = tableId\<rparr> in
      thenM (route_traffic X p ip tableId)
      (thenM (kernel_or_fatal X (RouteReplace r))
      (modM (upd_usess p (\<lambda>x. x\<lparr>us_routeTun := Some r\<rparr>)))))))))))))))"

definition SetupGtpInterface :: "uext \<Rightarrow> UEMessage \<Rightarrow> unit UM" where
  "SetupGtpInterface X msg =
     bindM (liftR (idx (GNBPduSessions msg) 0)) (\<lambda>slot.
     bindM (derefM slot) (\<lambda>gref.
     bindM (getsM (\<lambda>s. uGnbSess s gref)) (\<lambda>g.
     bindM (ue_GetPduSession (of_int (pduSessionId g))) (\<lambda>r.
       case r of
         Inl _ \<Rightarrow> skipM
       | Inr p \<Rightarrow>
           thenM (modM (upd_usess p (\<lambda>x. x\<lparr>us_GnbPduSession := Some gref\<rparr>)))
           (bindM (getsM (\<lambda>s. ue_TunnelMode (ueC s) = TunnelDisabled \<or> us_Id (usessH s p) \<noteq> 1)) (\<lambda>skip.
             if skip then skipM
             else
               thenM (modM (upd_usess p (\<lambda>x. x\<lparr>ueGnbIP := ParseIP_String X (GnbIp msg)\<rparr>)))
                 (configure_interface X p (GnbIp msg) g)))))))"

section \<open>Termination\<close>

definition clean_session :: "nat option \<Rightarrow> unit UM" where
  "clean_session slot =
     (case slot of
        None \<Rightarrow> skipM
      | Some p \<Rightarrow>
          bindM (getsM (\<lambda>s. usessH s p)) (\<lambda>x.
          thenM (case us_tun x of None \<Rightarrow> skipM | Some l \<Rightarrow> thenM (kernel (LinkSetDown l)) (kernel (LinkDel l)))
          (thenM (case us_rule x of None \<Rightarrow> skipM | Some r \<Rightarrow> kernel (RuleDel r))
          (thenM (case us_routeTun x of None \<Rightarrow> skipM | Some r \<Rightarrow> kernel (RouteDel r))
          (case us_vrf x of None \<Rightarrow> skipM | Some v \<Rightarrow> thenM (kernel (LinkSetDown (vrf_Name v))) (kernel (VrfDel v)))))))"

definition StopDRX :: "unit UM" where
  "StopDRX = modM (upd_ctxU (\<lambda>c. c\<lparr>drx := map_option (\<lambda>_. False) (drx c)\<rparr>))"

definition ue_Terminate :: "unit UM" where
  "ue_Terminate =
     thenM SetStateMM_NULL
     (thenM (bindM (getsM (\<lambda>s. PduSession (ueC s))) (\<lambda>ps. forM ps clean_session))
     (thenM (bindM (getsM (\<lambda>s. ue_gnbRx (ueC s))) (\<lambda>rx.
        case rx of
          None \<Rightarrow> skipM
        | Some c \<Rightarrow> thenM (closeChU (MsgCh c)) (modM (upd_ctxU (\<lambda>c. c\<lparr>ue_gnbRx := None\<rparr>)))))
     (thenM StopDRX
     (bindM (getsM (\<lambda>s. scenarioChan (ueC s))) (\<lambda>c. closeChU (ScenarioCh c))))))"

section \<open>Messages of the scenario\<close>

datatype UeTesterMessage = Registration | Deregistration | NewPDUSession | DestroyPDUSession byte
  | TerminateUe | KillUe | IdleUe | ServiceRequestUe

definition service_request :: "uext \<Rightarrow> unit UM" where
  "service_request X =
     bindM (getsM (\<lambda>s. StateMM (ueC s))) (\<lambda>st.
       if st = MM5G_IDLE then
         thenM StopDRX
         (thenM (ue_InitConn X)
         (bindM (getsM (\<lambda>s. Guti (sec s))) (\<lambda>g. if g \<noteq> None then InitServiceRequest X else InitRegistration X)))
       else skipM)"

text \<open>Every session that can be looked up is released, then the UE deregisters.\<close>

definition release_if_known :: "uext \<Rightarrow> nat \<Rightarrow> unit UM" where
  "release_if_known X i =
     bindM (ue_GetPduSession (of_nat i)) (\<lambda>r. case r of Inl _ \<Rightarrow> skipM | Inr p \<Rightarrow> InitPduSessionRelease X p)"

definition terminate_request :: "uext \<Rightarrow> unit UM" where
  "terminate_request X =
     bindM (getsM (\<lambda>s. StateMM (ueC s))) (\<lambda>st.
       if st = MM5G_REGISTERED then thenM (forM [1..<17] (release_if_known X)) (InitDeregistration X)
       else skipM)"

text \<open>The result says whether the loop goes on.\<close>

definition ueMgrHandler :: "uext \<Rightarrow> UeTesterMessage \<Rightarrow> bool UM" where
  "ueMgrHandler X msg =
     (case msg of
        Registration \<Rightarrow> thenM (InitRegistration X) (retM True)
      | Deregistration \<Rightarrow> thenM (InitDeregistration X) (retM True)
      | NewPDUSession \<Rightarrow> thenM (InitPduSessionRequest X) (retM True)
      | DestroyPDUSession i \<Rightarrow>
          bindM (ue_GetPduSession i) (\<lambda>r.
            case r of Inl _ \<Rightarrow> retM True | Inr p \<Rightarrow> thenM (InitPduSessionRelease X p) (retM True))
      | IdleUe \<Rightarrow>
          thenM (SetStateMM MM5G_IDLE) (thenM SwitchToIdle
            (thenM (modM (upd_ctxU (\<lambda>c. c\<lparr>drx := Some True\<rparr>))) (retM True)))
      | ServiceRequestUe \<Rightarrow> thenM (service_request X) (retM True)
      | TerminateUe \<Rightarrow> thenM (terminate_request X) (retM False)
      | KillUe \<Rightarrow> retM False)"

section \<open>Messages of the gNodeB\<close>

definition switch_gnb :: "UEMessage \<Rightarrow> unit UM" where
  "switch_gnb msg =
     bindM (getsM (\<lambda>s. ue_gnbRx (ueC s))) (\<lambda>previous.
     thenM (modM (upd_ctxU (\<lambda>c. c\<lparr>ue_gnbInboundChannel := the (GNBInboundChannel msg),
       ue_gnbRx := GNBRx msg, ue_gnbTx := GNBTx msg\<rparr>)))
     (case previous of
        None \<Rightarrow> hangM
      | Some c \<Rightarrow>
          bindM (getsM uClosed) (\<lambda>closed.
            if MsgCh c \<in> set closed then panicM ClosedChan
            else thenM (modM (emitU (ToGnb c (zero_msg\<lparr>ConnectionClosed := True\<rparr>)))) (closeChU (MsgCh c)))))"

definition gnbMsgHandler :: "uext \<Rightarrow> UEMessage \<Rightarrow> unit UM" where
  "gnbMsgHandler X msg =
     (if IsNas msg then DispatchNas X (Nas msg)
      else if GNBPduSessions msg ! 0 \<noteq> None then SetupGtpInterface X msg
      else if GNBRx msg \<noteq> None \<and> GNBTx msg \<noteq> None \<and> GNBInboundChannel msg \<noteq> None then switch_gnb msg
      else skipM)"

text \<open>The paging check: the first paged UE with the TMSI of this one.\<close>

definition is_paged :: "uext \<Rightarrow> SECURITY \<Rightarrow> PagedUE \<Rightarrow> bool res" where
  "is_paged X c pg =
     (case (Guti c, pg_FiveGSTMSI pg) of
        (Some _, Some (_, t)) \<Rightarrow>
          if length (FiveGTMSI t) < 4 then Panic ConvLen else Ret (take 4 (FiveGTMSI t) = ue_GetTMSI5G X c)
      | _ \<Rightarrow> Ret False)"

definition verifyPaging :: "uext \<Rightarrow> unit UM" where
  "verifyPaging X =
     bindM makeChU (\<lambda>tx.
     thenM (modM (\<lambda>s. emitU (ToGnb (ue_gnbInboundChannel (ueC s))
       (zero_msg\<lparr>GNBTx := Some tx, FetchPagedUEs := True\<rparr>)) s))
     (bindM (recvGnb X tx) (\<lambda>msg.
     bindM (loopM (PagedUEs msg) (\<lambda>pg.
       bindM (getsM sec) (\<lambda>c. bindM (liftR (is_paged X c pg)) (\<lambda>m. retM (\<not> m))))) (\<lambda>none.
       if none then skipM else bindM (ueMgrHandler X ServiceRequestUe) (\<lambda>_. skipM)))))"

section \<open>The UE as a state machine\<close>

definition OpConstant :: string where
  "OpConstant = ''c9e8763286b5b9ffbdf56e1297d0887b''"

text \<open>
  A new UE, connected to the gNodeB whose inbound channel it is given; its scenario channel is
  the first it makes.
\<close>

definition NewUE :: "uext \<Rightarrow> UeConf \<Rightarrow> int \<Rightarrow> chan \<Rightarrow> ustate \<Rightarrow> (unit \<times> ustate) res" where
  "NewUE X conf i inboundCh s0 =
     bindR (makeChU s0) (\<lambda>(scenario, s).
     bindR (GetHomeNetworkPublicKey (ux_crypto X) conf) (\<lambda>pk.
     bindR (NewRanUeContext X conf pk OpConstant scenario inboundCh i) (\<lambda>ue.
       ue_InitConn X (s\<lparr>ueC := ue\<rparr>))))"

text \<open>
  One round of the loop: a message of the gNodeB or the end of its channel, a message of the
  scenario or the end of its channel, a tick of the DRX timer; besides, a session timer that
  was started may fire, and other goroutines make channels. The flag says whether the loop is
  running; when it ends the UE terminates. The channels of a handover are new to the UE.
\<close>

definition handover_ok :: "UEMessage \<Rightarrow> ustate \<Rightarrow> bool" where
  "handover_ok msg s \<longleftrightarrow>
     (\<forall>c. GNBRx msg = Some c \<longrightarrow> c < uNextChan s \<and> MsgCh c \<notin> set (uClosed s) \<and> ue_gnbRx (ueC s) \<noteq> Some c)"

definition end_if :: "bool \<Rightarrow> unit UM" where
  "end_if go = (if go then skipM else ue_Terminate)"

inductive ue_step :: "uext \<Rightarrow> ustate \<times> bool \<Rightarrow> ustate \<times> bool \<Rightarrow> bool" for X where
  from_gnb: "handover_ok msg s \<Longrightarrow> gnbMsgHandler X msg s = Ret ((), t) \<Longrightarrow> ue_step X (s, True) (t, True)"
| gnb_closed: "ue_step X (s, True) (upd_ctxU (\<lambda>c. c\<lparr>ue_gnbTx := None\<rparr>) s, True)"
| from_scenario: "ueMgrHandler X msg s = Ret (go, s') \<Longrightarrow> end_if go s' = Ret ((), t) \<Longrightarrow>
    ue_step X (s, True) (t, go)"
| scenario_closed: "ue_Terminate s = Ret ((), t) \<Longrightarrow> ue_step X (s, True) (t, False)"
| drx_tick: "drx (ueC s) = Some True \<Longrightarrow> verifyPaging X s = Ret ((), t) \<Longrightarrow> ue_step X (s, True) (t, True)"
| timer: "StartT3580 p d \<in> set (uevents s) \<Longrightarrow> T3580_expired X p s = Ret ((), t) \<Longrightarrow> ue_step X (s, go) (t, go)"
| other_chan: "ue_step X (s, go) (s\<lparr>uNextChan := Suc (uNextChan s)\<rparr>, go)"

end
