(* ===== verification/UeInv.thy ===== *)
theory UeInv
  imports UeLoop
begin

text \<open>
  The invariant of a UE: its PDU sessions sit in the slot of their identifier, the channels it
  still uses are open and its own. Every operation keeps it, and none of them sends on a closed
  channel or closes one twice.
\<close>

section \<open>Computations that are safe under an invariant\<close>

text \<open>
  \<open>safe I m\<close>: from a state of \<open>I\<close>, \<open>m\<close> returns in a state of \<open>I\<close> if it returns, and
  does not panic over a closed channel.
\<close>

definition safe :: "('s \<Rightarrow> bool) \<Rightarrow> ('s, 'a) comp \<Rightarrow> bool" where
  "safe I m \<longleftrightarrow> (\<forall>s. I s \<longrightarrow> m s \<noteq> Panic ClosedChan \<and> (\<forall>x t. m s = Ret (x, t) \<longrightarrow> I t))"

named_theorems safe_intros \<open>introduction rules for safe computations\<close>

lemma safeI: "(\<And>s. I s \<Longrightarrow> m s \<noteq> Panic ClosedChan) \<Longrightarrow> (\<And>s x t. I s \<Longrightarrow> m s = Ret (x, t) \<Longrightarrow> I t) \<Longrightarrow> safe I m"
  by (simp add: safe_def)

lemma safe_Ret: "safe I m \<Longrightarrow> I s \<Longrightarrow> m s = Ret (x, t) \<Longrightarrow> I t"
  by (simp add: safe_def)

lemma safe_Panic: "safe I m \<Longrightarrow> I s \<Longrightarrow> m s \<noteq> Panic ClosedChan"
  by (simp add: safe_def)

text \<open>A weaker form, where the continuation may use what the first part returned.\<close>

lemma safe_bindM_strong:
  assumes "safe I m" and "\<And>s x t. I s \<Longrightarrow> m s = Ret (x, t) \<Longrightarrow> f x t \<noteq> Panic ClosedChan \<and> (\<forall>y u. f x t = Ret (y, u) \<longrightarrow> I u)"
  shows "safe I (bindM m f)"
proof (rule safeI)
  fix s assume s: "I s"
  then show "bindM m f s \<noteq> Panic ClosedChan"
    using assms safe_Panic [OF assms(1) s] by (cases "m s") (auto simp: bindM_def)
  fix y u assume "bindM m f s = Ret (y, u)"
  then obtain x t where "m s = Ret (x, t)" "f x t = Ret (y, u)" by (auto simp: bindM_def bindR_Ret_iff)
  with assms(2) [OF s] show "I u" by blast
qed

lemma safe_bindM [safe_intros]: "safe I m \<Longrightarrow> (\<And>x. safe I (f x)) \<Longrightarrow> safe I (bindM m f)"
  by (rule safe_bindM_strong) (auto dest: safe_Ret safe_Panic)

lemma safe_thenM [safe_intros]: "safe I m \<Longrightarrow> safe I n \<Longrightarrow> safe I (thenM m n)"
  unfolding thenM_def by (rule safe_bindM)

lemma safe_retM [safe_intros]: "safe I (retM x)"
  and safe_getsM [safe_intros]: "safe I (getsM g)"
  and safe_skipM [safe_intros]: "safe I skipM"
  and safe_fatalM [safe_intros]: "safe I (fatalM e)"
  and safe_hangM [safe_intros]: "safe I hangM"
  by (auto intro: safeI)

lemma safe_panicM [safe_intros]: "p \<noteq> ClosedChan \<Longrightarrow> safe I (panicM p)"
  by (auto intro: safeI)

lemma safe_derefM [safe_intros]: "safe I (derefM p)"
  by (cases p) (auto intro: safeI)

lemma safe_liftR: "m \<noteq> Panic ClosedChan \<Longrightarrow> safe I (liftR m)"
  by (rule safeI) (auto simp: liftR_def bindR_Ret_iff bindR_def split: res.splits)

lemma safe_modM: "(\<And>s. I s \<Longrightarrow> I (f s)) \<Longrightarrow> safe I (modM f)"
  unfolding safe_def by auto

lemma safe_if [safe_intros]: "(b \<Longrightarrow> safe I m) \<Longrightarrow> (\<not> b \<Longrightarrow> safe I n) \<Longrightarrow> safe I (if b then m else n)"
  by simp

lemma safe_option [safe_intros]:
  "(p = None \<Longrightarrow> safe I m) \<Longrightarrow> (\<And>x. p = Some x \<Longrightarrow> safe I (f x)) \<Longrightarrow> safe I (case p of None \<Rightarrow> m | Some x \<Rightarrow> f x)"
  by (cases p) auto

lemma safe_sum [safe_intros]:
  "(\<And>e. safe I (m e)) \<Longrightarrow> (\<And>x. safe I (f x)) \<Longrightarrow> safe I (case p of Inl e \<Rightarrow> m e | Inr x \<Rightarrow> f x)"
  by (cases p) auto

lemma safe_prod [safe_intros]: "(\<And>x y. safe I (f x y)) \<Longrightarrow> safe I (case p of (x, y) \<Rightarrow> f x y)"
  by (cases p) auto

lemma safe_prod_apply [safe_intros]:
  "(\<And>x y. safe I (f x y z)) \<Longrightarrow> safe I ((case p of (x, y) \<Rightarrow> f x y) z)"
  by (cases p) auto

lemma safe_let [safe_intros]: "safe I (f x) \<Longrightarrow> safe I (let y = x in f y)"
  by simp

lemma safe_forM [safe_intros]: "(\<And>x. x \<in> set xs \<Longrightarrow> safe I (f x)) \<Longrightarrow> safe I (forM xs f)"
  by (induction xs) (auto intro!: safe_intros)

lemma safe_loopM [safe_intros]: "(\<And>x. x \<in> set xs \<Longrightarrow> safe I (f x)) \<Longrightarrow> safe I (loopM xs f)"
  by (induction xs) (auto intro!: safe_intros)

section \<open>Pure parts do not mention channels\<close>

text \<open>Results that are no closed-channel panic, as every pure part of the UE's code is.\<close>

definition quiet :: "'a res \<Rightarrow> bool" where
  "quiet m \<longleftrightarrow> m \<noteq> Panic ClosedChan"

named_theorems quiet_intros \<open>introduction rules for quiet results\<close>

lemma safe_liftR_quiet [safe_intros]: "quiet m \<Longrightarrow> safe I (liftR m)"
  unfolding quiet_def by (rule safe_liftR)

lemma quiet_bindR [quiet_intros]: "quiet m \<Longrightarrow> (\<And>x. quiet (f x)) \<Longrightarrow> quiet (bindR m f)"
  by (cases m) (auto simp: quiet_def)

lemma quiet_simps [quiet_intros, simp]: "quiet (Ret x)" "quiet (Fatal e)" "quiet (idx xs i)" "quiet (slice ys a b)"
  "quiet Hang" "quiet (Panic IndexRange)" "quiet (Panic NilDeref)" "quiet (Panic ConvLen)"
  by (auto simp: quiet_def idx_def slice_def)

lemma quiet_if [quiet_intros]: "(b \<Longrightarrow> quiet m) \<Longrightarrow> (\<not> b \<Longrightarrow> quiet n) \<Longrightarrow> quiet (if b then m else n)"
  by simp

lemma quiet_option [quiet_intros]:
  "quiet m \<Longrightarrow> (\<And>x. quiet (f x)) \<Longrightarrow> quiet (case p of None \<Rightarrow> m | Some x \<Rightarrow> f x)"
  by (cases p) auto

lemma quiet_prod [quiet_intros]: "(\<And>x y. quiet (f x y)) \<Longrightarrow> quiet (case p of (x, y) \<Rightarrow> f x y)"
  by (cases p) auto

lemma quiet_let [quiet_intros]: "quiet (f x) \<Longrightarrow> quiet (let y = x in f y)"
  by simp

lemma quiet_checks [quiet_intros]: "quiet (checks cs)"
  by (induction cs rule: checks.induct) auto

lemma quiet_misc [quiet_intros]:
  "quiet (AlgorithmKeyDerivation X a k b ks)" "quiet (hex_or_fatal e s)" "quiet (deriveAUTN autn ak)"
  "quiet (kdf_or_fatal X e key f ps)" "quiet (auts X opc ki rand sq akstar)" "quiet (AuthenticationResponse X p)"
  "quiet (is_paged X c pg)" "quiet (GetServiceRequest X ue)"
  unfolding AlgorithmKeyDerivation_def hex_or_fatal_def deriveAUTN_def kdf_or_fatal_def auts_def
    AuthenticationResponse_def or_fatalR_def is_paged_def GetServiceRequest_def Let_def
  by (intro quiet_intros)+

lemma quiet_kamf [quiet_intros]: "quiet (kamf_of X supi key n q ak)"
  unfolding kamf_of_def by (intro quiet_intros)

section \<open>The invariant\<close>

fun chan_of :: "uchan \<Rightarrow> chan" where
  "chan_of (MsgCh c) = c" | "chan_of (WaitCh c) = c" | "chan_of (StopCh c) = c" | "chan_of (ScenarioCh c) = c"

definition session_ok :: "ustate \<Rightarrow> nat \<Rightarrow> nat \<Rightarrow> bool" where
  "session_ok s i p \<longleftrightarrow> us_Id (usessH s p) = of_nat (i + 1) \<and> p < uNextSess s \<and>
     us_Wait (usessH s p) < uNextChan s \<and> WaitCh (us_Wait (usessH s p)) \<notin> set (uClosed s) \<and>
     (\<forall>c. stopSignal (usessH s p) = Some c \<longrightarrow> i = 0 \<and> c < uNextChan s \<and> StopCh c \<notin> set (uClosed s))"

definition ue_wf :: "bool \<Rightarrow> ustate \<Rightarrow> bool" where
  "ue_wf go s \<longleftrightarrow>
     length (PduSession (ueC s)) = 16 \<and>
     (\<forall>i < 16. \<forall>p. PduSession (ueC s) ! i = Some p \<longrightarrow> session_ok s i p) \<and>
     (\<forall>i < 16. \<forall>j < 16. \<forall>p q. i \<noteq> j \<longrightarrow> PduSession (ueC s) ! i = Some p \<longrightarrow> PduSession (ueC s) ! j = Some q \<longrightarrow>
        us_Wait (usessH s p) \<noteq> us_Wait (usessH s q)) \<and>
     (\<forall>c \<in> set (uClosed s). chan_of c < uNextChan s) \<and>
     (\<forall>c. ue_gnbRx (ueC s) = Some c \<longrightarrow> c < uNextChan s \<and> MsgCh c \<notin> set (uClosed s)) \<and>
     (go \<longrightarrow> scenarioChan (ueC s) < uNextChan s \<and> ScenarioCh (scenarioChan (ueC s)) \<notin> set (uClosed s))"

text \<open>Two occupied slots hold different sessions, as their identifiers differ.\<close>

lemma of_nat_slot_eq: "i < 16 \<Longrightarrow> j < 16 \<Longrightarrow> (of_nat (i + 1) :: byte) = of_nat (j + 1) \<Longrightarrow> i = j"
proof -
  assume ij: "i < 16" "j < 16" and eq: "(of_nat (i + 1) :: byte) = of_nat (j + 1)"
  have "unat (of_nat (i + 1) :: byte) = i + 1" "unat (of_nat (j + 1) :: byte) = j + 1"
    by (rule of_nat_inverse [OF refl], use ij in simp)+
  with eq show "i = j" by simp
qed

lemma ue_wf_inj:
  assumes "ue_wf go s" and "i < 16" and "j < 16"
    and "PduSession (ueC s) ! i = Some p" and "PduSession (ueC s) ! j = Some p"
  shows "i = j"
  using assms of_nat_slot_eq [of i j] unfolding ue_wf_def session_ok_def by metis

section \<open>Operations on the context\<close>

text \<open>
  What the invariant reads, apart from the supply of channels: an update that leaves it alone
  keeps the invariant, and so does a larger supply.
\<close>

definition view :: "ustate \<Rightarrow> nat option list \<times> chan option \<times> chan \<times> uchan list \<times> nat \<times> (nat \<Rightarrow> byte \<times> chan \<times> chan option)" where
  "view s = (PduSession (ueC s), ue_gnbRx (ueC s), scenarioChan (ueC s), uClosed s, uNextSess s,
     \<lambda>p. (us_Id (usessH s p), us_Wait (usessH s p), stopSignal (usessH s p)))"

lemma viewD:
  assumes "view t = view s"
  shows "PduSession (ueC t) = PduSession (ueC s)" "ue_gnbRx (ueC t) = ue_gnbRx (ueC s)"
    "scenarioChan (ueC t) = scenarioChan (ueC s)" "uClosed t = uClosed s" "uNextSess t = uNextSess s"
    "us_Id (usessH t p) = us_Id (usessH s p)" "us_Wait (usessH t p) = us_Wait (usessH s p)"
    "stopSignal (usessH t p) = stopSignal (usessH s p)"
  using assms by (auto simp: view_def fun_eq_iff)

lemma session_ok_mono:
  "session_ok s i p \<Longrightarrow> view t = view s \<Longrightarrow> uNextChan s \<le> uNextChan t \<Longrightarrow> session_ok t i p"
  using viewD [of t s] unfolding session_ok_def by auto

lemma ue_wf_cong:
  assumes s: "ue_wf go s" and v: "view t = view s" and n: "uNextChan s \<le> uNextChan t"
  shows "ue_wf go t"
proof -
  note v' = viewD [OF v]
  have "\<forall>i < 16. \<forall>p. PduSession (ueC s) ! i = Some p \<longrightarrow> session_ok t i p"
    using s session_ok_mono [OF _ v n] by (simp add: ue_wf_def)
  moreover have "\<forall>c \<in> set (uClosed s). chan_of c < uNextChan t"
    "\<forall>c. ue_gnbRx (ueC s) = Some c \<longrightarrow> c < uNextChan t \<and> MsgCh c \<notin> set (uClosed s)"
    "go \<longrightarrow> scenarioChan (ueC s) < uNextChan t \<and> ScenarioCh (scenarioChan (ueC s)) \<notin> set (uClosed s)"
    using s n by (auto simp: ue_wf_def intro: less_le_trans)
  ultimately show ?thesis using s by (simp add: ue_wf_def v')
qed

text \<open>Predicates that only read what the invariant reads; the invariant with a session in the first slot.\<close>

definition keeps :: "(ustate \<Rightarrow> bool) \<Rightarrow> bool" where
  "keeps P \<longleftrightarrow> (\<forall>s t. P s \<longrightarrow> view t = view s \<longrightarrow> uNextChan s \<le> uNextChan t \<longrightarrow> P t)"

definition wf0 :: "bool \<Rightarrow> nat \<Rightarrow> ustate \<Rightarrow> bool" where
  "wf0 go p s \<longleftrightarrow> ue_wf go s \<and> PduSession (ueC s) ! 0 = Some p"

lemma keeps_ue_wf [safe_intros]: "keeps (ue_wf go)"
  unfolding keeps_def by (blast intro: ue_wf_cong)

lemma keeps_wf0 [safe_intros]: "keeps (wf0 go p)"
  unfolding keeps_def wf0_def by (metis ue_wf_cong viewD(1))

lemma safe_keeps_mod:
  assumes "keeps P" and "\<And>s. view (f s) = view s" and "\<And>s. uNextChan (f s) = uNextChan s"
  shows "safe P (modM f)"
  using assms unfolding keeps_def by (intro safe_modM) (metis order_refl)

lemma safe_emit [safe_intros]: "keeps P \<Longrightarrow> safe P (modM (emitU e))"
  "keeps P \<Longrightarrow> safe P (modM (\<lambda>s. emitU (h s) s))"
  by (rule safe_keeps_mod; simp add: view_def)+

lemma safe_upd_sec [safe_intros]: "keeps P \<Longrightarrow> safe P (modM (upd_sec f))"
  by (rule safe_keeps_mod) (simp_all add: view_def)

lemma safe_upd_ctxU [safe_intros]:
  "keeps P \<Longrightarrow> (\<And>c. PduSession (f c) = PduSession c) \<Longrightarrow> (\<And>c. ue_gnbRx (f c) = ue_gnbRx c) \<Longrightarrow>
    (\<And>c. scenarioChan (f c) = scenarioChan c) \<Longrightarrow> safe P (modM (upd_ctxU f))"
  by (rule safe_keeps_mod) (simp_all add: view_def)

lemma safe_upd_usess [safe_intros]:
  "keeps P \<Longrightarrow> (\<And>x. us_Id (f x) = us_Id x) \<Longrightarrow> (\<And>x. us_Wait (f x) = us_Wait x) \<Longrightarrow>
    (\<And>x. stopSignal (f x) = stopSignal x) \<Longrightarrow> safe P (modM (upd_usess p f))"
  by (rule safe_keeps_mod) (auto simp: view_def fun_eq_iff)

lemma safe_makeChU [safe_intros]: "safe (ue_wf go) makeChU"
proof (rule safeI)
  fix s x t assume s: "ue_wf go s" and "makeChU s = Ret (x, t)"
  then show "ue_wf go t" by (intro ue_wf_cong [OF s]) (auto simp: makeChU_def view_def)
qed (simp add: makeChU_def)

lemma safe_SetStateMM [safe_intros]: "safe (ue_wf True) (SetStateMM st)"
proof (rule safeI)
  fix s assume s: "ue_wf True s"
  then have sc: "ScenarioCh (scenarioChan (ueC s)) \<notin> set (uClosed s)" by (simp add: ue_wf_def)
  then show "SetStateMM st s \<noteq> Panic ClosedChan" by (simp add: SetStateMM_def run_simps)
  fix x t assume "SetStateMM st s = Ret (x, t)"
  with sc show "ue_wf True t" by (auto simp: SetStateMM_def run_simps view_def intro!: ue_wf_cong [OF s])
qed

lemma safe_SetStateMM_NULL [safe_intros]: "safe (ue_wf go) SetStateMM_NULL"
  and safe_SetStateSM [safe_intros]: "safe (ue_wf go) (SetStateSM p st)"
  and safe_SetAmfMccAndMnc [safe_intros]: "safe (ue_wf go) (SetAmfMccAndMnc a b)"
  and safe_DerivateAlgKey [safe_intros]: "safe (ue_wf go) (DerivateAlgKey X)"
  and safe_SetIp [safe_intros]: "safe (ue_wf go) (SetIp p ip)"
  unfolding SetStateMM_NULL_def SetStateSM_def SetAmfMccAndMnc_def DerivateAlgKey_def SetIp_def
  by (intro safe_intros quiet_intros | simp)+

lemma safe_session_slot [safe_intros]: "safe (ue_wf go) (session_slot i)"
  unfolding session_slot_def by (intro safe_intros quiet_intros)

lemma safe_GetPduSession [safe_intros]: "safe (ue_wf go) (ue_GetPduSession i)"
  unfolding ue_GetPduSession_def by (intro safe_intros; rename_tac r, case_tac r; simp; intro safe_intros)

lemma free_slot_Some:
  "free_slot k ps = Some i \<Longrightarrow>
    k \<le> i \<and> i < k + length ps \<and> ps ! (i - k) = None \<and> (\<forall>j < i - k. ps ! j \<noteq> None)"
proof (induction ps arbitrary: k)
  case (Cons p ps)
  show ?case
  proof (cases "p = None")
    case True
    with Cons.prems show ?thesis by simp
  next
    case False
    with Cons.prems Cons.IH [of "Suc k"] have "Suc k \<le> i" "i < k + length (p # ps)" "ps ! (i - Suc k) = None" "\<forall>j < i - Suc k. ps ! j \<noteq> None"
      by auto
    moreover from this have "i - k = Suc (i - Suc k)" by simp
    ultimately show ?thesis using False by (auto simp: less_Suc_eq_0_disj)
  qed
qed simp

lemma free_slot_None: "free_slot k ps = None \<longleftrightarrow> (\<forall>p \<in> set ps. p \<noteq> None)"
  by (induction k ps rule: free_slot.induct) auto

text \<open>A session placed in a free slot, with channels no other uses.\<close>

lemma session_ok_upd:
  "session_ok s i q \<Longrightarrow> q \<noteq> p \<Longrightarrow> uNextChan s \<le> uNextChan t \<Longrightarrow> uNextSess s \<le> uNextSess t \<Longrightarrow>
    usessH t q = usessH s q \<Longrightarrow> uClosed t = uClosed s \<Longrightarrow> session_ok t i q"
  unfolding session_ok_def by auto

lemma ue_wf_fresh_wait: "ue_wf go s \<Longrightarrow> c \<ge> uNextChan s \<Longrightarrow> k c = WaitCh c \<or> k c = StopCh c \<or> k c = MsgCh c \<Longrightarrow> k c \<notin> set (uClosed s)"
  unfolding ue_wf_def by (metis chan_of.simps(1-3) not_le)

lemma ue_wf_add_session:
  assumes s: "ue_wf go s" and i: "i < 16" "PduSession (ueC s) ! i = None"
    and t: "t = s\<lparr>uNextChan := Suc (uNextChan s), uNextSess := Suc (uNextSess s),
      usessH := (usessH s)(uNextSess s := zero_usession\<lparr>us_Id := of_nat (i + 1), us_Wait := uNextChan s\<rparr>),
      ueC := (ueC s)\<lparr>PduSession := (PduSession (ueC s))[i := Some (uNextSess s)]\<rparr>\<rparr>"
  shows "ue_wf go t"
proof -
  have len: "length (PduSession (ueC s)) = 16" using s by (simp add: ue_wf_def)
  have old: "session_ok s j p" "p \<noteq> uNextSess s" "us_Wait (usessH s p) < uNextChan s"
    if "j < 16" "PduSession (ueC s) ! j = Some p" for j p
    using s that unfolding ue_wf_def session_ok_def by auto
  have heap: "usessH t = (usessH s)(uNextSess s := zero_usession\<lparr>us_Id := of_nat (i + 1), us_Wait := uNextChan s\<rparr>)"
    by (simp add: t)
  have dist: "us_Wait (usessH s p) \<noteq> us_Wait (usessH s q)"
    if "j < 16" "k < 16" "j \<noteq> k" "PduSession (ueC s) ! j = Some p" "PduSession (ueC s) ! k = Some q" for j k p q
    using s that unfolding ue_wf_def by blast
  have new: "session_ok t i (uNextSess s)"
    using ue_wf_fresh_wait [OF s order_refl, of WaitCh] by (simp add: session_ok_def t zero_usession_def)
  have slot: "PduSession (ueC t) ! j = (if j = i then Some (uNextSess s) else PduSession (ueC s) ! j)" if "j < 16" for j
    using that len by (simp add: t nth_list_update)
  have "session_ok t j p" if "j < 16" "PduSession (ueC t) ! j = Some p" for j p
  proof (cases "j = i")
    case True
    with that slot new show ?thesis by simp
  next
    case False
    with that slot [of j] have p: "PduSession (ueC s) ! j = Some p" by simp
    show ?thesis
      by (rule session_ok_upd [OF old(1,2) [OF that(1) p]])
        (use old(2) [OF that(1) p] in \<open>simp_all add: heap\<close>, simp_all add: t)
  qed
  moreover have "us_Wait (usessH t p) \<noteq> us_Wait (usessH t q)"
    if "j < 16" "k < 16" "j \<noteq> k" "PduSession (ueC t) ! j = Some p" "PduSession (ueC t) ! k = Some q" for j k p q
  proof -
    have w: "us_Wait (usessH t r) = (if l = i then uNextChan s else us_Wait (usessH s r)) \<and>
        (l \<noteq> i \<longrightarrow> PduSession (ueC s) ! l = Some r)"
      if "l < 16" "PduSession (ueC t) ! l = Some r" for l r
    proof (cases "l = i")
      case True
      with that slot [of l] have "r = uNextSess s" by simp
      with True show ?thesis by (simp add: heap zero_usession_def)
    next
      case False
      with that slot [of l] have "PduSession (ueC s) ! l = Some r" by simp
      with False old(2) [OF that(1)] show ?thesis by (simp add: heap)
    qed
    note wj = w [OF that(1,4)] and wk = w [OF that(2,5)]
    show ?thesis
    proof (cases "j = i")
      case True
      with that(3) wj wk old(3) [OF that(2), of q] show ?thesis by simp
    next
      case False
      with that(3) wj wk old(3) [OF that(1), of p] dist [OF that(1-3), of p q] show ?thesis by (cases "k = i") simp_all
    qed
  qed
  moreover have "chan_of c < uNextChan t" if "c \<in> set (uClosed t)" for c
    using that s by (auto simp: t ue_wf_def intro: less_SucI)
  moreover have "length (PduSession (ueC t)) = 16" using len by (simp add: t)
  ultimately show ?thesis
    using s unfolding ue_wf_def by (simp add: t less_SucI)
qed

lemma CreatePDUSession_Some:
  "free_slot 0 (PduSession (ueC s)) = Some i \<Longrightarrow> CreatePDUSession s = Ret (Inr (uNextSess s),
     s\<lparr>uNextChan := Suc (uNextChan s), uNextSess := Suc (uNextSess s),
      usessH := (usessH s)(uNextSess s := zero_usession\<lparr>us_Id := of_nat (i + 1), us_Wait := uNextChan s\<rparr>),
      ueC := (ueC s)\<lparr>PduSession := (PduSession (ueC s))[i := Some (uNextSess s)]\<rparr>\<rparr>)"
  by (simp add: CreatePDUSession_def makeChU_def run_simps)

lemma CreatePDUSession_None:
  "free_slot 0 (PduSession (ueC s)) = None \<Longrightarrow> CreatePDUSession s = Ret (Inl
    ''unable to create an additional PDU Session, we already created the max number of PDU Session'', s)"
  by (simp add: CreatePDUSession_def run_simps)

lemma safe_CreatePDUSession [safe_intros]: "safe (ue_wf go) CreatePDUSession"
proof (rule safeI)
  fix s assume s: "ue_wf go s"
  show "CreatePDUSession s \<noteq> Panic ClosedChan"
    by (cases "free_slot 0 (PduSession (ueC s))") (simp_all add: CreatePDUSession_None CreatePDUSession_Some)
  fix x t assume t: "CreatePDUSession s = Ret (x, t)"
  show "ue_wf go t"
  proof (cases "free_slot 0 (PduSession (ueC s))")
    case None
    with t s show ?thesis by (simp add: CreatePDUSession_None)
  next
    case (Some i)
    then have "i < 16" "PduSession (ueC s) ! i = None"
      using s free_slot_Some [of 0 "PduSession (ueC s)" i] by (auto simp: ue_wf_def)
    from ue_wf_add_session [OF s this refl] t Some show ?thesis by (simp add: CreatePDUSession_Some)
  qed
qed

section \<open>Messages and triggers\<close>

lemma safe_NASEncode [safe_intros]: "safe (ue_wf go) (NASEncode X m hdr a b)"
  unfolding NASEncode_def by (intro safe_intros quiet_intros | simp)+

lemma safe_EncodeNasPdu [safe_intros]: "safe (ue_wf go) (EncodeNasPduWithSecurity X pdu hdr a b)"
  unfolding EncodeNasPduWithSecurity_def by (intro safe_intros)

lemma safe_messages [safe_intros]:
  "safe (ue_wf go) (RegistrationComplete X)" "safe (ue_wf go) (ConfigurationUpdateComplete X)"
  "safe (ue_wf go) (DeregistrationRequest X)" "safe (ue_wf go) (SecurityModeComplete X r)"
  "safe (ue_wf go) (protected_or_error X pdu)"
  unfolding RegistrationComplete_def ConfigurationUpdateComplete_def DeregistrationRequest_def
    SecurityModeComplete_def protected_or_error_def
  by (intro safe_intros)+

lemma safe_ul_transport [safe_intros]:
  "safe (ue_wf go) (Request_UlNasTransport X p)" "safe (ue_wf go) (Release_UlNasTransport X p)"
  "safe (ue_wf go) (ReleasComplete_UlNasTransport X p)"
  unfolding Request_UlNasTransport_def Release_UlNasTransport_def ReleasComplete_UlNasTransport_def
  by (intro safe_intros)+

lemma safe_SendToGnbMsg [safe_intros]: "safe (ue_wf go) (SendToGnbMsg m)"
proof (rule safeI)
  fix s assume s: "ue_wf go s"
  then have c: "\<forall>c. ue_gnbRx (ueC s) = Some c \<longrightarrow> MsgCh c \<notin> set (uClosed s)" by (simp add: ue_wf_def)
  then show "SendToGnbMsg m s \<noteq> Panic ClosedChan" by (simp add: SendToGnbMsg_def split: option.split)
  fix x t assume "SendToGnbMsg m s = Ret (x, t)"
  with c show "ue_wf go t"
    by (intro ue_wf_cong [OF s]) (auto simp: SendToGnbMsg_def view_def split: option.splits if_splits)
qed

lemma safe_SendToGnb [safe_intros]: "safe (ue_wf go) (SendToGnb p)"
  unfolding SendToGnb_def by (intro safe_intros)

lemma safe_sent_or_fatal [safe_intros]:
  "safe I m \<Longrightarrow> (\<And>pdu. safe I (f pdu)) \<Longrightarrow> safe I (sent_or_fatal e m f)"
  unfolding sent_or_fatal_def by (intro safe_intros)

lemma safe_session_triggers [safe_intros]:
  "safe (ue_wf go) (InitPduSessionRequestInner X p)" "safe (ue_wf go) (InitPduSessionRelease X p)"
  "safe (ue_wf go) (InitPduSessionReleaseComplete X p)"
  unfolding InitPduSessionRequestInner_def InitPduSessionRelease_def InitPduSessionReleaseComplete_def
  by (intro safe_intros)+

lemma safe_triggers [safe_intros]:
  "safe (ue_wf True) (InitRegistration X)" "safe (ue_wf go) (InitPduSessionRequest X)"
  "safe (ue_wf True) (InitDeregistration X)" "safe (ue_wf go) (InitIdentifyResponse X)"
  "safe (ue_wf go) (InitConfigurationUpdateComplete X)" "safe (ue_wf go) (InitServiceRequest X)"
  "safe (ue_wf go) SwitchToIdle"
  unfolding InitRegistration_def InitPduSessionRequest_def InitDeregistration_def InitIdentifyResponse_def
    InitConfigurationUpdateComplete_def InitServiceRequest_def SwitchToIdle_def
  by (intro safe_intros quiet_intros)+

section \<open>Authentication and the handlers\<close>

lemma safe_DeriveRESstarAndSetKey [safe_intros]:
  "safe (ue_wf go) (DeriveRESstarAndSetKey X a r n autn)"
  unfolding DeriveRESstarAndSetKey_def DerivateKamf_def by (intro safe_intros quiet_intros)

lemma safe_body [safe_intros]: "safe I (body p)"
  unfolding body_def by (intro safe_intros)

lemma safe_gmm_handlers [safe_intros]:
  "safe (ue_wf True) HandlerAuthenticationReject" "safe (ue_wf True) (HandlerAuthenticationRequest X g)"
  "safe (ue_wf True) (HandlerSecurityModeCommand X g)" "safe (ue_wf True) (HandlerRegistrationAccept X g)"
  "safe (ue_wf True) HandlerServiceAccept" "safe (ue_wf True) (HandlerIdentityRequest X g)"
  "safe (ue_wf True) (HandlerConfigurationUpdateCommand X g)"
  unfolding HandlerAuthenticationReject_def HandlerAuthenticationRequest_def authentication_answer_def
    HandlerSecurityModeCommand_def HandlerRegistrationAccept_def use_allowed_nssai_def
    HandlerServiceAccept_def HandlerIdentityRequest_def HandlerConfigurationUpdateCommand_def
  by (intro safe_intros quiet_intros | simp)+

section \<open>The end of a session\<close>

lemma ue_wf_delete:
  assumes s: "ue_wf go s" and i: "i < 16" "PduSession (ueC s) ! i = Some p"
    and t: "PduSession (ueC t) = (PduSession (ueC s))[i := None]" "ue_gnbRx (ueC t) = ue_gnbRx (ueC s)"
      "scenarioChan (ueC t) = scenarioChan (ueC s)" "usessH t = usessH s" "uNextChan t = uNextChan s"
      "uNextSess t = uNextSess s" "uClosed t = WaitCh (us_Wait (usessH s p)) # uClosed s"
  shows "ue_wf go t"
proof -
  have len: "length (PduSession (ueC s)) = 16" using s by (simp add: ue_wf_def)
  have slot: "j \<noteq> i \<and> PduSession (ueC s) ! j = Some q" if "j < 16" "PduSession (ueC t) ! j = Some q" for j q
    using that len by (cases "j = i") (simp_all add: t nth_list_update)
  have dist: "us_Wait (usessH s q) \<noteq> us_Wait (usessH s p)" if "j < 16" "j \<noteq> i" "PduSession (ueC s) ! j = Some q" for j q
    using s that i unfolding ue_wf_def by blast
  have old: "session_ok s j q" if "j < 16" "PduSession (ueC s) ! j = Some q" for j q
    using s that unfolding ue_wf_def by blast
  have "session_ok t j q" if "j < 16" "PduSession (ueC t) ! j = Some q" for j q
    using slot [OF that] dist [OF that(1), of q] old [OF that(1), of q] by (simp add: session_ok_def t)
  moreover have "us_Wait (usessH t q) \<noteq> us_Wait (usessH t r)"
    if "j < 16" "k < 16" "j \<noteq> k" "PduSession (ueC t) ! j = Some q" "PduSession (ueC t) ! k = Some r" for j k q r
    using s slot [OF that(1,4)] slot [OF that(2,5)] that(1-3) unfolding t(4) ue_wf_def by blast
  moreover have "us_Wait (usessH s p) < uNextChan s"
    using old [OF i] by (simp add: session_ok_def)
  ultimately show ?thesis
    using s len unfolding ue_wf_def by (simp add: t)
qed

lemma ue_GetPduSession_apply:
  "ue_GetPduSession i s =
     (if 15 < i then Ret (Inl ''Unable to find GnbPDUSession ID'', s)
      else bindR (idx (PduSession (ueC s)) (unat (i - 1))) (\<lambda>slot. Ret (case slot of
          None \<Rightarrow> Inl ''Unable to find GnbPDUSession ID'' | Some p \<Rightarrow> Inr p, s)))"
  by (auto simp: ue_GetPduSession_def session_slot_def run_simps idx_def split: option.split)

lemma ue_DeletePduSession_apply:
  "ue_DeletePduSession i s =
     (if 15 < i then Ret (Some ''Unable to find GnbPDUSession ID'', s)
      else bindR (idx (PduSession (ueC s)) (unat (i - 1))) (\<lambda>slot. case slot of
          None \<Rightarrow> Ret (Some ''Unable to find GnbPDUSession ID'', s)
        | Some p \<Rightarrow>
            let w = WaitCh (us_Wait (usessH s p)) in
            if w \<in> set (uClosed s) \<or> (\<exists>c. stopSignal (usessH s p) = Some c \<and> StopCh c \<in> set (uClosed s))
            then Panic ClosedChan
            else Ret (None, s\<lparr>uClosed := w # uClosed s,
              uevents := uevents s @ Closed w # (case stopSignal (usessH s p) of None \<Rightarrow> [] | Some c \<Rightarrow> [StopSignal c]),
              ueC := (ueC s)\<lparr>PduSession := (PduSession (ueC s))[unat (i - 1) := None]\<rparr>\<rparr>)))"
  by (auto simp: ue_DeletePduSession_def session_slot_def run_simps idx_def closeChU_def stopU_def Let_def
      split: option.split)

lemma ue_GetPduSession_Ret:
  "ue_GetPduSession i s = Ret (r, t) \<Longrightarrow> t = s \<and> (\<forall>p. r = Inr p \<longrightarrow>
     i \<le> 15 \<and> unat (i - 1) < length (PduSession (ueC s)) \<and> PduSession (ueC s) ! unat (i - 1) = Some p)"
  by (auto simp: ue_GetPduSession_apply idx_def split: if_splits option.splits)

lemma safe_DeletePduSession [safe_intros]: "safe (ue_wf go) (ue_DeletePduSession i)"
proof (rule safeI)
  fix s assume s: "ue_wf go s"
  let ?i = "unat (i - 1)"
  have wait: "WaitCh (us_Wait (usessH s p)) \<notin> set (uClosed s)"
    "stopSignal (usessH s p) = Some c \<Longrightarrow> StopCh c \<notin> set (uClosed s)"
    if "?i < length (PduSession (ueC s))" "PduSession (ueC s) ! ?i = Some p" for p c
    using s that unfolding ue_wf_def session_ok_def by auto
  show "ue_DeletePduSession i s \<noteq> Panic ClosedChan"
    using wait by (auto simp: ue_DeletePduSession_apply idx_def Let_def split: option.split)
  fix x t assume run: "ue_DeletePduSession i s = Ret (x, t)"
  show "ue_wf go t"
  proof (cases "t = s")
    case False
    with run obtain p where p: "?i < 16" "PduSession (ueC s) ! ?i = Some p"
      using s by (auto simp: ue_DeletePduSession_apply idx_def ue_wf_def split: if_splits option.splits)
    with run wait s False show ?thesis
      by (intro ue_wf_delete [OF s p]) (auto simp: ue_DeletePduSession_apply idx_def ue_wf_def Let_def split: if_splits)
  qed (use s in simp)
qed

section \<open>Downlink NAS transport, protection and dispatch\<close>

lemma safe_sessions [safe_intros]:
  "safe (ue_wf go) (establishment_accept m)" "safe (ue_wf go) (release_command X i)"
  "safe (ue_wf go) (establishment_reject i)" "safe (ue_wf go) (T3580_expired X p)"
  unfolding establishment_accept_def release_command_def establishment_reject_def T3580_expired_def
  by (intro safe_intros quiet_intros | simp)+

lemma safe_HandlerDlNasTransport [safe_intros]: "safe (ue_wf go) (HandlerDlNasTransportPduaccept X g)"
  unfolding HandlerDlNasTransportPduaccept_def by (intro safe_intros quiet_intros)

lemma safe_new_context [safe_intros]: "safe (ue_wf go) (new_context X m)"
  and safe_count_downlink [safe_intros]: "safe (ue_wf go) (count_downlink X q)"
  unfolding new_context_def count_downlink_def by (intro safe_intros quiet_intros)+

lemma safe_unprotect [safe_intros]: "safe (ue_wf go) (unprotect X hdr m)"
  unfolding unprotect_def by (intro safe_intros quiet_intros)

lemma safe_dispatch_gmm [safe_intros]: "safe (ue_wf True) (dispatch_gmm X m)"
  unfolding dispatch_gmm_def by (intro safe_intros)

lemma safe_DispatchNas [safe_intros]: "safe (ue_wf True) (DispatchNas X msg)"
  unfolding DispatchNas_def by (intro safe_intros)

section \<open>Connections\<close>

lemma ue_wf_rx:
  "ue_wf go s \<Longrightarrow> c < uNextChan s \<Longrightarrow> MsgCh c \<notin> set (uClosed s) \<Longrightarrow>
    ue_wf go (s\<lparr>ueC := (ueC s)\<lparr>ue_gnbRx := Some c\<rparr>\<rparr>)"
  unfolding ue_wf_def session_ok_def by simp

lemma safe_make_rx:
  assumes "\<And>rx. safe (ue_wf go) (rest rx)"
  shows "safe (ue_wf go) (bindM makeChU (\<lambda>rx. thenM (modM (upd_ctxU (\<lambda>c. c\<lparr>ue_gnbRx := Some rx\<rparr>))) (rest rx)))"
proof (rule safe_bindM_strong [OF safe_makeChU])
  fix s rx t assume s: "ue_wf go s" and "makeChU s = Ret (rx, t)"
  then have t: "t = s\<lparr>uNextChan := Suc (uNextChan s)\<rparr>" "rx = uNextChan s" by (auto simp: makeChU_def)
  have "MsgCh rx \<notin> set (uClosed t)"
    using ue_wf_fresh_wait [OF s order_refl, of MsgCh] by (simp add: t)
  moreover have "ue_wf go t" by (rule ue_wf_cong [OF s]) (simp_all add: t view_def)
  ultimately have "ue_wf go (t\<lparr>ueC := (ueC t)\<lparr>ue_gnbRx := Some rx\<rparr>\<rparr>)"
    by (intro ue_wf_rx) (simp_all add: t)
  with assms [of rx] show "thenM (modM (upd_ctxU (\<lambda>c. c\<lparr>ue_gnbRx := Some rx\<rparr>))) (rest rx) t \<noteq> Panic ClosedChan \<and>
      (\<forall>y u. thenM (modM (upd_ctxU (\<lambda>c. c\<lparr>ue_gnbRx := Some rx\<rparr>))) (rest rx) t = Ret (y, u) \<longrightarrow> ue_wf go u)"
    by (simp add: safe_def thenM_apply)
qed

lemma safe_recvGnb [safe_intros]: "safe I (recvGnb X c)"
  unfolding recvGnb_def by (intro safe_intros)

lemma safe_InitConn [safe_intros]: "safe (ue_wf go) (ue_InitConn X)"
  unfolding ue_InitConn_def by (intro safe_intros safe_make_rx | simp)+

lemma switch_gnb_ok:
  assumes s: "ue_wf go s" and h: "handover_ok msg s" "GNBRx msg = Some c"
  shows "switch_gnb msg s \<noteq> Panic ClosedChan" "switch_gnb msg s = Ret (x, t) \<Longrightarrow> ue_wf go t"
proof -
  have old: "r < uNextChan s \<and> MsgCh r \<notin> set (uClosed s)" if "ue_gnbRx (ueC s) = Some r" for r
    using s that by (simp add: ue_wf_def)
  then show "switch_gnb msg s \<noteq> Panic ClosedChan"
    by (auto simp: switch_gnb_def run_simps closeChU_def split: option.split)
  assume run: "switch_gnb msg s = Ret (x, t)"
  then obtain r where r: "ue_gnbRx (ueC s) = Some r" by (cases "ue_gnbRx (ueC s)") (simp_all add: switch_gnb_def run_simps)
  have c: "c < uNextChan s" "MsgCh c \<notin> set (uClosed s)" "c \<noteq> r" using h r by (auto simp: handover_ok_def)
  have "ue_wf go (s\<lparr>ueC := (ueC s)\<lparr>ue_gnbInboundChannel := the (GNBInboundChannel msg), ue_gnbRx := GNBRx msg,
      ue_gnbTx := GNBTx msg\<rparr>, uClosed := MsgCh r # uClosed s, uevents := ev\<rparr>)" for ev
    using s c old [OF r] h(2) unfolding ue_wf_def session_ok_def by simp
  with run r old [OF r] show "ue_wf go t" by (auto simp: switch_gnb_def run_simps closeChU_def)
qed

section \<open>Data plane and termination\<close>

lemma safe_kernel [safe_intros]: "keeps P \<Longrightarrow> safe P (kernel op)"
  "keeps P \<Longrightarrow> safe P (kernel_or_fatal X op)"
  unfolding kernel_def kernel_or_fatal_def by (intro safe_intros, assumption)+

lemma safe_tunnel_rules [safe_intros]: "keeps P \<Longrightarrow> safe P (tunnel_rules X name ip gnb g)"
  unfolding tunnel_rules_def by (intro safe_intros)

lemma safe_route_traffic [safe_intros]: "keeps P \<Longrightarrow> safe P (route_traffic X p ip tid)"
  unfolding route_traffic_def by (rule safe_bindM, rule safe_getsM, rename_tac ue, case_tac "ue_TunnelMode ue") (simp_all, (intro safe_intros | simp)+)

text \<open>A new stop channel in place of the old one, which is closed.\<close>

lemma wf0_stop:
  assumes s: "wf0 go p s"
    and t: "ueC t = ueC s" "uNextSess t = uNextSess s" "uNextChan t = Suc (uNextChan s)"
      "usessH t = (usessH s)(p := (usessH s p)\<lparr>stopSignal := Some (uNextChan s)\<rparr>)"
      "uClosed t = (case stopSignal (usessH s p) of None \<Rightarrow> [] | Some c \<Rightarrow> [StopCh c]) @ uClosed s"
  shows "wf0 go p t"
proof -
  have wf: "ue_wf go s" and p: "PduSession (ueC s) ! 0 = Some p" using s by (simp_all add: wf0_def)
  have only: "i = 0" if "i < 16" "PduSession (ueC s) ! i = Some p" for i
    using ue_wf_inj [OF wf _ _ that(2) p] that by simp
  have old: "session_ok s i q" if "i < 16" "PduSession (ueC s) ! i = Some q" for i q
    using wf that unfolding ue_wf_def by blast
  have fresh: "StopCh (uNextChan s) \<notin> set (uClosed s)"
    using ue_wf_fresh_wait [OF wf order_refl, of StopCh] by simp
  have "session_ok t i q" if "i < 16" "PduSession (ueC s) ! i = Some q" for i q
  proof (cases "i = 0")
    case True
    with that p have "q = p" by simp
    with True old [OF that] fresh show ?thesis
      by (cases "stopSignal (usessH s p)") (auto simp: session_ok_def t)
  next
    case False
    with only that have "q \<noteq> p" by blast
    with False old [OF that] show ?thesis
      by (auto simp: session_ok_def t split: option.splits)
  qed
  moreover have "us_Wait (usessH t q) = us_Wait (usessH s q)" for q by (simp add: t)
  moreover have "chan_of c < uNextChan t" if "c \<in> set (uClosed t)" for c
  proof -
    have "stopSignal (usessH s p) = Some d \<Longrightarrow> d < uNextChan s" for d
      using old [OF _ p] by (simp add: session_ok_def)
    with that wf show ?thesis by (auto simp: t ue_wf_def less_SucI split: option.splits)
  qed
  ultimately show ?thesis
    using wf p unfolding ue_wf_def wf0_def by (auto simp: t less_SucI split: option.splits)
qed

lemma safe_start_link:
  assumes "\<And>stop. safe (wf0 go p) (rest stop)"
  shows "safe (wf0 go p) (bindM makeChU (\<lambda>stop.
     thenM (kernel a)
     (thenM (bindM (getsM (\<lambda>s. stopSignal (usessH s p))) (\<lambda>old.
        case old of None \<Rightarrow> skipM | Some c \<Rightarrow> closeChU (StopCh c)))
     (thenM (kernel (b stop))
     (thenM (modM (upd_usess p (\<lambda>x. x\<lparr>stopSignal := Some stop\<rparr>)))
       (rest stop))))))" (is "safe _ ?m")
proof (rule safeI)
  fix s assume s: "wf0 go p s"
  then have "ue_wf go s" "PduSession (ueC s) ! 0 = Some p" by (simp_all add: wf0_def)
  then have c: "StopCh c \<notin> set (uClosed s)" if "stopSignal (usessH s p) = Some c" for c
    using that unfolding ue_wf_def session_ok_def by (metis zero_less_numeral)
  let ?old = "stopSignal (usessH s p)"
  let ?t = "s\<lparr>uNextChan := Suc (uNextChan s),
    uClosed := (case ?old of None \<Rightarrow> [] | Some c \<Rightarrow> [StopCh c]) @ uClosed s,
    uevents := uevents s @ [Kernel a] @ (case ?old of None \<Rightarrow> [] | Some c \<Rightarrow> [Closed (StopCh c)]) @ [Kernel (b (uNextChan s))],
    usessH := (usessH s)(p := (usessH s p)\<lparr>stopSignal := Some (uNextChan s)\<rparr>)\<rparr>"
  have run: "?m s = rest (uNextChan s) ?t"
    by (cases ?old) (simp_all add: makeChU_def kernel_def closeChU_def run_simps c)
  have "wf0 go p ?t" by (rule wf0_stop [OF s]) simp_all
  with assms [of "uNextChan s"] show "?m s \<noteq> Panic ClosedChan" and "?m s = Ret (x, t) \<Longrightarrow> wf0 go p t" for x t
    unfolding run safe_def by blast+
qed

lemma safe_configure_interface: "safe (wf0 go p) (configure_interface X p gip g)"
  unfolding configure_interface_def Let_def by (intro safe_intros safe_start_link | simp)+

text \<open>A session that was looked up is in some slot; one with identifier 1 is in the first.\<close>

definition occ :: "bool \<Rightarrow> nat \<Rightarrow> ustate \<Rightarrow> bool" where
  "occ go p s \<longleftrightarrow> ue_wf go s \<and> (\<exists>i < 16. PduSession (ueC s) ! i = Some p)"

lemma keeps_occ [safe_intros]: "keeps (occ go p)"
  unfolding keeps_def occ_def by (metis ue_wf_cong viewD(1))

lemma wf0_occ: "wf0 go p s \<Longrightarrow> occ go p s"
  unfolding wf0_def occ_def by (metis zero_less_numeral)

lemma occ_wf0: "occ go p s \<Longrightarrow> us_Id (usessH s p) = 1 \<Longrightarrow> wf0 go p s"
proof -
  assume occ: "occ go p s" and one: "us_Id (usessH s p) = 1"
  then obtain i where i: "i < 16" "PduSession (ueC s) ! i = Some p" and wf: "ue_wf go s"
    by (auto simp: occ_def)
  then have "session_ok s i p" by (simp add: ue_wf_def)
  with one of_nat_slot_eq [of i 0] i have "i = 0" by (simp add: session_ok_def)
  with i wf show ?thesis by (simp add: wf0_def)
qed

lemma safe_lookup:
  assumes "\<And>e. safe (ue_wf go) (n e)" and "\<And>p. safe (occ go p) (m p)"
  shows "safe (ue_wf go) (bindM (ue_GetPduSession i) (\<lambda>r. case r of Inl e \<Rightarrow> n e | Inr p \<Rightarrow> m p))"
proof (rule safe_bindM_strong [OF safe_GetPduSession])
  fix s r t assume s: "ue_wf go s" and "ue_GetPduSession i s = Ret (r, t)"
  note run = ue_GetPduSession_Ret [OF this(2)]
  have t: "t = s" and p: "r = Inr p \<Longrightarrow> occ go p s" for p
  proof -
    have "length (PduSession (ueC s)) = 16" using s by (simp add: ue_wf_def)
    then show "occ go p s" if "r = Inr p"
      using conjunct2 [OF run, rule_format, OF that] s unfolding occ_def by auto
  qed (use run in simp)
  show "(case r of Inl e \<Rightarrow> n e | Inr p \<Rightarrow> m p) t \<noteq> Panic ClosedChan \<and>
      (\<forall>y u. (case r of Inl e \<Rightarrow> n e | Inr p \<Rightarrow> m p) t = Ret (y, u) \<longrightarrow> ue_wf go u)"
  proof (cases r)
    case (Inl e)
    with assms(1) [of e] s t show ?thesis by (simp add: safe_def)
  next
    case (Inr q)
    have "m q s \<noteq> Panic ClosedChan" by (rule safe_Panic [OF assms(2) p [OF Inr]])
    moreover have "ue_wf go u" if "m q s = Ret (y, u)" for y u
      using safe_Ret [OF assms(2) p [OF Inr] that] by (simp add: occ_def)
    ultimately show ?thesis by (simp add: Inr t)
  qed
qed

lemma safe_if_first:
  assumes "safe (wf0 go p) m"
  shows "safe (occ go p) (bindM (getsM (\<lambda>s. b s \<or> us_Id (usessH s p) \<noteq> 1)) (\<lambda>skip. if skip then skipM else m))"
  using assms by (auto simp: safe_def run_simps intro: wf0_occ dest: occ_wf0)

lemma safe_SetupGtpInterface [safe_intros]: "safe (ue_wf go) (SetupGtpInterface X msg)"
  unfolding SetupGtpInterface_def
  by (intro safe_bindM safe_thenM safe_lookup safe_if_first safe_configure_interface safe_intros quiet_intros | simp)+

lemma safe_clean_session [safe_intros]: "safe (ue_wf go) (clean_session slot)"
  unfolding clean_session_def by (intro safe_intros)

lemma safe_StopDRX [safe_intros]: "safe (ue_wf go) StopDRX"
  unfolding StopDRX_def by (intro safe_intros) simp_all

lemma safe_close_rx:
  "safe (ue_wf go) (bindM (getsM (\<lambda>s. ue_gnbRx (ueC s))) (\<lambda>rx. case rx of
      None \<Rightarrow> skipM
    | Some c \<Rightarrow> thenM (closeChU (MsgCh c)) (modM (upd_ctxU (\<lambda>c. c\<lparr>ue_gnbRx := None\<rparr>)))))"
proof (rule safeI)
  fix s assume s: "ue_wf go s"
  have c: "c < uNextChan s \<and> MsgCh c \<notin> set (uClosed s)" if "ue_gnbRx (ueC s) = Some c" for c
    using s that by (simp add: ue_wf_def)
  let ?m = "bindM (getsM (\<lambda>s. ue_gnbRx (ueC s))) (\<lambda>rx. case rx of
      None \<Rightarrow> skipM
    | Some c \<Rightarrow> thenM (closeChU (MsgCh c)) (modM (upd_ctxU (\<lambda>c. c\<lparr>ue_gnbRx := None\<rparr>))))"
  show "?m s \<noteq> Panic ClosedChan"
    using c by (auto simp: run_simps closeChU_def split: option.split)
  have "ue_wf go (s\<lparr>uClosed := MsgCh c # uClosed s, uevents := ev, ueC := (ueC s)\<lparr>ue_gnbRx := None\<rparr>\<rparr>)"
    if "ue_gnbRx (ueC s) = Some c" for c ev
    using s c [OF that] unfolding ue_wf_def session_ok_def by simp
  then show "?m s = Ret (x, t) \<Longrightarrow> ue_wf go t" for x t
    using s c by (auto simp: run_simps closeChU_def split: option.splits)
qed

lemma ue_Terminate_ok:
  assumes "ue_wf True s"
  shows "ue_Terminate s \<noteq> Panic ClosedChan" "ue_Terminate s = Ret (x, t) \<Longrightarrow> ue_wf False t"
proof -
  let ?close = "bindM (getsM (\<lambda>s. scenarioChan (ueC s))) (\<lambda>c. closeChU (ScenarioCh c))"
  define m where "m = thenM SetStateMM_NULL
     (thenM (bindM (getsM (\<lambda>s. PduSession (ueC s))) (\<lambda>ps. forM ps clean_session))
     (thenM (bindM (getsM (\<lambda>s. ue_gnbRx (ueC s))) (\<lambda>rx.
        case rx of
          None \<Rightarrow> skipM
        | Some c \<Rightarrow> thenM (closeChU (MsgCh c)) (modM (upd_ctxU (\<lambda>c. c\<lparr>ue_gnbRx := None\<rparr>)))))
     StopDRX))"
  have run: "ue_Terminate s = thenM m ?close s"
    by (simp add: ue_Terminate_def m_def thenM_apply bindR_assoc case_prod_beta')
  have m: "safe (ue_wf True) m" unfolding m_def by (intro safe_intros safe_close_rx)
  have close: "?close t \<noteq> Panic ClosedChan \<and> (\<forall>y u. ?close t = Ret (y, u) \<longrightarrow> ue_wf False u)" if "ue_wf True t" for t
    using that unfolding ue_wf_def session_ok_def by (auto simp: run_simps closeChU_def)
  show "ue_Terminate s \<noteq> Panic ClosedChan" "ue_Terminate s = Ret (x, t) \<Longrightarrow> ue_wf False t"
    using safe_Panic [OF m assms] safe_Ret [OF m assms] close unfolding run
    by (cases "m s"; force simp: thenM_apply)+
qed

end
