(* ===== verification/UeReach.thy ===== *)
theory UeReach
  imports UeInv
begin

text \<open>
  The invariant of a UE through its event loop: every message, timer and scenario command keeps
  it, so it holds in every state a UE reaches from its start.
\<close>

section \<open>The handlers of the loop\<close>

lemma gnbMsgHandler_ok:
  assumes s: "ue_wf True s" and h: "handover_ok msg s"
  shows "gnbMsgHandler X msg s \<noteq> Panic ClosedChan" "gnbMsgHandler X msg s = Ret (x, t) \<Longrightarrow> ue_wf True t"
proof -
  have d: "safe (ue_wf True) (DispatchNas X (Nas msg))" "safe (ue_wf True) (SetupGtpInterface X msg)"
    by (intro safe_intros)+
  have w: "switch_gnb msg s \<noteq> Panic ClosedChan \<and> (switch_gnb msg s = Ret (x, t) \<longrightarrow> ue_wf True t)"
    if "GNBRx msg \<noteq> None"
    using that switch_gnb_ok [OF s h] by (metis not_Some_eq)
  show "gnbMsgHandler X msg s \<noteq> Panic ClosedChan"
    unfolding gnbMsgHandler_def using safe_Panic [OF d(1) s] safe_Panic [OF d(2) s] w by simp
  show "gnbMsgHandler X msg s = Ret (x, t) \<Longrightarrow> ue_wf True t"
    unfolding gnbMsgHandler_def using safe_Ret [OF d(1) s] safe_Ret [OF d(2) s] w s by (simp split: if_splits)
qed

lemma safe_release_if_known [safe_intros]: "safe (ue_wf go) (release_if_known X i)"
  unfolding release_if_known_def by (intro safe_intros)

lemma safe_ueMgrHandler [safe_intros]: "safe (ue_wf True) (ueMgrHandler X msg)"
proof (cases msg)
  case IdleUe
  then show ?thesis unfolding ueMgrHandler_def by (simp, intro safe_intros) simp_all
qed (simp_all add: ueMgrHandler_def service_request_def terminate_request_def,
    (intro safe_intros)+)

lemma safe_verifyPaging [safe_intros]: "safe (ue_wf True) (verifyPaging X)"
  unfolding verifyPaging_def by (intro safe_intros quiet_intros)

lemma end_if_ok: "ue_wf True s \<Longrightarrow> end_if go s = Ret (x, t) \<Longrightarrow> ue_wf go t"
  by (cases go) (simp_all add: end_if_def ue_Terminate_ok(2))

section \<open>The machine\<close>

definition ue_inv :: "ustate \<times> bool \<Rightarrow> bool" where
  "ue_inv sg = (case sg of (s, go) \<Rightarrow> ue_wf go s)"

text \<open>A UE starts with nothing closed; its loop then runs.\<close>

definition ue_start :: "uext \<Rightarrow> ustate \<times> bool \<Rightarrow> bool" where
  "ue_start X sg \<longleftrightarrow> (\<exists>conf i inboundCh s0. uClosed s0 = [] \<and> NewUE X conf i inboundCh s0 = Ret ((), fst sg) \<and> snd sg)"

lemma ue_start_wf:
  assumes "uClosed s0 = []" and "NewUE X conf i inboundCh s0 = Ret ((), s)"
  shows "ue_wf True s"
proof -
  from assms(2) obtain pk ue where ue: "NewRanUeContext X conf pk OpConstant (uNextChan s0) inboundCh i = Ret ue"
    and run: "ue_InitConn X (s0\<lparr>uNextChan := Suc (uNextChan s0), ueC := ue\<rparr>) = Ret ((), s)"
    by (auto simp: NewUE_def makeChU_def bindR_Ret_iff)
  from ue have "PduSession ue = replicate 16 None" "ue_gnbRx ue = None" "scenarioChan ue = uNextChan s0"
    by (auto simp: NewRanUeContext_def bindR_Ret_iff)
  with assms(1) have "ue_wf True (s0\<lparr>uNextChan := Suc (uNextChan s0), ueC := ue\<rparr>)"
    by (simp add: ue_wf_def)
  from safe_Ret [OF safe_InitConn this run] show ?thesis .
qed

lemma ue_step_inv:
  assumes "ue_step X sg sg'" and "ue_inv sg"
  shows "ue_inv sg'"
  using assms
proof cases
  case (from_gnb msg s t)
  with assms(2) gnbMsgHandler_ok(2) [of s msg X] show ?thesis by (simp add: ue_inv_def)
next
  case (gnb_closed s)
  with assms(2) show ?thesis by (simp add: ue_inv_def ue_wf_def session_ok_def)
next
  case (from_scenario msg s go s' t)
  have "ue_wf True s" using from_scenario assms(2) by (simp add: ue_inv_def)
  from safe_Ret [OF safe_ueMgrHandler this from_scenario(3)] end_if_ok from_scenario show ?thesis
    by (simp add: ue_inv_def)
next
  case (scenario_closed s t)
  with assms(2) ue_Terminate_ok(2) show ?thesis by (simp add: ue_inv_def)
next
  case (drx_tick s t)
  with assms(2) safe_Ret [OF safe_verifyPaging, of s X "()" t] show ?thesis by (simp add: ue_inv_def)
next
  case (timer p d s t go)
  with assms(2) safe_Ret [OF safe_sessions(4), of go s X p "()" t] show ?thesis by (simp add: ue_inv_def)
next
  case (other_chan s go)
  have "ue_wf go s" using assms(2) other_chan by (simp add: ue_inv_def)
  from ue_wf_cong [OF this, of "s\<lparr>uNextChan := Suc (uNextChan s)\<rparr>"] other_chan show ?thesis
    by (simp add: ue_inv_def view_def)
qed

interpretation ue_machine: inductive_invariant "ue_start X" "ue_step X" ue_inv for X
proof unfold_locales
  show "ue_inv sg" if "ue_start X sg" for sg
    using that by (cases sg) (auto simp: ue_start_def ue_inv_def intro: ue_start_wf)
qed (rule ue_step_inv)

definition ue_reachable :: "uext \<Rightarrow> ustate \<times> bool \<Rightarrow> bool" where
  "ue_reachable X sg \<longleftrightarrow> (\<exists>sg0. ue_start X sg0 \<and> (ue_step X)\<^sup>*\<^sup>* sg0 sg)"

lemma ue_reachable_wf: "ue_reachable X (s, go) \<Longrightarrow> ue_wf go s"
  using ue_machine.inv_reachable [of X _ "(s, go)"] by (auto simp: ue_reachable_def ue_inv_def)

end
