(* ===== verification/SuciProps.thy ===== *)
theory SuciProps
  imports Suci
begin

text \<open>
  The home network recovers from a SUCI the identity the UE concealed in it, for all three
  protection schemes.
\<close>

section \<open>TBCD and hexadecimal\<close>

definition lower_hex :: "char \<Rightarrow> char" where
  "lower_hex c = hex_char (the (hex_val c))"

lemma hex_val_less: "hex_val c = Some v \<Longrightarrow> v < 16"
  by (auto simp: hex_val_def split: if_splits)

lemma unat_two_digits: "a < 16 \<Longrightarrow> b < 16 \<Longrightarrow> unat (of_nat (16 * a + b) :: byte) = 16 * a + b"
proof -
  assume "a < 16" "b < 16"
  then have "16 * a + b < 2 ^ LENGTH(8)" by simp
  then show ?thesis by (simp only: of_nat_inverse)
qed

lemma hex_of_two_digits:
  "a < 16 \<Longrightarrow> b < 16 \<Longrightarrow> hex_of [of_nat (16 * a + b)] = [hex_char a, hex_char b]"
  using unat_two_digits [of a b] by (simp del: of_nat_add of_nat_mult)

lemma swap_pairs_hex:
  assumes "even (length s)" and "list_all (\<lambda>c. hex_val c \<noteq> None) s"
  shows "\<exists>bs. hex_decode (swap_pairs s) = (bs, False) \<and> swap_pairs (hex_of bs) = map lower_hex s"
  using assms
proof (induction s rule: swap_pairs.induct)
  case (1 a b r)
  then obtain bs where bs: "hex_decode (swap_pairs r) = (bs, False)"
    "swap_pairs (hex_of bs) = map lower_hex r" by auto
  from "1.prems" obtain x y where xy: "hex_val a = Some x" "hex_val b = Some y" by auto
  then have lt: "x < 16" "y < 16" by (auto dest: hex_val_less)
  have "hex_of (of_nat (16 * y + x) # bs) = hex_char y # hex_char x # hex_of bs"
    using hex_of_two_digits [OF lt(2) lt(1)] by simp
  then show ?case using bs xy by (simp add: lower_hex_def)
qed auto

lemma is_digit_hex: "is_digit c \<Longrightarrow> hex_val c \<noteq> None \<and> lower_hex c = c"
  by (auto simp: is_digit_def hex_val_def lower_hex_def hex_char_def)

lemma digits_hex:
  "list_all is_digit s \<Longrightarrow> list_all (\<lambda>c. hex_val c \<noteq> None) s \<and> map lower_hex s = s"
  by (induction s) (use is_digit_hex in auto)

lemma not_filler: "is_digit c \<Longrightarrow> c \<noteq> CHR ''F'' \<and> c \<noteq> CHR ''f''"
  by (auto simp: is_digit_def)

lemma swap_pairs_Nil_iff [simp]: "swap_pairs s = [] \<longleftrightarrow> s = []"
  by (cases s rule: swap_pairs.cases) auto

lemma set_swap_pairs [simp]: "set (swap_pairs s) = set s"
  by (induction s rule: swap_pairs.induct) auto

text \<open>The last character after swapping, for a padded and for a plain digit string.\<close>

lemma Tbcd_digits:
  assumes "list_all is_digit s" and "s \<noteq> []"
  shows "Tbcd s = Ret (swap_pairs (if odd (length s) then s @ [CHR ''F''] else s))"
proof -
  have last_swap: "last (swap_pairs t) \<in> set s" if "even (length t)" "t \<noteq> []" "set (butlast t) \<subseteq> set s" for t
    using that
  proof (induction t rule: swap_pairs.induct)
    case (1 a b r)
    show ?case
    proof (cases "r = []")
      case True
      with 1 show ?thesis by auto
    next
      case False
      then have "butlast (a # b # r) = a # b # butlast r" by simp
      with 1 False show ?thesis by (simp only: swap_pairs.simps) auto
    qed
  qed auto
  let ?t = "if odd (length s) then s @ [CHR ''F''] else s"
  have "last (swap_pairs ?t) \<in> set s"
    by (rule last_swap) (use assms in \<open>auto dest: in_set_butlastD\<close>)
  then have "is_digit (last (swap_pairs ?t))"
    using assms(1) by (simp add: list_all_iff)
  with assms(2) not_filler show ?thesis by (auto simp: Tbcd_def Let_def)
qed

lemma Tbcd_roundtrip:
  assumes "list_all is_digit s" and "s \<noteq> []"
  shows "\<exists>t bs. Tbcd s = Ret t \<and> hex_decode t = (bs, False) \<and> Tbcd (hex_of bs) = Ret s"
proof -
  let ?t = "if odd (length s) then s @ [CHR ''F''] else s"
  have F: "hex_val (CHR ''F'') \<noteq> None" "lower_hex (CHR ''F'') = CHR ''f''"
    by (simp_all add: hex_val_def lower_hex_def hex_char_def char_of_eq_iff)
  have "list_all (\<lambda>c. hex_val c \<noteq> None) ?t" using digits_hex [OF assms(1)] F by simp
  then obtain bs where bs: "hex_decode (swap_pairs ?t) = (bs, False)"
    "swap_pairs (hex_of bs) = map lower_hex ?t"
    using swap_pairs_hex [of ?t] by (auto split: if_splits)
  have m: "map lower_hex ?t = (if odd (length s) then s @ [CHR ''f''] else s)"
    using digits_hex [OF assms(1)] F by simp
  have "last s \<in> set s" using assms(2) by simp
  then have "is_digit (last s)" using assms(1) by (simp add: list_all_iff)
  then have "Tbcd (hex_of bs) = Ret s"
    using bs(2) m assms(2) not_filler [of "last s"] by (auto simp: Tbcd_def Let_def)
  with bs(1) Tbcd_digits [OF assms] show ?thesis by auto
qed

section \<open>Laws of the primitives\<close>

text \<open>
  Documented behaviour of Go's \<open>crypto\<close> packages: the sizes of digests, of an X25519
  public key and of a compressed P-256 point, a key stream of the length asked for, key
  encodings that decode to the key, and the agreement of the two sides of a Diffie-Hellman
  exchange.
\<close>

definition crypto_laws :: "crypto \<Rightarrow> bool" where
  "crypto_laws C \<longleftrightarrow>
     (\<forall>k iv n. length (ctr_stream C k iv n) = n) \<and> (\<forall>m. length (sha256_Sum256 C m) = 32) \<and>
     (\<forall>k m. length (hmac_sha256 C k m) = 32) \<and>
     (\<forall>e. length (x25519_PublicKey C e) = 32 \<and>
        x25519_NewPublicKey C (x25519_PublicKey C e) = Some (x25519_PublicKey C e)) \<and>
     (\<forall>e d. x25519_ECDH C e (x25519_PublicKey C d) = x25519_ECDH C d (x25519_PublicKey C e)) \<and>
     (\<forall>e. \<exists>p. p256_Unmarshal C (p256_PublicKey C e) = Some p \<and> p256_Marshal C p = p256_PublicKey C e \<and>
        p256_UnmarshalCompressed C (p256_MarshalCompressed C p) = Some p \<and>
        length (p256_MarshalCompressed C p) = 33 \<and> hd (p256_MarshalCompressed C p) \<in> {2, 3} \<and>
        p256_NewPublicKey C (p256_PublicKey C e) = Some (p256_PublicKey C e)) \<and>
     (\<forall>e d. p256_ECDH C e (p256_PublicKey C d) = p256_ECDH C d (p256_PublicKey C e))"

lemma xor_stream_twice:
  "length ks = length xs \<Longrightarrow> map2 (XOR) (map2 (XOR) xs ks) ks = (xs :: byte list)"
  by (induction ks xs rule: list_induct2) (simp_all add: xor.assoc)

lemma Aes128ctr_twice:
  assumes "crypto_laws C" and "length k = 16" and "length iv = 16"
  shows "\<exists>ct. Aes128ctr C xs k iv = ok ct \<and> length ct = length xs \<and> Aes128ctr C ct k iv = ok xs"
proof -
  have l: "length (ctr_stream C k iv (length xs)) = length xs"
    using assms(1) by (simp add: crypto_laws_def)
  then show ?thesis using assms(2,3) by (simp add: Aes128ctr_def xor_stream_twice)
qed

lemma length_kdf_loop:
  "crypto_laws C \<Longrightarrow> length (kdf_loop C sk pub c n) = 32 * n"
  by (induction n arbitrary: c) (simp_all add: crypto_laws_def)

text \<open>What one side seals, the other side opens with the same shared key.\<close>

lemma seal_open:
  assumes C: "crypto_laws C" and "list_all is_digit msin" and "msin \<noteq> []"
  shows "\<exists>ct mac bs. seal C sk pub msin 16 32 32 16 8 = ok (hex_of (pub @ ct @ mac)) \<and> length mac = 8 \<and>
    decryptWithKdf C sk pub ct mac 16 32 32 16 8 = ok bs \<and> Tbcd (hex_of bs) = Ret msin"
proof -
  define kdf where "kdf = AnsiX963KDF C sk pub 16 32 32"
  have kdf: "length kdf = 64" using length_kdf_loop [OF C] by (simp add: kdf_def AnsiX963KDF_def)
  let ?k = "take 16 kdf" let ?iv = "take 16 (drop 16 kdf)" let ?m = "take 32 (drop 32 kdf)"
  obtain t bs where t: "Tbcd msin = Ret t" "hex_decode t = (bs, False)" "Tbcd (hex_of bs) = Ret msin"
    using Tbcd_roundtrip [OF assms(2,3)] by blast
  have "length ?k = 16" "length ?iv = 16" using kdf by simp_all
  then obtain ct where ct: "Aes128ctr C bs ?k ?iv = ok ct" "Aes128ctr C ct ?k ?iv = ok bs"
    using Aes128ctr_twice [OF C] by blast
  define mac where "mac = take 8 (hmac_sha256 C ?m ct)"
  have "length (hmac_sha256 C ?m ct) = 32" using C by (simp add: crypto_laws_def)
  then have mac: "HmacSha256 C ct ?m 8 = ok mac" "length mac = 8"
    by (simp_all add: HmacSha256_def slice_def mac_def)
  have keys: "slice kdf 0 16 = Ret ?k" "slice kdf 16 32 = Ret ?iv" "slice kdf (length kdf - 32) (length kdf) = Ret ?m"
    using kdf by (simp_all add: slice_def)
  have "seal C sk pub msin 16 32 32 16 8 = ok (hex_of (pub @ ct @ mac))"
    using t keys ct mac by (simp add: seal_def decode_hex_def kdf_def [symmetric] Let_def)
  moreover have "decryptWithKdf C sk pub ct mac 16 32 32 16 8 = ok bs"
    using keys ct mac by (simp add: decryptWithKdf_def kdf_def [symmetric] Let_def)
  ultimately show ?thesis using mac(2) t(3) by blast
qed

lemma decode_hex_hex_of [simp]: "decode_hex (hex_of bs) = ok bs"
  by (simp add: decode_hex_def)

lemma profileA_roundtrip:
  assumes C: "crypto_laws C" and "list_all is_digit msin" and "msin \<noteq> []"
    and e: "x25519_GenerateKey C rnd = Some e" and sk: "x25519_ECDH C e (x25519_PublicKey C d) = Some sk"
  shows "\<exists>bs. bs \<noteq> [] \<and> profileAEncrypt C rnd msin (Some (x25519_PublicKey C d)) = ok (hex_of bs) \<and>
    profileADecrypt C (hex_of bs) (Some d) = ok msin"
proof -
  let ?pub = "x25519_PublicKey C e"
  obtain ct mac bs where s: "seal C sk ?pub msin 16 32 32 16 8 = ok (hex_of (?pub @ ct @ mac))" "length mac = 8"
    "decryptWithKdf C sk ?pub ct mac 16 32 32 16 8 = ok bs" "Tbcd (hex_of bs) = Ret msin"
    using seal_open [OF C assms(2,3)] by blast
  have pub: "length ?pub = 32" "x25519_NewPublicKey C ?pub = Some ?pub" "x25519_ECDH C d ?pub = Some sk"
    using C sk by (auto simp: crypto_laws_def)
  define out where "out = ?pub @ ct @ mac"
  have cut: "take 32 out = ?pub" "take (length out - 8 - 32) (drop 32 out) = ct" "drop (length out - 8) out = mac"
    and nz: "out \<noteq> []" and ge: "\<not> length out < 32 + 8"
    using pub(1) s(2) by (auto simp: out_def)
  have "profileAEncrypt C rnd msin (Some (x25519_PublicKey C d)) = ok (hex_of out)"
    using e sk s(1) by (simp only: profileAEncrypt_def opt_err_simps ok_def tryR_simps option.case profile_lens out_def)
  moreover have "ecdhX25519 C (Some d) ?pub = ok sk" using pub(2,3) by (simp add: ecdhX25519_def)
  then have "profileADecrypt C (hex_of out) (Some d) = ok msin"
    using ge s(3,4) by (simp only: profileADecrypt_def decode_hex_hex_of ok_def tryR_simps profile_lens Let_def
      cut if_False bindR_simps)
  ultimately show ?thesis using nz by blast
qed

lemma profileB_roundtrip:
  assumes C: "crypto_laws C" and "list_all is_digit msin" and "msin \<noteq> []"
    and e: "p256_GenerateKey C rnd = Some e" and sk: "p256_ECDH C e (p256_PublicKey C d) = Some sk"
  shows "\<exists>bs. bs \<noteq> [] \<and> profileBEncrypt C rnd msin (Some (p256_PublicKey C d)) = ok (hex_of bs) \<and>
    profileBDecrypt C (hex_of bs) (Some d) = ok msin"
proof -
  obtain p where p: "p256_Unmarshal C (p256_PublicKey C e) = Some p" "p256_Marshal C p = p256_PublicKey C e"
    "p256_UnmarshalCompressed C (p256_MarshalCompressed C p) = Some p"
    "length (p256_MarshalCompressed C p) = 33" "hd (p256_MarshalCompressed C p) \<in> {2, 3}"
    "p256_NewPublicKey C (p256_PublicKey C e) = Some (p256_PublicKey C e)"
    using C unfolding crypto_laws_def by meson
  have dh: "p256_ECDH C d (p256_PublicKey C e) = Some sk" using C sk by (auto simp: crypto_laws_def)
  let ?pub = "p256_MarshalCompressed C p"
  obtain ct mac bs where s: "seal C sk ?pub msin 16 32 32 16 8 = ok (hex_of (?pub @ ct @ mac))" "length mac = 8"
    "decryptWithKdf C sk ?pub ct mac 16 32 32 16 8 = ok bs" "Tbcd (hex_of bs) = Ret msin"
    using seal_open [OF C assms(2,3)] by blast
  define out where "out = ?pub @ ct @ mac"
  have cut: "take 33 out = ?pub" "take (length out - 8 - 33) (drop 33 out) = ct" "drop (length out - 8) out = mac"
    using p(4) s(2) by (simp_all add: out_def)
  have "hd ?pub = ?pub ! 0" using p(4) by (intro hd_conv_nth) auto
  then have hd: "?pub ! 0 = 2 \<or> ?pub ! 0 = 3" "out ! 0 = ?pub ! 0"
    using p(4,5) by (auto simp: nth_append out_def)
  have nz: "out \<noteq> []" and ge: "\<not> length out < 33 + 8" and ge1: "\<not> length out < 1"
    using p(4) s(2) by (auto simp: out_def)
  have "profileBEncrypt C rnd msin (Some (p256_PublicKey C d)) = ok (hex_of out)"
    using e sk s(1) p(1)
    by (simp only: profileBEncrypt_def opt_err_simps ok_def tryR_simps option.case profile_lens out_def)
  moreover have ecdh: "ecdhP256 C (Some d) ?pub = ok (sk, ?pub)"
    using hd p dh by (auto simp: ecdhP256_def idx_def)
  have "profileBDecrypt C (hex_of out) (Some d) = ok msin"
    unfolding profileBDecrypt_def hex_decode_hex_of prod.case
    using hd ge ge1 ecdh s(3,4)
    by (simp only: profile_lens Let_def cut hd if_True if_False ok_def tryR_simps ecdh prod.case bindR_simps
      simp_thms prod.case split: if_splits)
  ultimately show ?thesis using nz by blast
qed

section \<open>The text of a SUCI\<close>

lemma digit_no_dash: "list_all is_digit s \<Longrightarrow> CHR ''-'' \<notin> set s"
  by (auto simp: list_all_iff is_digit_def)

lemma hex_no_dash: "hex_string s \<Longrightarrow> CHR ''-'' \<notin> set s"
  by (auto simp: hex_string_def list_all_iff hex_val_def)

lemma public_key_id_digits: "public_key_id s \<Longrightarrow> list_all is_digit s"
  by (auto simp: public_key_id_def digits_def)

lemma hex_string_hex_of: "bs \<noteq> [] \<Longrightarrow> hex_string (hex_of bs)"
proof -
  have h: "hex_val (hex_char d) \<noteq> None" if "d < 16" for d using that by simp
  have "list_all (\<lambda>c. hex_val c \<noteq> None) (hex_of bs)"
  proof (induction bs)
    case (Cons b bs)
    have "unat b < 256" using unsigned_less [of b] by simp
    then have "unat b div 16 < 16" "unat b mod 16 < 16" by simp_all
    with Cons h show ?case by simp
  qed simp
  moreover assume "bs \<noteq> []"
  ultimately show ?thesis by (cases bs) (auto simp: hex_string_def)
qed

lemma hex_string_digits: "list_all is_digit s \<Longrightarrow> s \<noteq> [] \<Longrightarrow> hex_string s"
  using digits_hex [of s] by (simp add: hex_string_def)

lemma ParseSuci_join:
  assumes "digits 3 3 mcc" and "digits 2 3 mnc" and t: "suci_tail ri ps pk so"
  shows "\<exists>s. ParseSuci (join (CHR ''-'') [''suci'', ''0'', mcc, mnc, ri, ps, pk, so]) = Some s \<and>
    SupiType s = join (CHR ''-'') [''0'', mcc, mnc] \<and> suci_Mcc s = mcc \<and> suci_Mnc s = mnc \<and>
    ProtectionScheme s = ps \<and> PublicKeyID s = pk \<and> SchemeOutput s = so \<and>
    Raw s = join (CHR ''-'') [''suci'', ''0'', mcc, mnc, ri, ps, pk, so]"
proof -
  let ?ws = "[''suci'', ''0'', mcc, mnc, ri, ps, pk, so]"
  have "\<forall>w \<in> set ?ws. CHR ''-'' \<notin> set w"
    using assms digit_no_dash hex_no_dash public_key_id_digits
    by (auto simp: digits_def suci_tail_def)
  then have "Split (CHR ''-'') (join (CHR ''-'') ?ws) = ?ws" by (intro Split_join) simp_all
  with assms show ?thesis by (simp add: ParseSuci_def del: join.simps)
qed

section \<open>Round trip\<close>

definition keys_match :: "crypto \<Rightarrow> nat \<Rightarrow> string \<Rightarrow> key option \<Rightarrow> key option \<Rightarrow> bool" where
  "keys_match C rnd scheme pub priv \<longleftrightarrow>
     scheme = ''0'' \<or>
     (scheme = ''1'' \<and> (case (x25519_GenerateKey C rnd, priv) of
        (Some e, Some d) \<Rightarrow> pub = Some (x25519_PublicKey C d) \<and> x25519_ECDH C e (x25519_PublicKey C d) \<noteq> None
      | _ \<Rightarrow> False)) \<or>
     (scheme = ''2'' \<and> (case (p256_GenerateKey C rnd, priv) of
        (Some e, Some d) \<Rightarrow> pub = Some (p256_PublicKey C d) \<and> p256_ECDH C e (p256_PublicKey C d) \<noteq> None
      | _ \<Rightarrow> False))"

definition scheme_output :: "crypto \<Rightarrow> nat \<Rightarrow> string \<Rightarrow> HomeNetworkPublicKey \<Rightarrow> string fallible" where
  "scheme_output C rnd msin profile =
     (if pub_ProtectionScheme profile = ''0'' then ok msin
      else if pub_ProtectionScheme profile = ''1'' then profileAEncrypt C rnd msin (pub_PublicKey profile)
      else if pub_ProtectionScheme profile = ''2'' then profileBEncrypt C rnd msin (pub_PublicKey profile)
      else err ''unsupported protection scheme'')"

lemma CipherSuci_text:
  assumes "digits 3 3 mcc" and "digits 2 3 mnc" and "digits 1 4 ri" and "public_key_id (pub_PublicKeyID P)"
    and "14 \<le> length msin + length mcc + length mnc"
    and so: "scheme_output C rnd msin P = ok so" and "hex_string so" and "pub_ProtectionScheme P \<in> {''0'', ''1'', ''2''}"
  shows "\<exists>s. CipherSuci C rnd msin mcc mnc ri P = ok (Some s) \<and> ParseSuci (Raw s) = Some s \<and>
      HasPrefix (SupiType s) ''0'' \<and> suci_Mcc s = mcc \<and> suci_Mnc s = mnc \<and>
      ProtectionScheme s = pub_ProtectionScheme P \<and> PublicKeyID s = pub_PublicKeyID P \<and> SchemeOutput s = so"
proof -
  have tail: "suci_tail ri (pub_ProtectionScheme P) (pub_PublicKeyID P) so"
    using assms(3,4,7,8) by (simp add: suci_tail_def)
  have "CipherSuci C rnd msin mcc mnc ri P = ok (ParseSuci (join (CHR ''-'')
      [''suci'', ''0'', mcc, mnc, ri, pub_ProtectionScheme P, pub_PublicKeyID P, so]))"
    unfolding CipherSuci_def scheme_output_def [symmetric] so using assms(5) by simp
  then show ?thesis using ParseSuci_join [OF assms(1,2) tail] by (auto simp: HasPrefix_def)
qed

lemma scheme_output_opens:
  assumes "crypto_laws C" and "list_all is_digit msin" and "msin \<noteq> []"
    and "keys_match C rnd (pub_ProtectionScheme P) (pub_PublicKey P) priv"
  shows "\<exists>so. scheme_output C rnd msin P = ok so \<and> hex_string so \<and>
    (pub_ProtectionScheme P = ''0'' \<and> so = msin \<or>
     pub_ProtectionScheme P = ''1'' \<and> profileADecrypt C so priv = ok msin \<or>
     pub_ProtectionScheme P = ''2'' \<and> profileBDecrypt C so priv = ok msin)"
proof -
  consider (null) "pub_ProtectionScheme P = ''0''"
    | (A) e d where "pub_ProtectionScheme P = ''1''" "x25519_GenerateKey C rnd = Some e" "priv = Some d"
        "pub_PublicKey P = Some (x25519_PublicKey C d)" "x25519_ECDH C e (x25519_PublicKey C d) \<noteq> None"
    | (B) e d where "pub_ProtectionScheme P = ''2''" "p256_GenerateKey C rnd = Some e" "priv = Some d"
        "pub_PublicKey P = Some (p256_PublicKey C d)" "p256_ECDH C e (p256_PublicKey C d) \<noteq> None"
    using assms(4) by (auto simp: keys_match_def split: option.splits)
  then show ?thesis
  proof cases
    case null
    then show ?thesis using hex_string_digits [OF assms(2,3)] by (simp add: scheme_output_def)
  next
    case A
    then show ?thesis
      using profileA_roundtrip [OF assms(1-3) A(2), of d] hex_string_hex_of
      by (auto simp: scheme_output_def)
  next
    case B
    then show ?thesis
      using profileB_roundtrip [OF assms(1-3) B(2), of d] hex_string_hex_of
      by (auto simp: scheme_output_def)
  qed
qed

text \<open>
  C10: The home network recovers the subscriber identity: for a UE with a well-formed MCC, MNC,
  routing indicator and MSIN, \<open>CipherSuci\<close> succeeds and \<open>ToSupi\<close> applied to the text
  of its SUCI gives the IMSI of MCC, MNC and MSIN. Under the null scheme, whose public key
  identifier the configuration sets to 0, this needs no key of the home network at all; under
  profiles A and B the home network holds, at the index the public key identifier names, a
  profile of the same scheme with the private key of the public key configured in the UE.
\<close>

theorem suci_roundtrip:
  assumes "crypto_laws C" and "digits 3 3 mcc" and "digits 2 3 mnc" and "digits 1 4 ri"
    and "list_all is_digit msin" and "14 \<le> length msin + length mcc + length mnc"
    and "public_key_id (pub_PublicKeyID P)"
    and "pub_ProtectionScheme P = ''0'' \<or>
      (\<exists>i. Atoi (pub_PublicKeyID P) = Inr i \<and> 1 \<le> i \<and> i \<le> int (length profiles) \<and>
         priv_ProtectionScheme (profiles ! nat (i - 1)) = pub_ProtectionScheme P \<and>
         keys_match C rnd (pub_ProtectionScheme P) (pub_PublicKey P) (priv_PrivateKey (profiles ! nat (i - 1))))"
  shows "\<exists>s. CipherSuci C rnd msin mcc mnc ri P = ok (Some s) \<and>
    ToSupi C (Raw s) profiles = ok (''imsi-'' @ mcc @ mnc @ msin)"
proof -
  let ?ps = "pub_ProtectionScheme P"
  have ne: "msin \<noteq> []" using assms(2,3,6) by (auto simp: digits_def)
  obtain priv where match: "keys_match C rnd ?ps (pub_PublicKey P) priv"
    and home: "?ps = ''0'' \<or> (\<exists>i. Atoi (pub_PublicKeyID P) = Inr i \<and> 1 \<le> i \<and> i \<le> int (length profiles) \<and>
      priv_ProtectionScheme (profiles ! nat (i - 1)) = ?ps \<and> priv_PrivateKey (profiles ! nat (i - 1)) = priv)"
    using assms(8) by (auto simp: keys_match_def)
  obtain so where so: "scheme_output C rnd msin P = ok so" "hex_string so" and open_so:
    "?ps = ''0'' \<and> so = msin \<or> ?ps = ''1'' \<and> profileADecrypt C so priv = ok msin \<or>
     ?ps = ''2'' \<and> profileBDecrypt C so priv = ok msin"
    using scheme_output_opens [OF assms(1,5) ne match] by blast
  obtain s where s: "CipherSuci C rnd msin mcc mnc ri P = ok (Some s)" "ParseSuci (Raw s) = Some s"
    "HasPrefix (SupiType s) ''0''" "suci_Mcc s = mcc" "suci_Mnc s = mnc" "ProtectionScheme s = ?ps"
    "PublicKeyID s = pub_PublicKeyID P" "SchemeOutput s = so"
    using CipherSuci_text [OF assms(2-4,7,6) so] open_so by blast
  have "ToSupi C (Raw s) profiles = ok (''imsi-'' @ mcc @ mnc @ msin)"
    unfolding ToSupi_def s Let_def
    using open_so home by (elim disjE exE) (auto simp: s idx_int_def)
  with s(1) show ?thesis by blast
qed

text \<open>A concrete instance of the primitives, for the witness: it has all the laws.\<close>

definition demo_key :: "key \<Rightarrow> key" where
  "demo_key e = take 32 (e @ replicate 32 0)"

definition demo_crypto :: crypto where
  "demo_crypto = \<lparr>
     x25519_GenerateKey = (\<lambda>n. Some (replicate 32 (of_nat n))), x25519_PublicKey = demo_key,
     x25519_NewPublicKey = (\<lambda>b. if length b = 32 then Some b else None),
     x25519_ECDH = (\<lambda>a b. Some (map2 (XOR) (demo_key a) b)),
     p256_GenerateKey = (\<lambda>n. Some [of_nat n]), p256_PublicKey = (\<lambda>e. 4 # replicate 64 0),
     p256_NewPublicKey = Some, p256_ECDH = (\<lambda>a b. Some (replicate 32 7)),
     p256_Unmarshal = (\<lambda>b. Some (0, 0)), p256_UnmarshalCompressed = (\<lambda>b. Some (0, 0)),
     p256_Marshal = (\<lambda>p. 4 # replicate 64 0), p256_MarshalCompressed = (\<lambda>p. 2 # replicate 32 0),
     sha256_Sum256 = (\<lambda>m. take 32 (m @ replicate 32 0)), hmac_sha256 = (\<lambda>k m. take 32 (k @ m @ replicate 32 0)),
     ctr_stream = (\<lambda>k iv n. replicate n 85)\<rparr>"

lemma length_demo_key [simp]: "length (demo_key e) = 32"
  by (simp add: demo_key_def)

lemma demo_crypto_laws: "crypto_laws demo_crypto"
proof -
  have "map2 (XOR) (demo_key e) (demo_key d) = map2 (XOR) (demo_key d) (demo_key e)" for e d
    by (rule nth_equalityI) (simp_all add: xor.commute)
  then show ?thesis by (auto simp: crypto_laws_def demo_crypto_def min_def)
qed

definition demo_pub :: HomeNetworkPublicKey where
  "demo_pub = \<lparr>pub_ProtectionScheme = ''1'', pub_PublicKey = Some (demo_key [9]), pub_PublicKeyID = ''1''\<rparr>"

definition demo_priv :: HomeNetworkPrivateKey where
  "demo_priv = \<lparr>priv_ProtectionScheme = ''1'', priv_PrivateKey = Some [9]\<rparr>"

text \<open>The null scheme as the configuration sets it up, and profile A.\<close>

definition demo_null :: HomeNetworkPublicKey where
  "demo_null = \<lparr>pub_ProtectionScheme = ''0'', pub_PublicKey = None, pub_PublicKeyID = ''0''\<rparr>"

lemma suci_roundtrip_witness:
  "(\<exists>s. CipherSuci demo_crypto 3 ''0000000120'' ''208'' ''93'' ''0'' demo_null = ok (Some s) \<and>
    ToSupi demo_crypto (Raw s) [] = ok ''imsi-208930000000120'') \<and>
   (\<exists>s. CipherSuci demo_crypto 3 ''0000000120'' ''208'' ''93'' ''0'' demo_pub = ok (Some s) \<and>
    ToSupi demo_crypto (Raw s) [demo_priv] = ok ''imsi-208930000000120'')"
proof -
  have "\<exists>s. CipherSuci demo_crypto 3 ''0000000120'' ''208'' ''93'' ''0'' demo_null = ok (Some s) \<and>
    ToSupi demo_crypto (Raw s) [] = ok (''imsi-'' @ ''208'' @ ''93'' @ ''0000000120'')"
    by (rule suci_roundtrip [OF demo_crypto_laws])
      (simp_all add: digits_def is_digit_def public_key_id_def demo_null_def)
  moreover have "\<exists>s. CipherSuci demo_crypto 3 ''0000000120'' ''208'' ''93'' ''0'' demo_pub = ok (Some s) \<and>
    ToSupi demo_crypto (Raw s) [demo_priv] = ok (''imsi-'' @ ''208'' @ ''93'' @ ''0000000120'')"
    by (rule suci_roundtrip [OF demo_crypto_laws])
      (simp_all add: digits_def is_digit_def public_key_id_def demo_pub_def demo_priv_def keys_match_def
        demo_crypto_def Atoi_def ParseInt_def ParseUint_def digit_val_def)
  ultimately show ?thesis by simp
qed

end
