(* ===== verification/UeDemo.thy ===== *)
theory UeDemo
  imports UeReach SuciProps
begin

text \<open>
  A concrete environment of a UE and a concrete run: the UE starts and connects, and asks for a
  PDU session. The NAS counter is that of the library (24 bits, overflow and sequence number); the
  codec and the algorithms are the simplest that keep messages apart.
\<close>

definition plain_other :: "byte list \<Rightarrow> NasMessage" where
  "plain_other b = \<lparr>nm_Gmm = None, nm_Gsm = None, nm_Other = b\<rparr>"

definition gmm_of :: "byte \<Rightarrow> GmmMessage" where
  "gmm_of t = \<lparr>GmmMessageType = t, body_AuthenticationRequest = None, body_SecurityModeCommand = None,
     body_RegistrationAccept = None, body_IdentityRequest = None, body_ConfigurationUpdateCommand = None,
     body_DLNASTransport = None, body_ServiceReject = None, body_RegistrationReject = None, body_Status5GMM = None\<rparr>"

definition demo_hdr :: "byte \<Rightarrow> nas_hdr" where
  "demo_hdr t = \<lparr>EPD = 126, SpareHalfOctet = 0, SecHdrType = 0, MessageIdentity = t\<rparr>"

definition demo_smc :: SecurityModeCommand where
  "demo_smc = \<lparr>smc_hdr = demo_hdr 93, smc_CipheringAlg = 0, smc_IntegrityAlg = 2, smc_ngksi_Spare = 0,
     smc_NasKeySetIdentifiler = 1, smc_TSC = ScType_NATIVE, smc_Replayed_IsZero = False, smc_RINMR = None\<rparr>"

definition demo_dl :: "byte list \<Rightarrow> DLNASTransport" where
  "demo_dl c = \<lparr>dl_hdr = demo_hdr 104, dl_PayloadType_IsZero = False, dl_PayloadType = 1, dl_Container_IsZero = False,
     dl_Contents = Some c, dl_PduSessionID2_Iei = Some 18\<rparr>"

definition demo_accept :: "byte \<Rightarrow> EstablishmentAccept" where
  "demo_accept i = \<lparr>ea_EPD = 46, ea_PDUSessionID = i, ea_PTI = 1, ea_MessageIdentity = 194, ea_SSCType_IsZero = False,
     ea_PDUSessionType = 1, ea_QosRules_IsZero = False, ea_AMBR_IsZero = False,
     ea_PDUAddress = Some [10, 45, 0, 2, 0, 0, 0, 0, 0, 0, 0, 0], ea_DNN = Some ''internet'', ea_SNSSAI = Some ()\<rparr>"

definition gsm_of :: "byte \<Rightarrow> GsmMessage" where
  "gsm_of t = \<lparr>GsmMessageType = t, body_EstablishmentAccept = None, body_ReleaseCommand = None,
     body_EstablishmentReject = None, body_Status5GSM = None\<rparr>"

text \<open>The messages the demonstration's core network sends, by their first octet.\<close>

definition demo_decode :: "byte list \<Rightarrow> NasMessage \<times> bool" where
  "demo_decode b =
     (let gmm = (\<lambda>g. \<lparr>nm_Gmm = Some g, nm_Gsm = None, nm_Other = b\<rparr>);
          gsm = (\<lambda>g. \<lparr>nm_Gmm = None, nm_Gsm = Some g, nm_Other = b\<rparr>) in
      case b of
        t # i # _ \<Rightarrow>
          if t = 201 then (gmm (gmm_of MsgTypeAuthenticationReject), False)
          else if t = 202 then (gmm ((gmm_of MsgTypeSecurityModeCommand)\<lparr>body_SecurityModeCommand := Some demo_smc\<rparr>), False)
          else if t = 203 then (gmm ((gmm_of MsgTypeDLNASTransport)\<lparr>body_DLNASTransport := Some (demo_dl [204, i])\<rparr>), False)
          else if t = 204 then (gsm ((gsm_of MsgTypePDUSessionEstablishmentAccept)\<lparr>body_EstablishmentAccept := Some (demo_accept i)\<rparr>), False)
          else if t = 205 then (gmm ((gmm_of MsgTypeDLNASTransport)\<lparr>body_DLNASTransport := Some (demo_dl [206, i])\<rparr>), False)
          else if t = 206 then (gsm ((gsm_of MsgTypePDUSessionReleaseCommand)\<lparr>body_ReleaseCommand := Some i\<rparr>), False)
          else (plain_other b, False)
      | _ \<Rightarrow> (plain_other b, False))"

definition gmm_tag :: "gmm_out \<Rightarrow> byte list" where
  "gmm_tag m = (case m of
       Out_RegistrationRequest _ \<Rightarrow> [1] | Out_AuthenticationResponse p \<Rightarrow> 2 # bytes_or_nil p
     | Out_AuthenticationFailure c p \<Rightarrow> 3 # c # bytes_or_nil p | Out_SecurityModeComplete _ \<Rightarrow> [4]
     | Out_RegistrationComplete _ \<Rightarrow> [5] | Out_ConfigurationUpdateComplete \<Rightarrow> [6] | Out_IdentityResponse _ \<Rightarrow> [7]
     | Out_DeregistrationRequest _ _ \<Rightarrow> [8] | Out_ServiceRequest _ \<Rightarrow> [9]
     | Out_ULNASTransport u \<Rightarrow> 10 # ul_PduSessionID2Value u # bytes_or_nil (ul_PayloadContainer u))"

definition gsm_tag :: "gsm_out \<Rightarrow> byte list" where
  "gsm_tag m = (case m of Out_EstablishmentRequest r \<Rightarrow> [11, gh_PDUSessionID (er_hdr r)]
     | Out_ReleaseRequest h \<Rightarrow> [12, gh_PDUSessionID h] | Out_ReleaseComplete h \<Rightarrow> [13, gh_PDUSessionID h])"

definition demo_uext :: uext where
  "demo_uext = \<lparr>ux_crypto = demo_crypto, ux_random = 0,
     GetSecurityHeaderType = (\<lambda>b. case b of e # h # _ \<Rightarrow> if e = 126 then h else 0 | _ \<Rightarrow> 0),
     PlainNasDecode = demo_decode, PlainNasEncode = (\<lambda>m. Some (nm_Other m)),
     GmmMessageEncode = (\<lambda>m. Some (gmm_tag m)), GsmMessageEncode = (\<lambda>m. Some (gsm_tag m)),
     NASEncrypt = (\<lambda>alg key n dir p. Some p),
     NASMacCalculate = (\<lambda>alg key n dir p. Some [alg, ucast n, sum_list p, if dir then 1 else 0]),
     Count_Get = (\<lambda>c. c AND 0xFFFFFF), Count_SQN = (\<lambda>c. ucast c), Count_Overflow = (\<lambda>c. ucast (drop_bit 8 c)),
     Count_Set = (\<lambda>ov sq c. push_bit 8 (ucast ov) OR ucast sq),
     Count_SetSQN = (\<lambda>sq c. (c AND 0xFFFFFF00) OR ucast sq),
     Count_SetOverflow = (\<lambda>ov c. (c AND 0xFF) OR push_bit 8 (ucast ov)),
     Count_AddOne = (\<lambda>c. c + 1),
     milenage_F1 = (\<lambda>opc k r sqn amf. (replicate 8 1, replicate 8 2)),
     milenage_F2345 = (\<lambda>opc k r. (replicate 8 3, replicate 16 4, replicate 16 5, replicate 6 0, replicate 6 6)),
     GetKDFValue = (\<lambda>k f ps. Some (replicate 32 7)), KDFLen = (\<lambda>p. [0, of_nat (length p)]),
     NNASEncAlg = 1, NNASIntAlg = 2,
     guti_SetID = (\<lambda>g. 1), guti_Pointer = (\<lambda>g. 1), guti_TMSI = (\<lambda>g. [0, 0, 0, 1]),
     chan_recv = (\<lambda>evs c. Some (zero_msg\<lparr>Mcc := ''208'', Mnc := ''93''\<rparr>)),
     kernel_ok = (\<lambda>evs op. True), link_by_name = (\<lambda>evs n. Some 7), ParseIP_String = (\<lambda>s. s)\<rparr>"

definition demo_ueconf :: UeConf where
  "demo_ueconf = \<lparr>conf_Msin = ''0000000120'', conf_Key = ''00'', conf_Opc = ''00'', conf_Amf = ''8000'',
     conf_Sqn = ''000000000001'', conf_Dnn = ''internet'', conf_ProtectionScheme = 0, conf_HomeNetworkPublicKey = [],
     conf_HomeNetworkPublicKeyID = 1, conf_RoutingIndicator = ''0000'', conf_Mcc = ''208'', conf_Mnc = ''93'',
     conf_Sst = 1, conf_Sd = ''010203'', conf_Nia = (False, False, True, False), conf_Nea = (True, False, False, False),
     conf_TunnelMode = TunnelTun\<rparr>"

definition demo_ctx0 :: UEContext where
  "demo_ctx0 = \<lparr>ue_id = 0, prUeId = 0, UeSecurity = zero_security, StateMM = MM5G_NULL, ue_gnbInboundChannel = 0,
     ue_gnbRx = None, ue_gnbTx = None, drx = None, PduSession = replicate 16 None, amf_mcc = [], amf_mnc = [],
     Dnn = [], Snssai_Sst = 0, Snssai_Sd = [], ue_TunnelMode = TunnelDisabled, scenarioChan = 0\<rparr>"

definition demo_gnb_session :: GnbPDUSession where
  "demo_gnb_session = zero_session\<lparr>pduSessionId := 1, upfIp := ''10.0.0.9'', uplinkTeid := 9, downlinkTeid := 5, qosId := 1\<rparr>"

definition demo_s0 :: ustate where
  "demo_s0 = \<lparr>ueC = demo_ctx0, usessH = (\<lambda>_. zero_usession), uGnbSess = (\<lambda>_. demo_gnb_session), uNextSess = 0,
     uNextChan = 2, uClosed = [], uevents = []\<rparr>"

text \<open>The state a computation ends in, if it returns.\<close>

definition after :: "('a \<times> ustate) res \<Rightarrow> ustate" where
  "after r = (case r of Ret (_, t) \<Rightarrow> t | _ \<Rightarrow> demo_s0)"

definition returns :: "'a res \<Rightarrow> bool" where
  "returns r \<longleftrightarrow> (case r of Ret _ \<Rightarrow> True | _ \<Rightarrow> False)"

definition demo_ue0 :: ustate where
  "demo_ue0 = after (NewUE demo_uext demo_ueconf 1 0 demo_s0)"

lemma returns_after: "returns r \<Longrightarrow> \<exists>x. r = Ret (x, after r)"
  by (auto simp: returns_def after_def split: res.splits prod.splits)

text \<open>What the properties look at in a state, evaluated once, and what was said to the gNodeB.\<close>

definition summary :: "ustate \<Rightarrow> (nat option list \<times> (byte \<times> chan \<times> state_sm) list \<times> chan option \<times> state_mm \<times> uchan list) \<times>
    (string \<times> string \<times> string \<times> string) \<times> (byte \<times> byte \<times> count \<times> count)" where
  "summary s = ((PduSession (ueC s), map (\<lambda>p. (us_Id (usessH s p), us_Wait (usessH s p), StateSM (usessH s p))) [0..<uNextSess s],
     ue_gnbRx (ueC s), StateMM (ueC s), uClosed s),
     (let a = AuthenticationSubs (sec s) in (OpcValue a, PermanentKeyValue a, SequenceNumber a, AuthenticationManagementField a)),
     (IntegrityAlg (sec s), CipheringAlg (sec s), ULCount (sec s), DLCount (sec s)))"

definition said :: "uevent \<Rightarrow> (chan \<times> bool) option" where
  "said e = (case e of ToGnb c m \<Rightarrow> Some (c, IsNas m) | _ \<Rightarrow> None)"

text \<open>A Security Mode Command.\<close>

definition demo_smc_msg :: "byte list" where
  "demo_smc_msg = [126, 3, 2, 0, 202, 0, 0, 202, 0]"

lemma said_Some: "said e = Some (c, b) \<longleftrightarrow> (\<exists>m. e = ToGnb c m \<and> IsNas m = b)"
  by (cases e) (auto simp: said_def)

text \<open>The runs of the demo and what is seen of them, in one evaluation.\<close>

definition demo_seen where
  "demo_seen =
     (case NewUE demo_uext demo_ueconf 1 0 demo_s0 of
        Ret (_, t0) \<Rightarrow>
          (case ueMgrHandler demo_uext NewPDUSession t0 of
             Ret (go, t1) \<Rightarrow> Some (go, summary t1, map said (uevents t0), map said (uevents t1),
               returns (DispatchNas demo_uext (Some demo_smc_msg) t1), returns (ueMgrHandler demo_uext Registration t0))
           | _ \<Rightarrow> None)
      | _ \<Rightarrow> None)"

lemma demo_seen:
  "demo_seen = Some (True,
     ((Some 0 # replicate 15 None, [(1, 5, SM5G_PDU_SESSION_ACTIVE_PENDING)], Some 3, MM5G_NULL, []),
      (''00'', ''00'', ''000000000001'', ''8000''), (2, 0, 1, 0)),
     [Some (0, False)], [Some (0, False), Some (3, True)], True, True)"
  by code_simp

definition demo_ue1 :: ustate where
  "demo_ue1 = after (ueMgrHandler demo_uext NewPDUSession demo_ue0)"

lemma demo_NewUE: "NewUE demo_uext demo_ueconf 1 0 demo_s0 = Ret ((), demo_ue0)"
  using demo_seen by (auto simp: demo_seen_def demo_ue0_def after_def split: res.splits)

lemma demo_NewPDUSession: "ueMgrHandler demo_uext NewPDUSession demo_ue0 = Ret (True, demo_ue1)"
  using demo_seen by (auto simp: demo_seen_def demo_NewUE demo_ue1_def after_def split: res.splits)

lemma demo_ue1_summary:
  "summary demo_ue1 = ((Some 0 # replicate 15 None, [(1, 5, SM5G_PDU_SESSION_ACTIVE_PENDING)], Some 3, MM5G_NULL, []),
     (''00'', ''00'', ''000000000001'', ''8000''), (2, 0, 1, 0))"
  and demo_said: "map said (uevents demo_ue0) = [Some (0, False)]" "map said (uevents demo_ue1) = [Some (0, False), Some (3, True)]"
  and demo_smc_returns: "returns (DispatchNas demo_uext (Some demo_smc_msg) demo_ue1)"
  and demo_Registration_returns: "returns (ueMgrHandler demo_uext Registration demo_ue0)"
  using demo_seen unfolding demo_seen_def demo_NewUE demo_NewPDUSession res.case prod.case by simp_all

lemma demo_ue0_reachable: "ue_reachable demo_uext (demo_ue0, True)"
  unfolding ue_reachable_def ue_start_def using demo_NewUE
  by (intro exI [of _ "(demo_ue0, True)"] conjI exI [of _ demo_ueconf] exI [of _ "1::int"] exI [of _ "0::nat"] exI [of _ demo_s0])
    (simp_all add: demo_s0_def)

lemma demo_ue1_reachable: "ue_reachable demo_uext (demo_ue1, True)"
proof -
  have "ue_step demo_uext (demo_ue0, True) (demo_ue1, True)"
    by (rule ue_step.from_scenario [OF demo_NewPDUSession]) (simp add: end_if_def)
  with demo_ue0_reachable show ?thesis
    unfolding ue_reachable_def by (meson rtranclp.rtrancl_into_rtrancl)
qed

lemma demo_ue1_facts:
  "PduSession (ueC demo_ue1) = Some 0 # replicate 15 None" "ue_gnbRx (ueC demo_ue1) = Some 3"
  "StateMM (ueC demo_ue1) = MM5G_NULL" "uClosed demo_ue1 = []"
  "OpcValue (AuthenticationSubs (sec demo_ue1)) = ''00''" "PermanentKeyValue (AuthenticationSubs (sec demo_ue1)) = ''00''"
  "SequenceNumber (AuthenticationSubs (sec demo_ue1)) = ''000000000001''"
  "AuthenticationManagementField (AuthenticationSubs (sec demo_ue1)) = ''8000''"
  "IntegrityAlg (sec demo_ue1) = 2" "CipheringAlg (sec demo_ue1) = 0" "ULCount (sec demo_ue1) = 1" "DLCount (sec demo_ue1) = 0"
  using demo_ue1_summary by (simp_all add: summary_def Let_def)

text \<open>The accept of the session, in an unprotected message.\<close>

definition demo_accept_msg :: UEMessage where
  "demo_accept_msg = zero_msg\<lparr>IsNas := True, Nas := Some [203, 1]\<rparr>"

definition demo_ue2 :: ustate where
  "demo_ue2 = upd_usess 0 (\<lambda>x. x\<lparr>StateSM := SM5G_PDU_SESSION_ACTIVE, ueIP := ''10.45.0.2''\<rparr>) demo_ue1"

lemma demo_decode_simps:
  "demo_decode [203, i] = (\<lparr>nm_Gmm = Some ((gmm_of MsgTypeDLNASTransport)\<lparr>body_DLNASTransport := Some (demo_dl [204, i])\<rparr>),
     nm_Gsm = None, nm_Other = [203, i]\<rparr>, False)"
  "demo_decode [204, i] = (\<lparr>nm_Gmm = None,
     nm_Gsm = Some ((gsm_of MsgTypePDUSessionEstablishmentAccept)\<lparr>body_EstablishmentAccept := Some (demo_accept i)\<rparr>),
     nm_Other = [204, i]\<rparr>, False)"
  "demo_decode [] = (plain_other [], False)"
  "demo_decode [b] = (plain_other [b], False)"
  "t < 201 \<Longrightarrow> demo_decode (t # r) = (plain_other (t # r), False)"
proof -
  show "t < 201 \<Longrightarrow> demo_decode (t # r) = (plain_other (t # r), False)"
    by (cases r) (auto simp: demo_decode_def Let_def)
qed (simp_all add: demo_decode_def Let_def)

lemma demo_dl_checks: "checks (dl_checks (demo_dl c)) = Ret ()"
  by (simp add: dl_checks_def demo_dl_def demo_hdr_def)

lemma demo_accept_checks: "i \<noteq> 0 \<Longrightarrow> checks (accept_checks (demo_accept i)) = Ret ()"
  by (simp add: accept_checks_def demo_accept_def Let_def)

lemma demo_accept_run: "gnbMsgHandler demo_uext demo_accept_msg demo_ue1 = Ret ((), demo_ue2)"
proof -
  have "ue_GetPduSession 1 demo_ue1 = Ret (Inr 0, demo_ue1)"
    by (simp add: ue_GetPduSession_apply idx_def demo_ue1_facts)
  moreover have "ue_GetPduSession 1 (upd_usess p f s) = (case ue_GetPduSession 1 s of Ret (r, _) \<Rightarrow> Ret (r, upd_usess p f s) | Fatal e \<Rightarrow> Fatal e | Panic x \<Rightarrow> Panic x | Hang \<Rightarrow> Hang)" for p f s
    by (simp add: ue_GetPduSession_apply idx_def split: option.split)
  moreover have ip: "show_nat 10 @ ''.'' @ show_nat 45 @ ''.'' @ show_nat 0 @ ''.'' @ show_nat 2 = ''10.45.0.2''"
    by code_simp
  ultimately have "establishment_accept (demo_accept 1) demo_ue1 = Ret ((), demo_ue2)"
    using demo_accept_checks [of 1]
    by (simp add: establishment_accept_def run_simps SetStateSM_def body_def SetIp_def idx_def demo_ue2_def demo_accept_def)
  then show ?thesis
    using demo_dl_checks
    by (simp add: gnbMsgHandler_def demo_accept_msg_def DispatchNas_def demo_uext_def sec_hdr_defs dispatch_gmm_def body_def
        demo_decode_simps run_simps gmm_of_def msg_type_defs HandlerDlNasTransportPduaccept_def GetNasPduFromPduAccept_def
        bytes_or_nil_def demo_dl_def gsm_of_def zero_msg_def)
qed

lemma demo_ue2_reachable: "ue_reachable demo_uext (demo_ue2, True)"
proof -
  have "ue_step demo_uext (demo_ue1, True) (demo_ue2, True)"
    by (rule ue_step.from_gnb [OF _ demo_accept_run]) (simp add: handover_ok_def demo_accept_msg_def zero_msg_def)
  with demo_ue1_reachable show ?thesis
    unfolding ue_reachable_def by (meson rtranclp.rtrancl_into_rtrancl)
qed

lemma demo_ue2_facts:
  "PduSession (ueC demo_ue2) = Some 0 # replicate 15 None" "ue_gnbRx (ueC demo_ue2) = Some 3"
  "StateMM (ueC demo_ue2) = MM5G_NULL" "uClosed demo_ue2 = []" "StateSM (usessH demo_ue2 0) = SM5G_PDU_SESSION_ACTIVE"
  by (simp_all add: demo_ue2_def demo_ue1_facts)

end
