(* ===== verification/UeSessions.thy ===== *)
theory UeSessions
  imports UeDemo
begin

text \<open>
  Properties of a UE's PDU sessions: the invariant of its reachable states, the choice of a
  slot, the limits of the identifiers, the bits that report sessions to the network.
\<close>

section \<open>Invariants of reachable states\<close>

text \<open>
  C2: In every state a UE reaches, there are sixteen session slots; the session in a slot has
  the slot's identifier and an open channel \<open>Wait\<close> of its own, and different slots hold
  different sessions.
\<close>

theorem ue_sessions_invariant:
  assumes "ue_reachable X (s, go)"
  shows "length (PduSession (ueC s)) = 16 \<and>
    (\<forall>i < 16. \<forall>p. PduSession (ueC s) ! i = Some p \<longrightarrow>
       us_Id (usessH s p) = of_nat (i + 1) \<and> WaitCh (us_Wait (usessH s p)) \<notin> set (uClosed s)) \<and>
    (\<forall>i < 16. \<forall>j < 16. \<forall>p q. i \<noteq> j \<longrightarrow> PduSession (ueC s) ! i = Some p \<longrightarrow> PduSession (ueC s) ! j = Some q \<longrightarrow>
       p \<noteq> q \<and> us_Wait (usessH s p) \<noteq> us_Wait (usessH s q))"
proof -
  have wf: "ue_wf go s" using assms by (rule ue_reachable_wf)
  have "p \<noteq> q \<and> us_Wait (usessH s p) \<noteq> us_Wait (usessH s q)"
    if "i < 16" "j < 16" "i \<noteq> j" "PduSession (ueC s) ! i = Some p" "PduSession (ueC s) ! j = Some q" for i j p q
    using ue_wf_inj [OF wf that(1,2), of p] that wf unfolding ue_wf_def by blast
  moreover have "us_Id (usessH s p) = of_nat (i + 1) \<and> WaitCh (us_Wait (usessH s p)) \<notin> set (uClosed s)"
    if "i < 16" "PduSession (ueC s) ! i = Some p" for i p
    using wf that unfolding ue_wf_def session_ok_def by blast
  ultimately show ?thesis using wf unfolding ue_wf_def by blast
qed

theorem ue_sessions_invariant_witness:
  "PduSession (ueC demo_ue1) ! 0 = Some 0 \<and> us_Id (usessH demo_ue1 0) = 1"
proof -
  have "PduSession (ueC demo_ue1) ! 0 = Some 0" by (simp add: demo_ue1_facts)
  moreover from this have "us_Id (usessH demo_ue1 0) = of_nat (0 + 1)"
    using ue_sessions_invariant [OF demo_ue1_reachable] by (metis zero_less_numeral)
  ultimately show ?thesis by simp
qed

text \<open>
  C5: A UE never sends on a closed channel and never closes a channel twice: in a reachable
  state of a running UE, handling a message of its gNodeB (with new channels if it is a handover),
  a command of the scenario, a paging check, a session timer or its termination does not panic
  that way.
\<close>

theorem ue_no_closed_channel_panic:
  assumes "ue_reachable X (s, True)"
  shows "(handover_ok msg s \<longrightarrow> gnbMsgHandler X msg s \<noteq> Panic ClosedChan) \<and>
    ueMgrHandler X m s \<noteq> Panic ClosedChan \<and> verifyPaging X s \<noteq> Panic ClosedChan \<and>
    T3580_expired X p s \<noteq> Panic ClosedChan \<and> ue_Terminate s \<noteq> Panic ClosedChan"
proof -
  have wf: "ue_wf True s" using assms by (rule ue_reachable_wf)
  show ?thesis
    using gnbMsgHandler_ok(1) [OF wf] safe_Panic [OF safe_ueMgrHandler wf] safe_Panic [OF safe_verifyPaging wf]
      safe_Panic [OF safe_sessions(4) wf] ue_Terminate_ok(1) [OF wf] by simp
qed

theorem ue_no_closed_channel_panic_witness:
  "ueMgrHandler demo_uext TerminateUe demo_ue1 \<noteq> Panic ClosedChan \<and> ue_Terminate demo_ue1 \<noteq> Panic ClosedChan"
  using ue_no_closed_channel_panic [OF demo_ue1_reachable, of zero_msg TerminateUe] by blast

section \<open>Slots and identifiers\<close>

text \<open>
  A new PDU session takes the least free slot: it gets the slot's identifier, is
  inactive, the other sessions and slots are as before, and it is found under its identifier if
  that is at most 15. With all sixteen slots taken the creation fails without effect, which ends
  the process when a session was asked for.
\<close>

theorem CreatePDUSession_least_slot:
  assumes "length (PduSession (ueC s)) = 16"
  shows "(\<exists>i < 16. PduSession (ueC s) ! i = None \<and> (\<forall>j < i. PduSession (ueC s) ! j \<noteq> None) \<and>
      (\<exists>p t. CreatePDUSession s = Ret (Inr p, t) \<and> PduSession (ueC t) = (PduSession (ueC s))[i := Some p] \<and>
         us_Id (usessH t p) = of_nat (i + 1) \<and> StateSM (usessH t p) = SM5G_PDU_SESSION_INACTIVE \<and>
         (\<forall>q. q \<noteq> p \<longrightarrow> usessH t q = usessH s q) \<and>
         (i < 15 \<longrightarrow> ue_GetPduSession (of_nat (i + 1)) t = Ret (Inr p, t)))) \<or>
    ((\<forall>i < 16. PduSession (ueC s) ! i \<noteq> None) \<and>
      (\<exists>e. CreatePDUSession s = Ret (Inl e, s) \<and> InitPduSessionRequest X s = Fatal e))"
proof (cases "free_slot 0 (PduSession (ueC s))")
  case None
  with assms have "\<forall>i < 16. PduSession (ueC s) ! i \<noteq> None" by (auto simp: free_slot_None in_set_conv_nth)
  moreover have "\<exists>e. CreatePDUSession s = Ret (Inl e, s) \<and> InitPduSessionRequest X s = Fatal e"
    by (simp add: CreatePDUSession_None [OF None] InitPduSessionRequest_def run_simps)
  ultimately show ?thesis by blast
next
  case (Some i)
  from free_slot_Some [OF Some] assms have i: "i < 16" "PduSession (ueC s) ! i = None" "\<forall>j < i. PduSession (ueC s) ! j \<noteq> None"
    by auto
  have "unat (of_nat i :: byte) = i" by (rule of_nat_inverse [OF refl]) (use i in simp)
  moreover have "\<not> 15 < (1 + of_nat i :: byte)" if "i < 15"
  proof -
    have "unat (of_nat (Suc i) :: byte) = Suc i" by (rule of_nat_inverse [OF refl]) (use that in simp)
    with that show ?thesis by (simp add: word_less_nat_alt)
  qed
  ultimately show ?thesis
    using i assms by - (rule disjI1, rule exI [of _ i],
      simp add: CreatePDUSession_Some [OF Some] zero_usession_def ue_GetPduSession_apply idx_def)
qed

theorem CreatePDUSession_least_slot_witness:
  "\<exists>p t. CreatePDUSession demo_ue1 = Ret (Inr p, t) \<and> us_Id (usessH t p) = 2"
proof -
  have len: "length (PduSession (ueC demo_ue1)) = 16"
    and full: "PduSession (ueC demo_ue1) ! 0 \<noteq> None" "PduSession (ueC demo_ue1) ! 1 = None"
    by (simp_all add: demo_ue1_facts)
  from CreatePDUSession_least_slot [OF len, of demo_uext] full(2)
  obtain i p t where i: "PduSession (ueC demo_ue1) ! i = None" "\<forall>j < i. PduSession (ueC demo_ue1) ! j \<noteq> None"
    and t: "CreatePDUSession demo_ue1 = Ret (Inr p, t)" "us_Id (usessH t p) = of_nat (i + 1)"
    by (metis one_less_numeral_iff semiring_norm(76))
  have "i = 1" using i full by (metis less_one linorder_neqE_nat)
  with t show ?thesis by auto
qed

text \<open>The sum of one bit per session, from some position on.\<close>

lemma add_bit:
  assumes "\<forall>m \<ge> n. \<not> bit (f :: u16) m"
  shows "bit (f + push_bit n (boolToUint16 b)) m \<longleftrightarrow> bit f m \<or> (m = n \<and> n < 16 \<and> b)"
proof -
  have "f AND push_bit n (boolToUint16 b) = 0"
    using assms by (intro bit_word_eqI) (auto simp: bit_simps boolToUint16_def)
  then have "f + push_bit n (boolToUint16 b) = f OR push_bit n (boolToUint16 b)"
    by (rule disjunctive_add_eq_or)
  then show ?thesis
    by (auto simp: bit_simps boolToUint16_def bit_1_iff dest: bit_imp_le_length)
qed

lemma pduFlag_loop:
  "\<forall>m > k. \<not> bit f m \<Longrightarrow>
    bit (foldl (\<lambda>f (i, p). f + push_bit (i + 1) (boolToUint16 (p \<noteq> None))) f (enumerate k ps)) m \<longleftrightarrow>
      bit f m \<or> (k < m \<and> m < 16 \<and> m \<le> k + length ps \<and> ps ! (m - k - 1) \<noteq> None)"
proof (induction ps arbitrary: k f)
  case (Cons p ps)
  let ?g = "f + push_bit (k + 1) (boolToUint16 (p \<noteq> None))"
  have g: "bit ?g n \<longleftrightarrow> bit f n \<or> (n = k + 1 \<and> k + 1 < 16 \<and> p \<noteq> None)" for n
    using Cons.prems by (intro add_bit) auto
  then have "\<forall>n > Suc k. \<not> bit ?g n" using Cons.prems by auto
  note ih = Cons.IH [OF this]
  have "(p # ps) ! (m - k - 1) = (if m = k + 1 then p else ps ! (m - Suc k - 1))" if "k < m"
    using that by (cases "m - k - 1") (auto simp: nth_Cons)
  with ih g [of m] show ?case by (cases "m = k + 1") auto
qed auto

text \<open>
  In the PDU session status a UE reports, bit \<open>n\<close> stands for the session of identifier
  \<open>n\<close>, for identifiers 1 to 15; bit 0 is clear, and a session of identifier 16 is not reported.
\<close>

theorem pduFlag_bits:
  assumes "length (PduSession ue) = 16"
  shows "bit (pduFlag ue) n \<longleftrightarrow> 1 \<le> n \<and> n \<le> 15 \<and> PduSession ue ! (n - 1) \<noteq> None"
  using assms pduFlag_loop [of 0 0 "PduSession ue" n] by (auto simp: pduFlag_def)

theorem pduFlag_bits_witness: "bit (pduFlag (ueC demo_ue1)) 1 \<and> \<not> bit (pduFlag (ueC demo_ue1)) 2"
proof -
  have "length (PduSession (ueC demo_ue1)) = 16" "PduSession (ueC demo_ue1) ! 0 \<noteq> None"
    "PduSession (ueC demo_ue1) ! 1 = None" by (simp_all add: demo_ue1_facts)
  then show ?thesis using pduFlag_bits [of "ueC demo_ue1"] by simp
qed

text \<open>
  C38: The last of the sixteen sessions a UE can create is out of reach: it cannot be looked up
  or deleted, so an accept for it is a nil dereference, a release command and the scenario's
  release of it are ignored. Identifier 0 is an index out of range in both operations.
\<close>

theorem session_16_out_of_reach:
  assumes "PduSession (ueC s) ! 15 = Some p" and "length (PduSession (ueC s)) = 16"
    and "ea_PDUSessionID m = 16" and "checks (accept_checks m) = Ret ()"
  shows "(\<exists>e. ue_GetPduSession 16 s = Ret (Inl e, s)) \<and> (\<exists>e. ue_DeletePduSession 16 s = Ret (Some e, s)) \<and>
    establishment_accept m s = Panic NilDeref \<and> release_command X 16 s = Ret ((), s) \<and>
    ueMgrHandler X (DestroyPDUSession 16) s = Ret (True, s) \<and>
    ue_GetPduSession 0 s = Panic IndexRange \<and> ue_DeletePduSession 0 s = Panic IndexRange"
  using assms by (simp add: ue_GetPduSession_apply ue_DeletePduSession_apply establishment_accept_def
      release_command_def ueMgrHandler_def run_simps idx_def unsigned_minus_1_eq_mask mask_eq_exp_minus_1)

definition demo_full :: ustate where
  "demo_full = demo_s0\<lparr>ueC := demo_ctx0\<lparr>PduSession := map Some [0..<16]\<rparr>\<rparr>"

theorem session_16_out_of_reach_witness:
  "establishment_accept (demo_accept 16) demo_full = Panic NilDeref \<and> PduSession (ueC demo_full) ! 15 = Some 15"
proof -
  have "PduSession (ueC demo_full) ! 15 = Some 15" "length (PduSession (ueC demo_full)) = 16"
    "ea_PDUSessionID (demo_accept 16) = 16" "checks (accept_checks (demo_accept 16)) = Ret ()"
    by code_simp+
  from session_16_out_of_reach [OF this] this(1) show ?thesis by simp
qed

end
