(* ===== verification/UeLifecycle.thy ===== *)
theory UeLifecycle
  imports UeDemo
begin

text \<open>
  The life of a PDU session on the side of the UE: request, accept, release, with what is sent
  and what is freed; a release the network starts; rejected requests and their timer.
\<close>

section \<open>What a protected message leaves alone\<close>

text \<open>The state with other NAS counters: all that protecting a message changes.\<close>

definition with_counts :: "count \<Rightarrow> count \<Rightarrow> ustate \<Rightarrow> ustate" where
  "with_counts ul dl = upd_sec (\<lambda>c. c\<lparr>ULCount := ul, DLCount := dl\<rparr>)"

lemma with_counts_simps [simp]:
  "PduSession (ueC (with_counts a b s)) = PduSession (ueC s)" "ue_gnbRx (ueC (with_counts a b s)) = ue_gnbRx (ueC s)"
  "StateMM (ueC (with_counts a b s)) = StateMM (ueC s)" "usessH (with_counts a b s) = usessH s"
  "uevents (with_counts a b s) = uevents s" "uClosed (with_counts a b s) = uClosed s"
  "scenarioChan (ueC (with_counts a b s)) = scenarioChan (ueC s)"
  "Kamf (sec (with_counts a b s)) = Kamf (sec s)"
  by (simp_all add: with_counts_def)

lemma with_counts_id: "with_counts (ULCount (sec s)) (DLCount (sec s)) s = s"
  by (simp add: with_counts_def)

lemma NASEncode_apply:
  "NASEncode X m hdr v n s =
     (let ul = (if v \<and> n then Count_Set X 0 0 (ULCount (sec s)) else ULCount (sec s));
          dl = (if v \<and> n then Count_Set X 0 0 (DLCount (sec s)) else DLCount (sec s)) in
      case PlainNasEncode X m of
        None \<Rightarrow> Ret (Inl ''PlainNasEncode'', with_counts ul dl s)
      | Some p \<Rightarrow>
          if \<not> v then Ret (Inr p, s)
          else case protect X ((sec s)\<lparr>ULCount := ul, DLCount := dl\<rparr>) hdr p of
              Inl e \<Rightarrow> Ret (Inl e, with_counts ul dl s)
            | Inr pdu \<Rightarrow> Ret (Inr pdu, with_counts (Count_AddOne X ul) dl s))"
  by (cases "PlainNasEncode X m"; cases v; cases n)
    (simp_all add: NASEncode_def run_simps with_counts_def Let_def split: sum.split)

lemma NASEncode_returns: "\<exists>r a b. NASEncode X m hdr v n s = Ret (r, with_counts a b s)"
  using with_counts_id [of s, symmetric] by (auto simp: NASEncode_apply Let_def split: option.split sum.split)

lemma protected_returns: "\<exists>r a b. protected_or_error X pdu s = Ret (r, with_counts a b s)"
  using NASEncode_returns with_counts_id [of s, symmetric]
  by (auto simp: protected_or_error_def EncodeNasPduWithSecurity_def split: prod.split)

lemma UlNasTransport_returns:
  "\<exists>r a b. Request_UlNasTransport X p s = Ret (r, with_counts a b s)"
  "\<exists>r a b. Release_UlNasTransport X p s = Ret (r, with_counts a b s)"
  "\<exists>r a b. ReleasComplete_UlNasTransport X p s = Ret (r, with_counts a b s)"
  using protected_returns
  by (simp_all add: Request_UlNasTransport_def Release_UlNasTransport_def ReleasComplete_UlNasTransport_def run_simps)

definition nas_msg :: "byte list \<Rightarrow> UEMessage" where
  "nas_msg pdu = zero_msg\<lparr>IsNas := True, Nas := Some pdu\<rparr>"

lemma SendToGnb_open:
  "ue_gnbRx (ueC s) = Some c \<Longrightarrow> MsgCh c \<notin> set (uClosed s) \<Longrightarrow>
    SendToGnb (Some pdu) s = Ret ((), emitU (ToGnb c (nas_msg pdu)) s)"
  by (simp add: SendToGnb_def SendToGnbMsg_def nas_msg_def)

lemma ue_wf_session: "ue_wf go s \<Longrightarrow> i < 16 \<Longrightarrow> PduSession (ueC s) ! i = Some p \<Longrightarrow> session_ok s i p"
  by (simp add: ue_wf_def)

lemma ue_wf_length: "ue_wf go s \<Longrightarrow> length (PduSession (ueC s)) = 16"
  by (simp add: ue_wf_def)

lemma reachable_rx: "ue_reachable X (s, go) \<Longrightarrow> ue_gnbRx (ueC s) = Some c \<Longrightarrow> MsgCh c \<notin> set (uClosed s)"
  using ue_reachable_wf [of X s go] by (simp add: ue_wf_def)

lemma byte_slot:
  "1 \<le> i \<Longrightarrow> i \<le> 15 \<Longrightarrow> unat (of_nat i - 1 :: byte) = i - 1"
  "i \<le> 15 \<Longrightarrow> \<not> 15 < (of_nat i :: byte)"
proof -
  have u: "unat (of_nat j :: byte) = j" if "j \<le> 15" for j
    by (rule of_nat_inverse [OF refl]) (use that in simp)
  show "1 \<le> i \<Longrightarrow> i \<le> 15 \<Longrightarrow> unat (of_nat i - 1 :: byte) = i - 1"
    using u [of "i - 1"] by (simp add: of_nat_diff)
  show "i \<le> 15 \<Longrightarrow> \<not> 15 < (of_nat i :: byte)" by (simp add: word_less_nat_alt u)
qed

lemma session_found:
  "length (PduSession (ueC s)) = 16 \<Longrightarrow> 1 \<le> i \<Longrightarrow> i \<le> 15 \<Longrightarrow> PduSession (ueC s) ! (i - 1) = Some p \<Longrightarrow>
    ue_GetPduSession (of_nat i) s = Ret (Inr p, s)"
  by (simp add: ue_GetPduSession_apply idx_def byte_slot)

section \<open>Establishment\<close>

text \<open>
  C18: A request for a PDU session that the encoder accepts is sent to the gNodeB, once, and
  leaves the session pending; the accept for its identifier then makes it active, with the first
  four octets of the PDU address as its address, and changes no other session.
\<close>

theorem session_establishment:
  assumes "ue_reachable X (s, True)" and "ue_gnbRx (ueC s) = Some c"
    and "1 \<le> i" and "i \<le> 15" and "PduSession (ueC s) ! (i - 1) = Some p"
    and "Request_UlNasTransport X p s = Ret (Inr pdu, s1)"
    and "ea_PDUSessionID m = of_nat i" and "checks (accept_checks m) = Ret ()"
    and "ea_PDUAddress m = Some (a # b # d # e # rest)" and "ea_DNN m \<noteq> None" and "ea_SNSSAI m \<noteq> None"
  shows "\<exists>t u. InitPduSessionRequestInner X p s = Ret ((), t) \<and>
      uevents t = uevents s @ [ToGnb c (nas_msg pdu)] \<and>
      StateSM (usessH t p) = SM5G_PDU_SESSION_ACTIVE_PENDING \<and>
      establishment_accept m t = Ret ((), u) \<and> StateSM (usessH u p) = SM5G_PDU_SESSION_ACTIVE \<and>
      ueIP (usessH u p) = show_nat (unat a) @ ''.'' @ show_nat (unat b) @ ''.'' @ show_nat (unat d) @ ''.'' @ show_nat (unat e) \<and>
      (\<forall>q. q \<noteq> p \<longrightarrow> usessH u q = usessH s q) \<and> PduSession (ueC u) = PduSession (ueC s) \<and> uevents u = uevents t"
proof -
  obtain ul dl where s1: "s1 = with_counts ul dl s"
    using UlNasTransport_returns(1) [of X p s] assms(6) by auto
  have wf: "ue_wf True s" using assms(1) by (rule ue_reachable_wf)
  have closed: "MsgCh c \<notin> set (uClosed s)" using assms(1,2) by (rule reachable_rx)
  let ?t = "emitU (ToGnb c (nas_msg pdu)) (upd_usess p (\<lambda>x. x\<lparr>StateSM := SM5G_PDU_SESSION_ACTIVE_PENDING\<rparr>) s1)"
  have t: "InitPduSessionRequestInner X p s = Ret ((), ?t)"
    using assms(2,6) closed by (simp add: InitPduSessionRequestInner_def sent_or_fatal_def run_simps SetStateSM_def
        SendToGnb_def SendToGnbMsg_def nas_msg_def s1)
  have look: "ue_GetPduSession (of_nat i) ?t = Ret (Inr p, ?t)"
    using assms(3-5) wf by (intro session_found) (simp_all add: s1 ue_wf_def)
  let ?u = "upd_usess p (\<lambda>x. x\<lparr>ueIP := show_nat (unat a) @ ''.'' @ show_nat (unat b) @ ''.'' @ show_nat (unat d) @ ''.'' @ show_nat (unat e)\<rparr>)
     (upd_usess p (\<lambda>x. x\<lparr>StateSM := SM5G_PDU_SESSION_ACTIVE\<rparr>) ?t)"
  have "establishment_accept m ?t = Ret ((), ?u)"
    using assms(7-11) look by (auto simp: establishment_accept_def run_simps SetStateSM_def body_def SetIp_def idx_def)
  then show ?thesis
    by (intro exI [of _ ?t] exI [of _ ?u] conjI t) (simp_all add: s1)
qed

section \<open>Release\<close>

text \<open>The state after a session is taken out of its slot.\<close>

definition deleted :: "nat \<Rightarrow> nat \<Rightarrow> ustate \<Rightarrow> ustate" where
  "deleted i p s = s\<lparr>uClosed := WaitCh (us_Wait (usessH s p)) # uClosed s,
     uevents := uevents s @ Closed (WaitCh (us_Wait (usessH s p))) #
       (case stopSignal (usessH s p) of None \<Rightarrow> [] | Some c \<Rightarrow> [StopSignal c]),
     ueC := (ueC s)\<lparr>PduSession := (PduSession (ueC s))[i - 1 := None]\<rparr>\<rparr>"

lemma deleted_simps [simp]:
  "usessH (deleted i p s) = usessH s" "ue_gnbRx (ueC (deleted i p s)) = ue_gnbRx (ueC s)"
  "PduSession (ueC (deleted i p s)) = (PduSession (ueC s))[i - 1 := None]"
  "MsgCh c \<in> set (uClosed (deleted i p s)) \<longleftrightarrow> MsgCh c \<in> set (uClosed s)"
  by (simp_all add: deleted_def)

lemma release_command_known:
  assumes wf: "ue_wf go s" and i: "1 \<le> i" "i \<le> 15" and p: "PduSession (ueC s) ! (i - 1) = Some p"
  shows "release_command X (of_nat i) s = InitPduSessionReleaseComplete X p (deleted i p s)"
proof -
  have len: "length (PduSession (ueC s)) = 16" by (rule ue_wf_length [OF wf])
  have w: "WaitCh (us_Wait (usessH s p)) \<notin> set (uClosed s)"
    "\<not> (\<exists>c. stopSignal (usessH s p) = Some c \<and> StopCh c \<in> set (uClosed s))"
    using ue_wf_session [OF wf _ p] i by (auto simp: session_ok_def)
  have "ue_DeletePduSession (of_nat i) s = Ret (None, deleted i p s)"
    using len i p w by (simp add: ue_DeletePduSession_apply idx_def byte_slot Let_def deleted_def)
  with session_found [OF len i p] show ?thesis by (simp add: release_command_def run_simps)
qed

text \<open>
  C19: The scenario's release of an active session sends one Release Request and makes the
  session inactive. The network's Release Command then closes the session's channel, stops its data
  plane if it has one, frees its slot and is answered with a Release Complete.
\<close>

theorem session_release:
  assumes "ue_reachable X (s, True)" and "ue_gnbRx (ueC s) = Some c"
    and "1 \<le> i" and "i \<le> 15" and "PduSession (ueC s) ! (i - 1) = Some p"
    and "StateSM (usessH s p) = SM5G_PDU_SESSION_ACTIVE" and "Release_UlNasTransport X p s = Ret (Inr req, s1)"
  shows "\<exists>t. ueMgrHandler X (DestroyPDUSession (of_nat i)) s = Ret (True, t) \<and>
      uevents t = uevents s @ [ToGnb c (nas_msg req)] \<and> StateSM (usessH t p) = SM5G_PDU_SESSION_INACTIVE \<and>
      (\<forall>pdu s2. ReleasComplete_UlNasTransport X p (deleted i p t) = Ret (Inr pdu, s2) \<longrightarrow>
         (\<exists>u. release_command X (of_nat i) t = Ret ((), u) \<and> PduSession (ueC u) = (PduSession (ueC s))[i - 1 := None] \<and>
           WaitCh (us_Wait (usessH s p)) \<in> set (uClosed u) \<and>
           uevents u = uevents t @ Closed (WaitCh (us_Wait (usessH s p))) #
             (case stopSignal (usessH s p) of None \<Rightarrow> [] | Some d \<Rightarrow> [StopSignal d]) @ [ToGnb c (nas_msg pdu)]))"
proof -
  obtain ul dl where s1: "s1 = with_counts ul dl s"
    using UlNasTransport_returns(2) [of X p s] assms(7) by auto
  have wf: "ue_wf True s" using assms(1) by (rule ue_reachable_wf)
  have closed: "MsgCh c \<notin> set (uClosed s)" using assms(1,2) by (rule reachable_rx)
  have len: "length (PduSession (ueC s)) = 16" using wf by (simp add: ue_wf_def)
  let ?t = "emitU (ToGnb c (nas_msg req)) (upd_usess p (\<lambda>x. x\<lparr>StateSM := SM5G_PDU_SESSION_INACTIVE\<rparr>) s1)"
  have t: "ueMgrHandler X (DestroyPDUSession (of_nat i)) s = Ret (True, ?t)"
    using assms(2,6,7) closed session_found [OF len assms(3-5)]
    by (simp add: ueMgrHandler_def run_simps InitPduSessionRelease_def sent_or_fatal_def SetStateSM_def
        SendToGnb_def SendToGnbMsg_def nas_msg_def s1)
  have wft: "ue_wf True ?t" by (rule safe_Ret [OF safe_ueMgrHandler wf t])
  have cmd: "release_command X (of_nat i) ?t = InitPduSessionReleaseComplete X p (deleted i p ?t)"
    by (rule release_command_known [OF wft assms(3,4)]) (use assms(5) in \<open>simp add: s1\<close>)
  have "\<exists>u. release_command X (of_nat i) ?t = Ret ((), u) \<and> PduSession (ueC u) = (PduSession (ueC s))[i - 1 := None] \<and>
      WaitCh (us_Wait (usessH s p)) \<in> set (uClosed u) \<and>
      uevents u = uevents ?t @ Closed (WaitCh (us_Wait (usessH s p))) #
        (case stopSignal (usessH s p) of None \<Rightarrow> [] | Some d \<Rightarrow> [StopSignal d]) @ [ToGnb c (nas_msg pdu)]"
    if r: "ReleasComplete_UlNasTransport X p (deleted i p ?t) = Ret (Inr pdu, s2)" for pdu s2
  proof -
    obtain a b where s2: "s2 = with_counts a b (deleted i p ?t)"
      using UlNasTransport_returns(3) [of X p "deleted i p ?t"] r by auto
    let ?u = "emitU (ToGnb c (nas_msg pdu)) s2"
    have "release_command X (of_nat i) ?t = Ret ((), ?u)"
      using r assms(2) closed unfolding cmd
      by (simp add: InitPduSessionReleaseComplete_def sent_or_fatal_def run_simps s2 s1 SendToGnb_open del: upd_usess_def emitU_def)
        (simp add: SendToGnb_open)
    then show ?thesis
      by (intro exI [of _ ?u] conjI) (simp_all add: s2 s1 deleted_def)
  qed
  with t show ?thesis by (intro exI [of _ ?t] conjI) (simp_all add: s1)
qed

text \<open>
  A session the network releases on its own account, while it is active or pending, is
  freed without an answer: nothing is sent to the gNodeB, although a Release Complete is due.
\<close>

theorem network_release_unanswered:
  assumes "ue_reachable X (s, True)" and "1 \<le> i" and "i \<le> 15" and "PduSession (ueC s) ! (i - 1) = Some p"
    and "StateSM (usessH s p) \<noteq> SM5G_PDU_SESSION_INACTIVE"
  shows "\<exists>t. release_command X (of_nat i) s = Ret ((), t) \<and> PduSession (ueC t) ! (i - 1) = None \<and>
    (\<forall>c m. ToGnb c m \<in> set (uevents t) \<longrightarrow> ToGnb c m \<in> set (uevents s))"
proof -
  have wf: "ue_wf True s" using assms(1) by (rule ue_reachable_wf)
  from release_command_known [OF wf assms(2-4)] assms(5)
  have "release_command X (of_nat i) s = Ret ((), deleted i p s)"
    by (simp add: InitPduSessionReleaseComplete_def run_simps)
  moreover have "length (PduSession (ueC s)) = 16" using wf by (simp add: ue_wf_def)
  ultimately show ?thesis using assms(2,3)
    by (intro exI [of _ "deleted i p s"]) (auto simp: deleted_def split: option.splits)
qed

section \<open>Witnesses\<close>

lemma demo_encodes:
  "\<exists>pdu a b. Request_UlNasTransport demo_uext p s = Ret (Inr pdu, with_counts a b s)"
  "\<exists>pdu a b. Release_UlNasTransport demo_uext p s = Ret (Inr pdu, with_counts a b s)"
  "\<exists>pdu a b. ReleasComplete_UlNasTransport demo_uext p s = Ret (Inr pdu, with_counts a b s)"
proof -
  have "\<exists>pdu a b. protected_or_error demo_uext (Some (10 # r)) s = Ret (Inr pdu, with_counts a b s)" for r
    by (simp add: protected_or_error_def EncodeNasPduWithSecurity_def NASEncode_apply demo_uext_def bytes_or_nil_def
        demo_decode_simps protect_def Let_def) blast
  then show "\<exists>pdu a b. Request_UlNasTransport demo_uext p s = Ret (Inr pdu, with_counts a b s)"
    "\<exists>pdu a b. Release_UlNasTransport demo_uext p s = Ret (Inr pdu, with_counts a b s)"
    "\<exists>pdu a b. ReleasComplete_UlNasTransport demo_uext p s = Ret (Inr pdu, with_counts a b s)"
    by (simp_all add: Request_UlNasTransport_def Release_UlNasTransport_def ReleasComplete_UlNasTransport_def run_simps
        getUlNasTransport_PduSessionEstablishmentRequest_def getUlNasTransport_PduSessionEstablishmentRelease_def
        getUlNasTransport_PduSessionReleaseComplete_def getUlNasTransport_def demo_uext_def gmm_tag_def)
qed

theorem session_establishment_witness:
  "\<exists>t u. InitPduSessionRequestInner demo_uext 0 demo_ue1 = Ret ((), t) \<and>
     establishment_accept (demo_accept 1) t = Ret ((), u) \<and> StateSM (usessH u 0) = SM5G_PDU_SESSION_ACTIVE"
proof -
  obtain pdu a b where pdu: "Request_UlNasTransport demo_uext 0 demo_ue1 = Ret (Inr pdu, with_counts a b demo_ue1)"
    using demo_encodes(1) by blast
  have "PduSession (ueC demo_ue1) ! (1 - 1) = Some 0" by (simp add: demo_ue1_facts)
  from session_establishment [OF demo_ue1_reachable demo_ue1_facts(2) order_refl _ this pdu _ demo_accept_checks [of 1]]
  show ?thesis by (simp add: demo_accept_def) blast
qed

theorem session_release_witness:
  "\<exists>t. ueMgrHandler demo_uext (DestroyPDUSession 1) demo_ue2 = Ret (True, t) \<and> StateSM (usessH t 0) = SM5G_PDU_SESSION_INACTIVE \<and>
     (\<exists>u. release_command demo_uext 1 t = Ret ((), u) \<and> PduSession (ueC u) ! 0 = None)"
proof -
  obtain pdu a b where pdu: "Release_UlNasTransport demo_uext 0 demo_ue2 = Ret (Inr pdu, with_counts a b demo_ue2)"
    using demo_encodes(2) by blast
  have p: "PduSession (ueC demo_ue2) ! (1 - 1) = Some 0" by (simp add: demo_ue2_facts)
  from session_release [OF demo_ue2_reachable demo_ue2_facts(2) order_refl _ p demo_ue2_facts(5) pdu]
  obtain t where t: "ueMgrHandler demo_uext (DestroyPDUSession 1) demo_ue2 = Ret (True, t)"
    "StateSM (usessH t 0) = SM5G_PDU_SESSION_INACTIVE"
    and c: "\<And>pdu s2. ReleasComplete_UlNasTransport demo_uext 0 (deleted 1 0 t) = Ret (Inr pdu, s2) \<Longrightarrow>
      \<exists>u. release_command demo_uext 1 t = Ret ((), u) \<and> PduSession (ueC u) = (PduSession (ueC demo_ue2))[0 := None]"
    by fastforce
  from demo_encodes(3) [of 0 "deleted 1 0 t"] c
  obtain u where "release_command demo_uext 1 t = Ret ((), u)" "PduSession (ueC u) = (PduSession (ueC demo_ue2))[0 := None]"
    by blast
  with t show ?thesis by (auto simp: demo_ue2_facts)
qed

theorem network_release_unanswered_witness:
  "\<exists>t. release_command demo_uext 1 demo_ue2 = Ret ((), t) \<and> PduSession (ueC t) ! 0 = None"
  using network_release_unanswered [OF demo_ue2_reachable order_refl, of 0] by (fastforce simp: demo_ue2_facts)

end
