(* ===== verification/UeSecurity.thy ===== *)
theory UeSecurity
  imports UeLifecycle
begin

text \<open>
  Properties of the NAS security of a UE: the layout of a protected message, which received
  messages are dropped, accepted or trusted too early, the outcomes of authentication, and the
  security mode procedure.
\<close>

text \<open>The demonstration's environment, field by field.\<close>

lemma demo_uext_simps:
  "GetSecurityHeaderType demo_uext (e # h # r) = (if e = 126 then h else 0)"
  "PlainNasDecode demo_uext = demo_decode" "PlainNasEncode demo_uext m = Some (nm_Other m)"
  "GmmMessageEncode demo_uext g = Some (gmm_tag g)" "GsmMessageEncode demo_uext h' = Some (gsm_tag h')"
  "NASEncrypt demo_uext alg key n dir p = Some p"
  "NASMacCalculate demo_uext alg key n dir p = Some [alg, ucast n, sum_list p, if dir then 1 else 0]"
  "Count_Get demo_uext c = c AND 0xFFFFFF" "Count_SQN demo_uext c = ucast c"
  "Count_Overflow demo_uext c = ucast (drop_bit 8 c)" "Count_Set demo_uext ov sq c = push_bit 8 (ucast ov) OR ucast sq"
  "Count_SetSQN demo_uext sq c = (c AND 0xFFFFFF00) OR ucast sq"
  "Count_SetOverflow demo_uext ov c = (c AND 0xFF) OR push_bit 8 (ucast ov)" "Count_AddOne demo_uext c = c + 1"
  "milenage_F1 demo_uext opc k rnd sqn amf = (replicate 8 1, replicate 8 2)"
  "milenage_F2345 demo_uext opc k rnd = (replicate 8 3, replicate 16 4, replicate 16 5, replicate 6 0, replicate 6 6)"
  "GetKDFValue demo_uext k f ps = Some (replicate 32 7)"
  by (simp_all add: demo_uext_def)

section \<open>Sent messages\<close>

text \<open>
  C22: A protected message is the discriminator, the header type, a MAC over sequence number
  and payload under the UE's integrity key and uplink count, the sequence number of that count, and
  the payload, ciphered unless the header type asks for integrity only. The uplink count is
  advanced by one, and nothing else of the UE changes.
\<close>

theorem NASEncode_layout:
  assumes "NASEncode X m hdr True False s = Ret (Inr pdu, t)"
  shows "\<exists>p q mac. PlainNasEncode X m = Some p \<and>
      (if hdr = SecurityHeaderTypeIntegrityProtected \<or>
          hdr = SecurityHeaderTypeIntegrityProtectedWithNew5gNasSecurityContext then q = p
       else NASEncrypt X (CipheringAlg (sec s)) (KnasEnc (sec s)) (Count_Get X (ULCount (sec s))) True p = Some q) \<and>
      NASMacCalculate X (IntegrityAlg (sec s)) (KnasInt (sec s)) (Count_Get X (ULCount (sec s))) True
        (Count_SQN X (ULCount (sec s)) # q) = Some mac \<and>
      pdu = [126, hdr] @ mac @ Count_SQN X (ULCount (sec s)) # q \<and>
      t = upd_sec (\<lambda>c. c\<lparr>ULCount := Count_AddOne X (ULCount c)\<rparr>) s"
  using assms
  by (auto simp: NASEncode_apply protect_def Let_def with_counts_def Epd5GSMobilityManagementMessage_def
      split: option.splits if_splits)

theorem NASEncode_layout_witness:
  "\<exists>pdu t. NASEncode demo_uext (plain_other [10, 1]) 2 True False demo_ue1 = Ret (Inr pdu, t) \<and>
     (\<exists>mac. pdu = [126, 2] @ mac @ Count_SQN demo_uext (ULCount (sec demo_ue1)) # [10, 1])"
proof -
  obtain pdu t where run: "NASEncode demo_uext (plain_other [10, 1]) 2 True False demo_ue1 = Ret (Inr pdu, t)"
    by (simp add: NASEncode_apply demo_uext_simps plain_other_def protect_def Let_def sec_hdr_defs)
  from NASEncode_layout [OF run] run show ?thesis
    by (auto simp: demo_uext_simps plain_other_def sec_hdr_defs)
qed

section \<open>Received messages\<close>

text \<open>The state with the downlink count taken from a received sequence number.\<close>

definition counted :: "uext \<Rightarrow> byte \<Rightarrow> ustate \<Rightarrow> ustate" where
  "counted X q s = with_counts (ULCount (sec s))
     (Count_SetSQN X q (if Count_SQN X (DLCount (sec s)) > q
        then Count_SetOverflow X (Count_Overflow X (DLCount (sec s)) + 1) (DLCount (sec s)) else DLCount (sec s))) s"

lemma count_downlink_apply: "count_downlink X q s = Ret ((), counted X q s)"
  by (simp add: count_downlink_def counted_def with_counts_def Let_def)

text \<open>Removing the protection of a message that is neither plain nor of a new security context.\<close>

lemma unprotect_apply:
  assumes "hdr \<noteq> SecurityHeaderTypeIntegrityProtectedWithNew5gNasSecurityContext"
    and "hdr \<noteq> SecurityHeaderTypeIntegrityProtectedAndCipheredWithNew5gNasSecurityContext"
    and "7 \<le> length msg"
  shows "unprotect X hdr msg s =
    (let t = counted X (msg ! 6) s in
     case decipher X (hdr = SecurityHeaderTypeIntegrityProtectedAndCiphered) (drop 7 msg) (sec t) of
       None \<Rightarrow> Ret (None, t)
     | Some plain \<Rightarrow> Ret (if mac_ok X (take 4 (drop 2 msg)) (drop 6 msg) (sec t)
         then Some (fst (PlainNasDecode X plain)) else None, t))"
  using assms by (simp add: unprotect_def run_simps idx_def slice_def count_downlink_apply Let_def split: option.split)

definition verified :: "uext \<Rightarrow> byte list \<Rightarrow> ustate \<Rightarrow> bool" where
  "verified X msg s = mac_ok X (take 4 (drop 2 msg)) (drop 6 msg) (sec (counted X (msg ! 6) s))"

text \<open>
  C24: A message under one of the header types 1 and 2 (integrity protected, or integrity
  protected and ciphered, in the current security context) whose MAC is not the one computed
  under the UE's integrity key and downlink count, or whose payload cannot be deciphered, is
  dropped: nothing is sent, no state or session changes; all that changes is the downlink count,
  which is taken from the message before its MAC is checked. A message with such a header of
  less than seven octets panics. The header types 3 and 4 of a new security context are not
  covered: for type 3 keys and algorithms are replaced before the MAC is checked.
\<close>

theorem unverified_message_dropped:
  assumes "GetSecurityHeaderType X msg AND 15 = hdr"
    and "hdr = SecurityHeaderTypeIntegrityProtected \<or> hdr = SecurityHeaderTypeIntegrityProtectedAndCiphered"
    and "dl = Count_SetSQN X (msg ! 6)
      (if msg ! 6 < Count_SQN X (DLCount (sec s))
       then Count_SetOverflow X (Count_Overflow X (DLCount (sec s)) + 1) (DLCount (sec s)) else DLCount (sec s))"
  shows "(7 \<le> length msg \<longrightarrow>
      NASMacCalculate X (IntegrityAlg (sec s)) (KnasInt (sec s)) (Count_Get X dl) False (drop 6 msg) \<noteq> Some (take 4 (drop 2 msg)) \<or>
      (hdr = SecurityHeaderTypeIntegrityProtectedAndCiphered \<and>
       NASEncrypt X (CipheringAlg (sec s)) (KnasEnc (sec s)) (Count_Get X dl) False (drop 7 msg) = None) \<longrightarrow>
      DispatchNas X (Some msg) s = Ret ((), upd_sec (\<lambda>c. c\<lparr>DLCount := dl\<rparr>) s)) \<and>
    (length msg < 7 \<longrightarrow> DispatchNas X (Some msg) s = Panic IndexRange)"
proof (intro conjI impI)
  have ne: "hdr \<noteq> SecurityHeaderTypePlainNas"
    "hdr \<noteq> SecurityHeaderTypeIntegrityProtectedWithNew5gNasSecurityContext"
    "hdr \<noteq> SecurityHeaderTypeIntegrityProtectedAndCipheredWithNew5gNasSecurityContext"
    using assms(2) by (auto simp: sec_hdr_defs)
  have t: "counted X (msg ! 6) s = upd_sec (\<lambda>c. c\<lparr>DLCount := dl\<rparr>) s"
    by (simp add: counted_def with_counts_def assms(3))
  {
    assume len: "7 \<le> length msg"
      and v: "NASMacCalculate X (IntegrityAlg (sec s)) (KnasInt (sec s)) (Count_Get X dl) False (drop 6 msg) \<noteq> Some (take 4 (drop 2 msg)) \<or>
        (hdr = SecurityHeaderTypeIntegrityProtectedAndCiphered \<and>
         NASEncrypt X (CipheringAlg (sec s)) (KnasEnc (sec s)) (Count_Get X dl) False (drop 7 msg) = None)"
    show "DispatchNas X (Some msg) s = Ret ((), upd_sec (\<lambda>c. c\<lparr>DLCount := dl\<rparr>) s)"
      using assms(1) ne v unprotect_apply [OF ne(2,3) len, of X s]
      by (auto simp: DispatchNas_def run_simps Let_def t mac_ok_def decipher_def split: option.splits if_splits)
  next
    assume "length msg < 7"
    then show "DispatchNas X (Some msg) s = Panic IndexRange"
      using assms(1) ne(1) by (simp add: DispatchNas_def unprotect_def run_simps idx_def Let_def)
  }
qed

theorem unverified_message_dropped_witness:
  "DispatchNas demo_uext (Some [126, 2, 0, 0, 0, 0, 1, 201, 0]) demo_ue1 =
      Ret ((), upd_sec (\<lambda>c. c\<lparr>DLCount := Count_SetSQN demo_uext 1
        (if 1 < Count_SQN demo_uext (DLCount (sec demo_ue1))
         then Count_SetOverflow demo_uext (Count_Overflow demo_uext (DLCount (sec demo_ue1)) + 1) (DLCount (sec demo_ue1))
         else DLCount (sec demo_ue1))\<rparr>) demo_ue1) \<and>
   DispatchNas demo_uext (Some [126, 2, 0]) demo_ue1 = Panic IndexRange"
proof -
  have h: "GetSecurityHeaderType demo_uext (126 # 2 # r) AND 15 = 2" for r by (simp add: demo_uext_simps)
  have two: "(2 :: byte) = SecurityHeaderTypeIntegrityProtected \<or> (2 :: byte) = SecurityHeaderTypeIntegrityProtectedAndCiphered"
    by (simp add: sec_hdr_defs)
  have "NASMacCalculate demo_uext a k c False [1, 201, 0] \<noteq> Some [0, 0, 0, 0]" for a k c
    by (simp add: demo_uext_simps)
  with unverified_message_dropped [OF h two refl, of "[0, 0, 0, 0, 1, 201, 0]" demo_ue1]
    unverified_message_dropped [OF h two refl, of "[0]" demo_ue1]
  show ?thesis by simp
qed

text \<open>
  C23: A message with integrity protection (and ciphering, if its header type says so) whose MAC
  is right is handed to the handler of the message that its payload deciphers and decodes to, in
  the state with the downlink count of its sequence number.
\<close>

theorem verified_message_dispatched:
  assumes "GetSecurityHeaderType X msg AND 15 = hdr"
    and "hdr = SecurityHeaderTypeIntegrityProtected \<or> hdr = SecurityHeaderTypeIntegrityProtectedAndCiphered"
    and "msg = epd # h # mac @ q # payload" and "length mac = 4" and "verified X msg s"
    and "(if hdr = SecurityHeaderTypeIntegrityProtectedAndCiphered
          then NASEncrypt X (CipheringAlg (sec s)) (KnasEnc (sec s)) (Count_Get X (DLCount (sec (counted X q s)))) False payload
          else Some payload) = Some plain"
  shows "DispatchNas X (Some msg) s = dispatch_gmm X (fst (PlainNasDecode X plain)) (counted X q s)"
proof -
  have msg: "msg ! 6 = q" "drop 7 msg = payload" "7 \<le> length msg"
    using assms(4) by (simp_all add: assms(3) nth_append numeral_eq_Suc)
  have k: "CipheringAlg (sec (counted X q s)) = CipheringAlg (sec s)" "KnasEnc (sec (counted X q s)) = KnasEnc (sec s)"
    by (simp_all add: counted_def with_counts_def)
  have ne: "hdr \<noteq> SecurityHeaderTypePlainNas"
    "hdr \<noteq> SecurityHeaderTypeIntegrityProtectedWithNew5gNasSecurityContext"
    "hdr \<noteq> SecurityHeaderTypeIntegrityProtectedAndCipheredWithNew5gNasSecurityContext"
    using assms(2) by (auto simp: sec_hdr_defs)
  have "unprotect X hdr msg s = Ret (Some (fst (PlainNasDecode X plain)), counted X q s)"
    using assms(5,6) by (simp add: unprotect_apply [OF ne(2,3) msg(3)] msg verified_def decipher_def k split: if_splits)
  then show ?thesis
    using assms(1) ne(1) by (simp add: DispatchNas_def run_simps Let_def)
qed

definition demo_secure :: ustate where
  "demo_secure = upd_sec (\<lambda>c. c\<lparr>IntegrityAlg := 2, CipheringAlg := 0, ULCount := 0, DLCount := 0\<rparr>) demo_ue1"

definition demo_protected :: "byte list" where
  "demo_protected = [126, 1, 2, 7, 208, 0, 7, 201, 0]"

lemma demo_verified: "verified demo_uext demo_protected demo_secure"
  by (simp add: verified_def mac_ok_def demo_uext_simps demo_secure_def demo_protected_def counted_def with_counts_def)

theorem verified_message_dispatched_witness:
  "DispatchNas demo_uext (Some demo_protected) demo_secure =
     dispatch_gmm demo_uext (fst (demo_decode [201, 0])) (counted demo_uext 7 demo_secure)"
proof -
  have "GetSecurityHeaderType demo_uext demo_protected AND 15 = 1"
    "demo_protected = 126 # 1 # [2, 7, 208, 0] @ 7 # [201, 0]" "length [2 :: byte, 7, 208, 0] = 4"
    by (simp_all add: demo_protected_def demo_uext_simps)
  from verified_message_dispatched [OF this(1) _ this(2,3) demo_verified] show ?thesis
    by (simp add: demo_uext_simps sec_hdr_defs)
qed

text \<open>
  C37: Replay: when a message under header type 1 or 2 has been accepted, and so handed to its
  handler, the same octets are accepted and handed to the same handler again, in every state
  that has the downlink count, the algorithms and the keys the first time left; the second time
  changes no count. (The two laws of the count say that a sequence number that is set is read
  back, and that setting the one already there changes nothing.)
\<close>

theorem replayed_message_accepted:
  assumes "GetSecurityHeaderType X msg AND 15 = hdr"
    and "hdr = SecurityHeaderTypeIntegrityProtected \<or> hdr = SecurityHeaderTypeIntegrityProtectedAndCiphered"
    and "unprotect X hdr msg s = Ret (Some m, t)"
    and "\<And>q c. Count_SQN X (Count_SetSQN X q c) = q" and "\<And>q c. Count_SQN X c = q \<Longrightarrow> Count_SetSQN X q c = c"
    and "DLCount (sec u) = DLCount (sec t)"
    and "IntegrityAlg (sec u) = IntegrityAlg (sec t)" and "KnasInt (sec u) = KnasInt (sec t)"
    and "CipheringAlg (sec u) = CipheringAlg (sec t)" and "KnasEnc (sec u) = KnasEnc (sec t)"
  shows "DispatchNas X (Some msg) s = dispatch_gmm X m t \<and>
    unprotect X hdr msg u = Ret (Some m, u) \<and> DispatchNas X (Some msg) u = dispatch_gmm X m u"
proof -
  let ?q = "msg ! 6"
  have ne: "hdr \<noteq> SecurityHeaderTypePlainNas"
    "hdr \<noteq> SecurityHeaderTypeIntegrityProtectedWithNew5gNasSecurityContext"
    "hdr \<noteq> SecurityHeaderTypeIntegrityProtectedAndCipheredWithNew5gNasSecurityContext"
    using assms(2) by (auto simp: sec_hdr_defs)
  have len: "7 \<le> length msg"
    using assms(3) by (auto simp: unprotect_def run_simps idx_def split: if_splits)
  note removal = unprotect_apply [OF ne(2,3) len, of X]
  from assms(3) obtain plain where
    t: "t = counted X ?q s" and plain: "decipher X (hdr = SecurityHeaderTypeIntegrityProtectedAndCiphered) (drop 7 msg) (sec t) = Some plain"
    and mac: "mac_ok X (take 4 (drop 2 msg)) (drop 6 msg) (sec t)" and m: "m = fst (PlainNasDecode X plain)"
    by (auto simp: removal Let_def split: option.splits if_splits)
  have "Count_SQN X (DLCount (sec u)) = ?q"
    using assms(4,6) by (simp add: t counted_def with_counts_def)
  moreover from this have "Count_SetSQN X ?q (DLCount (sec u)) = DLCount (sec u)" by (rule assms(5))
  ultimately have "counted X ?q u = u" by (simp add: counted_def with_counts_id)
  moreover have "decipher X b p (sec u) = decipher X b p (sec t)" "mac_ok X r p (sec u) = mac_ok X r p (sec t)" for b p r
    using assms(6-10) by (simp_all add: decipher_def mac_ok_def)
  ultimately have again: "unprotect X hdr msg u = Ret (Some m, u)"
    by (simp add: removal plain mac m)
  show ?thesis
    using assms(1,3) ne(1) again by (simp add: DispatchNas_def run_simps Let_def)
qed

lemma bit_count_mask: "n < 32 \<Longrightarrow> bit (0xFFFFFF00 :: int) n \<longleftrightarrow> 8 \<le> n"
  by (simp add: numeral_eq_Suc less_Suc_eq) (auto simp: bit_simps)

lemma demo_sqn_laws:
  "Count_SQN demo_uext (Count_SetSQN demo_uext q c) = q"
  "Count_SQN demo_uext c = q \<Longrightarrow> Count_SetSQN demo_uext q c = c"
proof -
  show "Count_SQN demo_uext (Count_SetSQN demo_uext q c) = q"
    unfolding demo_uext_simps by (rule bit_word_eqI) (auto simp: bit_ucast_iff bit_or_iff bit_and_iff bit_count_mask)
  have "(c AND 0xFFFFFF00) OR ucast (ucast c :: byte) = c"
    by (rule bit_word_eqI) (auto simp: bit_ucast_iff bit_or_iff bit_and_iff bit_count_mask)
  then show "Count_SQN demo_uext c = q \<Longrightarrow> Count_SetSQN demo_uext q c = c"
    by (auto simp: demo_uext_simps)
qed

theorem replayed_message_accepted_witness:
  "DispatchNas demo_uext (Some demo_protected) (counted demo_uext 7 demo_secure) =
     dispatch_gmm demo_uext (fst (demo_decode [201, 0])) (counted demo_uext 7 demo_secure)"
proof -
  have h: "GetSecurityHeaderType demo_uext demo_protected AND 15 = 1"
    by (simp add: demo_protected_def demo_uext_simps)
  have one: "(1 :: byte) = SecurityHeaderTypeIntegrityProtected \<or> (1 :: byte) = SecurityHeaderTypeIntegrityProtectedAndCiphered"
    by (simp add: sec_hdr_defs)
  have "unprotect demo_uext 1 demo_protected demo_secure =
      Ret (Some (fst (demo_decode [201, 0])), counted demo_uext 7 demo_secure)"
    using demo_verified unprotect_apply [of 1 demo_protected demo_uext demo_secure]
    by (simp add: demo_protected_def sec_hdr_defs decipher_def verified_def demo_uext_simps)
  from replayed_message_accepted [OF h one this demo_sqn_laws refl refl refl refl refl] show ?thesis by blast
qed

section \<open>The security mode procedure\<close>

text \<open>The context a Security Mode Command brings: counts reset, algorithms and keys replaced.\<close>

definition smc_context :: "uext \<Rightarrow> SecurityModeCommand \<Rightarrow> byte list \<times> byte list \<Rightarrow> byte \<Rightarrow> ustate \<Rightarrow> ustate" where
  "smc_context X m keys q s =
     upd_sec (\<lambda>c. c\<lparr>DLCount := Count_Set X 0 0 (DLCount c), CipheringAlg := smc_CipheringAlg m,
       IntegrityAlg := smc_IntegrityAlg m, KnasEnc := fst keys, KnasInt := snd keys\<rparr>) (counted X q s)"

definition smc_received :: "uext \<Rightarrow> byte list \<Rightarrow> GmmMessage \<Rightarrow> SecurityModeCommand \<Rightarrow> bool" where
  "smc_received X msg g m \<longleftrightarrow> 7 \<le> length msg \<and>
     GetSecurityHeaderType X msg AND 15 = SecurityHeaderTypeIntegrityProtectedWithNew5gNasSecurityContext \<and>
     nm_Gmm (fst (PlainNasDecode X (drop 7 msg))) = Some g \<and>
     GmmMessageType g = MsgTypeSecurityModeCommand \<and> body_SecurityModeCommand g = Some m"

lemma unprotect_smc:
  assumes "smc_received X msg g m"
    and "AlgorithmKeyDerivation X (smc_CipheringAlg m) (Kamf (sec s)) (smc_IntegrityAlg m)
      (KnasEnc (sec s), KnasInt (sec s)) = Ret (keys, bad)"
  shows "unprotect X SecurityHeaderTypeIntegrityProtectedWithNew5gNasSecurityContext msg s =
    (let t = smc_context X m keys (msg ! 6) s in
     Ret (if mac_ok X (take 4 (drop 2 msg)) (drop 6 msg) (sec t) then Some (fst (PlainNasDecode X (drop 7 msg))) else None, t))"
  using assms
  by (cases keys) (simp add: smc_received_def unprotect_def run_simps idx_def slice_def count_downlink_apply decipher_def
      sec_hdr_defs new_context_def body_def DerivateAlgKey_def smc_context_def counted_def with_counts_def)

text \<open>
  C36: A Security Mode Command in a new security context replaces the algorithms and the NAS
  keys, and resets the downlink count, before its MAC is checked: with a wrong MAC the message is
  dropped, but the UE keeps the algorithms its sender chose.
\<close>

theorem forged_security_mode_command:
  assumes "smc_received X msg g m"
    and "AlgorithmKeyDerivation X (smc_CipheringAlg m) (Kamf (sec s)) (smc_IntegrityAlg m)
      (KnasEnc (sec s), KnasInt (sec s)) = Ret (keys, bad)"
    and "\<not> mac_ok X (take 4 (drop 2 msg)) (drop 6 msg) (sec (smc_context X m keys (msg ! 6) s))"
  shows "\<exists>t. DispatchNas X (Some msg) s = Ret ((), t) \<and> uevents t = uevents s \<and>
    CipheringAlg (sec t) = smc_CipheringAlg m \<and> IntegrityAlg (sec t) = smc_IntegrityAlg m \<and>
    KnasEnc (sec t) = fst keys \<and> KnasInt (sec t) = snd keys"
proof -
  have "GetSecurityHeaderType X msg AND 15 = SecurityHeaderTypeIntegrityProtectedWithNew5gNasSecurityContext"
    using assms(1) by (simp add: smc_received_def)
  with unprotect_smc [OF assms(1,2)] assms(3)
  have "DispatchNas X (Some msg) s = Ret ((), smc_context X m keys (msg ! 6) s)"
    by (simp add: DispatchNas_def run_simps Let_def sec_hdr_defs)
  then show ?thesis by (simp add: smc_context_def counted_def)
qed

definition demo_forged :: "byte list" where
  "demo_forged = [126, 3, 0, 0, 0, 0, 9, 202, 0]"

lemma demo_smc_received:
  "smc_received demo_uext (126 # 3 # a # b # c # d # q # [202, 0])
     ((gmm_of MsgTypeSecurityModeCommand)\<lparr>body_SecurityModeCommand := Some demo_smc\<rparr>) demo_smc"
  by (simp add: smc_received_def demo_uext_simps sec_hdr_defs demo_decode_def Let_def gmm_of_def)

lemma demo_derivation:
  "AlgorithmKeyDerivation demo_uext a k i ks = Ret ((replicate 16 7, replicate 16 7), False)"
  by (simp add: AlgorithmKeyDerivation_def demo_uext_simps slice_def Let_def numeral_eq_Suc)

theorem forged_security_mode_command_witness:
  "\<exists>t. DispatchNas demo_uext (Some demo_forged) demo_secure = Ret ((), t) \<and> KnasInt (sec t) = replicate 16 7"
proof -
  have "\<not> mac_ok demo_uext (take 4 (drop 2 demo_forged)) (drop 6 demo_forged)
    (sec (smc_context demo_uext demo_smc (replicate 16 7, replicate 16 7) (demo_forged ! 6) demo_secure))"
    by (simp add: mac_ok_def demo_forged_def demo_uext_simps smc_context_def demo_smc_def)
  from forged_security_mode_command [OF demo_smc_received [of 0 0 0 0 9, folded demo_forged_def] demo_derivation this]
  show ?thesis by auto
qed

lemma sent_or_fatal_Ret:
  "sent_or_fatal e m f s = Ret (x, t) \<Longrightarrow> \<exists>pdu w. m s = Ret (Inr pdu, w) \<and> f pdu w = Ret (x, t)"
proof (cases "m s")
  case (Ret rw)
  then show "sent_or_fatal e m f s = Ret (x, t) \<Longrightarrow> ?thesis"
    by (cases rw; cases "fst rw") (auto simp: sent_or_fatal_def bindM_apply)
qed (simp_all add: sent_or_fatal_def bindM_apply)

lemma EncodeNasPdu_Inr:
  "EncodeNasPduWithSecurity X pdu hdr v n s = Ret (Inr out, w) \<Longrightarrow> \<exists>m. NASEncode X m hdr v n s = Ret (Inr out, w)"
  by (auto simp: EncodeNasPduWithSecurity_def split: prod.splits if_splits)

text \<open>
  C11: A Security Mode Command whose MAC is right under the keys it brings is answered with a
  Security Mode Complete, protected under these keys with a fresh uplink count of which the next one
  is kept; the UE then holds the algorithms, the keys and the key set identifier of the command.
\<close>

theorem security_mode_procedure:
  assumes "ue_reachable X (s, True)" and "ue_gnbRx (ueC s) = Some c" and "smc_received X msg g m"
    and "AlgorithmKeyDerivation X (smc_CipheringAlg m) (Kamf (sec s)) (smc_IntegrityAlg m)
      (KnasEnc (sec s), KnasInt (sec s)) = Ret (keys, bad)"
    and "mac_ok X (take 4 (drop 2 msg)) (drop 6 msg) (sec (smc_context X m keys (msg ! 6) s))"
    and "checks (security_mode_checks m) = Ret ()"
    and "DispatchNas X (Some msg) s = Ret ((), t)"
  shows "let zero = Count_Set X 0 0 (ULCount (sec s)) in
    ULCount (sec t) = Count_AddOne X zero \<and> CipheringAlg (sec t) = smc_CipheringAlg m \<and>
    IntegrityAlg (sec t) = smc_IntegrityAlg m \<and> KnasEnc (sec t) = fst keys \<and> KnasInt (sec t) = snd keys \<and>
    Ksi (sec t) = uint (smc_NasKeySetIdentifiler m) \<and>
    (\<exists>p q mac. NASEncrypt X (smc_CipheringAlg m) (fst keys) (Count_Get X zero) True p = Some q \<and>
       NASMacCalculate X (smc_IntegrityAlg m) (snd keys) (Count_Get X zero) True (Count_SQN X zero # q) = Some mac \<and>
       uevents t = uevents s @ [ToGnb c (nas_msg ([126, 4] @ mac @ Count_SQN X zero # q))])"
proof -
  let ?u = "smc_context X m keys (msg ! 6) s"
  define v where "v = upd_sec (\<lambda>c. c\<lparr>Ksi := uint (smc_NasKeySetIdentifiler m), Tsc := smc_TSC m\<rparr>) ?u"
  have hdr: "GetSecurityHeaderType X msg AND 15 = SecurityHeaderTypeIntegrityProtectedWithNew5gNasSecurityContext"
    and g: "GmmMessageType g = MsgTypeSecurityModeCommand" "body_SecurityModeCommand g = Some m"
      "nm_Gmm (fst (PlainNasDecode X (drop 7 msg))) = Some g"
    using assms(3) by (simp_all add: smc_received_def)
  have closed: "MsgCh c \<notin> set (uClosed s)" using assms(1,2) by (rule reachable_rx)
  have "DispatchNas X (Some msg) s = HandlerSecurityModeCommand X g ?u"
    using unprotect_smc [OF assms(3,4)] assms(5) hdr g
    by (simp add: DispatchNas_def run_simps Let_def sec_hdr_defs dispatch_gmm_def body_def msg_type_defs)
  also have "\<dots> = sent_or_fatal ''Error sending Security Mode Complete''
      (SecurityModeComplete X (case smc_RINMR m of None \<Rightarrow> 0 | Some r \<Rightarrow> r)) (\<lambda>pdu. SendToGnb (Some pdu)) v"
    using g(2) assms(6) by (simp add: HandlerSecurityModeCommand_def run_simps body_def v_def)
  finally have "\<dots> = Ret ((), t)" using assms(7) by simp
  from sent_or_fatal_Ret [OF this] obtain pdu w where w: "SecurityModeComplete X (case smc_RINMR m of None \<Rightarrow> 0 | Some r \<Rightarrow> r) v = Ret (Inr pdu, w)"
    and t: "SendToGnb (Some pdu) w = Ret ((), t)"
    by blast
  have vs: "uevents v = uevents s" "ue_gnbRx (ueC v) = Some c" "uClosed v = uClosed s" "ULCount (sec v) = ULCount (sec s)"
    "CipheringAlg (sec v) = smc_CipheringAlg m" "IntegrityAlg (sec v) = smc_IntegrityAlg m"
    "KnasEnc (sec v) = fst keys" "KnasInt (sec v) = snd keys" "Ksi (sec v) = uint (smc_NasKeySetIdentifiler m)"
    using assms(2) by (simp_all add: v_def smc_context_def counted_def with_counts_def)
  obtain mm where w': "NASEncode X mm SecurityHeaderTypeIntegrityProtectedAndCipheredWithNew5gNasSecurityContext True True v = Ret (Inr pdu, w)"
    using w EncodeNasPdu_Inr by (fastforce simp: SecurityModeComplete_def run_simps)
  from w' have "ue_gnbRx (ueC w) = Some c" "MsgCh c \<notin> set (uClosed w)" "uevents w = uevents s"
    using closed vs(1-3) by (auto simp: NASEncode_apply Let_def split: option.splits sum.splits)
  then have tt: "t = emitU (ToGnb c (nas_msg pdu)) w" "uevents w = uevents s"
    using t SendToGnb_open by simp_all
  from w' show ?thesis unfolding tt(1)
    by (auto simp: NASEncode_apply protect_def Let_def with_counts_def vs tt(2) Epd5GSMobilityManagementMessage_def sec_hdr_defs
        split: option.splits)
qed

theorem security_mode_procedure_witness:
  "\<exists>t. DispatchNas demo_uext (Some demo_smc_msg) demo_ue1 = Ret ((), t) \<and> Ksi (sec t) = 1 \<and> KnasInt (sec t) = replicate 16 7"
proof -
  from returns_after [OF demo_smc_returns] obtain t where t: "DispatchNas demo_uext (Some demo_smc_msg) demo_ue1 = Ret ((), t)" by auto
  have mac: "mac_ok demo_uext (take 4 (drop 2 demo_smc_msg)) (drop 6 demo_smc_msg)
    (sec (smc_context demo_uext demo_smc (replicate 16 7, replicate 16 7) (demo_smc_msg ! 6) demo_ue1))"
    by (simp add: mac_ok_def demo_smc_msg_def demo_uext_simps smc_context_def demo_smc_def)
  have checks: "checks (security_mode_checks demo_smc) = Ret ()"
    by (simp add: security_mode_checks_def demo_smc_def demo_hdr_def)
  from security_mode_procedure [OF demo_ue1_reachable demo_ue1_facts(2)
      demo_smc_received [of 2 0 202 0 0, folded demo_smc_msg_def] demo_derivation mac checks t] t
  show ?thesis by (auto simp: Let_def demo_smc_def)
qed

text \<open>
  A Security Mode Command that selects the null algorithms 5G-EA0 and 5G-IA0 ends the
  process: the octet of the selected algorithms is then zero, which the handler takes for a missing
  element. A UE whose capabilities include both null algorithms starts with exactly these.
\<close>

theorem null_algorithms_are_fatal:
  assumes "body_SecurityModeCommand g = Some m" and "smc_CipheringAlg m = 0" and "smc_IntegrityAlg m = 0"
    and "smc_hdr m = \<lparr>EPD = 126, SpareHalfOctet = 0, SecHdrType = 0, MessageIdentity = 93\<rparr>"
  shows "HandlerSecurityModeCommand X g s = Fatal ''Error in Security Mode Command, NAS Security Algorithms is missing'' \<and>
    (IA0 c \<and> EA0 c \<longrightarrow> SelectAlgorithms c = (0, 0))"
  using assms by (simp add: HandlerSecurityModeCommand_def body_def run_simps security_mode_checks_def SelectAlgorithms_def)

theorem null_algorithms_are_fatal_witness:
  "HandlerSecurityModeCommand demo_uext
     ((gmm_of MsgTypeSecurityModeCommand)\<lparr>body_SecurityModeCommand := Some (demo_smc\<lparr>smc_IntegrityAlg := 0\<rparr>)\<rparr>) demo_ue1 =
   Fatal ''Error in Security Mode Command, NAS Security Algorithms is missing''"
  using null_algorithms_are_fatal [of "(gmm_of MsgTypeSecurityModeCommand)\<lparr>body_SecurityModeCommand := Some (demo_smc\<lparr>smc_IntegrityAlg := 0\<rparr>)\<rparr>"]
  by (simp add: demo_smc_def demo_hdr_def)

section \<open>Authentication\<close>

definition opt_nas_msg :: "byte list option \<Rightarrow> UEMessage" where
  "opt_nas_msg pdu = zero_msg\<lparr>IsNas := True, Nas := pdu\<rparr>"

text \<open>What the UE computes from its key material and a challenge.\<close>

definition challenge_ok :: "uext \<Rightarrow> AuthenticationSubscription \<Rightarrow> byte list \<Rightarrow> byte list \<Rightarrow> byte list \<Rightarrow> byte list \<Rightarrow> bool" where
  "challenge_ok X a opc k sqn amf \<longleftrightarrow> hex_decode (OpcValue a) = (opc, False) \<and>
     hex_decode (PermanentKeyValue a) = (k, False) \<and> hex_decode (SequenceNumber a) = (sqn, False) \<and>
     hex_decode (AuthenticationManagementField a) = (amf, False) \<and> length sqn = 6"

lemma DeriveRESstar_apply:
  assumes "challenge_ok X a opc k sqn amf" and "length autn = 16"
    and "milenage_F2345 X opc k R = (RES, CK, IK, AK, AKstar)"
  shows "DeriveRESstarAndSetKey X a R snn autn s =
    (let sqnHn = xor_bytes (take 6 autn) AK in
     if fst (milenage_F1 X opc k R sqnHn amf) \<noteq> drop 8 autn then Ret ((None, ''MAC failure''), s)
     else if bytes_less sqnHn sqn
     then Ret ((Some (xor_bytes sqn AKstar @ snd (milenage_F1 X opc k R sqn [0, 0])), ''SQN failure''), s)
     else bindR (kamf_of X (Supi (sec s)) (CK @ IK) snn sqnHn AK) (\<lambda>kamf.
       bindR (kdf_or_fatal X ''Error while deriving KDF'' (CK @ IK) FC_RES_STAR [str_bytes snn, R, RES]) (\<lambda>v.
         Ret ((Some (drop (length v div 2) v), ''successful''), upd_sec (\<lambda>c. c\<lparr>Kamf := kamf\<rparr>) s))))"
proof -
  have split: "slice autn 0 6 = Ret (take 6 autn)" "slice autn 6 8 = Ret (take 2 (drop 6 autn))"
    "slice autn 8 (length autn) = Ret (drop 8 autn)"
    using assms(2) by (simp_all add: slice_def)
  have dec: "hex_or_fatal e (OpcValue a) = Ret opc" "hex_or_fatal e (PermanentKeyValue a) = Ret k"
    "hex_or_fatal e (SequenceNumber a) = Ret sqn" "hex_or_fatal e (AuthenticationManagementField a) = Ret amf" for e
    using assms(1) by (simp_all add: challenge_ok_def hex_or_fatal_def)
  have six: "length sqn = 6" using assms(1) by (simp add: challenge_ok_def)
  show ?thesis
    using assms(3) six
    by (simp add: DeriveRESstarAndSetKey_def run_simps dec deriveAUTN_def split auts_def DerivateKamf_def Let_def
        bindR_assoc liftR_def case_prod_beta')
qed

lemma SendToGnb_opt:
  "ue_gnbRx (ueC s) = Some c \<Longrightarrow> MsgCh c \<notin> set (uClosed s) \<Longrightarrow>
    SendToGnb pdu s = Ret ((), emitU (ToGnb c (opt_nas_msg pdu)) s)"
  by (simp add: SendToGnb_def SendToGnbMsg_def opt_nas_msg_def)

text \<open>
  C9: An authentication challenge has one of three outcomes. If the MAC of its AUTN is not the
  one of Milenage under the UE's key, the UE sends an Authentication Failure with cause 20. If the
  MAC is right but the sequence number is behind the UE's, it sends cause 21 with the AUTS of its own
  sequence number. In both cases nothing else changes. Otherwise it stores the key \<open>Kamf\<close>
  derived from the challenge, becomes registered-initiated and sends the first sixteen octets of RES*.
\<close>

theorem authentication_outcomes:
  assumes "ue_reachable X (s, True)" and "ue_gnbRx (ueC s) = Some c"
    and "body_AuthenticationRequest g = Some m" and "checks (authentication_checks m) = Ret ()"
    and "ar_RAND m = Some R" and "ar_AUTN m = Some autn" and "length autn = 16"
    and "challenge_ok X (AuthenticationSubs (sec s)) opc k sqn amf"
    and "milenage_F2345 X opc k R = (RES, CK, IK, AK, AKstar)"
    and "sqnHn = xor_bytes (take 6 autn) AK" and "mac_a = fst (milenage_F1 X opc k R sqnHn amf)"
  shows "(mac_a \<noteq> drop 8 autn \<longrightarrow> HandlerAuthenticationRequest X g s =
      Ret ((), emitU (ToGnb c (opt_nas_msg (GmmMessageEncode X (Out_AuthenticationFailure 20 None)))) s)) \<and>
    (mac_a = drop 8 autn \<and> bytes_less sqnHn sqn \<longrightarrow> HandlerAuthenticationRequest X g s =
      Ret ((), emitU (ToGnb c (opt_nas_msg (GmmMessageEncode X (Out_AuthenticationFailure 21
        (Some (xor_bytes sqn AKstar @ snd (milenage_F1 X opc k R sqn [0, 0]))))))) s)) \<and>
    (\<forall>kamf v. mac_a = drop 8 autn \<and> \<not> bytes_less sqnHn sqn \<and>
      kamf_of X (Supi (sec s)) (CK @ IK) (Snn (sec s)) sqnHn AK = Ret kamf \<and>
      kdf_or_fatal X ''Error while deriving KDF'' (CK @ IK) FC_RES_STAR [str_bytes (Snn (sec s)), R, RES] = Ret v \<and>
      length v = 32 \<longrightarrow>
      (\<exists>t. HandlerAuthenticationRequest X g s = Ret ((), t) \<and> Kamf (sec t) = kamf \<and>
        StateMM (ueC t) = MM5G_REGISTERED_INITIATED \<and>
        uevents t = uevents s @ [ToScenario MM5G_REGISTERED_INITIATED,
          ToGnb c (opt_nas_msg (GmmMessageEncode X (Out_AuthenticationResponse (Some (drop 16 v)))))]))"
proof -
  have closed: "MsgCh c \<notin> set (uClosed s)" using assms(1,2) by (rule reachable_rx)
  have scen: "ScenarioCh (scenarioChan (ueC s)) \<notin> set (uClosed s)"
    using ue_reachable_wf [OF assms(1)] by (simp add: ue_wf_def)
  have run: "HandlerAuthenticationRequest X g s =
      bindR (DeriveRESstarAndSetKey X (AuthenticationSubs (sec s)) R (Snn (sec s)) autn s)
        (\<lambda>((p, check), t). bindM (authentication_answer X p check) SendToGnb t)"
    using assms(3-6) by (simp add: HandlerAuthenticationRequest_def body_def run_simps case_prod_beta')
  note d = DeriveRESstar_apply [OF assms(8,7,9), of "Snn (sec s)" s, unfolded Let_def, folded assms(10), folded assms(11)]
  have send: "SendToGnb pdu s = Ret ((), emitU (ToGnb c (opt_nas_msg pdu)) s)" for pdu
    using SendToGnb_opt [OF assms(2) closed] .
  have "HandlerAuthenticationRequest X g s =
      Ret ((), emitU (ToGnb c (opt_nas_msg (GmmMessageEncode X (Out_AuthenticationFailure 20 None)))) s)"
    if "mac_a \<noteq> drop 8 autn"
    using that unfolding run d
    by (simp add: authentication_answer_def run_simps AuthenticationFailure_def send del: emitU_def)
  moreover have "HandlerAuthenticationRequest X g s =
      Ret ((), emitU (ToGnb c (opt_nas_msg (GmmMessageEncode X (Out_AuthenticationFailure 21
        (Some (xor_bytes sqn AKstar @ snd (milenage_F1 X opc k R sqn [0, 0]))))))) s)"
    if "mac_a = drop 8 autn" "bytes_less sqnHn sqn"
    using that unfolding run d
    by (simp add: authentication_answer_def run_simps AuthenticationFailure_def send bytes_or_nil_def del: emitU_def)
  moreover have "\<exists>t. HandlerAuthenticationRequest X g s = Ret ((), t) \<and> Kamf (sec t) = kamf \<and>
        StateMM (ueC t) = MM5G_REGISTERED_INITIATED \<and>
        uevents t = uevents s @ [ToScenario MM5G_REGISTERED_INITIATED,
          ToGnb c (opt_nas_msg (GmmMessageEncode X (Out_AuthenticationResponse (Some (drop 16 v)))))]"
    if "mac_a = drop 8 autn" "\<not> bytes_less sqnHn sqn"
      "kamf_of X (Supi (sec s)) (CK @ IK) (Snn (sec s)) sqnHn AK = Ret kamf"
      "kdf_or_fatal X ''Error while deriving KDF'' (CK @ IK) FC_RES_STAR [str_bytes (Snn (sec s)), R, RES] = Ret v"
      "length v = 32" for kamf v
    using that assms(2) closed scen unfolding run d
    by (simp add: authentication_answer_def run_simps AuthenticationResponse_def bytes_or_nil_def slice_def
        SetStateMM_def SendToGnb_def SendToGnbMsg_def opt_nas_msg_def)
  ultimately show ?thesis by blast
qed

definition demo_auth :: "byte list \<Rightarrow> GmmMessage" where
  "demo_auth mac = (gmm_of MsgTypeAuthenticationRequest)\<lparr>body_AuthenticationRequest := Some
     \<lparr>ar_hdr = demo_hdr 86, ar_ngksi_Spare = 0, ar_NasKeySetIdentifiler = 1, ar_ABBA_IsZero = False,
      ar_ABBAContents = Some [0, 0], ar_RAND = Some (replicate 16 9), ar_AUTN = Some ([0, 0, 0, 0, 0, 2, 128, 0] @ mac)\<rparr>\<rparr>"

theorem authentication_outcomes_witness:
  "HandlerAuthenticationRequest demo_uext (demo_auth (replicate 8 0)) demo_ue1 =
     Ret ((), emitU (ToGnb 3 (opt_nas_msg (Some (gmm_tag (Out_AuthenticationFailure 20 None))))) demo_ue1)"
proof -
  let ?m = "the (body_AuthenticationRequest (demo_auth (replicate 8 0)))"
  have m: "body_AuthenticationRequest (demo_auth (replicate 8 0)) = Some ?m" "checks (authentication_checks ?m) = Ret ()"
    "ar_RAND ?m = Some (replicate 16 9)" "ar_AUTN ?m = Some ([0, 0, 0, 0, 0, 2, 128, 0] @ replicate 8 0)"
    by (simp_all add: demo_auth_def authentication_checks_def hdr_checks_def demo_hdr_def)
  have "challenge_ok demo_uext (AuthenticationSubs (sec demo_ue1)) [0] [0] [0, 0, 0, 0, 0, 1] [128, 0]"
    by (simp add: challenge_ok_def demo_ue1_facts hex_val_def)
  from authentication_outcomes [OF demo_ue1_reachable demo_ue1_facts(2) m _ this demo_uext_simps(16) refl refl]
  show ?thesis by (simp add: demo_uext_simps numeral_eq_Suc)
qed

end
