(* ===== verification/UeRefine.thy ===== *)
theory UeRefine
  imports UeDemo
begin

text \<open>
  The PDU sessions of a UE, as the 5GSM procedures promise them: a map from identifiers to
  session states and a labelled machine on it. Every input of the UE's event loop is one event
  of this machine, computed from the input, and the UE's code, with its slots, pointers,
  channels and handlers, takes the step of that event.
\<close>

section \<open>The abstract session machine\<close>

type_synonym session_map = "nat \<Rightarrow> state_sm option"

datatype sess_event = Quiet | Establish | Release byte | ReleaseAll | Accept byte | Delete byte | Retry "nat option"

text \<open>Release of a session: of one that is active, with an identifier the lookup accepts.\<close>

definition released :: "nat \<Rightarrow> session_map \<Rightarrow> session_map" where
  "released i m =
     (if i \<le> 15 \<and> m i = Some SM5G_PDU_SESSION_ACTIVE then m(i \<mapsto> SM5G_PDU_SESSION_INACTIVE) else m)"

text \<open>
  The establishment of a session takes the smallest free identifier from 1 to 16 and is
  impossible when there is none; a session is released only when it is active; the release of
  all sessions is that of each of them; the network accepts a session that exists and deletes
  one, both with an identifier of at most 15; the timer of a session asks for it again, as long
  as it has an identifier. Every event has at most one step.
\<close>

inductive sess_step :: "sess_event \<Rightarrow> session_map \<Rightarrow> session_map \<Rightarrow> bool" where
  quiet: "sess_step Quiet m m"
| establish: "1 \<le> i \<Longrightarrow> i \<le> 16 \<Longrightarrow> m i = None \<Longrightarrow> (\<forall>j. 1 \<le> j \<and> j < i \<longrightarrow> m j \<noteq> None) \<Longrightarrow>
    sess_step Establish m (m(i \<mapsto> SM5G_PDU_SESSION_ACTIVE_PENDING))"
| release: "sess_step (Release k) m (released (unat k) m)"
| release_all: "sess_step ReleaseAll m (\<lambda>i. released i m i)"
| accept: "m (unat k) \<noteq> None \<Longrightarrow> unat k \<le> 15 \<Longrightarrow>
    sess_step (Accept k) m (m(unat k \<mapsto> SM5G_PDU_SESSION_ACTIVE))"
| delete: "sess_step (Delete k) m (if unat k \<le> 15 then m(unat k := None) else m)"
| retry: "m i \<noteq> None \<Longrightarrow> sess_step (Retry (Some i)) m (m(i \<mapsto> SM5G_PDU_SESSION_ACTIVE_PENDING))"
| retry_gone: "sess_step (Retry None) m m"

lemma sess_step_deterministic:
  assumes "sess_step e m m1" and "sess_step e m m2"
  shows "m1 = m2"
  using assms(1)
proof cases
  case (establish i)
  from assms(2) show ?thesis unfolding establish(1)
  proof cases
    case (establish j)
    with \<open>\<forall>j. 1 \<le> j \<and> j < i \<longrightarrow> m j \<noteq> None\<close> \<open>m i = None\<close> \<open>1 \<le> i\<close> have "i = j"
      by (metis linorder_neqE_nat)
    with establish \<open>m1 = m(i \<mapsto> SM5G_PDU_SESSION_ACTIVE_PENDING)\<close> show ?thesis by simp
  qed
qed (use assms(2) in \<open>auto elim: sess_step.cases\<close>)

text \<open>Session 16 is never active: it cannot be accepted.\<close>

lemma sess_step_16:
  "sess_step e m m' \<Longrightarrow> m 16 \<noteq> Some SM5G_PDU_SESSION_ACTIVE \<Longrightarrow> m' 16 \<noteq> Some SM5G_PDU_SESSION_ACTIVE"
  by (erule sess_step.cases) (auto simp: released_def split: if_splits)

lemma fold_released:
  "fold released ks m i = (if i \<in> set ks then released i m i else m i)"
  by (induction ks arbitrary: m) (auto simp: released_def)

text \<open>The map a UE implements.\<close>

definition sessions :: "ustate \<Rightarrow> session_map" where
  "sessions s i =
     (if 1 \<le> i \<and> i \<le> 16 then map_option (\<lambda>p. StateSM (usessH s p)) (PduSession (ueC s) ! (i - 1)) else None)"

lemma sessions_slot: "i < 16 \<Longrightarrow> sessions s (Suc i) = map_option (\<lambda>p. StateSM (usessH s p)) (PduSession (ueC s) ! i)"
  by (simp add: sessions_def)


text \<open>The identifier of the slot that holds a session, and the entry of a session in a slot.\<close>

definition slot_of :: "ustate \<Rightarrow> nat \<Rightarrow> nat option" where
  "slot_of s p = find (\<lambda>k. PduSession (ueC s) ! (k - 1) = Some p) [1..<17]"

definition put :: "nat option \<Rightarrow> state_sm \<Rightarrow> session_map \<Rightarrow> session_map" where
  "put slot st m = (case slot of None \<Rightarrow> m | Some k \<Rightarrow> m(k \<mapsto> st))"

section \<open>The event of an input\<close>

text \<open>
  What a scenario's command asks for; termination releases the sessions of a registered UE.
\<close>

definition command_event :: "state_mm \<Rightarrow> UeTesterMessage \<Rightarrow> sess_event" where
  "command_event mm msg =
     (case msg of
        NewPDUSession \<Rightarrow> Establish
      | DestroyPDUSession k \<Rightarrow> Release k
      | TerminateUe \<Rightarrow> if mm = MM5G_REGISTERED then ReleaseAll else Quiet
      | _ \<Rightarrow> Quiet)"

text \<open>What a NAS message asks for, by the session management message it carries.\<close>

definition gsm_event :: "GsmMessage \<Rightarrow> sess_event" where
  "gsm_event g =
     (if GsmMessageType g = MsgTypePDUSessionEstablishmentAccept then
        (case body_EstablishmentAccept g of Some m \<Rightarrow> Accept (ea_PDUSessionID m) | None \<Rightarrow> Quiet)
      else if GsmMessageType g = MsgTypePDUSessionReleaseCommand then
        (case body_ReleaseCommand g of Some k \<Rightarrow> Delete k | None \<Rightarrow> Quiet)
      else Quiet)"

definition transport_event :: "uext \<Rightarrow> GmmMessage \<Rightarrow> sess_event" where
  "transport_event X g =
     (if GmmMessageType g \<noteq> MsgTypeDLNASTransport then Quiet
      else case body_DLNASTransport g of
        None \<Rightarrow> Quiet
      | Some m \<Rightarrow>
          (let (payload, bad) = PlainNasDecode X (bytes_or_nil (dl_Contents m)) in
           if bad then Quiet else case nm_Gsm payload of None \<Rightarrow> Quiet | Some q \<Rightarrow> gsm_event q))"

definition nas_event :: "uext \<Rightarrow> NasMessage \<Rightarrow> sess_event" where
  "nas_event X m = (case nm_Gmm m of None \<Rightarrow> Quiet | Some g \<Rightarrow> transport_event X g)"

text \<open>
  What a message of the gNodeB asks for: a plain NAS message, or a protected one that passes
  the security check of the state, the event of what it says; everything else, nothing.
\<close>

definition gnb_event :: "uext \<Rightarrow> ustate \<Rightarrow> UEMessage \<Rightarrow> sess_event" where
  "gnb_event X s msg =
     (if \<not> IsNas msg then Quiet
      else case Nas msg of
        None \<Rightarrow> Quiet
      | Some b \<Rightarrow>
          (let hdr = GetSecurityHeaderType X b AND 15 in
           if hdr = SecurityHeaderTypePlainNas then nas_event X (fst (PlainNasDecode X b))
           else case unprotect X hdr b s of Ret (Some m, _) \<Rightarrow> nas_event X m | _ \<Rightarrow> Quiet))"

datatype ue_input = FromGnb UEMessage | GnbClosed | FromScenario UeTesterMessage | ScenarioClosed
  | DrxTick | Timer nat | OtherChan

fun input_event :: "uext \<Rightarrow> ustate \<Rightarrow> ue_input \<Rightarrow> sess_event" where
  "input_event X s (FromGnb msg) = gnb_event X s msg"
| "input_event X s (FromScenario msg) = command_event (StateMM (ueC s)) msg"
| "input_event X s (Timer p) = Retry (slot_of s p)"
| "input_event X s GnbClosed = Quiet"
| "input_event X s ScenarioClosed = Quiet"
| "input_event X s DrxTick = Quiet"
| "input_event X s OtherChan = Quiet"

text \<open>The steps of a UE, labelled by their inputs.\<close>

inductive ue_step_on :: "uext \<Rightarrow> ue_input \<Rightarrow> ustate \<times> bool \<Rightarrow> ustate \<times> bool \<Rightarrow> bool" for X where
  on_gnb: "handover_ok msg s \<Longrightarrow> gnbMsgHandler X msg s = Ret ((), t) \<Longrightarrow>
    ue_step_on X (FromGnb msg) (s, True) (t, True)"
| on_gnb_closed: "ue_step_on X GnbClosed (s, True) (upd_ctxU (\<lambda>c. c\<lparr>ue_gnbTx := None\<rparr>) s, True)"
| on_scenario: "ueMgrHandler X msg s = Ret (go, s') \<Longrightarrow> end_if go s' = Ret ((), t) \<Longrightarrow>
    ue_step_on X (FromScenario msg) (s, True) (t, go)"
| on_scenario_closed: "ue_Terminate s = Ret ((), t) \<Longrightarrow> ue_step_on X ScenarioClosed (s, True) (t, False)"
| on_drx: "drx (ueC s) = Some True \<Longrightarrow> verifyPaging X s = Ret ((), t) \<Longrightarrow> ue_step_on X DrxTick (s, True) (t, True)"
| on_timer: "StartT3580 p d \<in> set (uevents s) \<Longrightarrow> T3580_expired X p s = Ret ((), t) \<Longrightarrow>
    ue_step_on X (Timer p) (s, go) (t, go)"
| on_other: "ue_step_on X OtherChan (s, go) (s\<lparr>uNextChan := Suc (uNextChan s)\<rparr>, go)"

lemma ue_step_on_iff: "ue_step X a b \<longleftrightarrow> (\<exists>inp. ue_step_on X inp a b)"
proof
  show "ue_step X a b \<Longrightarrow> \<exists>inp. ue_step_on X inp a b"
    by (cases rule: ue_step.cases) (blast intro: ue_step_on.intros)+
  show "\<exists>inp. ue_step_on X inp a b \<Longrightarrow> ue_step X a b"
    by (auto elim!: ue_step_on.cases intro: ue_step.intros)
qed

section \<open>Calm computations\<close>

text \<open>Computations that leave the slots and the states of all sessions alone.\<close>

definition sess_view :: "ustate \<Rightarrow> nat option list \<times> (nat \<Rightarrow> state_sm)" where
  "sess_view s = (PduSession (ueC s), \<lambda>p. StateSM (usessH s p))"

definition calm :: "'a UM \<Rightarrow> bool" where
  "calm m \<longleftrightarrow> (\<forall>v. preserves (\<lambda>s. sess_view s = v) m)"

named_theorems calm_intros \<open>introduction rules for calm computations\<close>

lemma calm_Ret: "calm m \<Longrightarrow> m s = Ret (x, t) \<Longrightarrow> sess_view t = sess_view s"
  unfolding calm_def by (metis (mono_tags, lifting) preservesD)

lemma sessions_cong: "sess_view t = sess_view s \<Longrightarrow> sessions t = sessions s"
  by (auto simp: sess_view_def sessions_def fun_eq_iff)

lemma calm_basic [calm_intros]:
  "calm (retM x)" "calm (getsM g)" "calm skipM" "calm (fatalM e)" "calm (panicM p)" "calm hangM"
  "calm (liftR m)" "calm (derefM q)"
  unfolding calm_def by (intro allI pres_intros)+

lemma calm_bindM [calm_intros]: "calm m \<Longrightarrow> (\<And>x. calm (f x)) \<Longrightarrow> calm (bindM m f)"
  and calm_thenM [calm_intros]: "calm m \<Longrightarrow> calm n \<Longrightarrow> calm (thenM m n)"
  unfolding calm_def by (blast intro: preserves_bindM preserves_thenM)+

lemma calm_if [calm_intros]: "(b \<Longrightarrow> calm m) \<Longrightarrow> (\<not> b \<Longrightarrow> calm n) \<Longrightarrow> calm (if b then m else n)"
  by simp

lemma calm_option [calm_intros]: "calm m \<Longrightarrow> (\<And>x. calm (f x)) \<Longrightarrow> calm (case p of None \<Rightarrow> m | Some x \<Rightarrow> f x)"
  by (cases p) auto

lemma calm_sum [calm_intros]:
  "(\<And>e. calm (m e)) \<Longrightarrow> (\<And>x. calm (f x)) \<Longrightarrow> calm (case p of Inl e \<Rightarrow> m e | Inr x \<Rightarrow> f x)"
  by (cases p) auto

lemma calm_prod [calm_intros]: "(\<And>x y. calm (f x y)) \<Longrightarrow> calm (case p of (x, y) \<Rightarrow> f x y)"
  by (cases p) auto

lemma calm_prod_apply [calm_intros]: "(\<And>x y. calm (f x y z)) \<Longrightarrow> calm ((case p of (x, y) \<Rightarrow> f x y) z)"
  by (cases p) auto

lemma calm_TunnelMode [calm_intros]:
  "calm a \<Longrightarrow> calm b \<Longrightarrow> calm c \<Longrightarrow>
    calm (case md of TunnelDisabled \<Rightarrow> a | TunnelTun \<Rightarrow> b | TunnelVrf \<Rightarrow> c)"
  by (cases md) auto

lemma calm_let [calm_intros]: "calm (f x) \<Longrightarrow> calm (let y = x in f y)"
  by simp

lemma calm_forM [calm_intros]: "(\<And>x. x \<in> set xs \<Longrightarrow> calm (f x)) \<Longrightarrow> calm (forM xs f)"
  and calm_loopM [calm_intros]: "(\<And>x. x \<in> set xs \<Longrightarrow> calm (g x)) \<Longrightarrow> calm (loopM xs g)"
  unfolding calm_def by (blast intro: preserves_forM preserves_loopM)+

lemma calm_modM: "(\<And>s. sess_view (f s) = sess_view s) \<Longrightarrow> calm (modM f)"
  unfolding calm_def by (blast intro: preserves_modM)

lemma calm_updates [calm_intros]:
  "calm (modM (emitU e))" "calm (modM (\<lambda>s. emitU (h s) s))" "calm (modM (upd_sec g))"
  "(\<And>c. PduSession (f c) = PduSession c) \<Longrightarrow> calm (modM (upd_ctxU f))"
  "(\<And>x. StateSM (k x) = StateSM x) \<Longrightarrow> calm (modM (upd_usess p k))"
  by (rule calm_modM; simp add: sess_view_def fun_eq_iff)+

lemma calm_channels [calm_intros]: "calm makeChU" "calm (closeChU c)" "calm (SendToGnbMsg msg)"
  unfolding calm_def
  by (auto intro!: preservesI simp: makeChU_def closeChU_def SendToGnbMsg_def sess_view_def
      split: if_splits option.splits)


lemma calm_context [calm_intros]:
  "calm (SetStateMM st)" "calm SetStateMM_NULL" "calm (SetAmfMccAndMnc a b)" "calm (DerivateAlgKey X)"
  "calm (SetIp p ip)" "calm (session_slot i)"
  unfolding SetStateMM_def SetStateMM_NULL_def SetAmfMccAndMnc_def DerivateAlgKey_def SetIp_def session_slot_def
  by (intro calm_intros | simp)+

lemma calm_GetPduSession [calm_intros]: "calm (ue_GetPduSession i)"
  unfolding ue_GetPduSession_def by (intro calm_intros; rename_tac r, case_tac r; simp; intro calm_intros)

lemma calm_messages [calm_intros]:
  "calm (NASEncode X m hdr a b)" "calm (EncodeNasPduWithSecurity X pdu hdr a b)" "calm (RegistrationComplete X)"
  "calm (ConfigurationUpdateComplete X)" "calm (DeregistrationRequest X)" "calm (SecurityModeComplete X r)"
  "calm (protected_or_error X pdu)" "calm (Request_UlNasTransport X p)" "calm (Release_UlNasTransport X p)"
  "calm (ReleasComplete_UlNasTransport X p)"
  unfolding NASEncode_def EncodeNasPduWithSecurity_def RegistrationComplete_def ConfigurationUpdateComplete_def
    DeregistrationRequest_def SecurityModeComplete_def protected_or_error_def Request_UlNasTransport_def
    Release_UlNasTransport_def ReleasComplete_UlNasTransport_def
  by (intro calm_intros | simp)+

lemma calm_sent_or_fatal [calm_intros]: "calm m \<Longrightarrow> (\<And>pdu. calm (f pdu)) \<Longrightarrow> calm (sent_or_fatal e m f)"
  unfolding sent_or_fatal_def by (intro calm_intros)

lemma calm_triggers [calm_intros]:
  "calm (SendToGnb b)" "calm (InitRegistration X)" "calm (InitPduSessionReleaseComplete X p)"
  "calm (InitDeregistration X)" "calm (InitIdentifyResponse X)" "calm (InitConfigurationUpdateComplete X)"
  "calm (InitServiceRequest X)" "calm SwitchToIdle" "calm (recvGnb X c)" "calm (ue_InitConn X)"
  unfolding SendToGnb_def InitRegistration_def InitPduSessionReleaseComplete_def InitDeregistration_def
    InitIdentifyResponse_def InitConfigurationUpdateComplete_def InitServiceRequest_def SwitchToIdle_def
    recvGnb_def ue_InitConn_def
  by (intro calm_intros | simp)+

lemma calm_gmm_handlers [calm_intros]:
  "calm (body q)" "calm HandlerAuthenticationReject" "calm (HandlerAuthenticationRequest X g)"
  "calm (HandlerSecurityModeCommand X g)" "calm (HandlerRegistrationAccept X g)" "calm HandlerServiceAccept"
  "calm (HandlerIdentityRequest X g)" "calm (HandlerConfigurationUpdateCommand X g)"
  unfolding body_def HandlerAuthenticationReject_def HandlerAuthenticationRequest_def authentication_answer_def
    DeriveRESstarAndSetKey_def DerivateKamf_def HandlerSecurityModeCommand_def HandlerRegistrationAccept_def
    use_allowed_nssai_def HandlerServiceAccept_def HandlerIdentityRequest_def HandlerConfigurationUpdateCommand_def
  by (intro calm_intros | simp)+

lemma calm_transport [calm_intros]:
  "calm (establishment_reject i)" "calm (new_context X m)" "calm (count_downlink X q)" "calm (unprotect X hdr b)"
  unfolding establishment_reject_def new_context_def count_downlink_def unprotect_def Let_def body_def
  by (intro calm_intros | simp)+

lemma calm_loop [calm_intros]:
  "calm (kernel op)" "calm (kernel_or_fatal X op)" "calm (tunnel_rules X name ip gnb g)"
  "calm (configure_interface X p gip g)" "calm (SetupGtpInterface X msg)" "calm (clean_session slot)"
  "calm StopDRX" "calm ue_Terminate" "calm (service_request X)" "calm (switch_gnb msg)"
  unfolding kernel_def kernel_or_fatal_def tunnel_rules_def configure_interface_def SetupGtpInterface_def
    clean_session_def StopDRX_def ue_Terminate_def service_request_def switch_gnb_def route_traffic_def Let_def
  by (intro calm_intros | simp split: TunnelMode.split)+

section \<open>The moves\<close>

lemma wf_slots: "ue_wf go s \<Longrightarrow> length (PduSession (ueC s)) = 16"
  by (simp add: ue_wf_def)

text \<open>A new state of one session is a new entry at the identifier of its slot.\<close>

lemma sessions_set:
  assumes "ue_wf go s" and "i < 16" and "PduSession (ueC s) ! i = Some p"
  shows "sessions (upd_usess p (\<lambda>x. x\<lparr>StateSM := st\<rparr>) s) = (sessions s)(Suc i \<mapsto> st)"
proof
  fix k
  show "sessions (upd_usess p (\<lambda>x. x\<lparr>StateSM := st\<rparr>) s) k = ((sessions s)(Suc i \<mapsto> st)) k"
  proof (cases "1 \<le> k \<and> k \<le> 16 \<and> PduSession (ueC s) ! (k - 1) = Some p")
    case True
    then have "k - 1 < 16" "PduSession (ueC s) ! (k - 1) = Some p" by auto
    then have "k - 1 = i" using ue_wf_inj [OF assms(1) _ assms(2) _ assms(3)] by blast
    with True show ?thesis by (auto simp: sessions_def)
  next
    case False
    with assms show ?thesis by (cases "PduSession (ueC s) ! (k - 1)") (auto simp: sessions_def)
  qed
qed

lemma sessions_set_unused:
  assumes "\<forall>i < 16. PduSession (ueC s) ! i \<noteq> Some p"
  shows "sessions (upd_usess p (\<lambda>x. x\<lparr>StateSM := st\<rparr>) s) = sessions s"
proof
  fix k
  show "sessions (upd_usess p (\<lambda>x. x\<lparr>StateSM := st\<rparr>) s) k = sessions s k"
  proof (cases "1 \<le> k \<and> k \<le> 16")
    case True
    then have "k - 1 < 16" by auto
    with assms have "PduSession (ueC s) ! (k - 1) \<noteq> Some p" by blast
    with True show ?thesis by (cases "PduSession (ueC s) ! (k - 1)") (auto simp: sessions_def)
  qed (auto simp: sessions_def)
qed

lemma SetStateSM_apply: "SetStateSM p st s = Ret ((), upd_usess p (\<lambda>x. x\<lparr>StateSM := st\<rparr>) s)"
  by (simp add: SetStateSM_def)

text \<open>In a well-formed UE a session is in one slot at most.\<close>

lemma slot_of_Some:
  assumes "ue_wf go s"
  shows "slot_of s p = Some k \<longleftrightarrow> 1 \<le> k \<and> k \<le> 16 \<and> PduSession (ueC s) ! (k - 1) = Some p"
proof
  show "slot_of s p = Some k \<Longrightarrow> 1 \<le> k \<and> k \<le> 16 \<and> PduSession (ueC s) ! (k - 1) = Some p"
    by (auto simp: slot_of_def find_Some_iff nth_append simp del: upt_Suc)
next
  assume k: "1 \<le> k \<and> k \<le> 16 \<and> PduSession (ueC s) ! (k - 1) = Some p"
  then have "slot_of s p \<noteq> None" by (auto simp: slot_of_def find_None_iff less_Suc_eq_le intro!: exI [of _ k] simp del: upt_Suc)
  then obtain j where j: "slot_of s p = Some j" by auto
  then have "1 \<le> j \<and> j \<le> 16 \<and> PduSession (ueC s) ! (j - 1) = Some p"
    by (auto simp: slot_of_def find_Some_iff nth_append simp del: upt_Suc)
  moreover from this k have "j - 1 = k - 1"
    by (intro ue_wf_inj [OF assms, of "j - 1" "k - 1" p]) auto
  ultimately have "j = k" using k by arith
  with j show "slot_of s p = Some k" by simp
qed

lemma slot_of_cong: "sess_view t = sess_view s \<Longrightarrow> slot_of t p = slot_of s p"
  by (simp add: sess_view_def slot_of_def)

lemma slot_of_None: "slot_of s p = None \<Longrightarrow> \<forall>i < 16. PduSession (ueC s) ! i \<noteq> Some p"
proof (intro allI impI)
  fix i :: nat assume "slot_of s p = None" and "i < 16"
  then have "\<forall>k \<in> set [1..<17]. PduSession (ueC s) ! (k - 1) \<noteq> Some p"
    by (simp add: slot_of_def find_None_iff del: upt_Suc)
  moreover have "Suc i \<in> set [1..<17]" using \<open>i < 16\<close> by (simp del: upt_Suc)
  ultimately show "PduSession (ueC s) ! i \<noteq> Some p" by (metis diff_Suc_1)
qed

lemma sessions_put:
  assumes "ue_wf go s"
  shows "sessions (upd_usess p (\<lambda>x. x\<lparr>StateSM := st\<rparr>) s) = put (slot_of s p) st (sessions s)"
proof (cases "slot_of s p")
  case None
  from sessions_set_unused [OF slot_of_None [OF None]] show ?thesis by (simp add: None put_def)
next
  case (Some k)
  then have k: "1 \<le> k" "k - 1 < 16" "PduSession (ueC s) ! (k - 1) = Some p"
    unfolding slot_of_Some [OF assms] by auto
  from sessions_set [OF assms k(2,3)] k(1) show ?thesis by (simp add: Some put_def)
qed

lemma sessions_at_slot:
  "ue_wf go s \<Longrightarrow> slot_of s p = Some k \<Longrightarrow> sessions s k = Some (StateSM (usessH s p))"
  by (simp add: slot_of_Some sessions_def)

lemma set_then_calm:
  assumes "ue_wf go s" and "calm m" and "thenM (SetStateSM p st) m s = Ret (x, t)"
  shows "sessions t = put (slot_of s p) st (sessions s)"
  using assms(3) calm_Ret [OF assms(2)]
  by (auto simp: thenM_apply SetStateSM_apply sessions_put [OF assms(1), symmetric] simp del: upd_usess_def
      intro!: sessions_cong)

text \<open>A message is built, the state of the session set and the message sent.\<close>

lemma sent_then_set:
  assumes "ue_wf go s" and "safe (ue_wf go) m" and "calm m"
    and "sent_or_fatal e m (\<lambda>pdu. thenM (SetStateSM p st) (SendToGnb (Some pdu))) s = Ret (x, t)"
  shows "sessions t = put (slot_of s p) st (sessions s)"
proof -
  from assms(4) obtain q s1 where q: "m s = Ret (q, s1)"
    and c: "(case q of Inl _ \<Rightarrow> fatalM e
      | Inr pdu \<Rightarrow> thenM (SetStateSM p st) (SendToGnb (Some pdu))) s1 = Ret (x, t)"
    by (auto simp: sent_or_fatal_def bindM_apply bindR_Ret_iff)
  then obtain pdu where r: "thenM (SetStateSM p st) (SendToGnb (Some pdu)) s1 = Ret (x, t)"
    by (cases q) simp_all
  have v: "sess_view s1 = sess_view s" by (rule calm_Ret [OF assms(3) q])
  from set_then_calm [OF safe_Ret [OF assms(2,1) q] calm_triggers(1) r]
  show ?thesis by (simp add: sessions_cong [OF v] slot_of_cong [OF v])
qed

lemma request_moves:
  assumes "ue_wf go s" and "InitPduSessionRequestInner X p s = Ret (x, t)"
  shows "sessions t = put (slot_of s p) SM5G_PDU_SESSION_ACTIVE_PENDING (sessions s)"
  by (rule sent_then_set [OF assms(1) safe_ul_transport(1) calm_messages(8)
        assms(2) [unfolded InitPduSessionRequestInner_def]])

lemma release_moves:
  assumes "ue_wf go s" and "InitPduSessionRelease X p s = Ret (x, t)" and "slot_of s p = Some k" and "k \<le> 15"
  shows "sessions t = released k (sessions s)"
proof (cases "StateSM (usessH s p) = SM5G_PDU_SESSION_ACTIVE")
  case True
  with assms(2) have "sent_or_fatal ''Error sending ul nas transport and pdu session establishment request''
      (Release_UlNasTransport X p)
      (\<lambda>pdu. thenM (SetStateSM p SM5G_PDU_SESSION_INACTIVE) (SendToGnb (Some pdu))) s = Ret (x, t)"
    by (simp add: InitPduSessionRelease_def bindM_apply)
  from sent_then_set [OF assms(1) safe_ul_transport(2) calm_messages(9) this] True assms(3,4)
  show ?thesis by (simp add: put_def released_def sessions_at_slot [OF assms(1,3)])
next
  case False
  with assms(2) have "t = s" by (simp add: InitPduSessionRelease_def run_simps)
  with False show ?thesis by (simp add: released_def sessions_at_slot [OF assms(1,3)])
qed

text \<open>The lookup of an identifier.\<close>

lemma looked_up:
  assumes "ue_wf go s" and "ue_GetPduSession k s = Ret (r, t)"
  shows "t = s" and "r = Inr p \<Longrightarrow> slot_of s p = Some (unat k) \<and> unat k \<le> 15"
    and "r = Inl e \<Longrightarrow> 15 < unat k \<or> sessions s (unat k) = None"
proof -
  have le: "15 < k \<longleftrightarrow> 15 < unat k" by (simp add: word_less_nat_alt)
  have k: "1 \<le> unat k \<and> unat (k - 1) = unat k - 1" if "unat (k - 1) < 16"
  proof -
    have "k \<noteq> 0" using that by (auto simp: unsigned_minus_1_eq_mask mask_eq_exp_minus_1)
    then show ?thesis by (simp add: unat_minus_one unat_gt_0 Suc_le_eq)
  qed
  note f = ue_GetPduSession_apply idx_def wf_slots [OF assms(1)] le
  from assms(2) show "t = s" by (auto simp: f split: if_splits)
  show "slot_of s p = Some (unat k) \<and> unat k \<le> 15" if "r = Inr p"
    using assms(2) k that by (auto simp: f slot_of_Some [OF assms(1)] split: if_splits option.splits)
  show "15 < unat k \<or> sessions s (unat k) = None" if "r = Inl e"
    using assms(2) k that by (auto simp: f sessions_def split: if_splits option.splits)
qed

section \<open>The moves of the handlers\<close>

lemma CreatePDUSession_moves:
  assumes "ue_wf go s" and "CreatePDUSession s = Ret (Inr p, t)"
  obtains i where "1 \<le> i" "i \<le> 16" "sessions s i = None" "\<forall>j. 1 \<le> j \<and> j < i \<longrightarrow> sessions s j \<noteq> None"
    "sessions t = (sessions s)(i \<mapsto> SM5G_PDU_SESSION_INACTIVE)" "slot_of t p = Some i"
proof -
  obtain i where Some: "free_slot 0 (PduSession (ueC s)) = Some i"
    using assms(2) by (cases "free_slot 0 (PduSession (ueC s))") (simp_all add: CreatePDUSession_None)
  note free = free_slot_Some [OF Some] and len = wf_slots [OF assms(1)]
  have i: "i < 16" "PduSession (ueC s) ! i = None" using free len by simp_all
  have old: "q \<noteq> uNextSess s" if "j < 16" "PduSession (ueC s) ! j = Some q" for j q
    using assms(1) that unfolding ue_wf_def session_ok_def by auto
  have "sessions t = (sessions s)(Suc i \<mapsto> SM5G_PDU_SESSION_INACTIVE)"
  proof
    fix k
    show "sessions t k = ((sessions s)(Suc i \<mapsto> SM5G_PDU_SESSION_INACTIVE)) k"
      using assms(2) Some len i old [of "k - 1"]
      by (cases "PduSession (ueC s) ! (k - 1)")
        (auto simp: CreatePDUSession_Some sessions_def nth_list_update zero_usession_def)
  qed
  moreover have "slot_of t p = Some (Suc i)"
    using assms(2) Some len i
    by (subst slot_of_Some [OF safe_Ret [OF safe_CreatePDUSession assms]]) (auto simp: CreatePDUSession_Some)
  moreover have "\<forall>j. 1 \<le> j \<and> j < Suc i \<longrightarrow> sessions s j \<noteq> None"
    using free i(1) by (auto simp: sessions_def)
  ultimately show ?thesis using that [of "Suc i"] i by (simp add: sessions_slot)
qed

lemma establish_moves:
  assumes "ue_wf go s" and "InitPduSessionRequest X s = Ret (x, t)"
  shows "sess_step Establish (sessions s) (sessions t)"
proof -
  from assms(2) obtain r u where r: "CreatePDUSession s = Ret (r, u)"
    and c: "(case r of Inl e \<Rightarrow> fatalM e | Inr p \<Rightarrow> InitPduSessionRequestInner X p) u = Ret (x, t)"
    by (auto simp: InitPduSessionRequest_def bindM_apply bindR_Ret_iff)
  then obtain p where p: "CreatePDUSession s = Ret (Inr p, u)" and q: "InitPduSessionRequestInner X p u = Ret (x, t)"
    by (cases r) simp_all
  obtain i where i: "1 \<le> i" "i \<le> 16" "sessions s i = None" "\<forall>j. 1 \<le> j \<and> j < i \<longrightarrow> sessions s j \<noteq> None"
    "sessions u = (sessions s)(i \<mapsto> SM5G_PDU_SESSION_INACTIVE)" "slot_of u p = Some i"
    by (rule CreatePDUSession_moves [OF assms(1) p])
  have "sessions t = (sessions s)(i \<mapsto> SM5G_PDU_SESSION_ACTIVE_PENDING)"
    using request_moves [OF safe_Ret [OF safe_CreatePDUSession assms(1) p] q] i(5,6) by (simp add: put_def)
  with sess_step.establish [OF i(1-4)] show ?thesis by simp
qed

lemma timer_moves:
  assumes "ue_wf go s" and "T3580_expired X p s = Ret (x, t)"
  shows "sess_step (Retry (slot_of s p)) (sessions s) (sessions t)"
proof -
  from assms(2) obtain y u where u: "InitPduSessionRequestInner X p s = Ret (y, u)"
    and t: "modM (upd_usess p (\<lambda>x. x\<lparr>T3580Retries := T3580Retries x + 1\<rparr>)) u = Ret (x, t)"
    by (auto simp: T3580_expired_def thenM_apply bindR_Ret_iff)
  have "calm (modM (upd_usess p (\<lambda>x. x\<lparr>T3580Retries := T3580Retries x + 1\<rparr>)))" by (intro calm_intros) simp
  from sessions_cong [OF calm_Ret [OF this t]] request_moves [OF assms(1) u]
  have t: "sessions t = put (slot_of s p) SM5G_PDU_SESSION_ACTIVE_PENDING (sessions s)" by simp
  show ?thesis
  proof (cases "slot_of s p")
    case None
    with t show ?thesis by (simp add: put_def sess_step.intros)
  next
    case (Some k)
    with t show ?thesis by (simp add: put_def sess_step.intros sessions_at_slot [OF assms(1) Some])
  qed
qed

text \<open>Release by identifier, as a command asks for it, and of all identifiers in turn.\<close>

lemma lookup_release_moves:
  assumes "ue_wf go s" and "ue_GetPduSession k s = Ret (r, u)"
    and "(case r of Inl e \<Rightarrow> skipM | Inr p \<Rightarrow> InitPduSessionRelease X p) u = Ret (x, t)"
  shows "sessions t = released (unat k) (sessions s)"
proof (cases r)
  case (Inl e)
  with assms(3) looked_up(1,3) [OF assms(1,2)] show ?thesis by (auto simp: released_def skipM_def)
next
  case (Inr p)
  from looked_up(1,2) [OF assms(1,2)] Inr assms(3) have s: "InitPduSessionRelease X p s = Ret (x, t)"
    "slot_of s p = Some (unat k)" "unat k \<le> 15" by auto
  show ?thesis by (rule release_moves [OF assms(1) s])
qed

lemma release_if_known_moves:
  assumes "ue_wf go s" and "release_if_known X k s = Ret (x, t)" and "k < 256"
  shows "sessions t = released k (sessions s)"
proof -
  from assms(2) obtain r u where "ue_GetPduSession (of_nat k) s = Ret (r, u)"
    and "(case r of Inl e \<Rightarrow> skipM | Inr p \<Rightarrow> InitPduSessionRelease X p) u = Ret (x, t)"
    by (auto simp: release_if_known_def bindM_apply bindR_Ret_iff)
  from lookup_release_moves [OF assms(1) this] assms(3) show ?thesis by (simp add: unat_of_nat)
qed

lemma release_all_moves:
  "ue_wf go s \<Longrightarrow> forM ks (release_if_known X) s = Ret (x, t) \<Longrightarrow> \<forall>k \<in> set ks. k < 256 \<Longrightarrow>
    sessions t = fold released ks (sessions s)"
proof (induction ks arbitrary: s)
  case (Cons k ks)
  from Cons.prems(2) obtain y u where u: "release_if_known X k s = Ret (y, u)"
    and t: "forM ks (release_if_known X) u = Ret (x, t)"
    by (auto simp: thenM_apply bindR_Ret_iff)
  from Cons.IH [OF safe_Ret [OF safe_release_if_known Cons.prems(1) u] t]
    release_if_known_moves [OF Cons.prems(1) u] Cons.prems(3)
  show ?case by simp
qed (simp add: skipM_def)

lemma terminate_moves:
  assumes "ue_wf go s" and "terminate_request X s = Ret (x, t)"
  shows "sess_step (command_event (StateMM (ueC s)) TerminateUe) (sessions s) (sessions t)"
proof (cases "StateMM (ueC s) = MM5G_REGISTERED")
  case True
  with assms(2) obtain y u where u: "forM [1..<17] (release_if_known X) s = Ret (y, u)"
    and t: "InitDeregistration X u = Ret (x, t)"
    by (auto simp: terminate_request_def run_simps bindR_Ret_iff simp del: upt_Suc)
  have "sessions t = sessions u" by (rule sessions_cong [OF calm_Ret [OF calm_triggers(4) t]])
  also have "\<dots> = fold released [1..<17] (sessions s)" by (rule release_all_moves [OF assms(1) u]) simp
  also have "\<dots> = (\<lambda>i. released i (sessions s) i)"
    by (auto simp: fun_eq_iff fold_released released_def sessions_def simp del: upt_Suc)
  finally show ?thesis using True by (simp add: command_event_def sess_step.intros)
next
  case False
  with assms(2) show ?thesis by (simp add: terminate_request_def run_simps command_event_def sess_step.intros)
qed

text \<open>The commands of a scenario.\<close>

lemma command_moves:
  assumes "ue_wf True s" and "ueMgrHandler X msg s = Ret (go, t)"
  shows "sess_step (command_event (StateMM (ueC s)) msg) (sessions s) (sessions t)"
proof -
  have still: "sess_step (command_event (StateMM (ueC s)) msg) (sessions s) (sessions t)"
    if "calm (ueMgrHandler X msg)" and "command_event (StateMM (ueC s)) msg = Quiet"
    using sessions_cong [OF calm_Ret [OF that(1) assms(2)]] that(2) by (simp add: sess_step.quiet)
  show ?thesis
  proof (cases msg)
    case NewPDUSession
    with assms(2) have "InitPduSessionRequest X s = Ret ((), t)" by (auto simp: ueMgrHandler_def run_simps bindR_Ret_iff)
    from establish_moves [OF assms(1) this] NewPDUSession show ?thesis by (simp add: command_event_def)
  next
    case (DestroyPDUSession k)
    with assms(2) obtain r u where r: "ue_GetPduSession k s = Ret (r, u)"
      and "(case r of Inl e \<Rightarrow> retM True | Inr p \<Rightarrow> thenM (InitPduSessionRelease X p) (retM True)) u = Ret (go, t)"
      by (auto simp: ueMgrHandler_def bindM_apply bindR_Ret_iff)
    then have "(case r of Inl e \<Rightarrow> skipM | Inr p \<Rightarrow> InitPduSessionRelease X p) u = Ret ((), t)"
      by (cases r) (auto simp: skipM_def thenM_apply bindR_Ret_iff)
    from lookup_release_moves [OF assms(1) r this] DestroyPDUSession show ?thesis
      by (simp add: command_event_def sess_step.release)
  next
    case TerminateUe
    with assms(2) have "terminate_request X s = Ret ((), t)" by (auto simp: ueMgrHandler_def run_simps bindR_Ret_iff)
    from terminate_moves [OF assms(1) this] TerminateUe show ?thesis by simp
  qed (rule still; simp add: ueMgrHandler_def command_event_def; intro calm_intros; simp)+
qed

section \<open>The moves of the messages\<close>

lemma accept_moves:
  assumes "ue_wf go s" and "establishment_accept m s = Ret (x, t)"
  shows "sess_step (Accept (ea_PDUSessionID m)) (sessions s) (sessions t)"
proof -
  define rest where "rest p = bindM (body (ea_PDUAddress m)) (\<lambda>UeIp.
      thenM (SetIp p UeIp) (thenM (bindM (body (ea_DNN m)) (\<lambda>_. skipM)) (bindM (body (ea_SNSSAI m)) (\<lambda>_. skipM))))" for p
  from assms(2) obtain r u where r: "ue_GetPduSession (ea_PDUSessionID m) s = Ret (r, u)"
    and c: "(case r of Inl _ \<Rightarrow> panicM NilDeref
      | Inr p \<Rightarrow> thenM (SetStateSM p SM5G_PDU_SESSION_ACTIVE) (rest p)) u = Ret (x, t)"
    by (auto simp: establishment_accept_def rest_def [symmetric] run_simps bindR_Ret_iff liftR_def)
  then obtain p where p: "r = Inr p" by (cases r) simp_all
  from looked_up(1,2) [OF assms(1) r] p have s: "u = s" "slot_of s p = Some (unat (ea_PDUSessionID m))"
    "unat (ea_PDUSessionID m) \<le> 15" by auto
  have "calm (rest p)" unfolding rest_def by (intro calm_intros)
  from set_then_calm [OF assms(1) this, of p SM5G_PDU_SESSION_ACTIVE x t] c p s
  have "sessions t = (sessions s)(unat (ea_PDUSessionID m) \<mapsto> SM5G_PDU_SESSION_ACTIVE)" by (simp add: put_def)
  with sess_step.accept [of "sessions s" "ea_PDUSessionID m"] s(2,3) show ?thesis
    by (simp add: sessions_at_slot [OF assms(1)])
qed

lemma DeletePduSession_moves:
  assumes "ue_wf go s" and "ue_DeletePduSession k s = Ret (x, t)"
  shows "sessions t = (if unat k \<le> 15 then (sessions s)(unat k := None) else sessions s)"
proof (cases "\<exists>p. ue_GetPduSession k s = Ret (Inr p, s)")
  case True
  then obtain p where p: "ue_GetPduSession k s = Ret (Inr p, s)" by blast
  from looked_up(2) [OF assms(1) p] have i: "slot_of s p = Some (unat k)" "unat k \<le> 15" by auto
  then have k: "1 \<le> unat k" "PduSession (ueC s) ! (unat k - 1) = Some p" by (auto simp: slot_of_Some [OF assms(1)])
  then have "unat (k - 1) = unat k - 1" by (simp add: unat_minus_one unat_gt_0 [symmetric])
  with assms(2) i(2) k wf_slots [OF assms(1)]
  have t: "PduSession (ueC t) = (PduSession (ueC s))[unat k - 1 := None]" "usessH t = usessH s"
    by (auto simp: ue_DeletePduSession_apply idx_def Let_def word_less_nat_alt split: if_splits)
  show ?thesis using k(1) i(2) wf_slots [OF assms(1)]
    by (auto simp: fun_eq_iff sessions_def t nth_list_update)
next
  case False
  with assms(2) obtain e where t: "t = s" and e: "ue_GetPduSession k s = Ret (Inl e, s)"
    by (auto simp: ue_DeletePduSession_apply ue_GetPduSession_apply bindR_Ret_iff split: if_splits option.splits)
  have "15 < unat k \<or> sessions s (unat k) = None" by (rule looked_up(3) [OF assms(1) e refl])
  with t show ?thesis by (auto simp: fun_upd_idem)
qed

lemma delete_moves:
  assumes "ue_wf go s" and "release_command X k s = Ret (x, t)"
  shows "sess_step (Delete k) (sessions s) (sessions t)"
proof -
  from assms(2) obtain r u where r: "ue_GetPduSession k s = Ret (r, u)"
    and c: "(case r of Inl _ \<Rightarrow> skipM
      | Inr p \<Rightarrow> bindM (ue_DeletePduSession k) (\<lambda>_. InitPduSessionReleaseComplete X p)) u = Ret (x, t)"
    by (auto simp: release_command_def bindM_apply bindR_Ret_iff)
  note u = looked_up(1) [OF assms(1) r]
  have "sessions t = (if unat k \<le> 15 then (sessions s)(unat k := None) else sessions s)"
  proof (cases r)
    case (Inl e)
    with c u looked_up(3) [OF assms(1) r] show ?thesis by (auto simp: skipM_def fun_upd_idem)
  next
    case (Inr p)
    with c u obtain y v where v: "ue_DeletePduSession k s = Ret (y, v)"
      and "InitPduSessionReleaseComplete X p v = Ret (x, t)" by (auto simp: bindM_apply bindR_Ret_iff)
    then have "sessions t = sessions v" by (blast intro: sessions_cong calm_Ret [OF calm_triggers(3)])
    with DeletePduSession_moves [OF assms(1) v] show ?thesis by simp
  qed
  with sess_step.delete [of k "sessions s"] show ?thesis by simp
qed

lemma transport_moves:
  assumes "ue_wf go s" and "HandlerDlNasTransportPduaccept X g s = Ret (x, t)"
    and "GmmMessageType g = MsgTypeDLNASTransport"
  shows "sess_step (transport_event X g) (sessions s) (sessions t)"
proof -
  from assms(2) obtain m n q where m: "body_DLNASTransport g = Some m" "GetNasPduFromPduAccept X m = Some n"
      "nm_Gsm n = Some q"
    and c: "(if GsmMessageType q = MsgTypePDUSessionEstablishmentAccept then
         bindM (body (body_EstablishmentAccept q)) establishment_accept
       else if GsmMessageType q = MsgTypePDUSessionReleaseCommand then
         bindM (body (body_ReleaseCommand q)) (release_command X)
       else if GsmMessageType q = MsgTypePDUSessionEstablishmentReject then
         bindM (body (body_EstablishmentReject q)) establishment_reject
       else skipM) s = Ret (x, t)"
    by (auto simp: HandlerDlNasTransportPduaccept_def run_simps bindR_Ret_iff body_def derefM_def liftR_def
        split: option.splits)
  have e: "transport_event X g = gsm_event q"
    using m assms(3) by (auto simp: transport_event_def GetNasPduFromPduAccept_def split: prod.splits if_splits)
  have types: "MsgTypePDUSessionReleaseCommand \<noteq> MsgTypePDUSessionEstablishmentAccept"
    by (simp add: MsgTypePDUSessionReleaseCommand_def MsgTypePDUSessionEstablishmentAccept_def)
  consider (accept) "GsmMessageType q = MsgTypePDUSessionEstablishmentAccept"
    | (release) "GsmMessageType q = MsgTypePDUSessionReleaseCommand"
    | (other) "GsmMessageType q \<noteq> MsgTypePDUSessionEstablishmentAccept" "GsmMessageType q \<noteq> MsgTypePDUSessionReleaseCommand"
    by blast
  then show ?thesis
  proof cases
    case accept
    with c obtain a where "body_EstablishmentAccept q = Some a" "establishment_accept a s = Ret (x, t)"
      by (auto simp: bindM_apply bindR_Ret_iff body_def derefM_def split: option.splits)
    with accept_moves [OF assms(1)] accept e show ?thesis by (simp add: gsm_event_def)
  next
    case release
    with c types obtain a where "body_ReleaseCommand q = Some a" "release_command X a s = Ret (x, t)"
      by (auto simp: bindM_apply bindR_Ret_iff body_def derefM_def split: option.splits)
    with delete_moves [OF assms(1)] release types e show ?thesis by (simp add: gsm_event_def)
  next
    case other
    have "calm (if GsmMessageType q = MsgTypePDUSessionEstablishmentReject then
         bindM (body (body_EstablishmentReject q)) establishment_reject else skipM)" by (intro calm_intros)
    from calm_Ret [OF this, of s x t] c other have "sess_view t = sess_view s" by simp
    from sessions_cong [OF this] other e show ?thesis by (simp add: gsm_event_def sess_step.quiet)
  qed
qed

lemma calm_dispatch_other:
  assumes "nm_Gmm m = Some g" and "GmmMessageType g \<noteq> MsgTypeDLNASTransport"
  shows "calm (dispatch_gmm X m)"
proof -
  have "bindM (body (Some g)) f = f g" for f :: "GmmMessage \<Rightarrow> unit UM"
    by (simp add: fun_eq_iff body_def derefM_def bindM_apply)
  then show ?thesis unfolding dispatch_gmm_def assms(1)
    by simp (intro calm_intros; use assms(2) in simp)
qed

lemma dispatch_moves:
  assumes "ue_wf go s" and "dispatch_gmm X m s = Ret (x, t)"
  shows "sess_step (nas_event X m) (sessions s) (sessions t)"
proof -
  from assms(2) obtain g where g: "nm_Gmm m = Some g"
    by (auto simp: dispatch_gmm_def bindM_apply bindR_Ret_iff body_def derefM_def split: option.splits)
  show ?thesis
  proof (cases "GmmMessageType g = MsgTypeDLNASTransport")
    case True
    with assms(2) g have "HandlerDlNasTransportPduaccept X g s = Ret (x, t)"
      by (simp add: dispatch_gmm_def bindM_apply body_def derefM_def Let_def MsgTypeDLNASTransport_def
          MsgTypeAuthenticationRequest_def MsgTypeAuthenticationReject_def MsgTypeIdentityRequest_def
          MsgTypeSecurityModeCommand_def MsgTypeRegistrationAccept_def MsgTypeConfigurationUpdateCommand_def)
    from transport_moves [OF assms(1) this True] g show ?thesis by (simp add: nas_event_def)
  next
    case False
    from sessions_cong [OF calm_Ret [OF calm_dispatch_other [OF g False] assms(2)]] g False
    show ?thesis by (simp add: nas_event_def transport_event_def sess_step.quiet)
  qed
qed

lemma gnb_moves:
  assumes "ue_wf True s" and "gnbMsgHandler X msg s = Ret (x, t)"
  shows "sess_step (gnb_event X s msg) (sessions s) (sessions t)"
proof (cases "IsNas msg")
  case False
  have "calm (if GNBPduSessions msg ! 0 \<noteq> None then SetupGtpInterface X msg
      else if GNBRx msg \<noteq> None \<and> GNBTx msg \<noteq> None \<and> GNBInboundChannel msg \<noteq> None then switch_gnb msg
      else skipM)" by (intro calm_intros)
  from calm_Ret [OF this, of s x t] assms(2) False have "sess_view t = sess_view s"
    by (simp add: gnbMsgHandler_def)
  from sessions_cong [OF this] False show ?thesis by (simp add: gnb_event_def sess_step.quiet)
next
  case True
  with assms(2) obtain b where b: "Nas msg = Some b" and run: "DispatchNas X (Some b) s = Ret (x, t)"
    by (cases "Nas msg") (auto simp: gnbMsgHandler_def DispatchNas_def)
  define hdr where "hdr = GetSecurityHeaderType X b AND 15"
  show ?thesis
  proof (cases "hdr = SecurityHeaderTypePlainNas")
    case plain: True
    with run have "dispatch_gmm X (fst (PlainNasDecode X b)) s = Ret (x, t)"
      by (simp add: DispatchNas_def hdr_def Let_def)
    from dispatch_moves [OF assms(1) this] True b plain show ?thesis by (simp add: gnb_event_def hdr_def Let_def)
  next
    case False
    with run obtain r u where r: "unprotect X hdr b s = Ret (r, u)"
      and c: "(case r of None \<Rightarrow> skipM | Some m \<Rightarrow> dispatch_gmm X m) u = Ret (x, t)"
      by (auto simp: DispatchNas_def hdr_def [symmetric] Let_def bindM_apply bindR_Ret_iff)
    note u = sessions_cong [OF calm_Ret [OF calm_transport(4) r]]
    have e: "gnb_event X s msg = (case r of None \<Rightarrow> Quiet | Some m \<Rightarrow> nas_event X m)"
      using True b False r by (simp add: gnb_event_def hdr_def [symmetric] Let_def split: option.split)
    show ?thesis
    proof (cases r)
      case None
      with c e u show ?thesis by (simp add: skipM_def sess_step.quiet)
    next
      case (Some m)
      with dispatch_moves [OF safe_Ret [OF safe_unprotect assms(1) r]] c e u show ?thesis by simp
    qed
  qed
qed

section \<open>The refinement\<close>

lemma ue_step_moves:
  assumes "ue_wf go s" and "ue_step_on X inp (s, go) (t, go')"
  shows "sess_step (input_event X s inp) (sessions s) (sessions t)"
  using assms(2)
proof cases
  case (on_gnb msg)
  from gnb_moves [of s X msg "()" t] on_gnb assms(1) show ?thesis by simp
next
  case (on_scenario msg u)
  have "sessions t = sessions u"
    using on_scenario(4) sessions_cong [OF calm_Ret [OF calm_loop(8)], of u "()" t]
    by (cases go') (simp_all add: end_if_def skipM_def)
  with command_moves [of s X msg go' u] on_scenario assms(1) show ?thesis by simp
next
  case on_scenario_closed
  from sessions_cong [OF calm_Ret [OF calm_loop(8)], of s "()" t] on_scenario_closed
  show ?thesis by (simp add: sess_step.quiet)
next
  case on_drx
  have "calm (ueMgrHandler X ServiceRequestUe)" by (simp add: ueMgrHandler_def) (intro calm_intros)
  then have "calm (verifyPaging X)" unfolding verifyPaging_def by (intro calm_intros)
  from sessions_cong [OF calm_Ret [OF this], of s "()" t] on_drx show ?thesis by (simp add: sess_step.quiet)
next
  case (on_timer p d)
  from timer_moves [OF assms(1), of X p "()" t] on_timer show ?thesis by simp
next
  case on_gnb_closed
  then have "sess_view t = sess_view s" by (simp add: sess_view_def)
  from sessions_cong [OF this] on_gnb_closed show ?thesis by (simp add: sess_step.quiet)
next
  case on_other
  then have "sess_view t = sess_view s" by (simp add: sess_view_def)
  from sessions_cong [OF this] on_other show ?thesis by (simp add: sess_step.quiet)
qed

lemma ue_start_sessions:
  assumes "ue_start X (s, go)"
  shows "sessions s = (\<lambda>_. None)"
proof -
  from assms obtain conf i ch s0 where "NewUE X conf i ch s0 = Ret ((), s)" by (auto simp: ue_start_def)
  then obtain pk ue where ue: "NewRanUeContext X conf pk OpConstant (uNextChan s0) ch i = Ret ue"
    and run: "ue_InitConn X (s0\<lparr>uNextChan := Suc (uNextChan s0), ueC := ue\<rparr>) = Ret ((), s)"
    by (auto simp: NewUE_def makeChU_def bindR_Ret_iff)
  have "sess_view s = sess_view (s0\<lparr>uNextChan := Suc (uNextChan s0), ueC := ue\<rparr>)"
    by (rule calm_Ret [OF calm_triggers(10) run])
  moreover have "PduSession ue = replicate 16 None" using ue by (auto simp: NewRanUeContext_def bindR_Ret_iff)
  ultimately have "PduSession (ueC s) = replicate 16 None" by (simp add: sess_view_def)
  then show ?thesis by (auto simp: sessions_def fun_eq_iff)
qed

lemma session_16_not_active:
  assumes "ue_reachable X sg"
  shows "sessions (fst sg) 16 \<noteq> Some SM5G_PDU_SESSION_ACTIVE"
proof -
  have "(ue_step X)\<^sup>*\<^sup>* sg0 sg \<Longrightarrow> ue_start X sg0 \<Longrightarrow> sessions (fst sg) 16 \<noteq> Some SM5G_PDU_SESSION_ACTIVE" for sg0
  proof (induction rule: rtranclp_induct)
    case base
    then show ?case using ue_start_sessions [of X "fst sg0" "snd sg0"] by simp
  next
    case (step a b)
    then have "ue_reachable X a" unfolding ue_reachable_def by blast
    then have "ue_wf (snd a) (fst a)" by (intro ue_reachable_wf) simp
    moreover obtain inp where "ue_step_on X inp a b" using step(2) by (auto simp: ue_step_on_iff)
    ultimately have "sess_step (input_event X (fst a) inp) (sessions (fst a)) (sessions (fst b))"
      using ue_step_moves [of "snd a" "fst a" X inp "fst b" "snd b"] by simp
    with step show ?case by (blast dest: sess_step_16)
  qed
  with assms show ?thesis by (fastforce simp: ue_reachable_def)
qed

text \<open>
  C3: A UE refines the session machine. Each input of a UE, a message of its gNodeB, a command
  of the scenario, a timer, a tick or a closed channel, is one event of the machine, computed
  from the input: the command to create a session is an establishment at the smallest free
  identifier, the command to release one is its release if it is active, the termination of a
  registered UE is the release of every active session with an identifier of at most 15, an
  Establishment Accept or a Release Command that passes the security check accepts or deletes
  the session it names, the timer of a session asks for that session again, and every other
  input leaves all sessions alone. The step the UE takes in a reachable state is the only step
  the machine has for this event: the map from PDU session identifiers to session states, read
  off the slots and pointers, changes as the event says and in no other way. Session 16 is
  never active.
\<close>

theorem ue_refines_session_machine:
  assumes "ue_reachable X (s, go)" and "ue_step_on X inp (s, go) (t, go')"
  shows "{m. sess_step (input_event X s inp) (sessions s) m} = {sessions t} \<and>
    sessions t 16 \<noteq> Some SM5G_PDU_SESSION_ACTIVE"
proof
  have "sess_step (input_event X s inp) (sessions s) (sessions t)"
    by (rule ue_step_moves [OF ue_reachable_wf [OF assms(1)] assms(2)])
  then show "{m. sess_step (input_event X s inp) (sessions s) m} = {sessions t}"
    by (auto dest: sess_step_deterministic)
  have "ue_step X (s, go) (t, go')" using assms(2) by (auto simp: ue_step_on_iff)
  with assms(1) have "ue_reachable X (t, go')"
    unfolding ue_reachable_def by (meson rtranclp.rtrancl_into_rtrancl)
  from session_16_not_active [OF this] show "sessions t 16 \<noteq> Some SM5G_PDU_SESSION_ACTIVE" by simp
qed

lemma demo_accept_event: "gnb_event demo_uext demo_ue1 demo_accept_msg = Accept 1"
  by (simp add: gnb_event_def demo_accept_msg_def demo_uext_def sec_hdr_defs demo_decode_simps nas_event_def
      transport_event_def gsm_event_def gmm_of_def gsm_of_def bytes_or_nil_def demo_dl_def demo_accept_def
      msg_type_defs Let_def)

theorem ue_refines_session_machine_witness:
  "{m. sess_step Establish (sessions demo_ue0) m} = {sessions demo_ue1} \<and>
    sessions demo_ue1 1 = Some SM5G_PDU_SESSION_ACTIVE_PENDING \<and>
    {m. sess_step (Accept 1) (sessions demo_ue1) m} = {sessions demo_ue2} \<and>
    sessions demo_ue2 1 = Some SM5G_PDU_SESSION_ACTIVE"
proof (intro conjI)
  have "ue_step_on demo_uext (FromScenario NewPDUSession) (demo_ue0, True) (demo_ue1, True)"
    by (rule on_scenario [OF demo_NewPDUSession]) (simp add: end_if_def skipM_def)
  from ue_refines_session_machine [OF demo_ue0_reachable this]
  show "{m. sess_step Establish (sessions demo_ue0) m} = {sessions demo_ue1}" by (simp add: command_event_def)
  have "ue_step_on demo_uext (FromGnb demo_accept_msg) (demo_ue1, True) (demo_ue2, True)"
    by (rule on_gnb [OF _ demo_accept_run]) (simp add: handover_ok_def demo_accept_msg_def zero_msg_def)
  from ue_refines_session_machine [OF demo_ue1_reachable this]
  show "{m. sess_step (Accept 1) (sessions demo_ue1) m} = {sessions demo_ue2}" by (simp add: demo_accept_event)
  have "map (\<lambda>p. StateSM (usessH demo_ue1 p)) [0..<uNextSess demo_ue1] = [SM5G_PDU_SESSION_ACTIVE_PENDING]"
    using demo_ue1_summary by (auto simp: summary_def)
  then have "StateSM (usessH demo_ue1 0) = SM5G_PDU_SESSION_ACTIVE_PENDING"
    by (cases "uNextSess demo_ue1") (auto simp: upt_conv_Cons simp del: upt_Suc)
  then show "sessions demo_ue1 1 = Some SM5G_PDU_SESSION_ACTIVE_PENDING"
    by (simp add: sessions_def demo_ue1_facts)
  show "sessions demo_ue2 1 = Some SM5G_PDU_SESSION_ACTIVE"
    by (simp add: sessions_def demo_ue2_facts)
qed

end
