(* ===== verification/UeEnd.thy ===== *)
theory UeEnd
  imports UeDemo
begin

text \<open>
  The end of a UE: it can be ended at any time, what it leaves behind, and its silence
  afterwards.
\<close>

section \<open>Termination\<close>

text \<open>The commands that remove the devices, rules and routes of a session.\<close>

definition session_cleanup :: "UEPDUSession \<Rightarrow> uevent list" where
  "session_cleanup x =
     (case us_tun x of None \<Rightarrow> [] | Some l \<Rightarrow> [Kernel (LinkSetDown l), Kernel (LinkDel l)]) @
     (case us_rule x of None \<Rightarrow> [] | Some r \<Rightarrow> [Kernel (RuleDel r)]) @
     (case us_routeTun x of None \<Rightarrow> [] | Some r \<Rightarrow> [Kernel (RouteDel r)]) @
     (case us_vrf x of None \<Rightarrow> [] | Some v \<Rightarrow> [Kernel (LinkSetDown (vrf_Name v)), Kernel (VrfDel v)])"

definition slot_cleanup :: "ustate \<Rightarrow> nat option \<Rightarrow> uevent list" where
  "slot_cleanup s slot = (case slot of None \<Rightarrow> [] | Some p \<Rightarrow> session_cleanup (usessH s p))"

lemma clean_session_apply:
  "clean_session slot s = Ret ((), s\<lparr>uevents := uevents s @ slot_cleanup s slot\<rparr>)"
proof (cases slot)
  case (Some p)
  then show ?thesis
    by (cases "us_tun (usessH s p)"; cases "us_rule (usessH s p)"; cases "us_routeTun (usessH s p)"; cases "us_vrf (usessH s p)")
      (simp_all add: clean_session_def slot_cleanup_def session_cleanup_def kernel_def run_simps)
qed (simp add: clean_session_def slot_cleanup_def)

lemma clean_all:
  "forM ps clean_session s = Ret ((), s\<lparr>uevents := uevents s @ concat (map (slot_cleanup s) ps)\<rparr>)"
proof (induction ps arbitrary: s)
  case (Cons slot ps)
  have "slot_cleanup (s\<lparr>uevents := ev\<rparr>) = slot_cleanup s" for ev
    by (auto simp: slot_cleanup_def fun_eq_iff split: option.split)
  then show ?case using Cons.IH [of "s\<lparr>uevents := uevents s @ slot_cleanup s slot\<rparr>"]
    by (simp add: thenM_apply clean_session_apply)
qed simp

definition end_events :: "ustate \<Rightarrow> uevent list" where
  "end_events s = concat (map (slot_cleanup s) (PduSession (ueC s))) @
     (case ue_gnbRx (ueC s) of None \<Rightarrow> [] | Some c \<Rightarrow> [Closed (MsgCh c)]) @ [Closed (ScenarioCh (scenarioChan (ueC s)))]"

lemma ue_Terminate_apply:
  assumes "ue_wf True s"
  shows "ue_Terminate s = Ret ((), s\<lparr>
    ueC := (ueC s)\<lparr>StateMM := MM5G_NULL, ue_gnbRx := None, drx := map_option (\<lambda>_. False) (drx (ueC s))\<rparr>,
    uClosed := ScenarioCh (scenarioChan (ueC s)) #
      (case ue_gnbRx (ueC s) of None \<Rightarrow> [] | Some c \<Rightarrow> [MsgCh c]) @ uClosed s,
    uevents := uevents s @ end_events s\<rparr>)"
proof -
  have rx: "\<forall>c. ue_gnbRx (ueC s) = Some c \<longrightarrow> MsgCh c \<notin> set (uClosed s)"
    and sc: "ScenarioCh (scenarioChan (ueC s)) \<notin> set (uClosed s)"
    using assms by (simp_all add: ue_wf_def)
  have cl: "slot_cleanup (s\<lparr>ueC := u\<rparr>) = slot_cleanup s" for u
    by (auto simp: slot_cleanup_def fun_eq_iff split: option.split)
  show ?thesis
    using rx sc
    by (cases "ue_gnbRx (ueC s)")
      (simp_all add: ue_Terminate_def SetStateMM_NULL_def StopDRX_def clean_all closeChU_def run_simps end_events_def cl)
qed

text \<open>
  C6: From every reachable running state the UE can be ended: the command Kill leads to a state
  in which its loop has stopped, its registration state is NULL, its channel to the gNodeB and
  that to the scenario are closed, and, in this order, the devices, rules and routes of every
  session it set up were removed; nothing else was sent or done.
\<close>

theorem ue_can_always_be_ended:
  assumes "ue_reachable X (s, True)"
  shows "\<exists>t. ue_step X (s, True) (t, False) \<and> StateMM (ueC t) = MM5G_NULL \<and> ue_gnbRx (ueC t) = None \<and>
    ScenarioCh (scenarioChan (ueC s)) \<in> set (uClosed t) \<and>
    (\<forall>c. ue_gnbRx (ueC s) = Some c \<longrightarrow> MsgCh c \<in> set (uClosed t)) \<and>
    uevents t = uevents s @ concat (map (slot_cleanup s) (PduSession (ueC s))) @
      (case ue_gnbRx (ueC s) of None \<Rightarrow> [] | Some c \<Rightarrow> [Closed (MsgCh c)]) @ [Closed (ScenarioCh (scenarioChan (ueC s)))]"
proof -
  note run = ue_Terminate_apply [OF ue_reachable_wf [OF assms]]
  then obtain t where t: "ue_Terminate s = Ret ((), t)" by blast
  have "ue_step X (s, True) (t, False)"
    by (rule ue_step.from_scenario [of X KillUe s False s t]) (simp_all add: ueMgrHandler_def end_if_def t)
  with t show ?thesis unfolding run by (intro exI [of _ t]) (auto simp: end_events_def)
qed

theorem ue_can_always_be_ended_witness:
  "\<exists>t. ue_step demo_uext (demo_ue2, True) (t, False) \<and> StateMM (ueC t) = MM5G_NULL \<and> MsgCh 3 \<in> set (uClosed t)"
  using ue_can_always_be_ended [OF demo_ue2_reachable] by (auto simp: demo_ue2_facts)

section \<open>Silence after the end\<close>

definition sent_to_gnb :: "uevent list \<Rightarrow> uevent list" where
  "sent_to_gnb evs = filter (\<lambda>e. case e of ToGnb _ _ \<Rightarrow> True | _ \<Rightarrow> False) evs"

lemma sent_to_gnb_append [simp]: "sent_to_gnb (a @ b) = sent_to_gnb a @ sent_to_gnb b"
  by (simp add: sent_to_gnb_def)

text \<open>Without a channel to a gNodeB nothing is sent.\<close>

definition mute :: "uevent list \<Rightarrow> ustate \<Rightarrow> bool" where
  "mute evs s \<longleftrightarrow> ue_gnbRx (ueC s) = None \<and> sent_to_gnb (uevents s) = evs"

lemma preserves_mute_upd [pres_intros]:
  "preserves (mute evs) (modM (upd_usess p f))" "preserves (mute evs) (modM (upd_sec g))"
  "preserves (mute evs) (SendToGnbMsg msg)"
  by (rule preservesI; auto simp: mute_def SendToGnbMsg_def)+

lemma preserves_mute_timer: "preserves (mute evs) (T3580_expired X p)"
  unfolding T3580_expired_def InitPduSessionRequestInner_def sent_or_fatal_def Request_UlNasTransport_def
    protected_or_error_def EncodeNasPduWithSecurity_def NASEncode_def SetStateSM_def SendToGnb_def Let_def
  by (intro pres_intros)

definition ended_mute :: "ustate \<times> bool \<Rightarrow> bool" where
  "ended_mute sg \<longleftrightarrow> (\<not> snd sg \<longrightarrow> ue_gnbRx (ueC (fst sg)) = None)"

lemma ended_mute_step:
  assumes "ue_step X sg sg'" and "ue_inv sg" and "ended_mute sg"
  shows "ended_mute sg'"
  using assms(1)
proof cases
  case (from_scenario msg s go s' t)
  have "ue_wf True s'"
    using safe_Ret [OF safe_ueMgrHandler _ from_scenario(3)] assms(2) from_scenario(1) by (simp add: ue_inv_def)
  with from_scenario show ?thesis by (cases go) (auto simp: ended_mute_def end_if_def ue_Terminate_apply)
next
  case (scenario_closed s t)
  with assms(2) show ?thesis by (auto simp: ended_mute_def ue_inv_def ue_Terminate_apply)
next
  case (timer p d s t go)
  have "go \<or> mute (sent_to_gnb (uevents s)) s" using assms(3) timer by (auto simp: ended_mute_def mute_def)
  then show ?thesis
    using preservesD [OF preserves_mute_timer _ timer(4)] timer by (auto simp: ended_mute_def mute_def)
qed (use assms(3) in \<open>auto simp: ended_mute_def\<close>)

interpretation ending: inductive_invariant "ue_start X" "ue_step X" "\<lambda>sg. ue_inv sg \<and> ended_mute sg" for X
proof unfold_locales
  show "ue_inv sg \<and> ended_mute sg" if "ue_start X sg" for sg
    using that ue_machine.inv_initial by (auto simp: ended_mute_def ue_start_def)
  show "ue_inv sg' \<and> ended_mute sg'" if "ue_inv sg \<and> ended_mute sg" "ue_step X sg sg'" for sg sg'
    using that ended_mute_step ue_step_inv by blast
qed

lemma ended_step_mute:
  assumes "ue_step X (s, False) sg" and "mute evs s"
  shows "\<not> snd sg \<and> mute evs (fst sg)"
  using assms(1)
proof cases
  case (timer p d t)
  with preservesD [OF preserves_mute_timer assms(2)] show ?thesis by auto
next
  case other_chan
  with assms(2) show ?thesis by (simp add: mute_def)
qed simp_all

text \<open>
  C32: A UE that has ended stays ended and is silent: whatever timers of its sessions still fire,
  it sends no message to any gNodeB any more.
\<close>

theorem ue_silent_after_end:
  assumes "ue_reachable X (s, False)" and "(ue_step X)\<^sup>*\<^sup>* (s, False) (t, go)"
  shows "\<not> go \<and> ue_gnbRx (ueC t) = None \<and> sent_to_gnb (uevents t) = sent_to_gnb (uevents s)"
proof -
  have "ended_mute (s, False)"
    using assms(1) ending.inv_reachable unfolding ue_reachable_def by blast
  then have s: "mute (sent_to_gnb (uevents s)) s" by (simp add: ended_mute_def mute_def)
  have "\<not> snd sg \<and> mute (sent_to_gnb (uevents s)) (fst sg)" if "(ue_step X)\<^sup>*\<^sup>* (s, False) sg" for sg
    using that
  proof (induction rule: rtranclp_induct)
    case (step a b)
    then show ?case using ended_step_mute [of X "fst a" b] by (cases a) auto
  qed (simp add: s)
  from this [OF assms(2)] show ?thesis by (simp add: mute_def)
qed

theorem ue_silent_after_end_witness:
  "\<exists>s t. ue_reachable demo_uext (s, False) \<and> (ue_step demo_uext)\<^sup>*\<^sup>* (s, False) (t, False) \<and> t \<noteq> s \<and>
    sent_to_gnb (uevents t) = sent_to_gnb (uevents s)"
proof -
  obtain s where s: "ue_step demo_uext (demo_ue2, True) (s, False)"
    using ue_Terminate_apply [OF ue_reachable_wf [OF demo_ue2_reachable]] scenario_closed by blast
  then have r: "ue_reachable demo_uext (s, False)"
    using demo_ue2_reachable unfolding ue_reachable_def by (meson rtranclp.rtrancl_into_rtrancl)
  have run: "(ue_step demo_uext)\<^sup>*\<^sup>* (s, False) (s\<lparr>uNextChan := Suc (uNextChan s)\<rparr>, False)"
    by (rule r_into_rtranclp, rule other_chan)
  moreover have "s\<lparr>uNextChan := Suc (uNextChan s)\<rparr> \<noteq> s"
    by (metis n_not_Suc_n ustate.ext_inject ustate.surjective ustate.update_convs(5))
  ultimately show ?thesis using ue_silent_after_end [OF r run] r by blast
qed

end
