(* ===== verification/GoNet.thy ===== *)
theory GoNet
  imports GoStd
begin

text \<open>
  The parts of Go's package \<open>net\<close> the program calls: \<open>ParseIP\<close>, \<open>To4\<close>,
  \<open>ParseCIDR\<close>, \<open>CIDRMask\<close>, \<open>Contains\<close> and the text of an address, after the
  parsers of \<open>net/netip\<close>. An \<open>IP\<close> is its slice of bytes, four or sixteen (the nil
  slice where the code uses it is the empty list).
\<close>

section \<open>IPv4 text\<close>

definition is_digit :: "char \<Rightarrow> bool" where
  "is_digit c \<longleftrightarrow> 48 \<le> code c \<and> code c \<le> 57"

text \<open>The field read so far, its number of digits, the fields before it.\<close>

fun ipv4_loop :: "nat \<Rightarrow> nat \<Rightarrow> byte list \<Rightarrow> string \<Rightarrow> byte list option" where
  "ipv4_loop v dl fs [] = (if length fs < 3 then None else Some (fs @ [of_nat v]))"
| "ipv4_loop v dl fs (c # cs) =
     (if is_digit c then
        if dl = 1 \<and> v = 0 then None
        else if 255 < v * 10 + (code c - 48) then None
        else ipv4_loop (v * 10 + (code c - 48)) (dl + 1) fs cs
      else if c = CHR ''.'' then
        if dl = 0 \<or> cs = [] then None
        else if length fs = 3 then None
        else ipv4_loop 0 0 (fs @ [of_nat v]) cs
      else None)"

section \<open>IPv6 text\<close>

text \<open>One group: how many digits, its value, the rest; five digits are an error.\<close>

fun hex_group :: "nat \<Rightarrow> nat \<Rightarrow> string \<Rightarrow> (nat \<times> nat \<times> string) option" where
  "hex_group off acc [] = Some (off, acc, [])"
| "hex_group off acc (c # cs) =
     (case hex_val c of
        None \<Rightarrow> Some (off, acc, c # cs)
      | Some d \<Rightarrow> if 3 < off then None else hex_group (off + 1) (acc * 16 + d) cs)"

text \<open>
  The bytes read so far, where the ellipsis was seen, and the rest of the text. One round of
  the loop ends it (\<open>None\<close> is an error) or goes on.
\<close>

type_synonym ipv6_state = "byte list \<times> nat option \<times> string"

definition ipv6_colon :: "byte list \<Rightarrow> nat option \<Rightarrow> string \<Rightarrow> ipv6_state option + ipv6_state" where
  "ipv6_colon ip ell s =
     (case s of
        [] \<Rightarrow> Inl None
      | c # cs \<Rightarrow>
          if c \<noteq> CHR '':'' then Inr (ip, ell, s)
          else if ell \<noteq> None then Inl None
          else if cs = [] then Inl (Some (ip, Some (length ip), []))
          else Inr (ip, Some (length ip), cs))"

definition ipv6_group :: "byte list \<Rightarrow> nat option \<Rightarrow> string \<Rightarrow> ipv6_state option + ipv6_state" where
  "ipv6_group ip ell s =
     (case hex_group 0 0 s of
        None \<Rightarrow> Inl None
      | Some (off, acc, rest) \<Rightarrow>
          if off = 0 then Inl None
          else (case rest of
            [] \<Rightarrow> Inl (Some (ip @ [of_nat (acc div 256), of_nat acc], ell, []))
          | c # cs \<Rightarrow>
              if c = CHR ''.'' then
                if ell = None \<and> length ip \<noteq> 12 then Inl None
                else if 16 < length ip + 4 then Inl None
                else Inl (map_option (\<lambda>f. (ip @ f, ell, [])) (ipv4_loop 0 0 [] s))
              else if c \<noteq> CHR '':'' then Inl None
              else ipv6_colon (ip @ [of_nat (acc div 256), of_nat acc]) ell cs))"

lemma ipv6_group_longer:
  "ipv6_group ip ell s = Inr (ip', ell', s') \<Longrightarrow> length ip' = length ip + 2"
  by (auto simp: ipv6_group_def ipv6_colon_def split: if_splits option.splits prod.splits list.splits)

function ipv6_loop :: "byte list \<Rightarrow> nat option \<Rightarrow> string \<Rightarrow> ipv6_state option" where
  "ipv6_loop ip ell s =
     (if 16 \<le> length ip then Some (ip, ell, s)
      else case ipv6_group ip ell s of
        Inl r \<Rightarrow> r
      | Inr (ip', ell', s') \<Rightarrow> ipv6_loop ip' ell' s')"
  by pat_completeness auto
termination
  by (relation "measure (\<lambda>(ip, _, _). 16 - length ip)") (auto dest: ipv6_group_longer)

declare ipv6_loop.simps [simp del]

definition ipv6_finish :: "byte list \<times> nat option \<times> string \<Rightarrow> byte list option" where
  "ipv6_finish r =
     (case r of (ip, ell, s) \<Rightarrow>
        if s \<noteq> [] then None
        else if length ip < 16 then
          map_option (\<lambda>e. take e ip @ replicate (16 - length ip) 0 @ drop e ip) ell
        else if ell \<noteq> None then None
        else Some ip)"

definition parseIPv6 :: "string \<Rightarrow> byte list option" where
  "parseIPv6 s =
     (if take 2 s = ''::'' then
        if length s = 2 then Some (replicate 16 0)
        else Option.bind (ipv6_loop [] (Some 0) (drop 2 s)) ipv6_finish
      else Option.bind (ipv6_loop [] None s) ipv6_finish)"

section \<open>Addresses\<close>

text \<open>\<open>netip.ParseAddr\<close>: the first dot, colon or percent sign decides on the kind of address.\<close>

datatype netip = Addr4 "byte list" | Addr6 "byte list" string

definition ParseAddr :: "string \<Rightarrow> netip option" where
  "ParseAddr s =
     (case dropWhile (\<lambda>c. c \<notin> {CHR ''.'', CHR '':'', CHR ''%''}) s of
        [] \<Rightarrow> None
      | c # _ \<Rightarrow>
          if c = CHR ''.'' then map_option Addr4 (ipv4_loop 0 0 [] s)
          else if c = CHR '':'' then
            (let a = takeWhile (\<lambda>c. c \<noteq> CHR ''%'') s; z = dropWhile (\<lambda>c. c \<noteq> CHR ''%'') s in
             if length z = 1 then None else map_option (\<lambda>b. Addr6 b (tl z)) (parseIPv6 a))
          else None)"

definition v4InV6Prefix :: "byte list" where
  "v4InV6Prefix = replicate 10 0 @ [255, 255]"

definition ParseIP :: "string \<Rightarrow> byte list option" where
  "ParseIP s =
     (case ParseAddr s of
        None \<Rightarrow> None
      | Some (Addr4 b) \<Rightarrow> Some (v4InV6Prefix @ b)
      | Some (Addr6 b z) \<Rightarrow> if z \<noteq> [] then None else Some b)"

definition To4 :: "byte list \<Rightarrow> byte list option" where
  "To4 ip =
     (if length ip = 4 then Some ip
      else if length ip = 16 \<and> take 12 ip = v4InV6Prefix then Some (drop 12 ip)
      else None)"

section \<open>Masks and networks\<close>

fun CIDRMask :: "nat \<Rightarrow> nat \<Rightarrow> byte list" where
  "CIDRMask n 0 = []"
| "CIDRMask n (Suc l) = (if 8 \<le> n then 255 # CIDRMask (n - 8) l else NOT (drop_bit n 255) # CIDRMask 0 l)"

record IPNet =
  net_IP :: "byte list"
  net_Mask :: "byte list"

definition IP_Mask :: "byte list \<Rightarrow> byte list \<Rightarrow> byte list" where
  "IP_Mask ip0 mask0 =
     (let mask = (if length mask0 = 16 \<and> length ip0 = 4 \<and> take 12 mask0 = replicate 12 255
                  then drop 12 mask0 else mask0);
          ip = (if length mask = 4 \<and> length ip0 = 16 \<and> take 12 ip0 = v4InV6Prefix then drop 12 ip0 else ip0) in
      if length ip \<noteq> length mask then [] else map2 (AND) ip mask)"

text \<open>\<open>dtoi\<close>: decimal digits only, below \<open>0xFFFFFF\<close>.\<close>

fun dtoi_loop :: "nat \<Rightarrow> string \<Rightarrow> nat option" where
  "dtoi_loop n [] = Some n"
| "dtoi_loop n (c # cs) =
     (if \<not> is_digit c then None
      else if 16777215 \<le> n * 10 + (code c - 48) then None
      else dtoi_loop (n * 10 + (code c - 48)) cs)"

definition ParseCIDR :: "string \<Rightarrow> (byte list \<times> IPNet) option" where
  "ParseCIDR s =
     (if CHR ''/'' \<notin> set s then None
      else
        let addr = takeWhile (\<lambda>c. c \<noteq> CHR ''/'') s; mask = tl (dropWhile (\<lambda>c. c \<noteq> CHR ''/'') s) in
        case (ParseAddr addr, if mask = [] then None else dtoi_loop 0 mask) of
          (Some (Addr4 b), Some n) \<Rightarrow>
            if 32 < n then None
            else Some (v4InV6Prefix @ b, \<lparr>net_IP = IP_Mask (v4InV6Prefix @ b) (CIDRMask n 4), net_Mask = CIDRMask n 4\<rparr>)
        | (Some (Addr6 b z), Some n) \<Rightarrow>
            if z \<noteq> [] \<or> 128 < n then None
            else Some (b, \<lparr>net_IP = IP_Mask b (CIDRMask n 16), net_Mask = CIDRMask n 16\<rparr>)
        | _ \<Rightarrow> None)"

definition networkNumberAndMask :: "IPNet \<Rightarrow> byte list \<times> byte list" where
  "networkNumberAndMask n =
     (let ip = (case To4 (net_IP n) of Some x \<Rightarrow> x | None \<Rightarrow> if length (net_IP n) \<noteq> 16 then [] else net_IP n);
          m = net_Mask n in
      if ip = [] then ([], [])
      else if length m = 4 then (if length ip \<noteq> 4 then ([], []) else (ip, m))
      else if length m = 16 then (if length ip = 4 then (ip, drop 12 m) else (ip, m))
      else ([], []))"

definition Contains :: "IPNet \<Rightarrow> byte list \<Rightarrow> bool" where
  "Contains n ip0 =
     (let (nn, m) = networkNumberAndMask n; ip = (case To4 ip0 of Some x \<Rightarrow> x | None \<Rightarrow> ip0) in
      length ip = length nn \<and> map2 (AND) nn m = map2 (AND) ip m)"

section \<open>The text of an address\<close>

fun hex_digits :: "nat \<Rightarrow> nat list" where
  "hex_digits n = (if n < 16 then [n] else hex_digits (n div 16) @ [n mod 16])"

declare hex_digits.simps [simp del]

definition ipv4_text :: "byte list \<Rightarrow> string" where
  "ipv4_text bs = join (CHR ''.'') (map (show_nat \<circ> unat) bs)"

fun v6_groups :: "byte list \<Rightarrow> nat list" where
  "v6_groups (a # b # r) = (unat a * 256 + unat b) # v6_groups r"
| "v6_groups _ = []"

text \<open>The first longest run of two or more zero groups.\<close>

definition zero_run :: "nat list \<Rightarrow> (nat \<times> nat) option" where
  "zero_run gs =
     fold (\<lambda>i best. let l = length (takeWhile (\<lambda>g. g = 0) (drop i gs)) in
         if 2 \<le> l \<and> (case best of None \<Rightarrow> True | Some (a, b) \<Rightarrow> b - a < l) then Some (i, i + l) else best)
       [0..<length gs] None"

definition v6_text :: "byte list \<Rightarrow> string" where
  "v6_text bs =
     (let gs = v6_groups bs; h = map (map hex_char \<circ> hex_digits) in
      case zero_run gs of
        None \<Rightarrow> join (CHR '':'') (h gs)
      | Some (a, b) \<Rightarrow> join (CHR '':'') (h (take a gs)) @ ''::'' @ join (CHR '':'') (h (drop b gs)))"

definition IP_String :: "byte list \<Rightarrow> string" where
  "IP_String ip =
     (if ip = [] then ''<nil>''
      else if length ip \<noteq> 4 \<and> length ip \<noteq> 16 then ''?'' @ hex_of ip
      else case To4 ip of Some b \<Rightarrow> ipv4_text b | None \<Rightarrow> v6_text ip)"

section \<open>Facts about addresses\<close>

lemma is_digit_digit_char [simp]: "d < 10 \<Longrightarrow> is_digit (digit_char d)"
  by (simp add: is_digit_def)

lemma ipv4_loop_show:
  "n < 256 \<Longrightarrow> ipv4_loop 0 0 fs (show_nat n @ r) = ipv4_loop n (length (show_nat n)) fs r"
proof (induction n arbitrary: r rule: show_nat.induct)
  case (1 n)
  show ?case
  proof (cases "n < 10")
    case True
    then show ?thesis by (simp add: show_nat.simps [of n])
  next
    case False
    then have "n div 10 < 256" "n div 10 \<noteq> 0" "n div 10 * 10 + n mod 10 = n"
      using "1.prems" by simp_all
    then show ?thesis
      using False "1.prems" "1.IH" [of "digit_char (n mod 10) # r"]
      by (simp add: show_nat.simps [of n])
  qed
qed

lemma unat_byte_less: "unat (b :: byte) < 256"
  using unsigned_less [of b] by simp

lemma show_nat_no_sep: "\<not> is_digit c \<Longrightarrow> c \<notin> set (show_nat n)"
  using set_show_nat by (metis is_digit_digit_char)

lemma dropWhile_show_nat:
  "(\<And>c. is_digit c \<Longrightarrow> P c) \<Longrightarrow> dropWhile P (show_nat n @ r) = dropWhile P r"
  by (rule dropWhile_append2) (metis show_nat_no_sep)

lemma not_digit_dot [simp]: "\<not> is_digit (CHR ''.'')"
  by (simp add: is_digit_def)

lemma ipv4_loop_ipv4_text:
  "ipv4_loop 0 0 [] (ipv4_text [a, b, c, d]) = Some [a, b, c, d]"
  using ipv4_loop_show [OF unat_byte_less, of "[a, b, c]" d "[]"]
  by (simp add: ipv4_text_def ipv4_loop_show unat_byte_less)

lemma ParseAddr_ipv4_text: "ParseAddr (ipv4_text [a, b, c, d]) = Some (Addr4 [a, b, c, d])"
proof -
  have "dropWhile (\<lambda>c. c \<notin> {CHR ''.'', CHR '':'', CHR ''%''}) (ipv4_text [a, b, c, d]) =
      CHR ''.'' # ipv4_text [b, c, d]"
    unfolding ipv4_text_def
    by (simp, subst dropWhile_show_nat) (auto simp: is_digit_def)
  then show ?thesis by (simp add: ParseAddr_def ipv4_loop_ipv4_text)
qed

lemma ParseIP_ipv4_text: "ParseIP (ipv4_text [a, b, c, d]) = Some (v4InV6Prefix @ [a, b, c, d])"
  by (simp add: ParseIP_def ParseAddr_ipv4_text)

lemma length_v4InV6Prefix [simp]: "length v4InV6Prefix = 12"
  by (simp add: v4InV6Prefix_def)

lemma To4_prefix [simp]: "To4 (v4InV6Prefix @ [a, b, c, d]) = Some [a, b, c, d]"
  by (simp add: To4_def)

lemma length_To4: "To4 ip = Some b \<Longrightarrow> length b = 4"
  by (auto simp: To4_def split: if_splits)

lemma length_CIDRMask [simp]: "length (CIDRMask n l) = l"
  by (induction n l rule: CIDRMask.induct) auto

lemma length_ipv4_loop: "ipv4_loop v dl fs s = Some b \<Longrightarrow> length fs \<le> 3 \<Longrightarrow> length b = 4"
  by (induction v dl fs s rule: ipv4_loop.induct) (auto split: if_splits)

definition ipv6_fits :: "ipv6_state \<Rightarrow> bool" where
  "ipv6_fits r \<longleftrightarrow> (case r of (ip, ell, _) \<Rightarrow>
     even (length ip) \<and> length ip \<le> 16 \<and> (case ell of None \<Rightarrow> True | Some e \<Rightarrow> e \<le> length ip))"

lemma ipv6_group_fits:
  assumes "ipv6_fits (ip, ell, s)" and "length ip < 16"
  shows "case ipv6_group ip ell s of
      Inl None \<Rightarrow> True | Inl (Some r) \<Rightarrow> ipv6_fits r | Inr r \<Rightarrow> ipv6_fits r"
proof -
  have "even (length ip)" using assms by (simp add: ipv6_fits_def)
  then have "length ip \<noteq> 15" by auto
  with assms have l: "length ip \<le> 14" by linarith
  with assms show ?thesis
    by (auto simp: ipv6_group_def ipv6_colon_def ipv6_fits_def
        split: option.split prod.split list.split dest!: length_ipv4_loop)
qed

lemma ipv6_loop_fits:
  "ipv6_fits (ip, ell, s) \<Longrightarrow> ipv6_loop ip ell s = Some r \<Longrightarrow> ipv6_fits r"
proof (induction ip ell s rule: ipv6_loop.induct)
  case (1 ip ell s)
  show ?case
  proof (cases "16 \<le> length ip")
    case True
    with "1.prems" show ?thesis by (simp add: ipv6_loop.simps)
  next
    case False
    then have g: "case ipv6_group ip ell s of
        Inl None \<Rightarrow> True | Inl (Some r) \<Rightarrow> ipv6_fits r | Inr r \<Rightarrow> ipv6_fits r"
      using ipv6_group_fits [OF "1.prems"(1)] by linarith
    show ?thesis
    proof (cases "ipv6_group ip ell s")
      case (Inl a)
      with False g "1.prems"(2) show ?thesis by (simp add: ipv6_loop.simps [of ip])
    next
      case (Inr b)
      with False g "1.prems"(2) show ?thesis
        by (cases b) (auto simp: ipv6_loop.simps [of ip] intro: "1.IH" [OF False Inr])
    qed
  qed
qed

lemma length_parseIPv6: "parseIPv6 s = Some b \<Longrightarrow> length b = 16"
  by (auto simp: parseIPv6_def ipv6_finish_def bind_eq_Some_conv ipv6_fits_def
      split: if_splits prod.splits dest!: ipv6_loop_fits [rotated])

lemma length_ParseAddr:
  "ParseAddr s = Some (Addr4 b) \<Longrightarrow> length b = 4"
  "ParseAddr s = Some (Addr6 b z) \<Longrightarrow> length b = 16"
  by (auto simp: ParseAddr_def Let_def split: list.splits if_splits
      dest!: length_ipv4_loop length_parseIPv6)

lemma length_ParseIP: "ParseIP s = Some b \<Longrightarrow> length b = 16"
  by (auto simp: ParseIP_def split: option.splits netip.splits if_splits dest!: length_ParseAddr)

lemma length_ParseCIDR:
  "ParseCIDR s = Some (ip, n) \<Longrightarrow>
    length (net_IP n) = length (net_Mask n) \<and> length (net_Mask n) \<in> {4, 16}"
  by (auto simp: ParseCIDR_def IP_Mask_def Let_def v4InV6Prefix_def
      split: if_splits option.splits netip.splits dest!: length_ParseAddr)

end
