(* ===== verification/TunTypes.thy ===== *)
theory TunTypes
  imports GoNet
begin

text \<open>
  The tool that sets up GTP tunnels in the kernel (\<open>internal/cmd/gogtp5g-tunnel\<close>), which
  the UE calls as a library: its errors, the netlink attributes it builds, the command tree, the
  argument parser and object identifiers (\<open>cmd.go\<close>, \<open>cmdtree.go\<close>,
  \<open>oid.go\<close>). The attribute types are constants of the library \<open>go-gtp5gnl\<close>, kept by
  their names.
\<close>

section \<open>Errors\<close>

datatype tun_err =
    TooFewParameter
  | OptionRequiresArgument string
  | UnknownOption string
  | DeprecatedOption string
  | NumError num_err
  | InvalidIP string
  | NotIPv4 string
  | InvalidSourceInterface string
  | TooFewFields nat
  | UnknownAction string
  | UnknownDirection string
  | NotMatch string
  | InvalidAddress string
  | InvalidPort string
  | LibraryError string

section \<open>Netlink attributes\<close>

datatype attr_type =
    FAR_APPLY_ACTION | FAR_FORWARDING_PARAMETER
  | FORWARDING_PARAMETER_OUTER_HEADER_CREATION | FORWARDING_PARAMETER_FORWARDING_POLICY
  | OUTER_HEADER_CREATION_DESCRIPTION | OUTER_HEADER_CREATION_O_TEID
  | OUTER_HEADER_CREATION_PEER_ADDR_IPV4 | OUTER_HEADER_CREATION_PORT
  | PDR_PRECEDENCE | PDR_OUTER_HEADER_REMOVAL | PDR_FAR_ID | PDR_QER_ID | PDR_ROLE_ADDR_IPV4
  | PDR_UNIX_SOCKET_PATH | PDR_PDI
  | PDI_UE_ADDR_IPV4 | PDI_SRC_INTF | PDI_F_TEID | PDI_SDF_FILTER
  | F_TEID_I_TEID | F_TEID_GTPU_ADDR_IPV4
  | SDF_FILTER_FLOW_DESCRIPTION | SDF_FILTER_TOS_TRAFFIC_CLASS | SDF_FILTER_SECURITY_PARAMETER_INDEX
  | SDF_FILTER_FLOW_LABEL | SDF_FILTER_SDF_FILTER_ID
  | FLOW_DESCRIPTION_ACTION | FLOW_DESCRIPTION_DIRECTION | FLOW_DESCRIPTION_PROTOCOL
  | FLOW_DESCRIPTION_SRC_IPV4 | FLOW_DESCRIPTION_SRC_MASK | FLOW_DESCRIPTION_SRC_PORT
  | FLOW_DESCRIPTION_DEST_IPV4 | FLOW_DESCRIPTION_DEST_MASK | FLOW_DESCRIPTION_DEST_PORT
  | QER_GATE | QER_MBR | QER_GBR | QER_CORR_ID | QER_RQI | QER_QFI | QER_PPI
  | QER_MBR_UL_HIGH32 | QER_MBR_UL_LOW8 | QER_MBR_DL_HIGH32 | QER_MBR_DL_LOW8
  | QER_GBR_UL_HIGH32 | QER_GBR_UL_LOW8 | QER_GBR_DL_HIGH32 | QER_GBR_DL_LOW8

text \<open>The filter constants of the library that are attribute values.\<close>

datatype sdf_const = SDF_FILTER_PERMIT | SDF_FILTER_IN | SDF_FILTER_OUT

datatype nl_value =
    AttrU8 byte
  | AttrU16 u16
  | AttrU32 u32
  | AttrConst sdf_const
  | AttrBytes "byte list"
  | AttrString string
  | AttrList "(attr_type \<times> nl_value) list"

type_synonym nl_attr = "attr_type \<times> nl_value"

section \<open>Command tree\<close>

datatype 'f cmd_node =
    CmdNodeList "'f cmd_node list"
  | CmdToken string string "'f cmd_node option"
  | CmdFunc 'f

text \<open>The command found, and its arguments; nothing found gives back all arguments.\<close>

fun Find :: "'f cmd_node \<Rightarrow> string list \<Rightarrow> 'f option \<times> string list" where
  "Find (CmdNodeList []) args = (None, args)"
| "Find (CmdNodeList (n # ns)) args =
     (case Find n args of (Some f, params) \<Rightarrow> (Some f, params) | (None, _) \<Rightarrow> Find (CmdNodeList ns) args)"
| "Find (CmdToken name desc next) args =
     (case args of
        [] \<Rightarrow> (None, args)
      | a # rest \<Rightarrow>
          if \<not> HasPrefix name a then (None, args)
          else case next of None \<Rightarrow> (None, args) | Some n \<Rightarrow> Find n rest)"
| "Find (CmdFunc f) args = (Some f, args)"

section \<open>Argument parser\<close>

record CmdParser =
  cp_args :: "string list"
  cp_pos :: nat

definition NewCmdParser :: "string list \<Rightarrow> CmdParser" where
  "NewCmdParser args = \<lparr>cp_args = args, cp_pos = 0\<rparr>"

definition GetToken :: "CmdParser \<Rightarrow> string option \<times> CmdParser" where
  "GetToken c =
     (if length (cp_args c) \<le> cp_pos c then (None, c)
      else (Some (cp_args c ! cp_pos c), c\<lparr>cp_pos := Suc (cp_pos c)\<rparr>))"

text \<open>A parser of arguments: an error ends the command, so the parser's state is then lost.\<close>

type_synonym 'a argp = "CmdParser \<Rightarrow> tun_err + 'a \<times> CmdParser"

definition bindA :: "'a argp \<Rightarrow> ('a \<Rightarrow> 'b argp) \<Rightarrow> 'b argp" where
  "bindA m f c = (case m c of Inl e \<Rightarrow> Inl e | Inr (x, c') \<Rightarrow> f x c')"

definition retA :: "'a \<Rightarrow> 'a argp" where
  "retA x c = Inr (x, c)"

definition failA :: "tun_err \<Rightarrow> 'a argp" where
  "failA e c = Inl e"

text \<open>The arguments the options take: any text, an unsigned number in any base, an IPv4 address.\<close>

definition text_arg :: "string \<Rightarrow> string argp" where
  "text_arg opt c = (case GetToken c of (None, _) \<Rightarrow> Inl (OptionRequiresArgument opt) | (Some a, c') \<Rightarrow> Inr (a, c'))"

definition uint_arg :: "string \<Rightarrow> nat \<Rightarrow> nat argp" where
  "uint_arg opt bits =
     bindA (text_arg opt) (\<lambda>a. case ParseUint a 0 bits of Inl e \<Rightarrow> failA (NumError e) | Inr v \<Rightarrow> retA v)"

definition ipv4_arg :: "string \<Rightarrow> (byte list) argp" where
  "ipv4_arg opt =
     bindA (text_arg opt) (\<lambda>a.
       case ParseIP a of
         None \<Rightarrow> failA (InvalidIP a)
       | Some v \<Rightarrow> (case To4 v of None \<Rightarrow> failA (NotIPv4 a) | Some b \<Rightarrow> retA b))"

text \<open>
  The loop of every options parser: until there is no token, an option is read and its case
  updates the attributes collected so far. An error returns them with the error. Nothing in
  the loop bounds it, so not returning is a value too.
\<close>

partial_function (option) opt_loop ::
    "('a \<Rightarrow> string \<Rightarrow> 'a argp) \<Rightarrow> 'a \<Rightarrow> CmdParser \<Rightarrow> ('a \<times> tun_err option) option" where
  "opt_loop option acc c =
     (case GetToken c of
        (None, _) \<Rightarrow> Some (acc, None)
      | (Some opt, c') \<Rightarrow>
          (case option acc opt c' of
             Inl e \<Rightarrow> Some (acc, Some e)
           | Inr (acc', c'') \<Rightarrow> opt_loop option acc' c''))"

section \<open>Object identifiers\<close>

definition ParseOID :: "string \<Rightarrow> tun_err + u64 list" where
  "ParseOID s =
     (let id = takeWhile (\<lambda>c. c \<noteq> CHR '':'') s; rest = dropWhile (\<lambda>c. c \<noteq> CHR '':'') s in
      if rest = [] then
        (case ParseUint s 10 32 of Inl e \<Rightarrow> Inl (NumError e) | Inr v \<Rightarrow> Inr [of_nat v])
      else
        case ParseUint id 10 64 of
          Inl e \<Rightarrow> Inl (NumError e)
        | Inr seid \<Rightarrow>
            (case ParseUint (tl rest) 10 32 of Inl e \<Rightarrow> Inl (NumError e) | Inr v \<Rightarrow> Inr [of_nat seid, of_nat v]))"

end
