(* ===== verification/TunOptions.thy ===== *)
theory TunOptions
  imports TunTypes
begin

text \<open>
  Flow descriptions (\<open>flowdesc.go\<close>) and the options of the four kinds of objects
  (\<open>ParsePDROptions\<close>, \<open>ParseFAROptions\<close>, \<open>ParseQEROptions\<close>,
  \<open>ParseURROptions\<close>).
\<close>

definition bindE :: "'e + 'a \<Rightarrow> ('a \<Rightarrow> 'e + 'b) \<Rightarrow> 'e + 'b" where
  "bindE m f = (case m of Inl e \<Rightarrow> Inl e | Inr x \<Rightarrow> f x)"

lemma bindE_simps [simp]: "bindE (Inl e) f = Inl e" "bindE (Inr x) f = f x"
  by (simp_all add: bindE_def)

section \<open>Flow descriptions\<close>

text \<open>A port range as the code keeps it: a list of one or two ports.\<close>

definition port_number :: "string \<Rightarrow> tun_err + u16" where
  "port_number s = (case ParseUint s 10 16 of Inl e \<Rightarrow> Inl (NumError e) | Inr v \<Rightarrow> Inr (of_nat v))"

definition port_range :: "string \<Rightarrow> tun_err + u16 list" where
  "port_range port =
     (case SplitN2 (CHR ''-'') port of
        [d] \<Rightarrow> bindE (port_number d) (\<lambda>v. Inr [v])
      | [a, b] \<Rightarrow> bindE (port_number a) (\<lambda>start. bindE (port_number b) (\<lambda>e. Inr [start, e]))
      | _ \<Rightarrow> Inl (InvalidPort port))"

fun port_ranges :: "string list \<Rightarrow> tun_err + u16 list list" where
  "port_ranges [] = Inr []"
| "port_ranges (p # ps) = bindE (port_range p) (\<lambda>r. bindE (port_ranges ps) (\<lambda>rs. Inr (r # rs)))"

definition ParseFlowDescPorts :: "string \<Rightarrow> tun_err + u16 list list" where
  "ParseFlowDescPorts s = port_ranges (Split (CHR '','') s)"

text \<open>Four bytes per range, written through a \<open>uint32\<close> pointer: the machine is little-endian.\<close>

definition le32_put :: "u32 \<Rightarrow> byte list" where
  "le32_put w = rev (be32_put w)"

definition encode_range :: "u16 list \<Rightarrow> byte list" where
  "encode_range p =
     (case p of
        [v] \<Rightarrow> le32_put (push_bit 16 (ucast v) OR ucast v)
      | [a, b] \<Rightarrow> le32_put (push_bit 16 (ucast a) OR ucast b)
      | _ \<Rightarrow> replicate 4 0)"

definition EncodePorts :: "u16 list list \<Rightarrow> byte list" where
  "EncodePorts ports = concat (map encode_range ports)"

definition ParseFlowDescIPNet :: "string \<Rightarrow> tun_err + IPNet" where
  "ParseFlowDescIPNet s =
     (if s = ''any'' then Inr \<lparr>net_IP = replicate 16 0, net_Mask = CIDRMask 0 16\<rparr>
      else case ParseCIDR s of
        Some (_, ipnet) \<Rightarrow> Inr ipnet
      | None \<Rightarrow>
          (case ParseIP s of
             None \<Rightarrow> Inl (InvalidAddress s)
           | Some ip0 \<Rightarrow>
               (let ip = (case To4 ip0 of Some v4 \<Rightarrow> v4 | None \<Rightarrow> ip0); n = length ip * 8 in
                Inr \<lparr>net_IP = ip, net_Mask = CIDRMask n (length ip)\<rparr>)))"

definition field :: "string list \<Rightarrow> nat \<Rightarrow> tun_err + string" where
  "field token pos = (if length token \<le> pos then Inl (TooFewFields (length token)) else Inr (token ! pos))"

definition flow_action :: "string \<Rightarrow> tun_err + nl_attr" where
  "flow_action t =
     (if t = ''permit'' then Inr (FLOW_DESCRIPTION_ACTION, AttrConst SDF_FILTER_PERMIT) else Inl (UnknownAction t))"

definition flow_direction :: "string \<Rightarrow> tun_err + nl_attr" where
  "flow_direction t =
     (if t = ''in'' then Inr (FLOW_DESCRIPTION_DIRECTION, AttrConst SDF_FILTER_IN)
      else if t = ''out'' then Inr (FLOW_DESCRIPTION_DIRECTION, AttrConst SDF_FILTER_OUT)
      else Inl (UnknownDirection t))"

definition flow_protocol :: "string \<Rightarrow> tun_err + nl_attr" where
  "flow_protocol t =
     (if t = ''ip'' then Inr (FLOW_DESCRIPTION_PROTOCOL, AttrU8 255)
      else case ParseUint t 10 8 of
        Inl e \<Rightarrow> Inl (NumError e)
      | Inr v \<Rightarrow> Inr (FLOW_DESCRIPTION_PROTOCOL, AttrU8 (of_nat v)))"

definition keyword :: "string \<Rightarrow> string \<Rightarrow> tun_err + unit" where
  "keyword w t = (if t \<noteq> w then Inl (NotMatch w) else Inr ())"

definition net_attrs :: "attr_type \<Rightarrow> attr_type \<Rightarrow> IPNet \<Rightarrow> nl_attr list" where
  "net_attrs ip m n = [(ip, AttrBytes (net_IP n)), (m, AttrBytes (net_Mask n))]"

definition port_attrs :: "attr_type \<Rightarrow> tun_err + u16 list list \<Rightarrow> nl_attr list" where
  "port_attrs t r = (case r of Inl _ \<Rightarrow> [] | Inr ports \<Rightarrow> [(t, AttrBytes (EncodePorts ports))])"

definition dest_ports :: "string list \<Rightarrow> nat \<Rightarrow> nl_attr list" where
  "dest_ports token pos =
     (if pos < length token then port_attrs FLOW_DESCRIPTION_DEST_PORT (ParseFlowDescPorts (token ! pos)) else [])"

text \<open>
  The fields in order. The source ports are optional: a field that is not a list of ports must
  be the word \<open>to\<close>; a last field that is not a list of ports is left unread.
\<close>

definition ParseFlowDesc :: "string \<Rightarrow> tun_err + nl_attr list" where
  "ParseFlowDesc s =
     (let token = Fields s in
      bindE (bindE (field token 0) flow_action) (\<lambda>action.
      bindE (bindE (field token 1) flow_direction) (\<lambda>direction.
      bindE (bindE (field token 2) flow_protocol) (\<lambda>protocol.
      bindE (bindE (field token 3) (keyword ''from'')) (\<lambda>_.
      bindE (bindE (field token 4) ParseFlowDescIPNet) (\<lambda>src.
      bindE (field token 5) (\<lambda>t5.
      let sports = ParseFlowDescPorts t5; pos = (case sports of Inl _ \<Rightarrow> 5 | Inr _ \<Rightarrow> 6) in
      bindE (bindE (field token pos) (keyword ''to'')) (\<lambda>_.
      bindE (bindE (field token (pos + 1)) ParseFlowDescIPNet) (\<lambda>dst.
      Inr ([action, direction, protocol]
        @ net_attrs FLOW_DESCRIPTION_SRC_IPV4 FLOW_DESCRIPTION_SRC_MASK src
        @ port_attrs FLOW_DESCRIPTION_SRC_PORT sports
        @ net_attrs FLOW_DESCRIPTION_DEST_IPV4 FLOW_DESCRIPTION_DEST_MASK dst
        @ dest_ports token (pos + 2)))))))))))"

section \<open>Forwarding rules\<close>

text \<open>The attributes of the rule and its forwarding parameters, collected separately.\<close>

type_synonym attrs2 = "nl_attr list \<times> nl_attr list"

definition far_option :: "attrs2 \<Rightarrow> string \<Rightarrow> attrs2 argp" where
  "far_option acc opt =
     (case acc of (attrs, paramv) \<Rightarrow>
        if opt = ''--action'' then
          bindA (uint_arg opt 8) (\<lambda>v. retA (attrs @ [(FAR_APPLY_ACTION, AttrU16 (of_nat v))], paramv))
        else if opt = ''--hdr-creation'' then
          bindA (uint_arg opt 16) (\<lambda>desc.
          bindA (uint_arg opt 32) (\<lambda>teid.
          bindA (ipv4_arg opt) (\<lambda>addr.
          bindA (uint_arg opt 16) (\<lambda>port.
            retA (attrs, paramv @ [(FORWARDING_PARAMETER_OUTER_HEADER_CREATION, AttrList
              [(OUTER_HEADER_CREATION_DESCRIPTION, AttrU8 (of_nat desc)),
               (OUTER_HEADER_CREATION_O_TEID, AttrU32 (of_nat teid)),
               (OUTER_HEADER_CREATION_PEER_ADDR_IPV4, AttrBytes addr),
               (OUTER_HEADER_CREATION_PORT, AttrU16 (of_nat port))])])))))
        else if opt = ''--fwd-policy'' then
          bindA (text_arg opt) (\<lambda>a.
            retA (attrs, paramv @ [(FORWARDING_PARAMETER_FORWARDING_POLICY, AttrString a)]))
        else failA (UnknownOption opt))"

text \<open>A group of collected attributes is one more attribute, unless it is empty.\<close>

definition group_attr :: "attr_type \<Rightarrow> nl_attr list \<Rightarrow> nl_attr list" where
  "group_attr t vs = (if vs \<noteq> [] then [(t, AttrList vs)] else [])"

type_synonym parsed = "(nl_attr list \<times> tun_err option) option"

definition ParseFAROptions :: "string list \<Rightarrow> parsed" where
  "ParseFAROptions args =
     map_option (\<lambda>((attrs, paramv), e).
         (case e of Some _ \<Rightarrow> attrs | None \<Rightarrow> attrs @ group_attr FAR_FORWARDING_PARAMETER paramv, e))
       (opt_loop far_option ([], []) (NewCmdParser args))"

section \<open>Detection rules\<close>

text \<open>An option whose number or address becomes one attribute of the rule or of a group.\<close>

definition uint_attr :: "string \<Rightarrow> nat \<Rightarrow> (nat \<Rightarrow> nl_attr) \<Rightarrow> (nl_attr \<Rightarrow> 'a) \<Rightarrow> 'a argp" where
  "uint_attr opt bits mk put = bindA (uint_arg opt bits) (\<lambda>v. retA (put (mk v)))"

definition ipv4_attr :: "string \<Rightarrow> attr_type \<Rightarrow> (nl_attr \<Rightarrow> 'a) \<Rightarrow> 'a argp" where
  "ipv4_attr opt t put = bindA (ipv4_arg opt) (\<lambda>b. retA (put (t, AttrBytes b)))"

text \<open>The attributes of the rule, the SDF filter, the packet detection information.\<close>

type_synonym attrs3 = "nl_attr list \<times> nl_attr list \<times> nl_attr list"

definition pdr_pdi_option :: "attrs3 \<Rightarrow> string \<Rightarrow> attrs3 argp" where
  "pdr_pdi_option acc opt =
     (case acc of (attrs, sdfv, pdiv) \<Rightarrow>
        if opt = ''--ue-ipv4'' then ipv4_attr opt PDI_UE_ADDR_IPV4 (\<lambda>a. (attrs, sdfv, pdiv @ [a]))
        else if opt = ''--source-interface'' then
          bindA (text_arg opt) (\<lambda>a.
            case Atoi a of
              Inl _ \<Rightarrow> failA (InvalidSourceInterface a)
            | Inr v \<Rightarrow>
                if v \<noteq> 0 \<and> v \<noteq> 1 then failA (InvalidSourceInterface a)
                else retA (attrs, sdfv, pdiv @ [(PDI_SRC_INTF, AttrU8 (of_int v))]))
        else if opt = ''--f-teid'' then
          bindA (uint_arg opt 32) (\<lambda>teid.
          bindA (ipv4_arg opt) (\<lambda>addr.
            retA (attrs, sdfv, pdiv @ [(PDI_F_TEID, AttrList
              [(F_TEID_I_TEID, AttrU32 (of_nat teid)), (F_TEID_GTPU_ADDR_IPV4, AttrBytes addr)])])))
        else failA (UnknownOption opt))"

definition pdr_sdf_option :: "attrs3 \<Rightarrow> string \<Rightarrow> attrs3 argp" where
  "pdr_sdf_option acc opt =
     (case acc of (attrs, sdfv, pdiv) \<Rightarrow>
        let put = (\<lambda>a. (attrs, sdfv @ [a], pdiv)) in
        if opt = ''--sdf-desp'' then
          bindA (text_arg opt) (\<lambda>a.
            case ParseFlowDesc a of
              Inl e \<Rightarrow> failA e
            | Inr fd \<Rightarrow> retA (put (SDF_FILTER_FLOW_DESCRIPTION, AttrList fd)))
        else if opt = ''--sdf-tos-traff-cls'' then
          uint_attr opt 16 (\<lambda>v. (SDF_FILTER_TOS_TRAFFIC_CLASS, AttrU16 (of_nat v))) put
        else if opt = ''--sdf-scy-param-idx'' then
          uint_attr opt 32 (\<lambda>v. (SDF_FILTER_SECURITY_PARAMETER_INDEX, AttrU32 (of_nat v))) put
        else if opt = ''--sdf-flow-label'' then
          uint_attr opt 32 (\<lambda>v. (SDF_FILTER_FLOW_LABEL, AttrU32 (of_nat v))) put
        else if opt = ''--sdf-id'' then
          uint_attr opt 32 (\<lambda>v. (SDF_FILTER_SDF_FILTER_ID, AttrU32 (of_nat v))) put
        else failA (UnknownOption opt))"

definition pdr_option :: "attrs3 \<Rightarrow> string \<Rightarrow> attrs3 argp" where
  "pdr_option acc opt =
     (case acc of (attrs, sdfv, pdiv) \<Rightarrow>
        let put = (\<lambda>a. (attrs @ [a], sdfv, pdiv)) in
        if opt = ''--pcd'' then uint_attr opt 32 (\<lambda>v. (PDR_PRECEDENCE, AttrU32 (of_nat v))) put
        else if opt = ''--hdr-rm'' then uint_attr opt 8 (\<lambda>v. (PDR_OUTER_HEADER_REMOVAL, AttrU8 (of_nat v))) put
        else if opt = ''--far-id'' then uint_attr opt 32 (\<lambda>v. (PDR_FAR_ID, AttrU32 (of_nat v))) put
        else if opt \<in> {''--ue-ipv4'', ''--source-interface'', ''--f-teid''} then pdr_pdi_option acc opt
        else if opt \<in> {''--sdf-desp'', ''--sdf-tos-traff-cls'', ''--sdf-scy-param-idx'',
          ''--sdf-flow-label'', ''--sdf-id''} then pdr_sdf_option acc opt
        else if opt = ''--qer-id'' then uint_attr opt 32 (\<lambda>v. (PDR_QER_ID, AttrU32 (of_nat v))) put
        else if opt = ''--gtpu-src-ip'' then ipv4_attr opt PDR_ROLE_ADDR_IPV4 put
        else if opt = ''--buffer-usock-path'' then
          bindA (text_arg opt) (\<lambda>a. retA (put (PDR_UNIX_SOCKET_PATH, AttrString a)))
        else failA (UnknownOption opt))"

definition ParsePDROptions :: "string list \<Rightarrow> parsed" where
  "ParsePDROptions args =
     map_option (\<lambda>((attrs, sdfv, pdiv), e).
         (case e of
            Some _ \<Rightarrow> attrs
          | None \<Rightarrow> attrs @ group_attr PDR_PDI (pdiv @ group_attr PDI_SDF_FILTER sdfv), e))
       (opt_loop pdr_option ([], [], []) (NewCmdParser args))"

section \<open>QoS rules\<close>

text \<open>A bit rate of forty bits is split into its upper 32 and lower 8.\<close>

definition rate_attrs :: "attr_type \<Rightarrow> attr_type \<Rightarrow> nat \<Rightarrow> nl_attr list" where
  "rate_attrs high low v =
     [(high, AttrU32 (of_nat (v div 256))), (low, AttrU8 (of_nat v))]"

definition qer_deprecated :: "string list" where
  "qer_deprecated = [''--mbr-uhigh'', ''--mbr-ulow'', ''--mbr-dhigh'', ''--mbr-dlow'',
     ''--gbr-uhigh'', ''--gbr-ulow'', ''--gbr-dhigh'', ''--gbr-dlow'', ''--rcsr'']"

text \<open>The attributes of the rule, the maximum and the guaranteed bit rates.\<close>

definition qer_option :: "attrs3 \<Rightarrow> string \<Rightarrow> attrs3 argp" where
  "qer_option acc opt =
     (case acc of (attrs, mbrv, gbrv) \<Rightarrow>
        let put = (\<lambda>a. (attrs @ [a], mbrv, gbrv)) in
        if opt = ''--gate-status'' then uint_attr opt 8 (\<lambda>v. (QER_GATE, AttrU8 (of_nat v))) put
        else if opt \<in> set qer_deprecated then failA (DeprecatedOption opt)
        else if opt = ''--mbr-ul'' then
          bindA (uint_arg opt 40) (\<lambda>v. retA (attrs, mbrv @ rate_attrs QER_MBR_UL_HIGH32 QER_MBR_UL_LOW8 v, gbrv))
        else if opt = ''--mbr-dl'' then
          bindA (uint_arg opt 40) (\<lambda>v. retA (attrs, mbrv @ rate_attrs QER_MBR_DL_HIGH32 QER_MBR_DL_LOW8 v, gbrv))
        else if opt = ''--gbr-ul'' then
          bindA (uint_arg opt 40) (\<lambda>v. retA (attrs, mbrv, gbrv @ rate_attrs QER_GBR_UL_HIGH32 QER_GBR_UL_LOW8 v))
        else if opt = ''--gbr-dl'' then
          bindA (uint_arg opt 40) (\<lambda>v. retA (attrs, mbrv, gbrv @ rate_attrs QER_GBR_DL_HIGH32 QER_GBR_DL_LOW8 v))
        else if opt = ''--qer-corr-id'' then uint_attr opt 32 (\<lambda>v. (QER_CORR_ID, AttrU32 (of_nat v))) put
        else if opt = ''--rqi'' then uint_attr opt 8 (\<lambda>v. (QER_RQI, AttrU8 (of_nat v))) put
        else if opt = ''--qfi'' then uint_attr opt 8 (\<lambda>v. (QER_QFI, AttrU8 (of_nat v))) put
        else if opt = ''--ppi'' then uint_attr opt 8 (\<lambda>v. (QER_PPI, AttrU8 (of_nat v))) put
        else failA (UnknownOption opt))"

definition ParseQEROptions :: "string list \<Rightarrow> parsed" where
  "ParseQEROptions args =
     map_option (\<lambda>((attrs, mbrv, gbrv), e).
         (case e of
            Some _ \<Rightarrow> attrs
          | None \<Rightarrow> attrs @ group_attr QER_MBR mbrv @ group_attr QER_GBR gbrv, e))
       (opt_loop qer_option ([], [], []) (NewCmdParser args))"

section \<open>Usage reporting rules\<close>

text \<open>Every option is read and skipped.\<close>

definition ParseURROptions :: "string list \<Rightarrow> parsed" where
  "ParseURROptions args = opt_loop (\<lambda>acc _. retA acc) [] (NewCmdParser args)"

end
