(* ===== verification/TunCmd.thy ===== *)
theory TunCmd
  imports TunOptions
begin

text \<open>
  The commands of the tunnel tool (\<open>cmd_pdr.go\<close>, \<open>cmd_far.go\<close>,
  \<open>cmd_qer.go\<close>, \<open>cmd_urr.go\<close>), its command tree and its \<open>main\<close>. What a
  command does to the outside is appended to a list of events; the netlink libraries are the
  fields of \<open>tenv\<close>, which may depend on everything done so far.
\<close>

section \<open>The outside\<close>

datatype nl_proto = NETLINK_GENERIC | NETLINK_ROUTE

datatype rule_kind = PDR | FAR | QER | URR

text \<open>The requests to the kernel module, on a link (by its index) and an object.\<close>

datatype request =
    CreateOID rule_kind nat "u64 list" "nl_attr list"
  | UpdateOID rule_kind nat "u64 list" "nl_attr list"
  | RemoveOID rule_kind nat "u64 list"
  | GetOID rule_kind nat "u64 list"
  | GetAll rule_kind

datatype tevent =
    MuxNew | MuxServe | MuxClose | WgWait
  | NlOpen nl_proto | NlClose
  | Request request
  | Printed string

text \<open>
  Errors of the library calls (\<open>None\<close> is nil). A request gives an error and a reply, kept by
  its text in Go syntax; \<open>te_MarshalIndent\<close> is its text as JSON.
\<close>

record tenv =
  te_NewMux :: "tevent list \<Rightarrow> string option"
  te_Open :: "tevent list \<Rightarrow> nl_proto \<Rightarrow> string option"
  te_NewClient :: "tevent list \<Rightarrow> string option"
  te_GetLink :: "tevent list \<Rightarrow> string \<Rightarrow> string + nat"
  te_request :: "tevent list \<Rightarrow> request \<Rightarrow> string option \<times> string"
  te_MarshalIndent :: "string \<Rightarrow> string + string"

type_synonym tun_cmd = "(tevent list, tun_err option) comp"

definition emitT :: "tevent \<Rightarrow> (tevent list, unit) comp" where
  [go_defs]: "emitT e = modM (\<lambda>tr. tr @ [e])"

definition errT :: "string option \<Rightarrow> tun_cmd \<Rightarrow> tun_cmd" where
  [go_defs]: "errT e k = (case e of Some m \<Rightarrow> retM (Some (LibraryError m)) | None \<Rightarrow> k)"

section \<open>Shared parts of the commands\<close>

text \<open>
  Every command opens a multiplexer and a connection and closes both when it returns, in the
  opposite order, however it returns.
\<close>

definition with_mux :: "tenv \<Rightarrow> tun_cmd \<Rightarrow> tun_cmd" where
  "with_mux E k =
     bindM (getsM (te_NewMux E)) (\<lambda>e. errT e
       (thenM (emitT MuxNew) (thenM (emitT MuxServe)
         (bindM k (\<lambda>r. thenM (emitT MuxClose) (thenM (emitT WgWait) (retM r)))))))"

definition with_conn :: "tenv \<Rightarrow> nl_proto \<Rightarrow> tun_cmd \<Rightarrow> tun_cmd" where
  "with_conn E proto k =
     bindM (getsM (\<lambda>tr. te_Open E tr proto)) (\<lambda>e. errT e
       (thenM (emitT (NlOpen proto)) (bindM k (\<lambda>r. thenM (emitT NlClose) (retM r)))))"

definition with_client :: "tenv \<Rightarrow> tun_cmd \<Rightarrow> tun_cmd" where
  "with_client E k =
     with_mux E (with_conn E NETLINK_GENERIC (bindM (getsM (te_NewClient E)) (\<lambda>e. errT e k)))"

definition with_link :: "tenv \<Rightarrow> string \<Rightarrow> (nat \<Rightarrow> tun_cmd) \<Rightarrow> tun_cmd" where
  "with_link E ifname k =
     with_client E
       (bindM (getsM (\<lambda>tr. te_GetLink E tr ifname)) (\<lambda>r.
          case r of Inl m \<Rightarrow> retM (Some (LibraryError m)) | Inr link \<Rightarrow> k link))"

definition send_request :: "tenv \<Rightarrow> request \<Rightarrow> (tevent list, string option \<times> string) comp" where
  "send_request E req =
     bindM (getsM (\<lambda>tr. te_request E tr req)) (\<lambda>r. thenM (emitT (Request req)) (retM r))"

definition request_error :: "tenv \<Rightarrow> request \<Rightarrow> tun_cmd" where
  "request_error E req =
     bindM (send_request E req) (\<lambda>(e, _). retM (map_option LibraryError e))"

definition request_report :: "tenv \<Rightarrow> request \<Rightarrow> tun_cmd" where
  "request_report E req =
     bindM (send_request E req) (\<lambda>(e, reply).
       thenM (emitT (Printed (''Reports: '' @ reply))) (retM (map_option LibraryError e)))"

definition request_json :: "tenv \<Rightarrow> request \<Rightarrow> tun_cmd" where
  "request_json E req =
     bindM (send_request E req) (\<lambda>(e, reply). errT e
       (case te_MarshalIndent E reply of
          Inl m \<Rightarrow> retM (Some (LibraryError m))
        | Inr j \<Rightarrow> thenM (emitT (Printed j)) (retM None)))"

text \<open>The interface name and the object a command is for; a parser that never returns hangs.\<close>

definition oid_args :: "string list \<Rightarrow> (string \<Rightarrow> u64 list \<Rightarrow> tun_cmd) \<Rightarrow> tun_cmd" where
  "oid_args args k =
     (case args of
        ifname # obj # _ \<Rightarrow>
          (case ParseOID obj of Inl e \<Rightarrow> retM (Some e) | Inr oid \<Rightarrow> k ifname oid)
      | _ \<Rightarrow> retM (Some TooFewParameter))"

definition option_args :: "(string list \<Rightarrow> parsed) \<Rightarrow> string list \<Rightarrow> (nl_attr list \<Rightarrow> tun_cmd) \<Rightarrow> tun_cmd" where
  "option_args parse args k =
     (case parse (drop 2 args) of
        None \<Rightarrow> hangM
      | Some (_, Some e) \<Rightarrow> retM (Some e)
      | Some (attrs, None) \<Rightarrow> k attrs)"

definition set_rule :: "tenv \<Rightarrow> (string list \<Rightarrow> parsed) \<Rightarrow> (nat \<Rightarrow> u64 list \<Rightarrow> nl_attr list \<Rightarrow> tun_cmd) \<Rightarrow>
    string list \<Rightarrow> tun_cmd" where
  "set_rule E parse send args =
     oid_args args (\<lambda>ifname oid.
       option_args parse args (\<lambda>attrs.
         with_link E ifname (\<lambda>link. send link oid attrs)))"

section \<open>Detection rules\<close>

definition CmdAddPDR :: "tenv \<Rightarrow> string list \<Rightarrow> tun_cmd" where
  "CmdAddPDR E args =
     set_rule E ParsePDROptions (\<lambda>link oid attrs. request_error E (CreateOID PDR link oid attrs)) args"

definition CmdModPDR :: "tenv \<Rightarrow> string list \<Rightarrow> tun_cmd" where
  "CmdModPDR E args =
     set_rule E ParsePDROptions (\<lambda>link oid attrs. request_error E (UpdateOID PDR link oid attrs)) args"

definition CmdDeletePDR :: "tenv \<Rightarrow> string list \<Rightarrow> tun_cmd" where
  "CmdDeletePDR E args =
     oid_args args (\<lambda>ifname oid. with_link E ifname (\<lambda>link. request_error E (RemoveOID PDR link oid)))"

definition CmdGetPDR :: "tenv \<Rightarrow> string list \<Rightarrow> tun_cmd" where
  "CmdGetPDR E args =
     oid_args args (\<lambda>ifname oid. with_link E ifname (\<lambda>link. request_json E (GetOID PDR link oid)))"

definition CmdListPDR :: "tenv \<Rightarrow> string list \<Rightarrow> tun_cmd" where
  "CmdListPDR E args = with_client E (request_json E (GetAll PDR))"

section \<open>Forwarding rules\<close>

definition CmdAddFAR :: "tenv \<Rightarrow> string list \<Rightarrow> tun_cmd" where
  "CmdAddFAR E args =
     set_rule E ParseFAROptions (\<lambda>link oid attrs. request_error E (CreateOID FAR link oid attrs)) args"

definition CmdModFAR :: "tenv \<Rightarrow> string list \<Rightarrow> tun_cmd" where
  "CmdModFAR E args =
     set_rule E ParseFAROptions (\<lambda>link oid attrs. request_error E (UpdateOID FAR link oid attrs)) args"

definition CmdDeleteFAR :: "tenv \<Rightarrow> string list \<Rightarrow> tun_cmd" where
  "CmdDeleteFAR E args =
     oid_args args (\<lambda>ifname oid. with_link E ifname (\<lambda>link. request_error E (RemoveOID FAR link oid)))"

definition CmdGetFAR :: "tenv \<Rightarrow> string list \<Rightarrow> tun_cmd" where
  "CmdGetFAR E args =
     oid_args args (\<lambda>ifname oid. with_link E ifname (\<lambda>link. request_json E (GetOID FAR link oid)))"

definition CmdListFAR :: "tenv \<Rightarrow> string list \<Rightarrow> tun_cmd" where
  "CmdListFAR E args = with_client E (request_json E (GetAll FAR))"

section \<open>QoS rules\<close>

definition CmdAddQER :: "tenv \<Rightarrow> string list \<Rightarrow> tun_cmd" where
  "CmdAddQER E args =
     set_rule E ParseQEROptions (\<lambda>link oid attrs. request_error E (CreateOID QER link oid attrs)) args"

definition CmdModQER :: "tenv \<Rightarrow> string list \<Rightarrow> tun_cmd" where
  "CmdModQER E args =
     set_rule E ParseQEROptions (\<lambda>link oid attrs. request_error E (UpdateOID QER link oid attrs)) args"

definition CmdDeleteQER :: "tenv \<Rightarrow> string list \<Rightarrow> tun_cmd" where
  "CmdDeleteQER E args =
     oid_args args (\<lambda>ifname oid. with_link E ifname (\<lambda>link. request_error E (RemoveOID QER link oid)))"

definition CmdGetQER :: "tenv \<Rightarrow> string list \<Rightarrow> tun_cmd" where
  "CmdGetQER E args =
     oid_args args (\<lambda>ifname oid. with_link E ifname (\<lambda>link. request_json E (GetOID QER link oid)))"

definition CmdListQER :: "tenv \<Rightarrow> string list \<Rightarrow> tun_cmd" where
  "CmdListQER E args = with_client E (request_json E (GetAll QER))"

section \<open>Usage reporting rules\<close>

text \<open>An update or a removal prints the reports it gets, whether or not there was an error.\<close>

definition CmdAddURR :: "tenv \<Rightarrow> string list \<Rightarrow> tun_cmd" where
  "CmdAddURR E args =
     set_rule E ParseURROptions (\<lambda>link oid attrs. request_error E (CreateOID URR link oid attrs)) args"

definition CmdModURR :: "tenv \<Rightarrow> string list \<Rightarrow> tun_cmd" where
  "CmdModURR E args =
     set_rule E ParseURROptions (\<lambda>link oid attrs. request_report E (UpdateOID URR link oid attrs)) args"

definition CmdDeleteURR :: "tenv \<Rightarrow> string list \<Rightarrow> tun_cmd" where
  "CmdDeleteURR E args =
     oid_args args (\<lambda>ifname oid. with_link E ifname (\<lambda>link. request_report E (RemoveOID URR link oid)))"

definition CmdGetURR :: "tenv \<Rightarrow> string list \<Rightarrow> tun_cmd" where
  "CmdGetURR E args =
     oid_args args (\<lambda>ifname oid. with_link E ifname (\<lambda>link. request_json E (GetOID URR link oid)))"

definition CmdListURR :: "tenv \<Rightarrow> string list \<Rightarrow> tun_cmd" where
  "CmdListURR E args = with_client E (request_json E (GetAll URR))"

section \<open>The tool\<close>

definition CmdTree :: "(tenv \<Rightarrow> string list \<Rightarrow> tun_cmd) cmd_node" where
  "CmdTree =
     (let tok = (\<lambda>name next. CmdToken name [] (Some next));
          group = (\<lambda>name p f q u. tok name (CmdNodeList [tok ''pdr'' (CmdFunc p), tok ''far'' (CmdFunc f),
            tok ''qer'' (CmdFunc q), tok ''urr'' (CmdFunc u)])) in
      CmdNodeList
        [group ''add'' CmdAddPDR CmdAddFAR CmdAddQER CmdAddURR,
         group ''mod'' CmdModPDR CmdModFAR CmdModQER CmdModURR,
         group ''delete'' CmdDeletePDR CmdDeleteFAR CmdDeleteQER CmdDeleteURR,
         group ''get'' CmdGetPDR CmdGetFAR CmdGetQER CmdGetURR,
         group ''list'' CmdListPDR CmdListFAR CmdListQER CmdListURR])"

text \<open>\<open>main\<close> on \<open>os.Args\<close>: the exit status. The name of the program is always there.\<close>

definition tunnel_main :: "tenv \<Rightarrow> string list \<Rightarrow> (tevent list, nat) comp" where
  "tunnel_main E osArgs =
     (if length osArgs < 3 then retM 1
      else case Find CmdTree (tl osArgs) of
        (None, _) \<Rightarrow> retM 1
      | (Some cmd, args) \<Rightarrow> bindM (cmd E args) (\<lambda>err. retM (if err = None then 0 else 1)))"

section \<open>The command that makes the link\<close>

text \<open>
  \<open>gogtp5g-link\<close>: the tool that creates and deletes the link of a tunnel. The UDP socket and
  the routing library are further fields of the environment. \<open>CmdAdd\<close> holds the link
  until it is told to stop; a stop channel nobody sends on means for ever.
\<close>

datatype levent =
    LMuxNew | LMuxServe | LMuxClose | LWgWait
  | LNlOpen nl_proto | LNlClose
  | UdpListen string | UdpClose | FileOpen | FileClose
  | LinkCreate string nat nat nat | LinkUp string | LinkRemove string
  | Stopped

record lenv =
  le_NewMux :: "levent list \<Rightarrow> string option"
  le_Open :: "levent list \<Rightarrow> nl_proto \<Rightarrow> string option"
  le_ResolveUDPAddr :: "levent list \<Rightarrow> string \<Rightarrow> string + string"
  le_ListenUDP :: "levent list \<Rightarrow> string \<Rightarrow> string option"
  le_File :: "levent list \<Rightarrow> string + nat"
  le_Create :: "levent list \<Rightarrow> string \<Rightarrow> string option"
  le_Up :: "levent list \<Rightarrow> string \<Rightarrow> string option"
  le_Remove :: "levent list \<Rightarrow> string \<Rightarrow> string option"

type_synonym link_cmd = "(levent list, string option) comp"

definition emitL :: "levent \<Rightarrow> (levent list, unit) comp" where
  [go_defs]: "emitL e = modM (\<lambda>tr. tr @ [e])"

text \<open>An error ends the command; otherwise the event happens and the command goes on.\<close>

definition try_then :: "(levent list \<Rightarrow> string option) \<Rightarrow> levent \<Rightarrow> link_cmd \<Rightarrow> link_cmd" where
  "try_then err e k =
     bindM (getsM err) (\<lambda>r. case r of Some m \<Rightarrow> retM (Some m) | None \<Rightarrow> thenM (emitL e) k)"

definition deferL :: "link_cmd \<Rightarrow> levent list \<Rightarrow> link_cmd" where
  "deferL k es = bindM k (\<lambda>r. thenM (modM (\<lambda>tr. tr @ es)) (retM r))"

definition with_route :: "lenv \<Rightarrow> link_cmd \<Rightarrow> link_cmd" where
  "with_route L k =
     try_then (le_NewMux L) LMuxNew
       (deferL
         (thenM (emitL LMuxServe)
           (try_then (\<lambda>tr. le_Open L tr NETLINK_ROUTE) (LNlOpen NETLINK_ROUTE) (deferL k [LNlClose])))
         [LMuxClose, LWgWait])"

definition link_CmdDel :: "lenv \<Rightarrow> string \<Rightarrow> link_cmd" where
  "link_CmdDel L ifname =
     with_route L (try_then (\<lambda>tr. le_Remove L tr ifname) (LinkRemove ifname) (retM None))"

text \<open>The last argument says whether the stop signal comes.\<close>

definition link_CmdAdd :: "lenv \<Rightarrow> string \<Rightarrow> nat \<Rightarrow> string \<Rightarrow> bool \<Rightarrow> link_cmd" where
  "link_CmdAdd L ifname role ip stops =
     with_route L
       (bindM (getsM (\<lambda>tr. le_ResolveUDPAddr L tr (ip @ '':2152''))) (\<lambda>r.
          case r of
            Inl m \<Rightarrow> retM (Some m)
          | Inr laddr \<Rightarrow>
              try_then (\<lambda>tr. le_ListenUDP L tr laddr) (UdpListen laddr)
                (deferL
                  (bindM (getsM (le_File L)) (\<lambda>r.
                     case r of
                       Inl m \<Rightarrow> retM (Some m)
                     | Inr fd \<Rightarrow>
                         thenM (emitL FileOpen)
                           (deferL
                             (try_then (\<lambda>tr. le_Create L tr ifname) (LinkCreate ifname fd 131072 role)
                               (try_then (\<lambda>tr. le_Up L tr ifname) (LinkUp ifname)
                                 (if stops then thenM (emitL Stopped) (retM None) else hangM)))
                             [FileClose])))
                  [UdpClose])))"

definition link_main :: "lenv \<Rightarrow> string list \<Rightarrow> (levent list, nat) comp" where
  "link_main L osArgs =
     (if length osArgs < 4 then retM 1
      else
        let cmd = osArgs ! 1; ifname = osArgs ! 2; ip = osArgs ! 3;
            role = (if 4 < length osArgs \<and> osArgs ! 4 = ''--ran'' then 1 else 0);
            status = (\<lambda>err. retM (if err = None then 0 else 1)) in
        if cmd = ''add'' then bindM (link_CmdAdd L ifname role ip False) status
        else if cmd = ''del'' then bindM (link_CmdDel L ifname) status
        else retM 1)"

end
