(* ===== verification/TunFacts.thy ===== *)
theory TunFacts
  imports TunCmd
begin

text \<open>
  The tunnel tool: every command returns, for every argument list and whatever the libraries
  answer; what it opens it closes; which command the words on the command line select, and
  which request that command may send.
\<close>

named_theorems argp_intros \<open>rules for parsers of arguments\<close>

section \<open>Parsers of arguments\<close>

text \<open>
  \<open>good Q m\<close>: the parser never moves back, keeps the argument list, and its results satisfy
  \<open>Q\<close>.
\<close>

definition good :: "('a \<Rightarrow> bool) \<Rightarrow> 'a argp \<Rightarrow> bool" where
  "good Q m \<longleftrightarrow> (\<forall>c x c'. m c = Inr (x, c') \<longrightarrow> cp_args c' = cp_args c \<and> cp_pos c \<le> cp_pos c' \<and> Q x)"

lemma goodI:
  "(\<And>c x c'. m c = Inr (x, c') \<Longrightarrow> cp_args c' = cp_args c \<and> cp_pos c \<le> cp_pos c' \<and> Q x) \<Longrightarrow> good Q m"
  by (simp add: good_def)

lemma goodD:
  "good Q m \<Longrightarrow> m c = Inr (x, c') \<Longrightarrow> cp_args c' = cp_args c \<and> cp_pos c \<le> cp_pos c' \<and> Q x"
  by (auto simp: good_def)

lemma GetToken_cases:
  "GetToken c = (None, c) \<and> length (cp_args c) \<le> cp_pos c \<or>
   GetToken c = (Some (cp_args c ! cp_pos c), c\<lparr>cp_pos := Suc (cp_pos c)\<rparr>) \<and> cp_pos c < length (cp_args c)"
  by (auto simp: GetToken_def)

lemma good_retA [argp_intros]: "Q x \<Longrightarrow> good Q (retA x)"
  by (auto simp: good_def retA_def)

lemma good_failA [argp_intros]: "good Q (failA e)"
  by (auto simp: good_def failA_def)

lemma good_bindA:
  assumes "good R m" and "\<And>x. R x \<Longrightarrow> good Q (f x)"
  shows "good Q (bindA m f)"
proof (rule goodI)
  fix c x c'
  assume "bindA m f c = Inr (x, c')"
  then obtain y c1 where y: "m c = Inr (y, c1)" "f y c1 = Inr (x, c')"
    by (auto simp: bindA_def split: sum.splits prod.splits)
  with goodD [OF assms(1) y(1)] goodD [OF assms(2) y(2)]
  show "cp_args c' = cp_args c \<and> cp_pos c \<le> cp_pos c' \<and> Q x" by auto
qed

lemma good_text_arg: "good (\<lambda>_. True) (text_arg opt)"
  by (auto simp: good_def text_arg_def GetToken_def split: prod.splits option.splits if_splits)

lemma good_uint_arg: "good (\<lambda>v. v < 2 ^ bits) (uint_arg opt bits)"
  unfolding uint_arg_def
  by (rule good_bindA [OF good_text_arg])
    (auto split: sum.split intro!: argp_intros dest: ParseUint_bound)

lemma good_ipv4_arg: "good (\<lambda>b. length b = 4) (ipv4_arg opt)"
  unfolding ipv4_arg_def
  by (rule good_bindA [OF good_text_arg]) (auto split: option.split intro!: argp_intros dest: length_To4)

lemmas good_args [argp_intros] =
  good_bindA [OF good_text_arg] good_bindA [OF good_uint_arg] good_bindA [OF good_ipv4_arg]

lemma good_if [argp_intros]: "(b \<Longrightarrow> good Q m) \<Longrightarrow> (\<not> b \<Longrightarrow> good Q n) \<Longrightarrow> good Q (if b then m else n)"
  by simp

lemma good_sum [argp_intros]:
  "(\<And>e. r = Inl e \<Longrightarrow> good Q (m e)) \<Longrightarrow> (\<And>x. r = Inr x \<Longrightarrow> good Q (f x)) \<Longrightarrow>
    good Q (case r of Inl e \<Rightarrow> m e | Inr x \<Rightarrow> f x)"
  by (cases r) auto

lemma good_uint_attr [argp_intros]:
  "(\<And>v. v < 2 ^ bits \<Longrightarrow> Q (put (mk v))) \<Longrightarrow> good Q (uint_attr opt bits mk put)"
  unfolding uint_attr_def by (intro argp_intros) simp

lemma good_ipv4_attr [argp_intros]:
  "(\<And>b. length b = 4 \<Longrightarrow> Q (put (t, AttrBytes b))) \<Longrightarrow> good Q (ipv4_attr opt t put)"
  unfolding ipv4_attr_def by (intro argp_intros) simp

text \<open>The loop returns, as the distance to the end shrinks, and keeps an invariant of the body.\<close>

lemma opt_loop_total:
  assumes body: "\<And>acc opt. I acc \<Longrightarrow> good I (option acc opt)" and "I acc"
  shows "\<exists>acc' e. opt_loop option acc c = Some (acc', e) \<and> I acc'"
  using assms(2)
proof (induction "length (cp_args c) - cp_pos c" arbitrary: acc c rule: less_induct)
  case less
  consider "GetToken c = (None, c)"
    | "GetToken c = (Some (cp_args c ! cp_pos c), c\<lparr>cp_pos := Suc (cp_pos c)\<rparr>)" "cp_pos c < length (cp_args c)"
    using GetToken_cases by blast
  then show ?case
  proof cases
    case 1
    with less.prems show ?thesis by (simp add: opt_loop.simps)
  next
    case 2
    show ?thesis
    proof (cases "option acc (cp_args c ! cp_pos c) (c\<lparr>cp_pos := Suc (cp_pos c)\<rparr>)")
      case (Inl e)
      with 2 less.prems show ?thesis by (simp add: opt_loop.simps [of _ _ c])
    next
      case (Inr r)
      obtain acc' c' where r: "r = (acc', c')" by (cases r)
      with goodD [OF body [OF less.prems] Inr [unfolded r]]
      have c': "cp_args c' = cp_args c" "Suc (cp_pos c) \<le> cp_pos c'" "I acc'" by simp_all
      then have "length (cp_args c') - cp_pos c' < length (cp_args c) - cp_pos c"
        using 2(2) by simp
      then show ?thesis
        using less.hyps [OF _ c'(3)] 2(1) Inr r by (simp add: opt_loop.simps [of _ _ c])
    qed
  qed
qed

lemma bindE_Inr_iff: "bindE m f = Inr y \<longleftrightarrow> (\<exists>x. m = Inr x \<and> f x = Inr y)"
  by (cases m) auto

section \<open>The options parsers\<close>

text \<open>Every option moves on, so that each parser returns on every list of arguments.\<close>

lemma good_far_option: "good (\<lambda>_. True) (far_option acc opt)"
  unfolding far_option_def by (cases acc; simp only: prod.case; intro argp_intros TrueI)

lemma good_pdr_pdi_option: "good (\<lambda>_. True) (pdr_pdi_option acc opt)"
  unfolding pdr_pdi_option_def by (cases acc; simp only: prod.case; intro argp_intros TrueI)

lemma good_pdr_sdf_option: "good (\<lambda>_. True) (pdr_sdf_option acc opt)"
  unfolding pdr_sdf_option_def Let_def by (cases acc; simp only: prod.case; intro argp_intros TrueI)

lemma good_pdr_option: "good (\<lambda>_. True) (pdr_option acc opt)"
  unfolding pdr_option_def Let_def
  by (cases acc; simp only: prod.case; intro argp_intros good_pdr_pdi_option good_pdr_sdf_option TrueI)

lemma good_qer_option: "good (\<lambda>_. True) (qer_option acc opt)"
  unfolding qer_option_def Let_def by (cases acc; simp only: prod.case; intro argp_intros TrueI)

lemma parsers_total:
  "\<exists>attrs e. ParseFAROptions args = Some (attrs, e)"
  "\<exists>attrs e. ParsePDROptions args = Some (attrs, e)"
  "\<exists>attrs e. ParseQEROptions args = Some (attrs, e)"
  "\<exists>attrs e. ParseURROptions args = Some (attrs, e)"
proof -
  have loop: "\<exists>acc' e. opt_loop option acc c = Some (acc', e)" if "\<And>acc opt. good (\<lambda>_. True) (option acc opt)"
    for option :: "'a \<Rightarrow> string \<Rightarrow> 'a argp" and acc c
    using opt_loop_total [where I = "\<lambda>_. True" and option = option] that by blast
  show "\<exists>attrs e. ParseFAROptions args = Some (attrs, e)"
    using loop [of far_option "([], [])", OF good_far_option, of "NewCmdParser args"]
    by (auto simp: ParseFAROptions_def split: option.split)
  show "\<exists>attrs e. ParsePDROptions args = Some (attrs, e)"
    using loop [of pdr_option "([], [], [])", OF good_pdr_option, of "NewCmdParser args"]
    by (auto simp: ParsePDROptions_def split: option.split)
  show "\<exists>attrs e. ParseQEROptions args = Some (attrs, e)"
    using loop [of qer_option "([], [], [])", OF good_qer_option, of "NewCmdParser args"]
    by (auto simp: ParseQEROptions_def split: option.split)
  show "\<exists>attrs e. ParseURROptions args = Some (attrs, e)"
    using loop [of "\<lambda>acc _. retA acc" "[]" "NewCmdParser args"] good_retA [of "\<lambda>_. True"]
    by (auto simp: ParseURROptions_def)
qed

definition options_of :: "rule_kind \<Rightarrow> string list \<Rightarrow> parsed" where
  "options_of k = (case k of PDR \<Rightarrow> ParsePDROptions | FAR \<Rightarrow> ParseFAROptions | QER \<Rightarrow> ParseQEROptions
     | URR \<Rightarrow> ParseURROptions)"

lemma options_total: "\<exists>attrs e. options_of k args = Some (attrs, e)"
  using parsers_total [of args] by (cases k) (simp_all only: options_of_def rule_kind.case)

section \<open>Commands return and close what they open\<close>

text \<open>
  The events of one command: none; or the multiplexer opened, served, closed and waited for,
  with the connection opened and closed inside, and requests and output only while it is open.
\<close>

definition is_work :: "tevent \<Rightarrow> bool" where
  "is_work e \<longleftrightarrow> (case e of Request _ \<Rightarrow> True | Printed _ \<Rightarrow> True | _ \<Rightarrow> False)"

definition requests_of :: "tevent list \<Rightarrow> request list" where
  "requests_of es = concat (map (\<lambda>e. case e of Request r \<Rightarrow> [r] | _ \<Rightarrow> []) es)"

definition conn_session :: "tevent list \<Rightarrow> bool" where
  "conn_session es \<longleftrightarrow> es = [] \<or> (\<exists>p work. es = NlOpen p # work @ [NlClose] \<and> list_all is_work work)"

definition mux_session :: "tevent list \<Rightarrow> bool" where
  "mux_session es \<longleftrightarrow>
     es = [] \<or> (\<exists>inner. es = MuxNew # MuxServe # inner @ [MuxClose, WgWait] \<and> conn_session inner)"

text \<open>\<open>ends cs P c\<close>: from every state the command returns, and its new events satisfy \<open>P\<close>.\<close>

definition ends :: "(tun_err option \<Rightarrow> tevent list \<Rightarrow> bool) \<Rightarrow> tun_cmd \<Rightarrow> bool" where
  "ends P c \<longleftrightarrow> (\<forall>tr. \<exists>err es. c tr = Ret (err, tr @ es) \<and> P err es)"

lemma ends_apply: "ends P c \<Longrightarrow> \<exists>err es. c tr = Ret (err, tr @ es) \<and> P err es"
  by (simp add: ends_def)

lemma ends_retM: "P err [] \<Longrightarrow> ends P (retM err)"
  unfolding ends_def by (rule allI, rule exI [of _ err], rule exI [of _ "[]"]) simp

lemma ends_errT: "(\<And>m. P (Some (LibraryError m)) []) \<Longrightarrow> ends P k \<Longrightarrow> ends P (errT e k)"
  by (cases e) (simp_all add: errT_def ends_retM)

lemma ends_getsM: "(\<And>tr. ends P (f (g tr))) \<Longrightarrow> ends P (bindM (getsM g) f)"
  by (auto simp: ends_def bindM_apply)

lemma ends_emit: "ends (\<lambda>err es. P err (e # es)) k \<Longrightarrow> ends P (thenM (emitT e) k)"
  unfolding ends_def
proof (intro allI)
  fix tr
  assume "\<forall>tr. \<exists>err es. k tr = Ret (err, tr @ es) \<and> P err (e # es)"
  then obtain err es where "k (tr @ [e]) = Ret (err, (tr @ [e]) @ es)" "P err (e # es)" by blast
  then show "\<exists>err es. thenM (emitT e) k tr = Ret (err, tr @ es) \<and> P err es"
    by (auto simp: thenM_apply emitT_def)
qed

lemma ends_after:
  assumes "ends (\<lambda>err es. P err (es @ fs)) k" and f: "\<And>tr r. f r tr = Ret (r, tr @ fs)"
  shows "ends P (bindM k f)"
  unfolding ends_def
proof
  fix tr
  from ends_apply [OF assms(1), of tr] obtain err es where
    "k tr = Ret (err, tr @ es)" "P err (es @ fs)" by blast
  then show "\<exists>err es. bindM k f tr = Ret (err, tr @ es) \<and> P err es"
    by (auto simp: bindM_apply f)
qed

lemma ends_weaken: "ends P c \<Longrightarrow> (\<And>err es. P err es \<Longrightarrow> Q err es) \<Longrightarrow> ends Q c"
  unfolding ends_def by blast

lemma requests_of_simps [simp]:
  "requests_of [] = []" "requests_of (Request r # es) = r # requests_of es"
  "requests_of (Printed x # es) = requests_of es" "requests_of (MuxNew # es) = requests_of es"
  "requests_of (MuxServe # es) = requests_of es" "requests_of (MuxClose # es) = requests_of es"
  "requests_of (WgWait # es) = requests_of es" "requests_of (NlOpen p # es) = requests_of es"
  "requests_of (NlClose # es) = requests_of es" "requests_of (es @ fs) = requests_of es @ requests_of fs"
  by (simp_all add: requests_of_def)

text \<open>
  A command whose requests satisfy \<open>Q\<close>: it sends at most one, and exactly one when it
  succeeds.
\<close>

definition sent_ok :: "(request \<Rightarrow> bool) \<Rightarrow> tun_err option \<Rightarrow> request list \<Rightarrow> bool" where
  "sent_ok Q err rs \<longleftrightarrow> (rs = [] \<and> err \<noteq> None) \<or> (\<exists>r. rs = [r] \<and> Q r)"

lemma sent_ok_error [simp]: "sent_ok Q (Some e) []"
  by (simp add: sent_ok_def)

lemma ends_with_mux:
  assumes "ends (\<lambda>err es. conn_session es \<and> sent_ok Q err (requests_of es)) k"
  shows "ends (\<lambda>err es. mux_session es \<and> sent_ok Q err (requests_of es)) (with_mux E k)"
  unfolding with_mux_def
  by (rule ends_getsM, rule ends_errT, simp add: mux_session_def,
      rule ends_emit, rule ends_emit, rule ends_after [where fs = "[MuxClose, WgWait]"],
      rule ends_weaken [OF assms])
    (auto simp: mux_session_def thenM_apply emitT_def)

lemma ends_with_conn:
  assumes "ends (\<lambda>err es. list_all is_work es \<and> sent_ok Q err (requests_of es)) k"
  shows "ends (\<lambda>err es. conn_session es \<and> sent_ok Q err (requests_of es)) (with_conn E p k)"
  unfolding with_conn_def
  by (rule ends_getsM, rule ends_errT, simp add: conn_session_def,
      rule ends_emit, rule ends_after [where fs = "[NlClose]"], rule ends_weaken [OF assms])
    (auto simp: conn_session_def thenM_apply emitT_def)

lemma ends_with_client:
  assumes "ends (\<lambda>err es. list_all is_work es \<and> sent_ok Q err (requests_of es)) k"
  shows "ends (\<lambda>err es. mux_session es \<and> sent_ok Q err (requests_of es)) (with_client E k)"
  unfolding with_client_def
  by (intro ends_with_mux ends_with_conn ends_getsM ends_errT assms) simp

lemma ends_with_link:
  assumes "\<And>link tr. te_GetLink E tr ifname = Inr link \<Longrightarrow>
    ends (\<lambda>err es. list_all is_work es \<and> sent_ok Q err (requests_of es)) (k link)"
  shows "ends (\<lambda>err es. mux_session es \<and> sent_ok Q err (requests_of es)) (with_link E ifname k)"
  unfolding with_link_def
  by (intro ends_with_client ends_getsM) (auto split: sum.split intro!: ends_retM assms)

lemma ends_request:
  assumes "Q req"
  shows "ends (\<lambda>err es. list_all is_work es \<and> sent_ok Q err (requests_of es)) (request_error E req)"
    and "ends (\<lambda>err es. list_all is_work es \<and> sent_ok Q err (requests_of es)) (request_report E req)"
    and "ends (\<lambda>err es. list_all is_work es \<and> sent_ok Q err (requests_of es)) (request_json E req)"
  using assms
  by (auto simp: ends_def request_error_def request_report_def request_json_def send_request_def
      run_simps emitT_def errT_def sent_ok_def is_work_def split: prod.split option.split sum.split)

text \<open>The properties of a command that keeps to requests of \<open>Q\<close>.\<close>

definition proper :: "(request \<Rightarrow> bool) \<Rightarrow> tun_cmd \<Rightarrow> bool" where
  "proper Q c \<longleftrightarrow> ends (\<lambda>err es. mux_session es \<and> sent_ok Q err (requests_of es)) c"

lemma proper_error: "proper Q (retM (Some e))"
  unfolding proper_def by (rule ends_retM) (simp add: mux_session_def)

lemma proper_oid_args:
  assumes "\<And>ifname obj opts oid. args = ifname # obj # opts \<Longrightarrow> ParseOID obj = Inr oid \<Longrightarrow> proper Q (k ifname oid)"
  shows "proper Q (oid_args args k)"
  using assms by (auto simp: oid_args_def proper_error split: list.split sum.split)

lemma proper_True: "proper Q c \<Longrightarrow> proper (\<lambda>_. True) c"
  unfolding proper_def by (erule ends_weaken) (auto simp: sent_ok_def)

text \<open>
  The requests a command may send for the words on its command line. \<open>names_object\<close>: the
  arguments start with the name of a link, which the routing library resolves to this index,
  and the text of this object. \<open>commanded\<close>: the request belongs to the action and is for
  the kind of rule, the link and the object; what adds or changes a rule carries the attributes
  its options parser made of the remaining arguments.
\<close>

definition names_object :: "tenv \<Rightarrow> string list \<Rightarrow> nat \<Rightarrow> u64 list \<Rightarrow> string list \<Rightarrow> bool" where
  "names_object E args link oid opts \<longleftrightarrow>
     (\<exists>ifname obj tr. args = ifname # obj # opts \<and> ParseOID obj = Inr oid \<and> te_GetLink E tr ifname = Inr link)"

fun commanded :: "tenv \<Rightarrow> string \<Rightarrow> rule_kind \<Rightarrow> string list \<Rightarrow> request \<Rightarrow> bool" where
  "commanded E action kind args (CreateOID k link oid attrs) \<longleftrightarrow> action = ''add'' \<and> k = kind \<and>
     (\<exists>opts. names_object E args link oid opts \<and> options_of kind opts = Some (attrs, None))"
| "commanded E action kind args (UpdateOID k link oid attrs) \<longleftrightarrow> action = ''mod'' \<and> k = kind \<and>
     (\<exists>opts. names_object E args link oid opts \<and> options_of kind opts = Some (attrs, None))"
| "commanded E action kind args (RemoveOID k link oid) \<longleftrightarrow> action = ''delete'' \<and> k = kind \<and>
     (\<exists>opts. names_object E args link oid opts)"
| "commanded E action kind args (GetOID k link oid) \<longleftrightarrow> action = ''get'' \<and> k = kind \<and>
     (\<exists>opts. names_object E args link oid opts)"
| "commanded E action kind args (GetAll k) \<longleftrightarrow> action = ''list'' \<and> k = kind"

lemma proper_set_rule:
  assumes "\<And>link oid opts attrs. names_object E args link oid opts \<Longrightarrow> options_of kind opts = Some (attrs, None) \<Longrightarrow>
      ends (\<lambda>err es. list_all is_work es \<and> sent_ok Q err (requests_of es)) (send link oid attrs)"
  shows "proper Q (set_rule E (options_of kind) send args)"
  unfolding set_rule_def
proof (rule proper_oid_args)
  fix ifname obj opts oid
  assume args: "args = ifname # obj # opts" "ParseOID obj = Inr oid"
  obtain attrs e where p: "options_of kind (drop 2 args) = Some (attrs, e)"
    using options_total by blast
  show "proper Q (option_args (options_of kind) args (\<lambda>attrs. with_link E ifname (\<lambda>link. send link oid attrs)))"
  proof (cases e)
    case None
    have "names_object E args link oid opts" if "te_GetLink E tr ifname = Inr link" for tr link
      using args that unfolding names_object_def by blast
    with p None assms args show ?thesis
      by (simp add: option_args_def proper_def) (blast intro: ends_with_link)
  next
    case (Some x)
    with p show ?thesis by (simp add: option_args_def proper_error)
  qed
qed

lemma proper_plain:
  assumes "\<And>link oid opts. names_object E args link oid opts \<Longrightarrow> Q (f link oid)"
  shows "proper Q (oid_args args (\<lambda>ifname oid. with_link E ifname (\<lambda>link. request_error E (f link oid))))"
    and "proper Q (oid_args args (\<lambda>ifname oid. with_link E ifname (\<lambda>link. request_report E (f link oid))))"
    and "proper Q (oid_args args (\<lambda>ifname oid. with_link E ifname (\<lambda>link. request_json E (f link oid))))"
proof -
  have Q: "Q (f link oid)"
    if "args = ifname # obj # opts" "ParseOID obj = Inr oid" "te_GetLink E tr ifname = Inr link"
    for ifname obj opts oid tr link
    using that assms unfolding names_object_def by blast
  show "proper Q (oid_args args (\<lambda>ifname oid. with_link E ifname (\<lambda>link. request_error E (f link oid))))"
    by (rule proper_oid_args, simp only: proper_def, rule ends_with_link, rule ends_request, rule Q)
  show "proper Q (oid_args args (\<lambda>ifname oid. with_link E ifname (\<lambda>link. request_report E (f link oid))))"
    by (rule proper_oid_args, simp only: proper_def, rule ends_with_link, rule ends_request, rule Q)
  show "proper Q (oid_args args (\<lambda>ifname oid. with_link E ifname (\<lambda>link. request_json E (f link oid))))"
    by (rule proper_oid_args, simp only: proper_def, rule ends_with_link, rule ends_request, rule Q)
qed

lemma proper_list: "Q req \<Longrightarrow> proper Q (with_client E (request_json E req))"
  by (simp add: proper_def ends_with_client ends_request)

lemmas options_of_eqs = options_of_def [of PDR, simplified, symmetric]
  options_of_def [of FAR, simplified, symmetric] options_of_def [of QER, simplified, symmetric]
  options_of_def [of URR, simplified, symmetric]

lemma proper_commands:
  "proper (commanded E ''add'' PDR args) (CmdAddPDR E args)"
  "proper (commanded E ''mod'' PDR args) (CmdModPDR E args)"
  "proper (commanded E ''delete'' PDR args) (CmdDeletePDR E args)"
  "proper (commanded E ''get'' PDR args) (CmdGetPDR E args)"
  "proper (commanded E ''list'' PDR args) (CmdListPDR E args)"
  "proper (commanded E ''add'' FAR args) (CmdAddFAR E args)"
  "proper (commanded E ''mod'' FAR args) (CmdModFAR E args)"
  "proper (commanded E ''delete'' FAR args) (CmdDeleteFAR E args)"
  "proper (commanded E ''get'' FAR args) (CmdGetFAR E args)"
  "proper (commanded E ''list'' FAR args) (CmdListFAR E args)"
  "proper (commanded E ''add'' QER args) (CmdAddQER E args)"
  "proper (commanded E ''mod'' QER args) (CmdModQER E args)"
  "proper (commanded E ''delete'' QER args) (CmdDeleteQER E args)"
  "proper (commanded E ''get'' QER args) (CmdGetQER E args)"
  "proper (commanded E ''list'' QER args) (CmdListQER E args)"
  "proper (commanded E ''add'' URR args) (CmdAddURR E args)"
  "proper (commanded E ''mod'' URR args) (CmdModURR E args)"
  "proper (commanded E ''delete'' URR args) (CmdDeleteURR E args)"
  "proper (commanded E ''get'' URR args) (CmdGetURR E args)"
  "proper (commanded E ''list'' URR args) (CmdListURR E args)"
  unfolding CmdAddPDR_def CmdModPDR_def CmdDeletePDR_def CmdGetPDR_def CmdListPDR_def
    CmdAddFAR_def CmdModFAR_def CmdDeleteFAR_def CmdGetFAR_def CmdListFAR_def
    CmdAddQER_def CmdModQER_def CmdDeleteQER_def CmdGetQER_def CmdListQER_def
    CmdAddURR_def CmdModURR_def CmdDeleteURR_def CmdGetURR_def CmdListURR_def options_of_eqs
  by (rule proper_set_rule proper_plain proper_list; auto intro!: ends_request)+

section \<open>The command tree\<close>

fun commands_of :: "'f cmd_node \<Rightarrow> 'f list" where
  "commands_of (CmdNodeList ns) = concat (map commands_of ns)"
| "commands_of (CmdToken _ _ next) = (case next of None \<Rightarrow> [] | Some n \<Rightarrow> commands_of n)"
| "commands_of (CmdFunc f) = [f]"

lemma Find_in: "Find n args = (Some f, ps) \<Longrightarrow> f \<in> set (commands_of n)"
  by (induction n args arbitrary: ps rule: Find.induct)
    (auto split: prod.splits option.splits list.splits if_splits)

lemma tree_proper:
  assumes "Find CmdTree args = (Some cmd, params)"
  shows "proper (\<lambda>_. True) (cmd E params)"
  using Find_in [OF assms] by (auto simp: CmdTree_def Let_def intro: proper_commands [THEN proper_True])

text \<open>A word selects the first entry it is a prefix of; no two entries of a level start alike.\<close>

definition actions :: "string list" where
  "actions = [''add'', ''mod'', ''delete'', ''get'', ''list'']"

definition kinds :: "string list" where
  "kinds = [''pdr'', ''far'', ''qer'', ''urr'']"

definition command_table :: "((tenv \<Rightarrow> string list \<Rightarrow> tun_cmd) list) list" where
  "command_table =
     [[CmdAddPDR, CmdAddFAR, CmdAddQER, CmdAddURR], [CmdModPDR, CmdModFAR, CmdModQER, CmdModURR],
      [CmdDeletePDR, CmdDeleteFAR, CmdDeleteQER, CmdDeleteURR], [CmdGetPDR, CmdGetFAR, CmdGetQER, CmdGetURR],
      [CmdListPDR, CmdListFAR, CmdListQER, CmdListURR]]"

text \<open>The index of the first word a given word is a prefix of.\<close>

fun first_match :: "string list \<Rightarrow> string \<Rightarrow> nat option" where
  "first_match [] a = None"
| "first_match (w # ws) a = (if HasPrefix w a then Some 0 else map_option Suc (first_match ws a))"

lemma HasPrefix_first:
  "HasPrefix (c # w) (d # a) \<longleftrightarrow> d = c \<and> HasPrefix w a"
  by (auto simp: HasPrefix_def)

lemma HasPrefix_Nil [simp]: "HasPrefix w []"
  by (simp add: HasPrefix_def)

lemma Find_CmdTree:
  "Find CmdTree (a # k # args) =
     (case first_match actions a of
        None \<Rightarrow> (None, a # k # args)
      | Some i \<Rightarrow>
          (case first_match kinds k of
             None \<Rightarrow> (None, a # k # args)
           | Some j \<Rightarrow> (Some (command_table ! i ! j), args)))"
proof (cases a)
  case Nil
  then show ?thesis
    by (auto simp: CmdTree_def Let_def actions_def kinds_def command_table_def split: option.split)
next
  case (Cons c r)
  then show ?thesis
    by (auto simp: CmdTree_def Let_def actions_def kinds_def command_table_def HasPrefix_first)
qed

text \<open>Each entry of the table keeps to the requests of its action and its kind of rule.\<close>

definition rule_kinds :: "rule_kind list" where
  "rule_kinds = [PDR, FAR, QER, URR]"

lemma table_proper:
  assumes "first_match actions a = Some i" and "first_match kinds k = Some j"
  shows "proper (commanded E (actions ! i) (rule_kinds ! j) args) ((command_table ! i ! j) E args)"
  using assms
  by (auto simp: actions_def kinds_def rule_kinds_def command_table_def proper_commands split: if_splits)

end
