(* ===== verification/TunProps.thy ===== *)
theory TunProps
  imports TunFacts
begin

text \<open>
  Properties of the tunnel tool: it returns and closes what it opens, it sends what its command
  line says, and where its parsers accept more than they keep.
\<close>

section \<open>Environments\<close>

text \<open>Libraries that always succeed, on a link of a given index, with a given reply.\<close>

definition tenv_up :: "tenv \<Rightarrow> nat \<Rightarrow> bool" where
  "tenv_up E link \<longleftrightarrow>
     (\<forall>tr. te_NewMux E tr = None \<and> te_NewClient E tr = None \<and> (\<forall>p. te_Open E tr p = None) \<and>
       (\<forall>n. te_GetLink E tr n = Inr link) \<and> (\<forall>r. fst (te_request E tr r) = None))"

definition demo_tenv :: tenv where
  "demo_tenv = \<lparr>te_NewMux = \<lambda>_. None, te_Open = \<lambda>_ _. None, te_NewClient = \<lambda>_. None,
     te_GetLink = \<lambda>_ _. Inr 7, te_request = \<lambda>_ _. (None, []), te_MarshalIndent = Inr\<rparr>"

lemma demo_tenv_up: "tenv_up demo_tenv 7"
  by (simp add: tenv_up_def demo_tenv_def)

text \<open>The events of a command whose libraries succeed.\<close>

definition client_session :: "request \<Rightarrow> tevent list" where
  "client_session r = [MuxNew, MuxServe, NlOpen NETLINK_GENERIC, Request r, NlClose, MuxClose, WgWait]"

lemma set_rule_up:
  assumes up: "tenv_up E link" and args: "args = ifname # oidtext # opts"
    and oid: "ParseOID oidtext = Inr oid" and parse: "parse opts = Some (attrs, None)"
  shows "set_rule E parse (\<lambda>link oid attrs. request_error E (f link oid attrs)) args tr =
    Ret (None, tr @ client_session (f link oid attrs))"
proof -
  have up': "te_NewMux E es = None" "te_NewClient E es = None" "te_Open E es p = None"
    "te_GetLink E es n = Inr link" for es p n
    using up by (auto simp: tenv_up_def)
  have req: "case_prod (\<lambda>e reply. retM (map_option LibraryError e)) (te_request E es r) = retM None" for es r
    using up by (cases "te_request E es r") (simp add: tenv_up_def, metis fst_conv option.simps(8))
  show ?thesis
    by (simp add: args oid parse set_rule_def oid_args_def option_args_def with_link_def with_client_def
        with_mux_def with_conn_def request_error_def send_request_def errT_def emitT_def run_simps
        up' req client_session_def)
qed

section \<open>Every command returns\<close>

text \<open>
  C13: The tool returns, for every list of arguments, every state and whatever the netlink
  libraries answer. Each options parser reads all its tokens or stops at the first bad one. A
  command leaves nothing open: either the multiplexer could not be made and nothing happened,
  or the connection is closed before the multiplexer, in the opposite order of their opening,
  and requests and output lie between. It sends at most one request, and exactly one when its
  exit status is 0.
\<close>

theorem tunnel_returns:
  "(\<exists>attrs e. options_of kind args = Some (attrs, e)) \<and>
   (\<exists>status es. tunnel_main E osArgs tr = Ret (status, tr @ es) \<and> status \<in> {0, 1} \<and> mux_session es \<and>
     (if status = 0 then length (requests_of es) = 1 else length (requests_of es) \<le> 1))"
proof
  show "\<exists>attrs e. options_of kind args = Some (attrs, e)"
    using options_total by blast
next
  have error: "\<exists>status es. retM 1 tr = Ret (status, tr @ es) \<and> status \<in> {0, 1 :: nat} \<and> mux_session es \<and>
     (if status = 0 then length (requests_of es) = 1 else length (requests_of es) \<le> 1)"
    by (intro exI [of _ 1] exI [of _ "[]"]) (simp add: mux_session_def)
  show "\<exists>status es. tunnel_main E osArgs tr = Ret (status, tr @ es) \<and> status \<in> {0, 1} \<and> mux_session es \<and>
     (if status = 0 then length (requests_of es) = 1 else length (requests_of es) \<le> 1)"
  proof (cases "Find CmdTree (tl osArgs)")
    case (Pair cmd params)
    show ?thesis
    proof (cases "length osArgs < 3 \<or> cmd = None")
      case True
      with error Pair show ?thesis by (auto simp: tunnel_main_def)
    next
      case False
      then obtain c where c: "cmd = Some c" "\<not> length osArgs < 3" by auto
      with Pair have "proper (\<lambda>_. True) (c E params)" by (simp add: tree_proper)
      then obtain err es where "c E params tr = Ret (err, tr @ es)" "mux_session es"
        "sent_ok (\<lambda>_. True) err (requests_of es)"
        unfolding proper_def by (blast dest: ends_apply)
      with Pair c show ?thesis
        by (auto simp: tunnel_main_def run_simps sent_ok_def)
    qed
  qed
qed

section \<open>The request follows from the command line\<close>

text \<open>
  C16: What the tool asks of the kernel is what its command line says. The first word selects
  the action, the second the kind of rule, each as the first entry it abbreviates; without such
  an entry the tool ends with status 1 and touches nothing. Otherwise it sends no request and
  ends with status 1, or it sends one request, of that action and for that kind of rule, for
  the link the third word names and the object the fourth word denotes (a list request names
  neither); a request that adds or changes a rule carries exactly the attributes its options
  parser makes of the remaining words, all of which it has accepted.
\<close>

theorem tunnel_sends_commanded:
  "\<exists>status es. tunnel_main E (prog # a # k # args) tr = Ret (status, tr @ es) \<and>
     (case (first_match actions a, first_match kinds k) of
        (Some i, Some j) \<Rightarrow>
          (requests_of es = [] \<and> status = 1) \<or>
          (\<exists>r. requests_of es = [r] \<and> commanded E (actions ! i) (rule_kinds ! j) args r)
      | _ \<Rightarrow> status = 1 \<and> es = [])"
proof (cases "first_match actions a = None \<or> first_match kinds k = None")
  case True
  then have "Find CmdTree (a # k # args) = (None, a # k # args)"
    by (auto simp: Find_CmdTree split: option.split)
  then show ?thesis
    using True
    by (intro exI [of _ 1] exI [of _ "[]"]) (auto simp: tunnel_main_def split: option.split)
next
  case False
  then obtain i j where ij: "first_match actions a = Some i" "first_match kinds k = Some j" by auto
  from table_proper [OF this, of E args] obtain err es where
    "(command_table ! i ! j) E args tr = Ret (err, tr @ es)"
    "sent_ok (commanded E (actions ! i) (rule_kinds ! j) args) err (requests_of es)"
    unfolding proper_def by (blast dest: ends_apply)
  with ij show ?thesis
    by (auto simp: tunnel_main_def Find_CmdTree run_simps sent_ok_def)
qed

lemmas parse_simps =
  NewCmdParser_def opt_loop.simps GetToken_def far_option_def pdr_option_def pdr_pdi_option_def
  qer_option_def qer_deprecated_def bindA_def retA_def failA_def uint_arg_def text_arg_def ipv4_arg_def
  uint_attr_def ipv4_attr_def ParseUint_def base_prefix_def lower_is_def digit_val_def is_digit_def
  ParseIP_def ParseAddr_def To4_def v4InV6Prefix_def group_attr_def

definition demo_far_args :: "string list" where
  "demo_far_args = [''val0'', ''12'', ''--hdr-creation'', ''0x0'', ''7'', ''10.0.0.1'', ''2152'']"

definition demo_far_attrs :: "nl_attr list" where
  "demo_far_attrs = [(FAR_FORWARDING_PARAMETER, AttrList [(FORWARDING_PARAMETER_OUTER_HEADER_CREATION, AttrList
     [(OUTER_HEADER_CREATION_DESCRIPTION, AttrU8 0), (OUTER_HEADER_CREATION_O_TEID, AttrU32 7),
      (OUTER_HEADER_CREATION_PEER_ADDR_IPV4, AttrBytes [10, 0, 0, 1]), (OUTER_HEADER_CREATION_PORT, AttrU16 2152)])])]"

lemma demo_oid: "ParseOID ''12'' = Inr [12]"
  by (simp add: ParseOID_def ParseUint_def digit_val_def)

lemma demo_far_parse: "ParseFAROptions (drop 2 demo_far_args) = Some (demo_far_attrs, None)"
  by (simp add: demo_far_args_def demo_far_attrs_def ParseFAROptions_def parse_simps)

lemma demo_far_run:
  "CmdModFAR demo_tenv demo_far_args [] = Ret (None, client_session (UpdateOID FAR 7 [12] demo_far_attrs))"
  unfolding CmdModFAR_def
  using set_rule_up [OF demo_tenv_up, of demo_far_args "''val0''" "''12''" "drop 2 demo_far_args" "[12]"
      ParseFAROptions demo_far_attrs "UpdateOID FAR" "[]"]
  by (simp add: demo_oid demo_far_parse) (simp add: demo_far_args_def)

lemma demo_far_find: "Find CmdTree (''mod'' # ''f'' # demo_far_args) = (Some CmdModFAR, demo_far_args)"
  by (simp add: Find_CmdTree actions_def kinds_def command_table_def HasPrefix_def)

lemma tunnel_sends_commanded_witness:
  "commanded demo_tenv ''mod'' FAR demo_far_args (UpdateOID FAR 7 [12] demo_far_attrs)"
proof -
  have "tunnel_main demo_tenv (''gogtp5g-tunnel'' # ''mod'' # ''f'' # demo_far_args) [] =
      Ret (0, client_session (UpdateOID FAR 7 [12] demo_far_attrs))"
    by (simp add: tunnel_main_def demo_far_find demo_far_run run_simps)
  moreover have "first_match actions ''mod'' = Some 1" "first_match kinds ''f'' = Some 1"
    by (simp_all add: actions_def kinds_def HasPrefix_def)
  ultimately show ?thesis
    using tunnel_sends_commanded [of demo_tenv "''gogtp5g-tunnel''" "''mod''" "''f''" demo_far_args "[]"]
    by (simp add: actions_def rule_kinds_def client_session_def)
qed

section \<open>Header creation\<close>

text \<open>What the parser does with a whole \<open>--hdr-creation\<close> option of printed numbers.\<close>

definition hdr_creation :: "nat \<Rightarrow> nat \<Rightarrow> byte list \<Rightarrow> nat \<Rightarrow> string list" where
  "hdr_creation desc teid addr port =
     [''--hdr-creation'', show_nat desc, show_nat teid, ipv4_text addr, show_nat port]"

definition creation_attr :: "byte \<Rightarrow> u32 \<Rightarrow> byte list \<Rightarrow> u16 \<Rightarrow> nl_attr" where
  "creation_attr desc teid addr port = (FORWARDING_PARAMETER_OUTER_HEADER_CREATION, AttrList
     [(OUTER_HEADER_CREATION_DESCRIPTION, AttrU8 desc), (OUTER_HEADER_CREATION_O_TEID, AttrU32 teid),
      (OUTER_HEADER_CREATION_PEER_ADDR_IPV4, AttrBytes addr), (OUTER_HEADER_CREATION_PORT, AttrU16 port)])"

lemma uint_arg_token:
  "cp_pos c < length (cp_args c) \<Longrightarrow> cp_args c ! cp_pos c = show_nat n \<Longrightarrow> n < 2 ^ bits \<Longrightarrow>
    uint_arg opt bits c = Inr (n, c\<lparr>cp_pos := Suc (cp_pos c)\<rparr>)"
  by (simp add: uint_arg_def bindA_def text_arg_def GetToken_def ParseUint0_show_nat retA_def)

lemma ipv4_arg_token:
  "cp_pos c < length (cp_args c) \<Longrightarrow> cp_args c ! cp_pos c = ipv4_text [p, q, r, s] \<Longrightarrow>
    ipv4_arg opt c = Inr ([p, q, r, s], c\<lparr>cp_pos := Suc (cp_pos c)\<rparr>)"
  by (simp add: ipv4_arg_def bindA_def text_arg_def GetToken_def ParseIP_ipv4_text retA_def)

lemma text_arg_token:
  "cp_pos c < length (cp_args c) \<Longrightarrow>
    text_arg opt c = Inr (cp_args c ! cp_pos c, c\<lparr>cp_pos := Suc (cp_pos c)\<rparr>)"
  by (simp add: text_arg_def GetToken_def)

lemmas token_simps = uint_arg_token ipv4_arg_token text_arg_token bindA_def retA_def failA_def
  uint_attr_def ipv4_attr_def NewCmdParser_def opt_loop.simps GetToken_def nth_Cons' group_attr_def

text \<open>
  C35: A header-creation option keeps its tunnel identifier, peer address and port exactly, for
  every 32-bit identifier, IPv4 address and 16-bit port. Its description is parsed as a 16-bit
  number but sent as one byte: what reaches the kernel is the description modulo 256, so the
  standard value 256 (GTP-U over UDP over IPv4) becomes 0.
\<close>

theorem hdr_creation_bounds:
  assumes "desc < 2 ^ 16" and "teid < 2 ^ 32" and "port < 2 ^ 16"
  shows "\<exists>d t p. ParseFAROptions (hdr_creation desc teid [a1, a2, a3, a4] port) =
      Some ([(FAR_FORWARDING_PARAMETER, AttrList [creation_attr d t [a1, a2, a3, a4] p])], None) \<and>
    unat d = desc mod 256 \<and> unat t = teid \<and> unat p = port"
proof -
  have "ParseFAROptions (hdr_creation desc teid [a1, a2, a3, a4] port) =
      Some ([(FAR_FORWARDING_PARAMETER,
        AttrList [creation_attr (of_nat desc) (of_nat teid) [a1, a2, a3, a4] (of_nat port)])], None)"
    using assms
    by (simp add: ParseFAROptions_def hdr_creation_def far_option_def creation_attr_def token_simps)
  with assms show ?thesis
    by (intro exI [of _ "of_nat desc"] exI [of _ "of_nat teid"] exI [of _ "of_nat port"])
      (simp add: unat_of_nat)
qed

lemma hdr_creation_bounds_witness:
  "\<exists>d t p. ParseFAROptions (hdr_creation 256 77 [10, 0, 0, 1] 2152) =
      Some ([(FAR_FORWARDING_PARAMETER, AttrList [creation_attr d t [10, 0, 0, 1] p])], None) \<and>
    unat d = 0 \<and> unat t = 77 \<and> unat p = 2152"
  using hdr_creation_bounds [of 256 77 2152 10 0 0 1] by simp

section \<open>Flow descriptions\<close>

text \<open>
  A last field that is not a list of ports is dropped without an error: a description that
  is accepted stays accepted, with the same filter, when a field that does not parse as ports
  is appended. A filter with a mistyped destination port thus matches every port.
\<close>

theorem flow_ports_dropped:
  assumes "ParseFlowDesc s = Inr attrs" and "Fields s' = Fields s @ [t]"
    and "ParseFlowDescPorts t = Inl e"
  shows "ParseFlowDesc s' = Inr attrs"
proof -
  define ws where "ws = Fields s"
  have more: "field (ws @ [t]) i = field ws i" if "i < length ws" for i
    using that by (simp add: field_def nth_append)
  have short: "field ws i = Inl (TooFewFields (length ws))" if "length ws \<le> i" for i
    using that by (simp add: field_def)
  from assms(1) have l: "5 < length ws"
    by (auto simp: ParseFlowDesc_def Let_def bindE_Inr_iff ws_def [symmetric] field_def split: if_splits)
  from assms(1) l obtain pos where pos: "pos = (case ParseFlowDescPorts (ws ! 5) of Inl _ \<Rightarrow> 5 | Inr _ \<Rightarrow> 6)"
    "pos + 1 < length ws"
    by (auto simp: ParseFlowDesc_def Let_def bindE_Inr_iff ws_def [symmetric] field_def
        split: if_splits sum.splits)
  have ports: "dest_ports (ws @ [t]) (pos + 2) = dest_ports ws (pos + 2)"
    using pos(2) assms(3) by (auto simp: dest_ports_def port_attrs_def nth_append less_Suc_eq)
  have f: "field ws 5 = Inr (ws ! 5)" "ws \<noteq> []" using l by (auto simp: field_def)
  have "ParseFlowDesc s' = ParseFlowDesc s"
    unfolding ParseFlowDesc_def Let_def assms(2) ws_def [symmetric]
    using l pos(2) ports by (simp add: more f pos(1) [symmetric])
  with assms(1) show ?thesis by simp
qed

definition demo_flow :: string where
  "demo_flow = ''permit out ip from any to 10.0.0.1''"

definition demo_flow_attrs :: "nl_attr list" where
  "demo_flow_attrs =
     [(FLOW_DESCRIPTION_ACTION, AttrConst SDF_FILTER_PERMIT),
      (FLOW_DESCRIPTION_DIRECTION, AttrConst SDF_FILTER_OUT),
      (FLOW_DESCRIPTION_PROTOCOL, AttrU8 255),
      (FLOW_DESCRIPTION_SRC_IPV4, AttrBytes (replicate 16 0)),
      (FLOW_DESCRIPTION_SRC_MASK, AttrBytes (replicate 16 0)),
      (FLOW_DESCRIPTION_DEST_IPV4, AttrBytes [10, 0, 0, 1]),
      (FLOW_DESCRIPTION_DEST_MASK, AttrBytes [255, 255, 255, 255])]"

lemma demo_flow_fields: "Fields demo_flow = [''permit'', ''out'', ''ip'', ''from'', ''any'', ''to'', ''10.0.0.1'']"
  by (simp add: demo_flow_def Fields_def space_width_def)

lemma demo_flow_ports: "ParseFlowDescPorts ''8O'' = Inl (NumError ErrSyntax)"
  by (simp add: ParseFlowDescPorts_def port_range_def port_number_def ParseUint_def digit_val_def)

lemma demo_flow_words: "ParseFlowDescPorts ''to'' = Inl (NumError ErrSyntax)"
  by (simp add: ParseFlowDescPorts_def port_range_def port_number_def ParseUint_def digit_val_def)

lemma mask_all: "CIDRMask 32 4 = [255, 255, 255, 255]"
  by (simp add: numeral_eq_Suc)

lemma mask_none: "CIDRMask 0 16 = replicate 16 0"
  by code_simp

lemma demo_flow_dst: "ParseFlowDescIPNet ''10.0.0.1'' = Inr \<lparr>net_IP = [10, 0, 0, 1], net_Mask = [255, 255, 255, 255]\<rparr>"
  using mask_all by (simp add: ParseFlowDescIPNet_def ParseCIDR_def ParseIP_def ParseAddr_def is_digit_def
      To4_def v4InV6Prefix_def)

lemma demo_flow_parse: "ParseFlowDesc demo_flow = Inr demo_flow_attrs"
  using mask_none
  by (simp add: ParseFlowDesc_def demo_flow_fields demo_flow_words demo_flow_dst demo_flow_attrs_def field_def
      flow_action_def flow_direction_def flow_protocol_def keyword_def ParseFlowDescIPNet_def [of "''any''"]
      net_attrs_def port_attrs_def dest_ports_def)

lemma flow_ports_dropped_witness: "ParseFlowDesc (demo_flow @ '' 8O'') = Inr demo_flow_attrs"
proof (rule flow_ports_dropped [OF demo_flow_parse])
  show "Fields (demo_flow @ '' 8O'') = Fields demo_flow @ [''8O'']"
    unfolding demo_flow_fields by (simp add: demo_flow_def Fields_def space_width_def)
qed (rule demo_flow_ports)

end
