(* ===== verification/UeTunnel.thy ===== *)
theory UeTunnel
  imports UeDemo TunProps
begin

text \<open>
  The UE and the tunnel tool together: the rules the UE asks for when it sets up the data plane
  of a PDU session are commands of the tool, which the UE calls as a library. What they install
  in the kernel is stated as the requests to the kernel module.
\<close>

section \<open>The tool behind the UE\<close>

text \<open>The command of the tool behind a kernel operation of the UE, if it is one.\<close>

definition tool_cmd :: "tenv \<Rightarrow> kernel_op \<Rightarrow> tun_cmd option" where
  "tool_cmd E op =
     (case op of
        GtpAddFAR args \<Rightarrow> Some (CmdAddFAR E args)
      | GtpAddPDR args \<Rightarrow> Some (CmdAddPDR E args)
      | GtpAddQER args \<Rightarrow> Some (CmdAddQER E args)
      | _ \<Rightarrow> None)"

text \<open>What the tool has done once the UE has done what is listed.\<close>

definition tool_after :: "tenv \<Rightarrow> tevent list \<Rightarrow> uevent \<Rightarrow> tevent list" where
  "tool_after E tr e =
     (case e of
        Kernel op \<Rightarrow>
          (case tool_cmd E op of
             None \<Rightarrow> tr
           | Some c \<Rightarrow> (case c tr of Ret (_, tr') \<Rightarrow> tr' | _ \<Rightarrow> tr))
      | _ \<Rightarrow> tr)"

definition tool_trace :: "tenv \<Rightarrow> uevent list \<Rightarrow> tevent list" where
  "tool_trace E evs = foldl (tool_after E) [] evs"

text \<open>The environment of a UE whose GTP rules are added by the tool.\<close>

definition tool_backed :: "uext \<Rightarrow> tenv \<Rightarrow> bool" where
  "tool_backed X E \<longleftrightarrow>
     (\<forall>evs op c. tool_cmd E op = Some c \<longrightarrow>
        kernel_ok X evs op = (\<exists>tr'. c (tool_trace E evs) = Ret (None, tr')))"

definition installed :: "tenv \<Rightarrow> ustate \<Rightarrow> request list" where
  "installed E s = requests_of (tool_trace E (uevents s))"

section \<open>One command\<close>

lemma tool_trace_append [simp]: "tool_trace E (evs @ [e]) = tool_after E (tool_trace E evs) e"
  by (simp add: tool_trace_def)

lemma requests_of_session [simp]: "requests_of (client_session r) = [r]"
  by (simp add: client_session_def)

text \<open>A command that succeeds with one request installs it; one that fails ends the process.\<close>

definition installs :: "tenv \<Rightarrow> unit UM \<Rightarrow> request list \<Rightarrow> bool" where
  "installs E m rs \<longleftrightarrow> (\<forall>s. \<exists>t. m s = Ret ((), t) \<and> installed E t = installed E s @ rs)"

lemma installs_kernel:
  assumes "tool_backed X E" and "tool_cmd E op = Some c"
    and "\<And>tr. c tr = Ret (None, tr @ client_session r)"
  shows "installs E (kernel_or_fatal X op) [r]"
  unfolding installs_def
proof
  fix s :: ustate
  have "kernel_ok X (uevents s) op" using assms by (simp add: tool_backed_def)
  then show "\<exists>t. kernel_or_fatal X op s = Ret ((), t) \<and> installed E t = installed E s @ [r]"
    using assms by (simp add: kernel_or_fatal_def kernel_def run_simps installed_def tool_after_def)
qed

lemma installs_thenM: "installs E m rs \<Longrightarrow> installs E n rs' \<Longrightarrow> installs E (thenM m n) (rs @ rs')"
  unfolding installs_def by (metis thenM_apply bindR_simps(1) case_prod_conv append_assoc)

lemma installs_skipM: "installs E skipM []"
  by (simp add: installs_def)

lemma kernel_fails:
  assumes "tool_backed X E" and "tool_cmd E op = Some c" and "\<And>tr. \<nexists>tr'. c tr = Ret (None, tr')"
  shows "kernel_or_fatal X op s = Fatal ''kernel command''"
proof -
  have "\<not> kernel_ok X (uevents s) op" using assms by (simp add: tool_backed_def)
  then show ?thesis by (simp add: kernel_or_fatal_def kernel_def run_simps)
qed

section \<open>The rules of a session\<close>

lemma oid_1: "ParseOID ''1'' = Inr [1]" and oid_2: "ParseOID ''2'' = Inr [2]"
  by (simp_all add: ParseOID_def ParseUint_def digit_val_def)

lemma literal_numbers:
  "ParseUint ''0'' 0 16 = Inr 0" "ParseUint ''0'' 0 8 = Inr 0" "ParseUint ''1'' 0 32 = Inr 1" "ParseUint ''2'' 0 8 = Inr 2"
  "ParseUint ''2'' 0 32 = Inr 2" "ParseUint ''2152'' 0 16 = Inr 2152" "Atoi ''0'' = Inr 0"
  by (simp_all add: ParseUint_def base_prefix_def digit_val_def Atoi_def ParseInt_def)

lemma uint_arg_parsed:
  "cp_pos c < length (cp_args c) \<Longrightarrow> ParseUint (cp_args c ! cp_pos c) 0 bits = Inr n \<Longrightarrow>
    uint_arg opt bits c = Inr (n, c\<lparr>cp_pos := Suc (cp_pos c)\<rparr>)"
  by (simp add: uint_arg_def bindA_def text_arg_def GetToken_def retA_def)

lemma unat_u32_less: "unat (w :: u32) < 2 ^ 32"
  using unsigned_less [of w] by simp

lemma teid_number: "ParseUint (show_nat (unat (w :: u32))) 0 32 = Inr (unat w)"
  by (rule ParseUint0_show_nat [OF unat_u32_less])

lemmas command_simps = literal_numbers uint_arg_parsed teid_number ipv4_arg_token text_arg_token bindA_def retA_def
  failA_def uint_attr_def ipv4_attr_def NewCmdParser_def opt_loop.simps GetToken_def nth_Cons' group_attr_def

definition expected_requests :: "nat \<Rightarrow> byte list \<Rightarrow> byte list \<Rightarrow> byte list \<Rightarrow> GnbPDUSession \<Rightarrow> request list" where
  "expected_requests link ue gnb upf g =
     [CreateOID FAR link [1] [(FAR_APPLY_ACTION, AttrU16 2)],
      CreateOID FAR link [2] [(FAR_APPLY_ACTION, AttrU16 2),
        (FAR_FORWARDING_PARAMETER, AttrList [creation_attr 0 (uplinkTeid g) upf 2152])],
      CreateOID PDR link [1] [(PDR_PRECEDENCE, AttrU32 1), (PDR_OUTER_HEADER_REMOVAL, AttrU8 0), (PDR_FAR_ID, AttrU32 1),
        (PDR_PDI, AttrList [(PDI_UE_ADDR_IPV4, AttrBytes ue), (PDI_F_TEID, AttrList
           [(F_TEID_I_TEID, AttrU32 (downlinkTeid g)), (F_TEID_GTPU_ADDR_IPV4, AttrBytes gnb)])])]] @
     (if 0 < qosId g then [CreateOID QER link [1] [(QER_QFI, AttrU8 (of_int (qosId g)))]] else []) @
     [CreateOID PDR link [2] ([(PDR_PRECEDENCE, AttrU32 2), (PDR_FAR_ID, AttrU32 2)] @
        (if 0 < qosId g then [(PDR_QER_ID, AttrU32 1)] else []) @
        [(PDR_PDI, AttrList [(PDI_UE_ADDR_IPV4, AttrBytes ue), (PDI_SRC_INTF, AttrU8 0)])])]"

lemma far1:
  assumes "tenv_up E link"
  shows "CmdAddFAR E [name, ''1'', ''--action'', ''2''] tr =
    Ret (None, tr @ client_session (CreateOID FAR link [1] [(FAR_APPLY_ACTION, AttrU16 2)]))"
  unfolding CmdAddFAR_def
proof (rule set_rule_up [OF assms refl oid_1])
  show "ParseFAROptions [''--action'', ''2''] = Some ([(FAR_APPLY_ACTION, AttrU16 2)], None)"
    by (simp add: ParseFAROptions_def far_option_def command_simps)
qed

lemma far2:
  assumes "tenv_up E link"
  shows "CmdAddFAR E [name, ''2'', ''--action'', ''2'', ''--hdr-creation'', ''0'', show_nat (unat teid), ipv4_text [a, b, c, d], ''2152''] tr =
    Ret (None, tr @ client_session (CreateOID FAR link [2] [(FAR_APPLY_ACTION, AttrU16 2),
      (FAR_FORWARDING_PARAMETER, AttrList [creation_attr 0 teid [a, b, c, d] 2152])]))"
  unfolding CmdAddFAR_def
proof (rule set_rule_up [OF assms refl oid_2])
  show "ParseFAROptions [''--action'', ''2'', ''--hdr-creation'', ''0'', show_nat (unat teid), ipv4_text [a, b, c, d], ''2152''] =
      Some ([(FAR_APPLY_ACTION, AttrU16 2), (FAR_FORWARDING_PARAMETER, AttrList [creation_attr 0 teid [a, b, c, d] 2152])], None)"
    by (simp add: ParseFAROptions_def far_option_def creation_attr_def command_simps)
qed

lemma pdr1:
  assumes "tenv_up E link"
  shows "CmdAddPDR E (pdr_downlink name (ipv4_text [a, b, c, d]) (ipv4_text [p, q, r, t]) g) tr =
    Ret (None, tr @ client_session (CreateOID PDR link [1]
      [(PDR_PRECEDENCE, AttrU32 1), (PDR_OUTER_HEADER_REMOVAL, AttrU8 0), (PDR_FAR_ID, AttrU32 1),
       (PDR_PDI, AttrList [(PDI_UE_ADDR_IPV4, AttrBytes [a, b, c, d]), (PDI_F_TEID, AttrList
          [(F_TEID_I_TEID, AttrU32 (downlinkTeid g)), (F_TEID_GTPU_ADDR_IPV4, AttrBytes [p, q, r, t])])])]))"
  unfolding CmdAddPDR_def pdr_downlink_def
  by (rule set_rule_up [OF assms refl oid_1])
    (simp add: ParsePDROptions_def pdr_option_def pdr_pdi_option_def command_simps)

lemma pdr2:
  assumes "tenv_up E link"
  shows "CmdAddPDR E (pdr_uplink name (ipv4_text [a, b, c, d]) qer) tr =
    Ret (None, tr @ client_session (CreateOID PDR link [2]
      ([(PDR_PRECEDENCE, AttrU32 2), (PDR_FAR_ID, AttrU32 2)] @ (if qer then [(PDR_QER_ID, AttrU32 1)] else []) @
       [(PDR_PDI, AttrList [(PDI_UE_ADDR_IPV4, AttrBytes [a, b, c, d]), (PDI_SRC_INTF, AttrU8 0)])])))"
  unfolding CmdAddPDR_def pdr_uplink_def append_Cons
  by (rule set_rule_up [OF assms refl oid_2], cases qer)
    (simp_all add: ParsePDROptions_def pdr_option_def pdr_pdi_option_def command_simps)

lemma qer1:
  assumes "tenv_up E link" and "0 < qfi" and "qfi < 256"
  shows "CmdAddQER E (qer_command name qfi) tr =
    Ret (None, tr @ client_session (CreateOID QER link [1] [(QER_QFI, AttrU8 (of_int qfi))]))"
  unfolding CmdAddQER_def qer_command_def
proof (rule set_rule_up [OF assms(1) refl oid_1])
  have "ParseUint (show_int qfi) 0 8 = Inr (nat qfi)"
    using ParseUint0_show_nat [of "nat qfi" 8] assms(2,3) by (simp add: show_int_def)
  then show "ParseQEROptions [''--qfi'', show_int qfi] = Some ([(QER_QFI, AttrU8 (of_int qfi))], None)"
    using assms(2) by (simp add: ParseQEROptions_def qer_option_def qer_deprecated_def command_simps)
qed

text \<open>
  C12: When the tunnel tool stands behind the UE and the kernel module accepts its requests, the
  data plane of a session is set up with exactly these rules, in this order: a plain forwarding
  rule; one that encapsulates towards the UPF with the session's uplink TEID and port 2152; a
  detection rule that decapsulates what arrives for the session's downlink TEID at the gNodeB's
  address; a QoS rule if the session has a flow identifier; and a detection rule for what the UE
  sends. Every identifier and address reaches the kernel unchanged through the printed
  arguments and the parser.
\<close>

theorem tunnel_rules_install:
  assumes X: "tool_backed X E" and up: "tenv_up E link"
    and upf: "upfIp g = ipv4_text [u1, u2, u3, u4]" and qfi: "qosId g < 256"
  shows "\<exists>t. tunnel_rules X name (ipv4_text [a1, a2, a3, a4]) (ipv4_text [g1, g2, g3, g4]) g s = Ret ((), t) \<and>
    installed E t = installed E s @ expected_requests link [a1, a2, a3, a4] [g1, g2, g3, g4] [u1, u2, u3, u4] g"
proof -
  let ?ue = "[a1, a2, a3, a4]" and ?gnb = "[g1, g2, g3, g4]" and ?upf = "[u1, u2, u3, u4]"
  have op: "tool_cmd E (GtpAddFAR args) = Some (CmdAddFAR E args)" "tool_cmd E (GtpAddPDR args) = Some (CmdAddPDR E args)"
    "tool_cmd E (GtpAddQER args) = Some (CmdAddQER E args)" for args
    by (simp_all add: tool_cmd_def)
  note fars = installs_thenM [OF installs_kernel [OF X op(1) far1 [OF up]]
      installs_thenM [OF installs_kernel [OF X op(1) far2 [OF up]] installs_skipM]]
  have qer: "installs E (if 0 < qosId g then kernel_or_fatal X (GtpAddQER (qer_command name (qosId g))) else skipM)
      (if 0 < qosId g then [CreateOID QER link [1] [(QER_QFI, AttrU8 (of_int (qosId g)))]] else [])"
    using installs_kernel [OF X op(3) qer1 [OF up _ qfi]] installs_skipM by simp
  have "installs E (tunnel_rules X name (ipv4_text ?ue) (ipv4_text ?gnb) g) (expected_requests link ?ue ?gnb ?upf g)"
    using installs_thenM [OF fars installs_thenM [OF installs_kernel [OF X op(2) pdr1 [OF up]]
        installs_thenM [OF qer installs_kernel [OF X op(2) pdr2 [OF up]]]]]
    by (simp add: tunnel_rules_def far_commands_def upf expected_requests_def)
  then show ?thesis by (simp add: installs_def)
qed

text \<open>A demo: an environment of a UE backed by the tool, and a session of its gNodeB.\<close>

definition tool_ok :: "tenv \<Rightarrow> uevent list \<Rightarrow> kernel_op \<Rightarrow> bool" where
  "tool_ok E evs op =
     (case tool_cmd E op of
        None \<Rightarrow> True
      | Some c \<Rightarrow> (case c (tool_trace E evs) of Ret (None, _) \<Rightarrow> True | _ \<Rightarrow> False))"

lemma tool_backed_demo: "tool_backed (demo_uext\<lparr>kernel_ok := tool_ok E\<rparr>) E"
  by (auto simp: tool_backed_def tool_ok_def split: res.split prod.split option.split)

lemma demo_upf: "upfIp demo_gnb_session = ipv4_text [10, 0, 0, 9]"
  by (simp add: demo_gnb_session_def zero_session_def ipv4_text_def show_nat.simps digit_char_def digit_chars)

theorem tunnel_rules_install_witness:
  "\<exists>t. tunnel_rules (demo_uext\<lparr>kernel_ok := tool_ok demo_tenv\<rparr>) ''val0'' (ipv4_text [10, 45, 0, 2])
      (ipv4_text [10, 0, 0, 1]) demo_gnb_session demo_s0 = Ret ((), t) \<and>
    installed demo_tenv t =
      [CreateOID FAR 7 [1] [(FAR_APPLY_ACTION, AttrU16 2)],
       CreateOID FAR 7 [2] [(FAR_APPLY_ACTION, AttrU16 2),
         (FAR_FORWARDING_PARAMETER, AttrList [creation_attr 0 9 [10, 0, 0, 9] 2152])],
       CreateOID PDR 7 [1] [(PDR_PRECEDENCE, AttrU32 1), (PDR_OUTER_HEADER_REMOVAL, AttrU8 0), (PDR_FAR_ID, AttrU32 1),
         (PDR_PDI, AttrList [(PDI_UE_ADDR_IPV4, AttrBytes [10, 45, 0, 2]), (PDI_F_TEID, AttrList
            [(F_TEID_I_TEID, AttrU32 5), (F_TEID_GTPU_ADDR_IPV4, AttrBytes [10, 0, 0, 1])])])],
       CreateOID QER 7 [1] [(QER_QFI, AttrU8 1)],
       CreateOID PDR 7 [2] [(PDR_PRECEDENCE, AttrU32 2), (PDR_FAR_ID, AttrU32 2), (PDR_QER_ID, AttrU32 1),
         (PDR_PDI, AttrList [(PDI_UE_ADDR_IPV4, AttrBytes [10, 45, 0, 2]), (PDI_SRC_INTF, AttrU8 0)])]]"
  using tunnel_rules_install [OF tool_backed_demo demo_tenv_up demo_upf, of "''val0''" 10 45 0 2 10 0 0 1 demo_s0]
  by (simp add: demo_gnb_session_def installed_def tool_trace_def demo_s0_def expected_requests_def)

section \<open>A UPF without an IPv4 address\<close>

lemma far2_fails:
  assumes "Option.bind (ParseIP upf) To4 = None"
  shows "\<nexists>tr'. CmdAddFAR E [name, ''2'', ''--action'', ''2'', ''--hdr-creation'', ''0'', show_nat (unat (teid :: u32)), upf, ''2152''] tr =
    Ret (None, tr')"
proof -
  have "\<exists>e. ipv4_arg opt c = Inl e" if "cp_pos c < length (cp_args c)" "cp_args c ! cp_pos c = upf" for opt c
    using assms that by (auto simp: ipv4_arg_def bindA_def text_arg_def GetToken_def failA_def split: option.split)
  then obtain e where "ipv4_arg ''--hdr-creation'' \<lparr>cp_args = [''--action'', ''2'', ''--hdr-creation'', ''0'',
      show_nat (unat teid), upf, ''2152''], cp_pos = Suc (Suc (Suc (Suc (Suc 0))))\<rparr> = Inl e"
    by (force simp: nth_Cons')
  then have "ParseFAROptions [''--action'', ''2'', ''--hdr-creation'', ''0'', show_nat (unat teid), upf, ''2152''] =
      Some ([(FAR_APPLY_ACTION, AttrU16 2)], Some e)"
    by (simp add: ParseFAROptions_def far_option_def literal_numbers uint_arg_parsed teid_number bindA_def retA_def
        NewCmdParser_def opt_loop.simps GetToken_def nth_Cons')
  then show ?thesis by (simp add: CmdAddFAR_def set_rule_def oid_args_def oid_2 option_args_def)
qed

text \<open>
  A session whose UPF address is not an IPv4 address, the empty one of an IPv6-only UPF
  included, ends the UE's process when its data plane is set up, whatever the rest of the
  system does: the tool refuses the second forwarding rule.
\<close>

theorem tunnel_without_ipv4_upf_fatal:
  assumes X: "tool_backed X E" and upf: "Option.bind (ParseIP (upfIp g)) To4 = None"
  shows "tunnel_rules X name ip gnb g s = Fatal ''kernel command''"
proof -
  have fails: "kernel_or_fatal X (GtpAddFAR (far_commands name g ! 1)) s = Fatal ''kernel command''" for s
    by (rule kernel_fails [OF X, of _ "CmdAddFAR E (far_commands name g ! 1)"])
      (simp_all add: tool_cmd_def far_commands_def far2_fails [OF upf])
  have "kernel_or_fatal X op s = Fatal ''kernel command'' \<or> (\<exists>t. kernel_or_fatal X op s = Ret ((), t))" for op
    by (simp add: kernel_or_fatal_def kernel_def run_simps)
  from this [of "GtpAddFAR (far_commands name g ! 0)"] show ?thesis
    using fails by (auto simp: tunnel_rules_def far_commands_def run_simps)
qed

theorem tunnel_without_ipv4_upf_fatal_witness:
  "tunnel_rules (demo_uext\<lparr>kernel_ok := tool_ok demo_tenv\<rparr>) ''val0'' ''10.45.0.2'' ''10.0.0.1''
     (demo_gnb_session\<lparr>upfIp := []\<rparr>) demo_s0 = Fatal ''kernel command''"
  by (rule tunnel_without_ipv4_upf_fatal [OF tool_backed_demo]) (simp add: ParseIP_def ParseAddr_def)

end
