(* ===== verification/Tools.thy ===== *)
theory Tools
  imports GoNet GnbService UeLoop
begin

text \<open>
  What starts the gNodeBs and the UEs: the configuration (\<open>config/config.go\<close>), the shared
  tools (\<open>internal/common/tools/tools.go\<close>) and the scenarios
  (\<open>internal/templates\<close>) with the two command-line actions that run them.
\<close>

section \<open>Configuration\<close>

record Config =
  cfg_gnb :: GNodeB_conf
  cfg_ue :: UeConf
  cfg_LogLevel :: int

text \<open>\<open>net.LookupIP\<close>: the addresses of a host, or an error. The first IPv4 address is taken.\<close>

fun first_ipv4 :: "byte list list \<Rightarrow> string option" where
  "first_ipv4 [] = None"
| "first_ipv4 (ip # ips) = (if To4 ip = None then first_ipv4 ips else Some (IP_String ip))"

definition resolvHost :: "(string \<Rightarrow> byte list list option) \<Rightarrow> string \<Rightarrow> string res" where
  "resolvHost LookupIP host =
     (case LookupIP host of
        None \<Rightarrow> Fatal ''Unable to resolve''
      | Some ips \<Rightarrow> (case first_ipv4 ips of None \<Rightarrow> Fatal ''No suitable IP address found'' | Some s \<Rightarrow> Ret s))"

text \<open>The decoded file, with the AMFs' addresses and the two of the gNodeB resolved in this order.\<close>

fun resolve_amfs :: "(string \<Rightarrow> byte list list option) \<Rightarrow> AMF_conf list \<Rightarrow> AMF_conf list res" where
  "resolve_amfs L [] = Ret []"
| "resolve_amfs L (a # as) =
     bindR (resolvHost L (cf_Ip a)) (\<lambda>ip. bindR (resolve_amfs L as) (\<lambda>as'. Ret (a\<lparr>cf_Ip := ip\<rparr> # as')))"

definition readConfig :: "(string \<Rightarrow> Config option) \<Rightarrow> (string \<Rightarrow> byte list list option) \<Rightarrow> string \<Rightarrow> Config res" where
  "readConfig decode L configPath =
     (case decode configPath of
        None \<Rightarrow> Fatal ''Could not unmarshal yaml config''
      | Some cfg \<Rightarrow>
          bindR (resolve_amfs L (cf_AMFs (cfg_gnb cfg))) (\<lambda>amfs.
          bindR (resolvHost L (cf_DataIp (cfg_gnb cfg))) (\<lambda>n3.
          bindR (resolvHost L (cf_ControlIp (cfg_gnb cfg))) (\<lambda>n2.
            Ret (cfg\<lparr>cfg_gnb := (cfg_gnb cfg)\<lparr>cf_AMFs := amfs, cf_DataIp := n3, cf_ControlIp := n2\<rparr>\<rparr>)))))"

section \<open>Numbers in identifiers\<close>

definition zero_pad :: "nat \<Rightarrow> string \<Rightarrow> string" where
  "zero_pad w s = replicate (w - length s) (CHR ''0'') @ s"

definition upper_hex :: "nat \<Rightarrow> char" where
  "upper_hex d = (if d < 10 then char_of (48 + d) else char_of (55 + d))"

text \<open>\<open>%0wd\<close> and \<open>%0wX\<close>: the sign counts for the width.\<close>

definition fmt_padded :: "(nat \<Rightarrow> string) \<Rightarrow> nat \<Rightarrow> int \<Rightarrow> string" where
  "fmt_padded show w i =
     (if i < 0 then CHR ''-'' # zero_pad (w - 1) (show (nat (- i))) else zero_pad w (show (nat i)))"

definition gnbIdGenerator :: "int \<Rightarrow> string \<Rightarrow> string res" where
  "gnbIdGenerator i base =
     (case ParseInt base 16 64 of
        Inl _ \<Rightarrow> Fatal ''[UE][CONFIG] Given gnbId is invalid''
      | Inr v \<Rightarrow> Ret (fmt_padded (map upper_hex \<circ> hex_digits) 6 (wrap64 (v + i))))"

definition IncrementMsin :: "int \<Rightarrow> string \<Rightarrow> string res" where
  "IncrementMsin i msin =
     (case Atoi msin of
        Inl _ \<Rightarrow> Fatal ''[UE][CONFIG] Given MSIN is invalid''
      | Inr v \<Rightarrow>
          let base = wrap64 (v + wrap64 (i - 1)) in
          Ret (if length msin = 9 then fmt_padded show_nat 9 base else fmt_padded show_nat 10 base))"

section \<open>Addresses\<close>

text \<open>The bytes from the last to the first, incremented with carry.\<close>

fun increment :: "byte list \<Rightarrow> byte list" where
  "increment [] = []"
| "increment (b # bs) = (if b + 1 \<noteq> 0 then (b + 1) # bs else 0 # increment bs)"

text \<open>The address after a given one, or the given one with an error.\<close>

definition IncrementIP :: "string \<Rightarrow> string \<Rightarrow> string \<times> string option" where
  "IncrementIP origIP cidr =
     (let ip = (case ParseIP origIP of None \<Rightarrow> [] | Some b \<Rightarrow> b) in
      case ParseCIDR cidr of
        None \<Rightarrow> (origIP, Some ''invalid CIDR address'')
      | Some (_, ipNet) \<Rightarrow>
          let ip' = rev (increment (rev ip)) in
          if \<not> Contains ipNet ip' then (origIP, Some ''Ip is not in provided subnet'')
          else (IP_String ip', None))"

fun Contains_string :: "string list \<Rightarrow> string \<Rightarrow> bool" where
  "Contains_string [] str = False"
| "Contains_string (v # s) str = (if v = str then True else Contains_string s str)"

section \<open>The gNodeBs\<close>

text \<open>
  The map of the gNodeBs made so far, the identifier and the two addresses of the next one.
  The context made in round \<open>i\<close> has reference \<open>i\<close>.
\<close>

record gnb_loop =
  gl_map :: "(string, gnb_ref) smap"
  gl_id :: string
  gl_n2 :: string
  gl_n3 :: string

definition next_ip :: "string \<Rightarrow> string \<Rightarrow> string res" where
  "next_ip e ip = (case IncrementIP ip ''0.0.0.0/0'' of (ip', None) \<Rightarrow> Ret ip' | (_, Some _) \<Rightarrow> Fatal e)"

definition create_gnb :: "ext \<Rightarrow> GNodeB_conf \<Rightarrow> nat \<Rightarrow> gnb_loop \<Rightarrow> gnb_loop M" where
  "create_gnb E cfg i L =
     thenM (InitGnb E i (cfg\<lparr>cf_GnbId := gl_id L, cf_ControlIp := gl_n2 L, cf_DataIp := gl_n3 L\<rparr>))
     (bindM (liftR (gnbIdGenerator (int i) (cf_GnbId cfg))) (\<lambda>next.
      bindM (liftR (next_ip ''[GNB][CONFIG] Error while allocating ip for N2'' (gl_n2 L))) (\<lambda>n2.
      bindM (liftR (next_ip ''[GNB][CONFIG] Error while allocating ip for N3'' (gl_n3 L))) (\<lambda>n3.
        retM \<lparr>gl_map = sm_store (gl_id L) i (gl_map L), gl_id = next, gl_n2 = n2, gl_n3 = n3\<rparr>))))"

definition CreateGnbs :: "ext \<Rightarrow> int \<Rightarrow> GNodeB_conf \<Rightarrow> ((string, gnb_ref) smap) M" where
  "CreateGnbs E n cfg =
     bindM (foldM [1..<Suc (nat n)] (create_gnb E cfg)
         \<lparr>gl_map = [], gl_id = cf_GnbId cfg, gl_n2 = cf_ControlIp cfg, gl_n3 = cf_DataIp cfg\<rparr>)
       (\<lambda>L. retM (gl_map L))"

section \<open>The scenario of one UE\<close>

record UESimulationConfig =
  sc_UeId :: int
  sc_Gnbs :: "(string, gnb_ref) smap"
  sc_Cfg :: Config
  TimeBeforeDeregistration :: int
  TimeBeforeNgapHandover :: int
  TimeBeforeXnHandover :: int
  TimeBeforeIdle :: int
  TimeBeforeReconnecting :: int
  NumPduSessions :: int

text \<open>Go's remainder has the sign of the dividend.\<close>

definition go_rem :: "int \<Rightarrow> int \<Rightarrow> int res" where
  "go_rem a b = (if b = 0 then Panic DivZero else Ret (if a < 0 then - ((- a) mod b) else a mod b))"

text \<open>The gNodeB number \<open>index\<close> of a UE; a missing entry of the map is a nil pointer.\<close>

definition gnb_of :: "UESimulationConfig \<Rightarrow> int \<Rightarrow> (gnb_ref option) res" where
  "gnb_of sc index =
     bindR (go_rem (sc_UeId sc + index) (int (length (sc_Gnbs sc)))) (\<lambda>k.
     bindR (gnbIdGenerator k (cf_GnbId (cfg_gnb (sc_Cfg sc)))) (\<lambda>name.
       Ret (sm_load (sc_Gnbs sc) name)))"

definition the_gnb :: "gnb_ref option \<Rightarrow> gnb_ref res" where
  "the_gnb g = (case g of None \<Rightarrow> Panic NilDeref | Some r \<Rightarrow> Ret r)"

text \<open>What the loop of a scenario waits for, and what it does.\<close>

datatype sim_event =
    DeregistrationTimer | NgapHandoverTimer | XnHandoverTimer | IdleTimer | ReconnectTimer
  | FromScenario UeTesterMessage
  | FromUe state_mm

datatype sim_action =
    ToUe UeTesterMessage
  | NgapHandover gnb_ref gnb_ref int
  | XnHandover gnb_ref gnb_ref int

record sim =
  sim_rx :: bool
  sim_timers :: "sim_event list"
  nextHandoverId :: int
  registered :: bool
  sim_loop :: bool
  sim_state :: state_mm
  sim_out :: "sim_action list"

type_synonym 'a SM = "(sim, 'a) comp"

text \<open>\<open>ueRx <- msg\<close>: the channel to the UE, nil once the UE was told to end.\<close>

definition to_ue :: "UeTesterMessage \<Rightarrow> unit SM" where
  "to_ue msg =
     bindM (getsM sim_rx) (\<lambda>rx. if rx then modM (\<lambda>s. s\<lparr>sim_out := sim_out s @ [ToUe msg]\<rparr>) else hangM)"

definition if_open :: "unit SM \<Rightarrow> unit SM" where
  "if_open k = bindM (getsM sim_rx) (\<lambda>rx. if rx then k else skipM)"

definition close_rx :: "unit SM" where
  "close_rx = modM (\<lambda>s. s\<lparr>sim_rx := False\<rparr>)"

text \<open>A handover from the current gNodeB of the UE to the next; a nil pointer is dereferenced.\<close>

definition handover :: "UESimulationConfig \<Rightarrow> (gnb_ref \<Rightarrow> gnb_ref \<Rightarrow> int \<Rightarrow> sim_action) \<Rightarrow> unit SM" where
  "handover sc act =
     bindM (getsM nextHandoverId) (\<lambda>n.
     bindM (liftR (gnb_of sc n)) (\<lambda>old.
     bindM (liftR (gnb_of sc (n + 1))) (\<lambda>new.
     bindM (liftR (the_gnb old)) (\<lambda>o'.
     bindM (liftR (the_gnb new)) (\<lambda>n'.
       modM (\<lambda>s. s\<lparr>sim_out := sim_out s @ [act o' n' (sc_UeId sc)], nextHandoverId := n + 1\<rparr>))))))"

definition sim_step :: "UESimulationConfig \<Rightarrow> sim_event \<Rightarrow> unit SM" where
  "sim_step sc ev =
     (case ev of
        DeregistrationTimer \<Rightarrow> if_open (thenM (to_ue TerminateUe) close_rx)
      | NgapHandoverTimer \<Rightarrow> handover sc NgapHandover
      | XnHandoverTimer \<Rightarrow> handover sc XnHandover
      | IdleTimer \<Rightarrow>
          if_open (thenM (to_ue IdleUe)
            (if TimeBeforeReconnecting sc \<noteq> 0 then modM (\<lambda>s. s\<lparr>sim_timers := ReconnectTimer # sim_timers s\<rparr>)
             else skipM))
      | ReconnectTimer \<Rightarrow> if_open (to_ue ServiceRequestUe)
      | FromScenario msg \<Rightarrow>
          if_open (thenM (to_ue msg) (if msg = TerminateUe \<or> msg = KillUe then close_rx else skipM))
      | FromUe st \<Rightarrow>
          thenM (if st = MM5G_REGISTERED then
                   bindM (getsM registered) (\<lambda>r.
                     if r then skipM
                     else thenM (forM [0..<nat (NumPduSessions sc)] (\<lambda>_. to_ue NewPDUSession))
                            (modM (\<lambda>s. s\<lparr>registered := True\<rparr>)))
                 else if st = MM5G_NULL then modM (\<lambda>s. s\<lparr>sim_loop := False\<rparr>)
                 else skipM)
            (modM (\<lambda>s. s\<lparr>sim_state := st\<rparr>)))"

definition armed :: "bool \<Rightarrow> sim_event \<Rightarrow> sim_event list" where
  "armed b t = (if b then [t] else [])"

text \<open>
  The start: the UE's configuration and gNodeB, and the scenario after the registration was
  asked for, with the timers that are armed.
\<close>

definition SimulateSingleUE :: "UESimulationConfig \<Rightarrow> (UeConf \<times> gnb_ref \<times> sim) res" where
  "SimulateSingleUE sc =
     bindR (IncrementMsin (sc_UeId sc) (conf_Msin (cfg_ue (sc_Cfg sc)))) (\<lambda>msin.
     bindR (gnb_of sc 0) (\<lambda>g.
     bindR (the_gnb g) (\<lambda>g.
       Ret ((cfg_ue (sc_Cfg sc))\<lparr>conf_Msin := msin\<rparr>, g,
         \<lparr>sim_rx = True,
          sim_timers = armed (TimeBeforeDeregistration sc \<noteq> 0) DeregistrationTimer
            @ armed (TimeBeforeNgapHandover sc \<noteq> 0) NgapHandoverTimer
            @ armed (TimeBeforeXnHandover sc \<noteq> 0) XnHandoverTimer
            @ armed (TimeBeforeIdle sc \<noteq> 0) IdleTimer,
          nextHandoverId = 0, registered = False, sim_loop = True, sim_state = MM5G_NULL,
          sim_out = [ToUe Registration]\<rparr>))))"

text \<open>One round of the loop: a timer fires once.\<close>

inductive sim_next :: "UESimulationConfig \<Rightarrow> sim \<Rightarrow> sim \<Rightarrow> bool" for sc where
  timer_fires: "sim_loop s \<Longrightarrow> t \<in> set (sim_timers s) \<Longrightarrow>
    sim_step sc t (s\<lparr>sim_timers := remove1 t (sim_timers s)\<rparr>) = Ret ((), s') \<Longrightarrow> sim_next sc s s'"
| scenario_message: "sim_loop s \<Longrightarrow> sim_step sc (FromScenario msg) s = Ret ((), s') \<Longrightarrow> sim_next sc s s'"
| ue_message: "sim_loop s \<Longrightarrow> sim_step sc (FromUe st) s = Ret ((), s') \<Longrightarrow> sim_next sc s s'"

section \<open>Many UEs\<close>

text \<open>
  \<open>TestMultiUesInQueue\<close>. What it does, in order; \<open>StartUe\<close> is the call of
  \<open>SimulateSingleUE\<close> with its whole configuration. Whether an interrupt has arrived and whether
  the goroutine of a UE still receives on its channel may depend on everything done so far;
  \<open>me_gnbs\<close> is the map \<open>CreateGnbs\<close> returns for a number of gNodeBs and their configuration. A
  send to a goroutine that has ended waits for ever, and a slice of negative length cannot be made.
\<close>

datatype multi_action =
    MakeGnbs int
  | StartUe UESimulationConfig
  | SendScenario int UeTesterMessage
  | WaitInterrupt

record multi_env =
  me_signal :: "multi_action list \<Rightarrow> bool"
  me_receives :: "multi_action list \<Rightarrow> int \<Rightarrow> bool"
  me_gnbs :: "int \<Rightarrow> GNodeB_conf \<Rightarrow> (string, gnb_ref) smap"

text \<open>The actions, the UEs that have a channel, and whether to go on.\<close>

record multi =
  mu_actions :: "multi_action list"
  mu_chans :: "int list"
  mu_stopSignal :: bool

type_synonym 'a MM = "(multi, 'a) comp"

definition act :: "multi_action \<Rightarrow> unit MM" where
  "act a = modM (\<lambda>s. s\<lparr>mu_actions := mu_actions s @ [a]\<rparr>)"

definition send_scenario :: "multi_env \<Rightarrow> int \<Rightarrow> UeTesterMessage \<Rightarrow> unit MM" where
  "send_scenario V i msg =
     bindM (getsM (\<lambda>s. me_receives V (mu_actions s) i)) (\<lambda>r. if r then act (SendScenario i msg) else hangM)"

text \<open>The loop variable is the field \<open>UeId\<close> of the configuration the UEs share.\<close>

definition start_ue :: "multi_env \<Rightarrow> UESimulationConfig \<Rightarrow> int \<Rightarrow> unit MM" where
  "start_ue V ueSimCfg i =
     bindM (getsM mu_stopSignal) (\<lambda>go.
       if \<not> go then skipM
       else
         thenM (bindM (getsM (\<lambda>s. i \<in> set (mu_chans s))) (\<lambda>old.
           if old then thenM (send_scenario V i KillUe) (modM (\<lambda>s. s\<lparr>mu_chans := removeAll i (mu_chans s)\<rparr>)) else skipM))
         (thenM (modM (\<lambda>s. s\<lparr>mu_chans := i # mu_chans s\<rparr>))
         (thenM (act (StartUe (ueSimCfg\<lparr>sc_UeId := i\<rparr>)))
         (bindM (getsM (\<lambda>s. me_signal V (mu_actions s))) (\<lambda>sig.
            if sig then modM (\<lambda>s. s\<lparr>mu_stopSignal := False\<rparr>) else skipM)))))"

text \<open>The rounds of registrations; \<open>None\<close> is a loop that never ends.\<close>

partial_function (option) multi_rounds ::
    "multi_env \<Rightarrow> UESimulationConfig \<Rightarrow> int \<Rightarrow> bool \<Rightarrow> multi \<Rightarrow> ((unit \<times> multi) res) option" where
  "multi_rounds V ueSimCfg numUes loop s =
     (if \<not> mu_stopSignal s then Some (Ret ((), s))
      else case forM [1..numUes] (start_ue V ueSimCfg) s of
        Ret (_, s') \<Rightarrow> if loop then multi_rounds V ueSimCfg numUes loop s' else Some (Ret ((), s'))
      | Fatal e \<Rightarrow> Some (Fatal e) | Panic p \<Rightarrow> Some (Panic p) | Hang \<Rightarrow> Some Hang)"

text \<open>
  The times and the number of sessions come in the fields of \<open>sc\<close>, as does the configuration
  loaded before; its gNodeBs are made first, then the tunnel mode is set in it.
\<close>

definition TestMultiUesInQueue :: "multi_env \<Rightarrow> int \<Rightarrow> TunnelMode \<Rightarrow> bool \<Rightarrow> bool \<Rightarrow> int \<Rightarrow> UESimulationConfig \<Rightarrow> multi \<Rightarrow>
    (unit \<times> multi) res" where
  "TestMultiUesInQueue V numUes tunnelMode dedicatedGnb loop timeBetweenRegistration sc =
     (if tunnelMode \<noteq> TunnelDisabled \<and> \<not> dedicatedGnb
      then fatalM ''You cannot use the --tunnel option, without using the --dedicatedGnb option''
      else if tunnelMode \<noteq> TunnelDisabled \<and> timeBetweenRegistration < 500
      then fatalM ''When using the --tunnel option, --timeBetweenRegistration must be equal to at least 500 ms''
      else if 16 < NumPduSessions sc
      then fatalM ''You can not have more than 16 PDU Sessions per UE as per spec.''
      else
        let cfg = sc_Cfg sc;
            n = (if dedicatedGnb then numUes else 1);
            numGnb = (if n \<le> 1 \<and> (TimeBeforeXnHandover sc \<noteq> 0 \<or> TimeBeforeNgapHandover sc \<noteq> 0) then n + 1 else n);
            gnbs = me_gnbs V numGnb (cfg_gnb cfg);
            cfg' = cfg\<lparr>cfg_ue := (cfg_ue cfg)\<lparr>conf_TunnelMode := tunnelMode\<rparr>\<rparr>;
            ueSimCfg = sc\<lparr>sc_Gnbs := gnbs, sc_Cfg := cfg'\<rparr> in
        thenM (act (MakeGnbs numGnb))
        (thenM (if numUes + 1 < 0 then panicM SliceRange else skipM)
        (thenM (\<lambda>s. case multi_rounds V ueSimCfg numUes loop s of None \<Rightarrow> Hang | Some r \<Rightarrow> r)
        (thenM (bindM (getsM mu_stopSignal) (\<lambda>go. if go then act WaitInterrupt else skipM))
        (bindM (getsM mu_chans) (\<lambda>chans.
           forM (filter (\<lambda>i. i \<in> set chans) [0..numUes]) (\<lambda>i. send_scenario V i TerminateUe)))))))"

definition initial_multi :: multi where
  "initial_multi = \<lparr>mu_actions = [], mu_chans = [], mu_stopSignal = True\<rparr>"

text \<open>\<open>TestAttachUeWithConfiguration\<close>.\<close>

definition TestAttachUeWithConfiguration :: "multi_env \<Rightarrow> bool \<Rightarrow> Config \<Rightarrow> multi \<Rightarrow> (unit \<times> multi) res" where
  "TestAttachUeWithConfiguration V tunnelEnabled cfg =
     TestMultiUesInQueue V 1 (if tunnelEnabled then TunnelVrf else TunnelDisabled) True False 500
       \<lparr>sc_UeId = 0, sc_Gnbs = [], sc_Cfg = cfg, TimeBeforeDeregistration = 0, TimeBeforeNgapHandover = 0,
        TimeBeforeXnHandover = 0, TimeBeforeIdle = 0, TimeBeforeReconnecting = 0, NumPduSessions = 1\<rparr>"

text \<open>The action of \<open>multi-ue-pdu\<close>: without a number of UEs it prints its usage.\<close>

record multi_flags =
  number_of_ues :: "int option"
  flag_tunnel :: bool
  flag_tunnel_vrf :: bool
  flag_dedicatedGnb :: bool
  flag_loop :: bool
  flag_timeBetweenRegistration :: int
  flag_sim :: UESimulationConfig

definition tunnel_mode :: "multi_flags \<Rightarrow> TunnelMode" where
  "tunnel_mode f = (if flag_tunnel f then if flag_tunnel_vrf f then TunnelVrf else TunnelTun else TunnelDisabled)"

definition multi_ue_pdu :: "multi_env \<Rightarrow> multi_flags \<Rightarrow> multi \<Rightarrow> (unit \<times> multi) res" where
  "multi_ue_pdu V f =
     (case number_of_ues f of
        None \<Rightarrow> skipM
      | Some n \<Rightarrow> TestMultiUesInQueue V n (tunnel_mode f) (flag_dedicatedGnb f) (flag_loop f)
          (flag_timeBetweenRegistration f) (flag_sim f))"

end
