(* ===== verification/Scenarios.thy ===== *)
theory Scenarios
  imports Tools
begin

text \<open>
  The other templates (\<open>internal/templates\<close>): a gNodeB alone, the two load tests of an AMF
  with their monitor, and the scenarios written in WebAssembly.
\<close>

section \<open>A gNodeB alone\<close>

definition TestAttachGnbWithConfiguration :: "ext \<Rightarrow> GNodeB_conf \<Rightarrow> unit M" where
  "TestAttachGnbWithConfiguration E cfg = thenM (InitGnb E 1 cfg) hangM"

section \<open>Load tests\<close>

text \<open>The identifiers of the gNodeBs of the load tests: six digits up to 999.\<close>

definition load_gnbIdGenerator :: "int \<Rightarrow> string" where
  "load_gnbIdGenerator i =
     (if i < 10 then ''00000'' else if i < 100 then ''0000'' else ''000'') @ show_int i"

definition load_conf :: "GNodeB_conf \<Rightarrow> nat \<Rightarrow> int \<Rightarrow> GNodeB_conf" where
  "load_conf cfg i ranPort = cfg\<lparr>cf_GnbId := load_gnbIdGenerator (int i), cf_ControlPort := ranPort\<rparr>"

text \<open>
  The monitor counts the answers of one second and of all; the port and the reference of the
  next gNodeB go up with every request. The requests of a second run one after the other here;
  \<open>wait\<close> is what happens while one of them waits for its answer.
\<close>

record load =
  RqsL :: int
  RqsG :: int
  ranPort :: int
  next_gnb :: gnb_ref

definition load_request :: "ext \<Rightarrow> unit M \<Rightarrow> GNodeB_conf \<Rightarrow> nat \<Rightarrow> load \<Rightarrow> load M" where
  "load_request E wait cfg i l =
     bindM (InitGnbForLoadSeconds E wait (next_gnb l) (load_conf cfg i (ranPort l))) (\<lambda>n.
       retM (l\<lparr>RqsL := RqsL l + int n, ranPort := ranPort l + 1, next_gnb := next_gnb l + 1\<rparr>))"

definition load_second :: "ext \<Rightarrow> unit M \<Rightarrow> GNodeB_conf \<Rightarrow> int \<Rightarrow> load \<Rightarrow> load M" where
  "load_second E wait cfg numRqs l =
     bindM (foldM [1..<Suc (nat numRqs)] (load_request E wait cfg) (l\<lparr>RqsL := 0\<rparr>)) (\<lambda>l.
       retM (l\<lparr>RqsG := RqsG l + RqsL l\<rparr>))"

definition TestRqsLoop :: "ext \<Rightarrow> unit M \<Rightarrow> GNodeB_conf \<Rightarrow> int \<Rightarrow> int \<Rightarrow> int M" where
  "TestRqsLoop E wait cfg numRqs interval =
     bindM (foldM [1..<Suc (nat interval)] (\<lambda>_. load_second E wait cfg numRqs)
         \<lparr>RqsL = 0, RqsG = 0, ranPort = 1000, next_gnb = 1\<rparr>)
       (\<lambda>l. retM (RqsG l))"

text \<open>Every second one gNodeB asks for the AMF; the result is what is reported for each second.\<close>

definition TestAvailability :: "ext \<Rightarrow> unit M \<Rightarrow> GNodeB_conf \<Rightarrow> int \<Rightarrow> (bool list) M" where
  "TestAvailability E wait cfg interval =
     foldM [1..<Suc (nat interval)] (\<lambda>y reports.
         bindM (InitGnbForAvaibility E wait y (load_conf cfg 1 (999 + int y))) (\<lambda>n.
           retM (reports @ [0 < n]))) []"

section \<open>Scenarios in WebAssembly\<close>

text \<open>The functions a scenario may call, and the message each sends to the UE.\<close>

datatype host_call = Attach | Detach | PduSessionRequest byte | PduSessionRelease byte | Think u32

definition host_message :: "host_call \<Rightarrow> UeTesterMessage option" where
  "host_message c =
     (case c of
        Attach \<Rightarrow> Some Registration
      | Detach \<Rightarrow> Some Deregistration
      | PduSessionRequest i \<Rightarrow> Some NewPDUSession
      | PduSessionRelease i \<Rightarrow> Some (DestroyPDUSession (i - 1))
      | Think v \<Rightarrow> None)"

text \<open>
  The UE of a custom scenario and whether it still receives. \<open>reads\<close> says whether anybody
  receives the state changes of the UE on the channel that \<open>NewUE\<close> returned. If nobody does, a
  handler that tells the scenario of a new state never ends, and the next message to the UE waits
  for ever.
\<close>

definition told_scenario :: "ustate \<Rightarrow> ustate \<Rightarrow> bool" where
  "told_scenario s t \<longleftrightarrow>
     list_ex (\<lambda>e. case e of ToScenario _ \<Rightarrow> True | _ \<Rightarrow> False) (drop (length (uevents s)) (uevents t))"

definition custom_call :: "uext \<Rightarrow> bool \<Rightarrow> host_call \<Rightarrow> (ustate \<times> bool, unit) comp" where
  "custom_call X reads c sg =
     (case host_message c of
        None \<Rightarrow> Ret ((), sg)
      | Some msg \<Rightarrow>
          (case sg of (s, listening) \<Rightarrow>
             if \<not> listening then Hang
             else bindR (ueMgrHandler X msg s) (\<lambda>(go, t). Ret ((), t, go \<and> (reads \<or> \<not> told_scenario s t)))))"

text \<open>
  A scenario is the list of its calls; what the gNodeB sends in between is what \<open>between\<close> does
  to a UE that listens.
\<close>

fun custom_scenario :: "uext \<Rightarrow> bool \<Rightarrow> (ustate \<Rightarrow> ustate) \<Rightarrow> host_call list \<Rightarrow> (ustate \<times> bool, unit) comp" where
  "custom_scenario X reads between [] = skipM"
| "custom_scenario X reads between (c # cs) =
     thenM (custom_call X reads c)
     (thenM (modM (\<lambda>(s, listening). (if listening then between s else s, listening)))
       (custom_scenario X reads between cs))"

text \<open>The sample scenario of the repository.\<close>

definition sample_scenario :: "host_call list" where
  "sample_scenario = [Attach, Think 5000, PduSessionRequest 1, Think 5000, PduSessionRelease 1, Detach]"

end
