(* ===== verification/ToolsProps.thy ===== *)
theory ToolsProps
  imports Scenarios UeDemo
begin

text \<open>
  Properties of the start-up: the identifiers and addresses of the gNodeBs, the gNodeB and the
  subscriber each UE is given, and the scenarios that drive the UEs.
\<close>

section \<open>Addresses as numbers\<close>

text \<open>The last \<open>k\<close> bytes of a number, least significant first.\<close>

fun le_bytes :: "nat \<Rightarrow> nat \<Rightarrow> byte list" where
  "le_bytes 0 n = []"
| "le_bytes (Suc k) n = of_nat n # le_bytes k (n div 256)"

definition ip_text :: "nat \<Rightarrow> string" where
  "ip_text n = ipv4_text (rev (le_bytes 4 n))"

lemma of_nat_byte_eq_0: "(of_nat n :: byte) = 0 \<longleftrightarrow> n mod 256 = 0"
  using word_of_nat_eq_0_iff [where 'a = 8, of n] by (simp add: mod_eq_0_iff_dvd)

lemma carry_byte: "of_nat n + 1 = (0 :: byte) \<longleftrightarrow> (n + 1) mod 256 = 0"
  unfolding of_nat_byte_eq_0 [symmetric] by (simp only: of_nat_add of_nat_1)

lemma replicate_eval: "replicate (numeral k) x = x # replicate (pred_numeral k) x"
  by (simp add: numeral_eq_Suc)

lemma byte_carry: "(n + 1) div 256 = (if (n + 1) mod 256 = 0 then n div 256 + 1 else n div (256 :: nat))"
  by (simp add: div_Suc mod_Suc)

lemma increment_le_bytes:
  "n + 1 < 256 ^ k \<Longrightarrow> increment (le_bytes k n @ rest) = le_bytes k (n + 1) @ rest"
proof (induction k arbitrary: n)
  case (Suc k)
  have "(n + 1) div 256 < 256 ^ k" using Suc.prems by (intro less_mult_imp_div_less) (simp add: mult.commute)
  then show ?case
    using Suc.IH [of "n div 256"] carry_byte [of n] byte_carry [of n] of_nat_byte_eq_0 [of "n + 1"]
    by (cases "(n + 1) mod 256 = 0") (simp_all add: add.commute)
qed simp

lemma increment_le_bytes_full:
  "n + 1 = 256 ^ k \<Longrightarrow> increment (le_bytes k n @ rest) = replicate k 0 @ increment rest"
proof (induction k arbitrary: n)
  case (Suc k)
  then have m: "(n + 1) mod 256 = 0" "(n + 1) div 256 = 256 ^ k" by simp_all
  then show ?case using Suc.IH [of "n div 256"] carry_byte [of n] byte_carry [of n] by simp
qed simp

lemma le_bytes_4: "le_bytes 4 n = [of_nat n, of_nat (n div 256), of_nat (n div 256 div 256), of_nat (n div 256 div 256 div 256)]"
proof -
  have "4 = Suc (Suc (Suc (Suc 0)))" by simp
  then show ?thesis by (simp only: le_bytes.simps)
qed

lemma ParseIP_ip_text: "ParseIP (ip_text n) = Some (v4InV6Prefix @ rev (le_bytes 4 n))"
  by (simp add: ip_text_def le_bytes_4 ParseIP_ipv4_text)

lemma any_network: "ParseCIDR ''0.0.0.0/0'' = Some (v4InV6Prefix @ [0, 0, 0, 0], \<lparr>net_IP = [0, 0, 0, 0], net_Mask = [0, 0, 0, 0]\<rparr>)"
proof -
  have "ipv4_text [0, 0, 0, 0] = ''0.0.0.0''"
    by (simp add: ipv4_text_def show_nat.simps [of 0] digit_char_def char_of_eq_iff)
  with ParseAddr_ipv4_text [of 0 0 0 0] have "ParseAddr ''0.0.0.0'' = Some (Addr4 [0, 0, 0, 0])" by simp
  moreover have "CIDRMask 0 4 = [0, 0, 0, 0]"
  proof -
    have "4 = Suc (Suc (Suc (Suc 0)))" by simp
    then show ?thesis by (simp only: CIDRMask.simps) simp
  qed
  ultimately show ?thesis
    by (simp add: ParseCIDR_def IP_Mask_def GoNet.is_digit_def v4InV6Prefix_def)
qed

lemma any_network_contains:
  "Contains \<lparr>net_IP = [0, 0, 0, 0], net_Mask = [0, 0, 0, 0]\<rparr> ip \<longleftrightarrow>
    length (case To4 ip of Some x \<Rightarrow> x | None \<Rightarrow> ip) = 4"
proof -
  have z: "map2 (AND) xs [0, 0, 0, 0 :: byte] = [0, 0, 0, 0]" if "length xs = 4" for xs
  proof -
    from that have "length xs = Suc (Suc (Suc (Suc 0)))" by simp
    then show ?thesis by (auto simp: length_Suc_conv)
  qed
  show ?thesis
    by (auto simp: Contains_def networkNumberAndMask_def To4_def Let_def z split: option.split)
qed

text \<open>Addresses are counted up; the one after the last is an error.\<close>

lemma IncrementIP_ip_text:
  assumes "n + 1 < 2 ^ 32"
  shows "IncrementIP (ip_text n) ''0.0.0.0/0'' = (ip_text (n + 1), None)"
proof -
  have "rev (increment (rev (v4InV6Prefix @ rev (le_bytes 4 n)))) = v4InV6Prefix @ rev (le_bytes 4 (n + 1))"
    using increment_le_bytes [of n 4 "rev v4InV6Prefix"] assms by simp
  moreover obtain a b c d where "rev (le_bytes 4 (n + 1)) = [a, b, c, d]" by (simp add: le_bytes_4)
  ultimately show ?thesis
    unfolding IncrementIP_def any_network ParseIP_ip_text
    by (simp add: any_network_contains IP_String_def ip_text_def)
qed

lemma IncrementIP_last: "IncrementIP (ip_text (2 ^ 32 - 1)) ''0.0.0.0/0'' = (ip_text (2 ^ 32 - 1), Some ''Ip is not in provided subnet'')"
proof -
  have "increment (rev v4InV6Prefix) = [0, 0, 1, 0, 0, 0, 0, 0, 0, 0, 0, 0]"
    by (simp add: v4InV6Prefix_def replicate_eval)
  then have "rev (increment (rev (v4InV6Prefix @ rev (le_bytes 4 (2 ^ 32 - 1))))) =
      [0, 0, 0, 0, 0, 0, 0, 0, 0, 1, 0, 0, 0, 0, 0, 0]"
    using increment_le_bytes_full [of "2 ^ 32 - 1" 4 "rev v4InV6Prefix"] by (simp add: replicate_eval)
  then show ?thesis
    unfolding IncrementIP_def any_network ParseIP_ip_text
    by (simp add: any_network_contains To4_def v4InV6Prefix_def replicate_eval)
qed

section \<open>Identifiers as numbers\<close>

definition hex6 :: "nat \<Rightarrow> string" where
  "hex6 n = zero_pad 6 (map upper_hex (hex_digits n))"

definition decimal :: "nat \<Rightarrow> nat \<Rightarrow> string" where
  "decimal w n = zero_pad w (show_nat n)"

lemma upper_hex_digit: "d < 16 \<Longrightarrow> digit_val (upper_hex d) = Some d \<and> code (upper_hex d) \<noteq> 43 \<and> code (upper_hex d) \<noteq> 45"
  by (auto simp: digit_val_def upper_hex_def)

lemma hex_digits_less: "d \<in> set (hex_digits n) \<Longrightarrow> d < 16"
proof (induction n rule: hex_digits.induct)
  case (1 n)
  then show ?case by (cases "n < 16") (auto simp: hex_digits.simps [of n])
qed

lemma hex_digits_not_Nil: "hex_digits n \<noteq> []"
  by (simp add: hex_digits.simps [of n])

lemma uint_loop_hex_digits:
  "n \<le> mx \<Longrightarrow> uint_loop 16 mx False 0 (map upper_hex (hex_digits n)) = Inr n"
proof (induction n rule: hex_digits.induct)
  case (1 n)
  show ?case
  proof (cases "n < 16")
    case True
    with "1.prems" upper_hex_digit [of n] show ?thesis by (simp add: hex_digits.simps [of n])
  next
    case False
    with 1 have "uint_loop 16 mx False 0 (map upper_hex (hex_digits (n div 16))) = Inr (n div 16)" by simp
    moreover have "n div 16 * 16 + n mod 16 = n" by simp
    ultimately show ?thesis
      using False "1.prems" upper_hex_digit [of "n mod 16"] by (simp add: hex_digits.simps [of n] uint_loop_append)
  qed
qed

lemma uint_loop_zeros: "0 < b \<Longrightarrow> uint_loop b mx False 0 (replicate k (CHR ''0'') @ s) = uint_loop b mx False 0 s"
  by (induction k) (simp_all add: digit_val_def)

lemma ParseInt_zero_pad:
  assumes "uint_loop b (2 ^ 64 - 1) False 0 s = Inr n" and "n < 2 ^ 63" and "0 < b" and "s \<noteq> []"
    and "\<And>c. c \<in> set s \<Longrightarrow> code c \<noteq> 43 \<and> code c \<noteq> 45"
  shows "ParseInt (zero_pad w s) b 64 = Inr (int n)"
proof -
  have u: "ParseUint (zero_pad w s) b 64 = Inr n"
    using assms by (simp add: ParseUint_def zero_pad_def uint_loop_zeros)
  obtain c r where c: "zero_pad w s = c # r" using assms(4) by (cases "zero_pad w s") (auto simp: zero_pad_def)
  have "c \<in> set (zero_pad w s)" by (simp add: c)
  then have "code c \<noteq> 43 \<and> code c \<noteq> 45" using assms(5) by (auto simp: zero_pad_def split: if_splits)
  then have "c \<noteq> CHR ''+''" "c \<noteq> CHR ''-''" by auto
  with u c assms(2) show ?thesis by (simp add: ParseInt_def Let_def)
qed

lemma ParseInt_hex6: "n < 2 ^ 63 \<Longrightarrow> ParseInt (hex6 n) 16 64 = Inr (int n)"
  unfolding hex6_def
  by (rule ParseInt_zero_pad)
    (auto simp: uint_loop_hex_digits hex_digits_not_Nil dest!: hex_digits_less upper_hex_digit)

lemma Atoi_decimal: "n < 2 ^ 63 \<Longrightarrow> Atoi (decimal w n) = Inr (int n)"
  unfolding decimal_def Atoi_def
  by (rule ParseInt_zero_pad) (auto simp: uint_loop_show_nat dest!: set_show_nat)

lemma hex6_inj: "m < 2 ^ 63 \<Longrightarrow> n < 2 ^ 63 \<Longrightarrow> hex6 m = hex6 n \<Longrightarrow> m = n"
  by (metis ParseInt_hex6 sum.inject(2) of_nat_eq_iff)

lemma decimal_inj: "m < 2 ^ 63 \<Longrightarrow> n < 2 ^ 63 \<Longrightarrow> decimal w m = decimal w n \<Longrightarrow> m = n"
  by (metis Atoi_decimal sum.inject(2) of_nat_eq_iff)

lemma gnbIdGenerator_parsed:
  "ParseInt base 16 64 = Inr (int v) \<Longrightarrow> v + k < 2 ^ 63 \<Longrightarrow> gnbIdGenerator (int k) base = Ret (hex6 (v + k))"
  by (simp add: gnbIdGenerator_def wrap64_id fmt_padded_def hex6_def nat_add_distrib)

section \<open>The gNodeBs\<close>

definition gnb_name :: "string \<Rightarrow> nat \<Rightarrow> nat \<Rightarrow> string" where
  "gnb_name base v k = (if k = 0 then base else hex6 (v + k))"

text \<open>The configuration of gNodeB number \<open>k\<close>.\<close>

definition numbered :: "GNodeB_conf \<Rightarrow> nat \<Rightarrow> nat \<Rightarrow> nat \<Rightarrow> nat \<Rightarrow> GNodeB_conf" where
  "numbered cfg v a b k =
     cfg\<lparr>cf_GnbId := gnb_name (cf_GnbId cfg) v k, cf_ControlIp := ip_text (a + k), cf_DataIp := ip_text (b + k)\<rparr>"

definition made :: "GNodeB_conf \<Rightarrow> nat \<Rightarrow> nat \<Rightarrow> (string, gnb_ref) smap" where
  "made cfg v k = map (\<lambda>j. (gnb_name (cf_GnbId cfg) v j, Suc j)) [0..<k]"

definition loop_at :: "GNodeB_conf \<Rightarrow> nat \<Rightarrow> nat \<Rightarrow> nat \<Rightarrow> nat \<Rightarrow> gnb_loop" where
  "loop_at cfg v a b k = \<lparr>gl_map = made cfg v k, gl_id = gnb_name (cf_GnbId cfg) v k,
     gl_n2 = ip_text (a + k), gl_n3 = ip_text (b + k)\<rparr>"

text \<open>The configuration counts up from numbers that fit, and no later identifier is the configured one.\<close>

definition countable_cfg :: "GNodeB_conf \<Rightarrow> nat \<Rightarrow> nat \<Rightarrow> nat \<Rightarrow> nat \<Rightarrow> bool" where
  "countable_cfg cfg v a b n \<longleftrightarrow> ParseInt (cf_GnbId cfg) 16 64 = Inr (int v) \<and> v + n < 2 ^ 63 \<and>
     cf_ControlIp cfg = ip_text a \<and> a + n < 2 ^ 32 \<and> cf_DataIp cfg = ip_text b \<and> b + n < 2 ^ 32"

lemma gnb_name_inj:
  assumes "ParseInt base 16 64 = Inr (int v)" and "v + j < 2 ^ 63" and "v + k < 2 ^ 63"
    and "gnb_name base v j = gnb_name base v k"
  shows "j = k"
proof -
  have parsed: "ParseInt (gnb_name base v i) 16 64 = Inr (int (v + i))" if "v + i < 2 ^ 63" for i
    using assms(1) that ParseInt_hex6 [of "v + i"] by (simp add: gnb_name_def)
  from parsed [OF assms(2)] parsed [OF assms(3)] have "int (v + j) = int (v + k)"
    unfolding assms(4) by (metis sum.inject(2))
  then show ?thesis by simp
qed

lemma store_new: "k \<notin> fst ` set m \<Longrightarrow> sm_store k v m = m @ [(k, v)]"
  unfolding sm_store_def by (induction m) auto

lemma create_gnb_at:
  assumes c: "countable_cfg cfg v a b n" and k: "k < n"
  shows "create_gnb E cfg (Suc k) (loop_at cfg v a b k) =
    thenM (InitGnb E (Suc k) (numbered cfg v a b k)) (retM (loop_at cfg v a b (Suc k)))"
proof -
  have id: "gnbIdGenerator (int (Suc k)) (cf_GnbId cfg) = Ret (gnb_name (cf_GnbId cfg) v (Suc k))"
    using c k gnbIdGenerator_parsed [of "cf_GnbId cfg" v "Suc k"] by (simp add: countable_cfg_def gnb_name_def)
  have ip: "next_ip e (ip_text (x + k)) = Ret (ip_text (x + Suc k))" if "x + n < 2 ^ 32" for e x
    using that k IncrementIP_ip_text [of "x + k"] by (simp add: next_ip_def)
  have "gnb_name (cf_GnbId cfg) v k \<notin> fst ` set (made cfg v k)"
  proof
    assume "gnb_name (cf_GnbId cfg) v k \<in> fst ` set (made cfg v k)"
    then obtain j where j: "j < k" "gnb_name (cf_GnbId cfg) v j = gnb_name (cf_GnbId cfg) v k"
      by (auto simp: made_def)
    with c k show False by (auto simp: countable_cfg_def dest: gnb_name_inj [rotated 3])
  qed
  then have "sm_store (gnb_name (cf_GnbId cfg) v k) (Suc k) (made cfg v k) = made cfg v (Suc k)"
    by (simp add: store_new made_def)
  then show ?thesis
    using id ip [of a] ip [of b] c
    by (simp add: create_gnb_def loop_at_def numbered_def countable_cfg_def fun_eq_iff run_simps del: of_nat_Suc)
qed

lemma foldM_create_gnb:
  assumes c: "countable_cfg cfg v a b n" and "j \<le> k" "k \<le> n"
  shows "foldM [Suc j..<Suc k] (create_gnb E cfg) (loop_at cfg v a b j) =
    thenM (forM [j..<k] (\<lambda>i. InitGnb E (Suc i) (numbered cfg v a b i))) (retM (loop_at cfg v a b k))"
  using assms(2,3)
proof (induction "k - j" arbitrary: j)
  case (Suc d)
  then have "j < n" "j < k" by simp_all
  have "[Suc j..<Suc k] = Suc j # [Suc (Suc j)..<Suc k]" "[j..<k] = j # [Suc j..<k]"
    using \<open>j < k\<close> by (simp_all add: upt_conv_Cons)
  then show ?case
    using Suc.hyps(1) [of "Suc j"] Suc.hyps(2) \<open>j < k\<close> \<open>k \<le> n\<close> create_gnb_at [OF c \<open>j < n\<close>]
    by (simp add: fun_eq_iff run_simps bindR_assoc case_prod_beta')
qed (simp add: fun_eq_iff run_simps)

lemma CreateGnbs_closed:
  assumes "countable_cfg cfg v a b n"
  shows "CreateGnbs E (int n) cfg =
    thenM (forM [0..<n] (\<lambda>k. InitGnb E (Suc k) (numbered cfg v a b k))) (retM (made cfg v n))"
proof -
  have "loop_at cfg v a b 0 = \<lparr>gl_map = [], gl_id = cf_GnbId cfg, gl_n2 = cf_ControlIp cfg, gl_n3 = cf_DataIp cfg\<rparr>"
    using assms by (simp add: loop_at_def made_def gnb_name_def countable_cfg_def)
  then show ?thesis
    using foldM_create_gnb [OF assms, of 0 n E]
    by (simp add: CreateGnbs_def fun_eq_iff run_simps bindR_assoc case_prod_beta' loop_at_def)
qed

lemma distinct_made:
  assumes "countable_cfg cfg v a b n"
  shows "distinct (map fst (made cfg v n))"
proof -
  have "inj_on (gnb_name (cf_GnbId cfg) v) {0..<n}"
    using assms by (intro inj_onI) (auto simp: countable_cfg_def dest: gnb_name_inj [rotated 3])
  then show ?thesis by (simp add: made_def comp_def distinct_map)
qed

lemma load_made:
  assumes "countable_cfg cfg v a b n" and "k < n"
  shows "sm_load (made cfg v n) (gnb_name (cf_GnbId cfg) v k) = Some (Suc k)"
  using assms sm_load_in [OF distinct_made [OF assms(1)], of "gnb_name (cf_GnbId cfg) v k" "Suc k"]
  by (force simp: made_def)

text \<open>
  C15: Starting several gNodeBs starts number \<open>k\<close> (from 0) with the configured identifier plus \<open>k\<close>
  and with the configured N2 and N3 addresses plus \<open>k\<close>, carries included, in this order and
  nothing else; the map returned holds one entry for each, under pairwise different
  identifiers. The loop with its four mutable variables is the same computation as this
  closed form.
\<close>

theorem gnbs_are_numbered:
  assumes "ParseInt (cf_GnbId cfg) 16 64 = Inr (int v)" and "v + n < 2 ^ 63"
    and "cf_ControlIp cfg = ip_text a" and "a + n < 2 ^ 32"
    and "cf_DataIp cfg = ip_text b" and "b + n < 2 ^ 32"
  shows "CreateGnbs E (int n) cfg =
      thenM (forM [0..<n] (\<lambda>k. InitGnb E (Suc k) (cfg\<lparr>
          cf_GnbId := (if k = 0 then cf_GnbId cfg else hex6 (v + k)),
          cf_ControlIp := ip_text (a + k), cf_DataIp := ip_text (b + k)\<rparr>)))
        (retM (map (\<lambda>k. (if k = 0 then cf_GnbId cfg else hex6 (v + k), Suc k)) [0..<n])) \<and>
    distinct (map (\<lambda>k. if k = 0 then cf_GnbId cfg else hex6 (v + k)) [0..<n])"
proof (rule conjI)
  from assms have c: "countable_cfg cfg v a b n" by (simp add: countable_cfg_def)
  from CreateGnbs_closed [OF c] show "CreateGnbs E (int n) cfg =
      thenM (forM [0..<n] (\<lambda>k. InitGnb E (Suc k) (cfg\<lparr>
          cf_GnbId := (if k = 0 then cf_GnbId cfg else hex6 (v + k)),
          cf_ControlIp := ip_text (a + k), cf_DataIp := ip_text (b + k)\<rparr>)))
        (retM (map (\<lambda>k. (if k = 0 then cf_GnbId cfg else hex6 (v + k), Suc k)) [0..<n]))"
    by (simp add: numbered_def made_def gnb_name_def)
  from distinct_made [OF c] show "distinct (map (\<lambda>k. if k = 0 then cf_GnbId cfg else hex6 (v + k)) [0..<n])"
    by (simp add: made_def gnb_name_def comp_def)
qed

definition demo_gnb_conf :: GNodeB_conf where
  "demo_gnb_conf = \<lparr>cf_GnbId = ''000008'', cf_Mcc = ''999'', cf_Mnc = ''70'', cf_Tac = ''000001'', cf_Sst = ''01'',
     cf_Sd = ''010203'', cf_ControlIp = ''10.0.0.254'', cf_DataIp = ''10.1.0.1'', cf_ControlPort = 9487,
     cf_DataPort = 2152, cf_AMFs = []\<rparr>"

lemma demo_texts:
  "''000008'' = hex6 8" "''000009'' = hex6 9" "''00000A'' = hex6 10" "''10.0.0.254'' = ip_text 167772414" "''10.1.0.1'' = ip_text 167837697"
  "''10.0.1.0'' = ip_text 167772416" "''10.1.0.3'' = ip_text 167837699"
  by (simp_all add: hex6_def zero_pad_def upper_hex_def hex_digits.simps ip_text_def le_bytes_4 ipv4_text_def
      show_nat.simps digit_char_def digit_chars replicate_eval)

theorem gnbs_are_numbered_witness:
  "\<forall>E. CreateGnbs E 3 demo_gnb_conf =
     thenM (forM [0, 1, 2] (\<lambda>k. InitGnb E (Suc k) (demo_gnb_conf\<lparr>
          cf_GnbId := (if k = 0 then ''000008'' else hex6 (8 + k)),
          cf_ControlIp := ip_text (167772414 + k), cf_DataIp := ip_text (167837697 + k)\<rparr>)))
       (retM (zip [''000008'', ''000009'', ''00000A''] (map Suc [0, 1, 2])))"
proof
  fix E
  have "[0..<3] = [0, 1, 2 :: nat]" by (simp add: upt_rec)
  then show "CreateGnbs E 3 demo_gnb_conf =
     thenM (forM [0, 1, 2] (\<lambda>k. InitGnb E (Suc k) (demo_gnb_conf\<lparr>
          cf_GnbId := (if k = 0 then ''000008'' else hex6 (8 + k)),
          cf_ControlIp := ip_text (167772414 + k), cf_DataIp := ip_text (167837697 + k)\<rparr>)))
       (retM (zip [''000008'', ''000009'', ''00000A''] (map Suc [0, 1, 2])))"
    using gnbs_are_numbered [of demo_gnb_conf 8 3 167772414 167837697 E] ParseInt_hex6 [of 8] demo_texts
    by (simp add: demo_gnb_conf_def)
qed

section \<open>The gNodeB and the subscriber of a UE\<close>

lemma length_made [simp]: "length (made cfg v n) = n"
  by (simp add: made_def)

lemma gnb_of_made:
  assumes "countable_cfg cfg v a b n" and "cf_GnbId cfg = hex6 v"
    and "sc_Gnbs sc = made cfg v n" and "cf_GnbId (cfg_gnb (sc_Cfg sc)) = hex6 v"
    and "0 < n" and "0 \<le> sc_UeId sc + j"
  shows "gnb_of sc j = Ret (Some (Suc (nat ((sc_UeId sc + j) mod int n))))"
proof -
  define k where "k = nat ((sc_UeId sc + j) mod int n)"
  have k: "(sc_UeId sc + j) mod int n = int k" "k < n"
    using assms(5,6) by (auto simp: k_def nat_less_iff)
  have "v < 2 ^ 63" "v + k < 2 ^ 63" using assms(1) k(2) by (simp_all add: countable_cfg_def)
  then have id: "gnbIdGenerator (int k) (hex6 v) = Ret (hex6 (v + k))"
    by (intro gnbIdGenerator_parsed ParseInt_hex6)
  have "gnb_name (cf_GnbId cfg) v k = hex6 (v + k)" by (simp add: gnb_name_def assms(2))
  with load_made [OF assms(1) k(2)] have "sm_load (made cfg v n) (hex6 (v + k)) = Some (Suc k)" by simp
  then have "gnb_of sc j = Ret (Some (Suc k))"
    using id k(1) assms(3-6) by (simp add: gnb_of_def go_rem_def length_made)
  then show ?thesis by (simp add: k_def)
qed

lemma length_show_nat: "m < 10 ^ w \<Longrightarrow> 0 < w \<Longrightarrow> length (show_nat m) \<le> w"
proof (induction m arbitrary: w rule: show_nat.induct)
  case (1 m)
  show ?case
  proof (cases "m < 10")
    case True
    with "1.prems" show ?thesis by (simp add: show_nat.simps [of m])
  next
    case False
    with "1.prems" obtain u where w: "w = Suc u" "0 < u" by (cases w; cases "w - 1") auto
    with "1.prems" have "m div 10 < 10 ^ u" by (intro less_mult_imp_div_less) (simp add: mult.commute)
    with "1.IH" [OF False _ w(2)] False show ?thesis by (simp add: show_nat.simps [of m] w)
  qed
qed

lemma length_decimal: "m < 10 ^ w \<Longrightarrow> 0 < w \<Longrightarrow> length (decimal w m) = w"
  using length_show_nat [of m w] by (simp add: decimal_def zero_pad_def)

lemma IncrementMsin_decimal:
  assumes "w = 9 \<or> w = 10" and "m < 10 ^ w" and "0 < i" and "m + i < 2 ^ 63"
  shows "IncrementMsin (int i) (decimal w m) = Ret (decimal w (m + i - 1))"
proof -
  have m: "Atoi (decimal w m) = Inr (int m)" using assms(4) by (intro Atoi_decimal) simp
  have "length (decimal w m) = w" using assms(1,2) by (intro length_decimal) auto
  moreover have "wrap64 (int m + wrap64 (int i - 1)) = int (m + i - 1)"
    using assms(3,4) by (simp add: wrap64_id of_nat_diff)
  ultimately show ?thesis using m assms(1)
    by (auto simp: IncrementMsin_def fmt_padded_def decimal_def)
qed

lemma CreateGnbs_result:
  "countable_cfg cfg v a b n \<Longrightarrow> CreateGnbs E (int n) cfg w = Ret (gnbs, w') \<Longrightarrow> gnbs = made cfg v n"
  by (auto simp: CreateGnbs_closed thenM_apply bindR_Ret_iff)

text \<open>
  C28: When the gNodeBs were started from an identifier of six hexadecimal digits and the
  configured MSIN has 9 or 10 digits, each of the UEs 1 to \<open>n\<close> is started with the MSIN that many
  places on, of the same width, on gNodeB \<open>i mod n\<close>, and is told to register first; no two of
  these UEs share an MSIN, and with as many gNodeBs as UEs no two share a gNodeB.
\<close>

theorem ues_get_own_msin_and_gnb:
  assumes "cf_GnbId cfg = hex6 v" and "v + n < 2 ^ 63"
    and "cf_ControlIp cfg = ip_text a" and "a + n < 2 ^ 32"
    and "cf_DataIp cfg = ip_text b" and "b + n < 2 ^ 32"
    and "CreateGnbs E (int n) cfg w = Ret (gnbs, w')"
    and "cfg_gnb (sc_Cfg sc) = cfg" and "sc_Gnbs sc = gnbs"
    and "conf_Msin (cfg_ue (sc_Cfg sc)) = decimal d m" and "d = 9 \<or> d = 10" and "m < 10 ^ d" and "m + n < 2 ^ 63"
  shows "(\<forall>i \<in> {1..n}. \<exists>s. SimulateSingleUE (sc\<lparr>sc_UeId := int i\<rparr>) =
        Ret ((cfg_ue (sc_Cfg sc))\<lparr>conf_Msin := decimal d (m + i - 1)\<rparr>, Suc (i mod n), s) \<and>
        sim_out s = [ToUe Registration]) \<and>
    inj_on (\<lambda>i. decimal d (m + i - 1)) {1..n} \<and> inj_on (\<lambda>i. Suc (i mod n)) {1..n}"
proof (intro conjI ballI)
  have c: "countable_cfg cfg v a b n"
    using assms(1-6) ParseInt_hex6 [of v] by (simp add: countable_cfg_def)
  note gnbs = CreateGnbs_result [OF c assms(7)]
  fix i assume i: "i \<in> {1..n}"
  have "IncrementMsin (int i) (decimal d m) = Ret (decimal d (m + i - 1))"
    using i assms(11-13) by (intro IncrementMsin_decimal) auto
  moreover have "gnb_of (sc\<lparr>sc_UeId := int i\<rparr>) 0 = Ret (Some (Suc (i mod n)))"
    using gnb_of_made [OF c assms(1), of "sc\<lparr>sc_UeId := int i\<rparr>" 0] i assms(1,8,9) gnbs
    by (simp flip: zmod_int)
  ultimately show "\<exists>s. SimulateSingleUE (sc\<lparr>sc_UeId := int i\<rparr>) =
        Ret ((cfg_ue (sc_Cfg sc))\<lparr>conf_Msin := decimal d (m + i - 1)\<rparr>, Suc (i mod n), s) \<and>
        sim_out s = [ToUe Registration]"
    by (simp add: SimulateSingleUE_def assms(10) the_gnb_def)
next
  show "inj_on (\<lambda>i. decimal d (m + i - 1)) {1..n}"
    using assms(13) by (intro inj_onI) (auto dest!: decimal_inj [rotated 2])
  show "inj_on (\<lambda>i. Suc (i mod n)) {1..n}"
    by (intro inj_onI) (auto simp: mod_if le_less split: if_splits)
qed

text \<open>
  The identifier must be spelled with six upper-case hexadecimal digits: with any other
  spelling of the same number the gNodeB is stored under a name the UEs do not look for, and
  every UE whose number is a multiple of the number of gNodeBs dereferences a nil pointer when
  it starts.
\<close>

theorem gnb_id_spelling_panics:
  assumes "ParseInt (cf_GnbId cfg) 16 64 = Inr (int v)" and "cf_GnbId cfg \<noteq> hex6 v" and "v + n < 2 ^ 63"
    and "cf_ControlIp cfg = ip_text a" and "a + n < 2 ^ 32"
    and "cf_DataIp cfg = ip_text b" and "b + n < 2 ^ 32"
    and "CreateGnbs E (int n) cfg w = Ret (gnbs, w')"
    and "cfg_gnb (sc_Cfg sc) = cfg" and "sc_Gnbs sc = gnbs"
    and "IncrementMsin (sc_UeId sc) (conf_Msin (cfg_ue (sc_Cfg sc))) = Ret msin"
    and "0 < n" and "0 < sc_UeId sc" and "int n dvd sc_UeId sc"
  shows "SimulateSingleUE sc = Panic NilDeref"
proof -
  have c: "countable_cfg cfg v a b n" using assms by (simp add: countable_cfg_def)
  note gnbs = CreateGnbs_result [OF c assms(8)]
  have "hex6 v \<notin> fst ` set (made cfg v n)"
    using assms(2,3) by (auto simp: made_def gnb_name_def dest!: hex6_inj [rotated 2] split: if_splits)
  then have "sm_load (made cfg v n) (hex6 v) = None"
    by (simp add: sm_load_def map_of_eq_None_iff)
  moreover have "gnbIdGenerator 0 (cf_GnbId cfg) = Ret (hex6 v)"
    using gnbIdGenerator_parsed [OF assms(1), of 0] assms(3) by simp
  ultimately have "gnb_of sc 0 = Ret None"
    using assms gnbs by (simp add: gnb_of_def go_rem_def dvd_imp_mod_0)
  then show ?thesis by (simp add: SimulateSingleUE_def assms(11) the_gnb_def)
qed

text \<open>A gNodeB without an AMF only makes its context, so \<open>CreateGnbs\<close> returns.\<close>

lemma CreateGnbs_no_amf:
  assumes "countable_cfg cfg v a b n" and "cf_AMFs cfg = []"
  shows "\<exists>w'. CreateGnbs E (int n) cfg w = Ret (made cfg v n, w')"
proof -
  have one: "\<exists>w'. InitGnb E g (numbered cfg v a b k) w = Ret ((), w')" for g k w
    by (simp add: InitGnb_def new_gnb_def NewRanGnbContext_def makeCh_def run_simps numbered_def assms(2))
  have "\<exists>w'. forM ks (\<lambda>k. InitGnb E (Suc k) (numbered cfg v a b k)) w = Ret ((), w')" for ks
  proof (induction ks arbitrary: w)
    case (Cons k ks)
    obtain u where "InitGnb E (Suc k) (numbered cfg v a b k) w = Ret ((), u)" using one by blast
    with Cons [of u] show ?case by (simp add: run_simps)
  qed simp
  then obtain w' where "forM [0..<n] (\<lambda>k. InitGnb E (Suc k) (numbered cfg v a b k)) w = Ret ((), w')" by blast
  then show ?thesis by (simp add: CreateGnbs_closed [OF assms(1)] run_simps)
qed

definition demo_sim :: "GNodeB_conf \<Rightarrow> (string, gnb_ref) smap \<Rightarrow> UESimulationConfig" where
  "demo_sim g gnbs = \<lparr>sc_UeId = 2, sc_Gnbs = gnbs,
     sc_Cfg = \<lparr>cfg_gnb = g, cfg_ue = demo_ueconf\<lparr>conf_Msin := ''0000000120''\<rparr>, cfg_LogLevel = 4\<rparr>,
     TimeBeforeDeregistration = 500, TimeBeforeNgapHandover = 0, TimeBeforeXnHandover = 0,
     TimeBeforeIdle = 0, TimeBeforeReconnecting = 0, NumPduSessions = 1\<rparr>"

lemma demo_countable: "countable_cfg demo_gnb_conf 8 167772414 167837697 2"
  using ParseInt_hex6 [of 8] demo_texts by (simp add: countable_cfg_def demo_gnb_conf_def)

lemma demo_msin: "''0000000120'' = decimal 10 120" "''0000000121'' = decimal 10 121"
  by (simp_all add: decimal_def zero_pad_def show_nat.simps digit_char_def digit_chars replicate_eval)

theorem ues_get_own_msin_and_gnb_witness:
  "\<exists>s. SimulateSingleUE (demo_sim demo_gnb_conf [(''000008'', 1), (''000009'', 2)]) =
     Ret (demo_ueconf\<lparr>conf_Msin := ''0000000121''\<rparr>, 1, s) \<and> sim_out s = [ToUe Registration]"
proof -
  let ?gnbs = "made demo_gnb_conf 8 2" and ?sc = "demo_sim demo_gnb_conf (made demo_gnb_conf 8 2)"
  have gnbs: "?gnbs = [(''000008'', 1), (''000009'', 2)]"
    using demo_texts by (simp add: made_def gnb_name_def demo_gnb_conf_def upt_rec)
  obtain w' where "CreateGnbs demo_ext (int 2) demo_gnb_conf empty_world = Ret (?gnbs, w')"
    using CreateGnbs_no_amf [OF demo_countable] by (auto simp: demo_gnb_conf_def)
  from ues_get_own_msin_and_gnb [OF _ _ _ _ _ _ this, of 8 167772414 167837697 ?sc 10 120] demo_countable demo_texts demo_msin
  have "\<forall>i \<in> {1..2}. \<exists>s. SimulateSingleUE (?sc\<lparr>sc_UeId := int i\<rparr>) =
        Ret (demo_ueconf\<lparr>conf_Msin := decimal 10 (120 + i - 1)\<rparr>, Suc (i mod 2), s) \<and> sim_out s = [ToUe Registration]"
    by (simp add: demo_sim_def demo_gnb_conf_def)
  from bspec [OF this, of 2] show ?thesis by (simp add: gnbs demo_sim_def demo_msin)
qed

theorem gnb_id_spelling_panics_witness:
  "SimulateSingleUE (demo_sim (demo_gnb_conf\<lparr>cf_GnbId := ''8''\<rparr>) [(''8'', 1)]) = Panic NilDeref"
proof -
  let ?cfg = "demo_gnb_conf\<lparr>cf_GnbId := ''8''\<rparr>"
  have eight: "ParseInt ''8'' 16 64 = Inr 8"
    by (simp add: ParseInt_def ParseUint_def digit_val_def)
  have c: "countable_cfg ?cfg 8 167772414 167837697 1"
    using eight demo_texts by (simp add: countable_cfg_def demo_gnb_conf_def)
  have gnbs: "made ?cfg 8 1 = [(''8'', 1)]" by (simp add: made_def gnb_name_def)
  obtain w' where "CreateGnbs demo_ext (int 1) ?cfg empty_world = Ret (made ?cfg 8 1, w')"
    using CreateGnbs_no_amf [OF c] by (auto simp: demo_gnb_conf_def)
  moreover have "IncrementMsin 2 ''0000000120'' = Ret ''0000000121''"
    using IncrementMsin_decimal [of 10 120 2] demo_msin by simp
  moreover have "''8'' \<noteq> hex6 8" unfolding demo_texts(1) [symmetric] by simp
  ultimately show ?thesis
    using gnb_id_spelling_panics [of ?cfg 8 1 167772414 167837697 demo_ext empty_world
        "made ?cfg 8 1" w' "demo_sim ?cfg (made ?cfg 8 1)" "''0000000121''"] eight demo_texts gnbs
    by (simp add: demo_sim_def demo_gnb_conf_def)
qed

section \<open>The scenario of a UE\<close>

definition ue_messages :: "sim_action list \<Rightarrow> UeTesterMessage list" where
  "ue_messages out = concat (map (\<lambda>a. case a of ToUe m \<Rightarrow> [m] | _ \<Rightarrow> []) out)"

definition ending :: "UeTesterMessage \<Rightarrow> bool" where
  "ending m \<longleftrightarrow> m = TerminateUe \<or> m = KillUe"

text \<open>Told to end at most once, by the last message, exactly when the channel is given up.\<close>

definition ends_once :: "sim \<Rightarrow> bool" where
  "ends_once s \<longleftrightarrow> (if sim_rx s then \<forall>m \<in> set (ue_messages (sim_out s)). \<not> ending m
     else \<exists>ms e. ue_messages (sim_out s) = ms @ [e] \<and> ending e \<and> (\<forall>m \<in> set ms. \<not> ending m))"

lemma ue_messages_append [simp]:
  "ue_messages (out @ [ToUe m]) = ue_messages out @ [m]"
  "ue_messages (out @ [NgapHandover o' n' i]) = ue_messages out"
  "ue_messages (out @ [XnHandover o' n' i]) = ue_messages out"
  by (simp_all add: ue_messages_def)

lemma preserves_to_ue: "\<not> ending m \<Longrightarrow> preserves ends_once (to_ue m)"
  by (rule preservesI) (auto simp: to_ue_def run_simps ends_once_def split: if_splits)

lemma preserves_end_ue: "ending m \<Longrightarrow> preserves ends_once (thenM (to_ue m) close_rx)"
  by (rule preservesI) (auto simp: to_ue_def close_rx_def run_simps ends_once_def split: if_splits)

lemma preserves_handover:
  "a = NgapHandover \<or> a = XnHandover \<Longrightarrow> preserves ends_once (handover sc a)"
  unfolding handover_def
  by (intro pres_intros preserves_modM) (auto simp: ends_once_def split: if_splits)

lemma preserves_ends_once_other:
  "(\<And>s. sim_rx (f s) = sim_rx s \<and> sim_out (f s) = sim_out s) \<Longrightarrow> preserves ends_once (modM f)"
  by (rule preserves_modM) (simp add: ends_once_def)

lemma preserves_sim_step: "preserves ends_once (sim_step sc ev)"
proof (cases ev)
  case DeregistrationTimer
  then show ?thesis by (simp add: sim_step_def if_open_def) (intro pres_intros preserves_end_ue, simp add: ending_def)
next
  case (FromScenario msg)
  have "preserves ends_once (thenM (to_ue msg) (if msg = TerminateUe \<or> msg = KillUe then close_rx else skipM))"
    using preserves_end_ue [of msg] preserves_to_ue [of msg] by (auto simp: ending_def intro!: pres_intros)
  then show ?thesis unfolding FromScenario sim_step_def if_open_def sim_event.case
    by (intro preserves_bindM preserves_getsM preserves_if preserves_skipM)
qed (auto simp: sim_step_def if_open_def ending_def
    intro!: pres_intros preserves_to_ue preserves_handover preserves_ends_once_other)

text \<open>The start and every round keep it.\<close>

lemma sim_next_ends_once:
  assumes "ends_once s" and "sim_next sc s t"
  shows "ends_once t"
  using assms(2)
proof cases
  case (timer_fires e)
  have "ends_once (s\<lparr>sim_timers := remove1 e (sim_timers s)\<rparr>)"
    using assms(1) by (simp add: ends_once_def)
  from preservesD [OF preserves_sim_step this timer_fires(3)] show ?thesis .
qed (use preservesD [OF preserves_sim_step assms(1)] in auto)

interpretation scenario: inductive_invariant "\<lambda>s. \<exists>c g. SimulateSingleUE sc = Ret (c, g, s)" "sim_next sc" ends_once for sc
proof unfold_locales
  show "ends_once s" if "\<exists>c g. SimulateSingleUE sc = Ret (c, g, s)" for s
    using that by (auto simp: SimulateSingleUE_def bindR_Ret_iff ends_once_def ue_messages_def ending_def)
qed (rule sim_next_ends_once)

text \<open>
  C14: Whatever timers fire, whatever the user's scenario sends and whatever the UE reports, the
  loop of a UE's scenario tells the UE to end (Terminate or Kill) at most once, that message is
  the last one it sends to the UE, and the loop gives up the channel exactly when it has sent it.
\<close>

theorem scenario_ends_ue_once:
  assumes "SimulateSingleUE sc = Ret (c, g, s0)" and "(sim_next sc)\<^sup>*\<^sup>* s0 s"
  shows "if sim_rx s then \<forall>m \<in> set (ue_messages (sim_out s)). m \<notin> {TerminateUe, KillUe}
     else \<exists>ms e. ue_messages (sim_out s) = ms @ [e] \<and> e \<in> {TerminateUe, KillUe} \<and>
       (\<forall>m \<in> set ms. m \<notin> {TerminateUe, KillUe})"
  using scenario.inv_reachable [of sc s0 s] assms by (auto simp: ends_once_def ending_def)

text \<open>
  A UE that reports its registration after it was told to end leaves its scenario waiting for
  ever: the PDU sessions are asked for on a nil channel.
\<close>

lemma late_registration_hangs:
  "\<not> sim_rx s \<Longrightarrow> \<not> registered s \<Longrightarrow> 0 < NumPduSessions sc \<Longrightarrow>
    sim_step sc (FromUe MM5G_REGISTERED) s = Hang"
  by (cases "nat (NumPduSessions sc)") (simp_all add: sim_step_def run_simps to_ue_def upt_rec)

theorem scenario_ends_ue_once_witness:
  "\<exists>c g s0 s. SimulateSingleUE (demo_sim demo_gnb_conf [(''000008'', 1)]) = Ret (c, g, s0) \<and>
     (sim_next (demo_sim demo_gnb_conf [(''000008'', 1)]))\<^sup>*\<^sup>* s0 s \<and>
     ue_messages (sim_out s) = [Registration, TerminateUe] \<and> \<not> sim_rx s"
proof -
  let ?sc = "demo_sim demo_gnb_conf [(''000008'', 1)]"
  have "IncrementMsin 2 ''0000000120'' = Ret ''0000000121''"
    using IncrementMsin_decimal [of 10 120 2] demo_msin by simp
  moreover have "gnbIdGenerator 0 ''000008'' = Ret ''000008''"
    using gnbIdGenerator_parsed [of "hex6 8" 8 0] ParseInt_hex6 [of 8] demo_texts by simp
  then have "gnb_of ?sc 0 = Ret (Some 1)"
    by (simp add: gnb_of_def go_rem_def demo_sim_def demo_gnb_conf_def sm_load_def)
  ultimately obtain c g s0 where s0: "SimulateSingleUE ?sc = Ret (c, g, s0)" and
    start: "sim_rx s0" "sim_loop s0" "sim_timers s0 = [DeregistrationTimer]" "sim_out s0 = [ToUe Registration]"
    by (simp add: SimulateSingleUE_def demo_sim_def the_gnb_def armed_def)
  define s where "s = s0\<lparr>sim_timers := [], sim_out := [ToUe Registration, ToUe TerminateUe], sim_rx := False\<rparr>"
  have "sim_next ?sc s0 s"
    by (rule timer_fires [of _ DeregistrationTimer])
      (simp_all add: start sim_step_def if_open_def to_ue_def close_rx_def run_simps s_def)
  then have run: "(sim_next ?sc)\<^sup>*\<^sup>* s0 s" by simp
  moreover have m: "ue_messages (sim_out s) = [Registration, TerminateUe]" by (simp add: s_def ue_messages_def)
  moreover have "\<not> sim_rx s"
    using scenario_ends_ue_once [OF s0 run] by (auto simp: m split: if_splits)
  ultimately show ?thesis using s0 by blast
qed

section \<open>Many UEs\<close>

text \<open>No interrupt arrives.\<close>

definition undisturbed :: "multi_env \<Rightarrow> bool" where
  "undisturbed V \<longleftrightarrow> (\<forall>acts. \<not> me_signal V acts)"

lemma first_round:
  "undisturbed V \<Longrightarrow> mu_stopSignal s \<Longrightarrow> distinct is \<Longrightarrow> set is \<inter> set (mu_chans s) = {} \<Longrightarrow>
    forM is (start_ue V c) s =
      Ret ((), s\<lparr>mu_actions := mu_actions s @ map (\<lambda>i. StartUe (c\<lparr>sc_UeId := i\<rparr>)) is, mu_chans := rev is @ mu_chans s\<rparr>)"
proof (induction "is" arbitrary: s)
  case (Cons i "is")
  let ?t = "s\<lparr>mu_actions := mu_actions s @ [StartUe (c\<lparr>sc_UeId := i\<rparr>)], mu_chans := i # mu_chans s\<rparr>"
  have "start_ue V c i s = Ret ((), ?t)"
    using Cons.prems by (simp add: start_ue_def run_simps act_def undisturbed_def)
  moreover have "set is \<inter> set (mu_chans ?t) = {}" using Cons.prems by auto
  ultimately show ?case using Cons.IH [of ?t] Cons.prems by (simp add: run_simps)
qed simp

lemma stop_all:
  "(\<And>acts i. i \<in> set is \<Longrightarrow> me_receives V acts i) \<Longrightarrow>
    forM is (\<lambda>i. send_scenario V i m) s = Ret ((), s\<lparr>mu_actions := mu_actions s @ map (\<lambda>i. SendScenario i m) is\<rparr>)"
  by (induction "is" arbitrary: s) (simp_all add: send_scenario_def run_simps act_def)

text \<open>A UE whose goroutine has ended: nothing receives on its channel any more.\<close>

definition ended_ue :: "multi_env \<Rightarrow> int \<Rightarrow> bool" where
  "ended_ue V j \<longleftrightarrow> (\<forall>acts c. StartUe c \<in> set acts \<longrightarrow> sc_UeId c = j \<longrightarrow> \<not> me_receives V acts j)"

definition started :: "int \<Rightarrow> multi \<Rightarrow> bool" where
  "started j s \<longleftrightarrow> mu_stopSignal s \<and> j \<in> set (mu_chans s) \<and> (\<exists>c. StartUe c \<in> set (mu_actions s) \<and> sc_UeId c = j)"

lemma next_round_hangs:
  "undisturbed V \<Longrightarrow> ended_ue V j \<Longrightarrow> started j s \<Longrightarrow> j \<in> set is \<Longrightarrow> forM is (start_ue V c) s = Hang"
proof (induction "is" arbitrary: s)
  case (Cons i "is")
  show ?case
  proof (cases "i = j")
    case True
    with Cons.prems show ?thesis
      by (auto simp: start_ue_def send_scenario_def started_def ended_ue_def run_simps)
  next
    case False
    with Cons.prems have "start_ue V c i s = Hang \<or> (\<exists>t. start_ue V c i s = Ret ((), t) \<and> started j t)"
      by (auto simp: start_ue_def send_scenario_def started_def undisturbed_def act_def run_simps)
    with Cons False show ?thesis by (auto simp: run_simps)
  qed
qed simp

lemma stopping_hangs:
  "ended_ue V j \<Longrightarrow> started j s \<Longrightarrow> j \<in> set is \<Longrightarrow> forM is (\<lambda>i. send_scenario V i m) s = Hang"
proof (induction "is" arbitrary: s)
  case (Cons i "is")
  show ?case
  proof (cases "me_receives V (mu_actions s) i")
    case True
    with Cons.prems have "i \<noteq> j" by (auto simp: started_def ended_ue_def)
    with Cons True show ?thesis by (simp add: send_scenario_def act_def run_simps started_def)
  qed (simp add: send_scenario_def run_simps)
qed simp

lemma started_chans:
  assumes "0 \<le> n"
  shows "filter (\<lambda>i. i \<in> set (rev [1..n])) [0..n] = [1..n]"
proof -
  have "[0..n] = 0 # [1..n]" using assms upto_rec1 [of 0 n] by simp
  then show ?thesis by (simp add: filter_id_conv)
qed

definition gnbs_needed :: "bool \<Rightarrow> int \<Rightarrow> UESimulationConfig \<Rightarrow> int" where
  "gnbs_needed dedicatedGnb numUes sc =
     (let n = (if dedicatedGnb then numUes else 1) in
      if n \<le> 1 \<and> (TimeBeforeXnHandover sc \<noteq> 0 \<or> TimeBeforeNgapHandover sc \<noteq> 0) then n + 1 else n)"

definition accepted :: "TunnelMode \<Rightarrow> bool \<Rightarrow> int \<Rightarrow> UESimulationConfig \<Rightarrow> bool" where
  "accepted tunnelMode dedicatedGnb interval sc \<longleftrightarrow>
     (tunnelMode \<noteq> TunnelDisabled \<longrightarrow> dedicatedGnb \<and> 500 \<le> interval) \<and> NumPduSessions sc \<le> 16"

text \<open>The configuration every UE of the test shares: the gNodeBs made, and the tunnel mode asked for.\<close>

definition queue_sim :: "multi_env \<Rightarrow> int \<Rightarrow> TunnelMode \<Rightarrow> UESimulationConfig \<Rightarrow> UESimulationConfig" where
  "queue_sim V g tunnelMode sc =
     sc\<lparr>sc_Gnbs := me_gnbs V g (cfg_gnb (sc_Cfg sc)),
        sc_Cfg := (sc_Cfg sc)\<lparr>cfg_ue := (cfg_ue (sc_Cfg sc))\<lparr>conf_TunnelMode := tunnelMode\<rparr>\<rparr>\<rparr>"

definition round1 :: "UESimulationConfig \<Rightarrow> int \<Rightarrow> int \<Rightarrow> multi" where
  "round1 c g n = \<lparr>mu_actions = MakeGnbs g # map (\<lambda>i. StartUe (c\<lparr>sc_UeId := i\<rparr>)) [1..n], mu_chans = rev [1..n],
     mu_stopSignal = True\<rparr>"

lemma TestMultiUesInQueue_start:
  assumes "undisturbed V" and "accepted tunnelMode dedicatedGnb interval sc" and "0 \<le> n"
    and "g = gnbs_needed dedicatedGnb n sc" and "c = queue_sim V g tunnelMode sc"
  shows "TestMultiUesInQueue V n tunnelMode dedicatedGnb loop interval sc initial_multi =
    thenM (\<lambda>s. case if loop then multi_rounds V c n loop s else Some (Ret ((), s)) of None \<Rightarrow> Hang | Some r \<Rightarrow> r)
      (thenM (bindM (getsM mu_stopSignal) (\<lambda>go. if go then act WaitInterrupt else skipM))
      (bindM (getsM mu_chans) (\<lambda>chans.
         forM (filter (\<lambda>i. i \<in> set chans) [0..n]) (\<lambda>i. send_scenario V i TerminateUe))))
      (round1 c g n)"
proof -
  let ?s = "initial_multi\<lparr>mu_actions := [MakeGnbs g]\<rparr>"
  have "forM [1..n] (start_ue V c) ?s = Ret ((), round1 c g n)"
    using first_round [OF assms(1), of ?s "[1..n]" c] by (simp add: initial_multi_def round1_def)
  then have "multi_rounds V c n loop ?s =
      (if loop then multi_rounds V c n loop (round1 c g n) else Some (Ret ((), round1 c g n)))"
    by (subst multi_rounds.simps) (simp add: initial_multi_def)
  moreover have "act (MakeGnbs g) initial_multi = Ret ((), ?s)" by (simp add: act_def initial_multi_def)
  moreover have "\<not> (tunnelMode \<noteq> TunnelDisabled \<and> \<not> dedicatedGnb)"
    "\<not> (tunnelMode \<noteq> TunnelDisabled \<and> interval < 500)" "\<not> 16 < NumPduSessions sc" "\<not> n + 1 < 0"
    using assms(2,3) by (auto simp: accepted_def)
  ultimately show ?thesis
    unfolding TestMultiUesInQueue_def Let_def queue_sim_def [symmetric]
      gnbs_needed_def [unfolded Let_def, symmetric] assms(4,5)
    by (cases loop) (simp_all only: thenM_apply bindR_simps if_False prod.case skipM_apply option.case if_True)
qed

text \<open>
  C30: With options it accepts, no loop and no interrupt before the wait, the test starts the
  gNodeBs, then every UE from 1 to \<open>n\<close> once and in order, each with its number, the gNodeBs made,
  the times and number of sessions asked for and the loaded configuration in which only the tunnel
  mode is replaced by the one asked for; it waits for the interrupt, and then tells every UE to
  end, once and in order; it returns, provided the UEs still listen.
\<close>

theorem queue_runs_every_ue:
  assumes "\<And>acts. \<not> me_signal V acts" and "\<And>acts i. 1 \<le> i \<Longrightarrow> i \<le> n \<Longrightarrow> me_receives V acts i"
    and "tunnelMode \<noteq> TunnelDisabled \<Longrightarrow> dedicatedGnb \<and> 500 \<le> interval" and "NumPduSessions sc \<le> 16" and "0 \<le> n"
  shows "\<exists>s. TestMultiUesInQueue V n tunnelMode dedicatedGnb False interval sc initial_multi = Ret ((), s) \<and>
    mu_actions s = MakeGnbs (gnbs_needed dedicatedGnb n sc) #
      map (\<lambda>i. StartUe (sc\<lparr>sc_UeId := i, sc_Gnbs := me_gnbs V (gnbs_needed dedicatedGnb n sc) (cfg_gnb (sc_Cfg sc)),
        sc_Cfg := (sc_Cfg sc)\<lparr>cfg_ue := (cfg_ue (sc_Cfg sc))\<lparr>conf_TunnelMode := tunnelMode\<rparr>\<rparr>\<rparr>)) [1..n] @
      [WaitInterrupt] @ map (\<lambda>i. SendScenario i TerminateUe) [1..n]"
proof -
  have "undisturbed V" "accepted tunnelMode dedicatedGnb interval sc"
    using assms(1,3,4) by (auto simp: undisturbed_def accepted_def)
  note start = TestMultiUesInQueue_start [OF this assms(5) refl refl, of False]
  have stop: "forM [1..n] (\<lambda>i. send_scenario V i TerminateUe) s =
      Ret ((), s\<lparr>mu_actions := mu_actions s @ map (\<lambda>i. SendScenario i TerminateUe) [1..n]\<rparr>)" for s
    by (rule stop_all) (use assms(2) in auto)
  show ?thesis
    unfolding start using started_chans [OF assms(5)]
    by (simp add: Let_def run_simps act_def stop round1_def queue_sim_def)
qed

text \<open>
  C39: A UE that has ended on its own, as every UE with \<open>timeBeforeDeregistration\<close> does, hangs the
  test for ever: without \<open>--loop\<close> when it is told to end after the interrupt, with \<open>--loop\<close> when
  it is killed at the start of the next round; nobody receives on its channel.
\<close>

theorem queue_hangs_on_ended_ue:
  assumes "\<And>acts. \<not> me_signal V acts"
    and "\<And>acts c. StartUe c \<in> set acts \<Longrightarrow> sc_UeId c = j \<Longrightarrow> \<not> me_receives V acts j" and "1 \<le> j" and "j \<le> n"
    and "tunnelMode \<noteq> TunnelDisabled \<Longrightarrow> dedicatedGnb \<and> 500 \<le> interval" and "NumPduSessions sc \<le> 16"
  shows "TestMultiUesInQueue V n tunnelMode dedicatedGnb loop interval sc initial_multi = Hang"
proof -
  have V: "undisturbed V" "ended_ue V j" and ok: "accepted tunnelMode dedicatedGnb interval sc" and n: "0 \<le> n"
    using assms by (auto simp: undisturbed_def accepted_def ended_ue_def)
  let ?g = "gnbs_needed dedicatedGnb n sc"
  let ?c = "queue_sim V ?g tunnelMode sc"
  let ?s = "round1 ?c ?g n"
  have j: "j \<in> set [1..n]" using assms(3,4) by simp
  then have "StartUe (?c\<lparr>sc_UeId := j\<rparr>) \<in> set (mu_actions ?s)" by (auto simp: round1_def)
  moreover have "sc_UeId (?c\<lparr>sc_UeId := j\<rparr>) = j" by simp
  ultimately have "\<exists>c. StartUe c \<in> set (mu_actions ?s) \<and> sc_UeId c = j" by blast
  moreover have "mu_stopSignal ?s" "j \<in> set (mu_chans ?s)" using j by (simp_all add: round1_def)
  ultimately have s: "started j ?s" by (simp only: started_def simp_thms)
  note start = TestMultiUesInQueue_start [OF V(1) ok n refl refl, of loop]
  show ?thesis
  proof (cases loop)
    case True
    have "multi_rounds V ?c n True ?s = Some Hang"
      using next_round_hangs [OF V s j] s by (subst multi_rounds.simps) (simp add: started_def)
    with True show ?thesis unfolding start by (simp add: thenM_apply)
  next
    case False
    have chans: "filter (\<lambda>i. i \<in> set (mu_chans ?s)) [0..n] = [1..n]"
      using started_chans [OF n] by (simp add: round1_def)
    have "started j (?s\<lparr>mu_actions := mu_actions ?s @ [WaitInterrupt]\<rparr>)" using s by (simp add: started_def)
    from stopping_hangs [OF V(2) this j] False chans s show ?thesis
      unfolding start by (simp add: Let_def run_simps act_def started_def)
  qed
qed

definition demo_multi :: "(int \<Rightarrow> bool) \<Rightarrow> multi_env" where
  "demo_multi f = \<lparr>me_signal = (\<lambda>_. False), me_receives = (\<lambda>_ i. f i), me_gnbs = (\<lambda>_ _. [(''000008'', 1)])\<rparr>"

theorem queue_runs_every_ue_witness:
  "\<exists>s c. TestMultiUesInQueue (demo_multi (\<lambda>_. True)) 2 TunnelVrf True False 500 (demo_sim demo_gnb_conf []) initial_multi =
      Ret ((), s) \<and>
    mu_actions s = [MakeGnbs 2, StartUe (c 1), StartUe (c 2), WaitInterrupt, SendScenario 1 TerminateUe, SendScenario 2 TerminateUe] \<and>
    (\<forall>i. sc_UeId (c i) = i \<and> conf_TunnelMode (cfg_ue (sc_Cfg (c i))) = TunnelVrf)"
proof -
  let ?V = "demo_multi (\<lambda>_. True)" and ?sc = "demo_sim demo_gnb_conf []"
  let ?c = "\<lambda>i. ?sc\<lparr>sc_UeId := i, sc_Gnbs := me_gnbs ?V 2 (cfg_gnb (sc_Cfg ?sc)),
    sc_Cfg := (sc_Cfg ?sc)\<lparr>cfg_ue := (cfg_ue (sc_Cfg ?sc))\<lparr>conf_TunnelMode := TunnelVrf\<rparr>\<rparr>\<rparr>"
  have "gnbs_needed True 2 ?sc = 2" by (simp add: gnbs_needed_def)
  with queue_runs_every_ue [of ?V 2 TunnelVrf True 500 ?sc]
  obtain s where "TestMultiUesInQueue ?V 2 TunnelVrf True False 500 ?sc initial_multi = Ret ((), s)"
    "mu_actions s = [MakeGnbs 2, StartUe (?c 1), StartUe (?c 2), WaitInterrupt, SendScenario 1 TerminateUe, SendScenario 2 TerminateUe]"
    by (auto simp: demo_multi_def demo_sim_def upto.simps)
  then show ?thesis by (intro exI [of _ s] exI [of _ ?c]) simp
qed

theorem queue_hangs_on_ended_ue_witness:
  "TestMultiUesInQueue (demo_multi (\<lambda>i. i \<noteq> 2)) 2 TunnelDisabled False True 500 (demo_sim demo_gnb_conf []) initial_multi =
     Hang"
  by (rule queue_hangs_on_ended_ue [where j = 2]) (simp_all add: demo_multi_def demo_sim_def)

section \<open>Scenarios in WebAssembly\<close>

text \<open>
  A scenario that releases the first session asks the UE to release session 0, which ends the
  process with an index out of range.
\<close>

lemma release_first_session_message: "host_message (PduSessionRelease 1) = Some (DestroyPDUSession 0)"
  by (simp add: host_message_def)

lemma release_first_session_panics:
  assumes "length (PduSession (ueC s)) = 16"
  shows "ueMgrHandler X (DestroyPDUSession 0) s = Panic IndexRange"
proof -
  have "unat (0 - 1 :: byte) = 255" by (simp add: unsigned_minus_1_eq_mask mask_eq_exp_minus_1)
  with assms show ?thesis
    by (simp add: ueMgrHandler_def ue_GetPduSession_def session_slot_def idx_def run_simps)
qed

lemma SetStateMM_tells:
  "SetStateMM st s = Ret (x, t) \<Longrightarrow> uevents t = uevents s @ [ToScenario st]"
  by (auto simp: SetStateMM_def run_simps split: if_splits)

text \<open>Events are only ever added.\<close>

definition grows :: "'a UM \<Rightarrow> bool" where
  "grows m \<longleftrightarrow> (\<forall>es. preserves (\<lambda>s. \<exists>fs. uevents s = es @ fs) m)"

lemma grows_Ret: "grows m \<Longrightarrow> m s = Ret (x, t) \<Longrightarrow> \<exists>fs. uevents t = uevents s @ fs"
  unfolding grows_def preserves_def triple_def by (metis append_Nil2)

lemma grows_send: "grows (SendToGnbMsg msg)"
  unfolding grows_def by (auto intro!: preservesI simp: SendToGnbMsg_def split: option.splits if_splits)

lemma grows_upd_sec: "grows (modM (upd_sec f))"
  unfolding grows_def by (auto intro!: preserves_modM)

lemma grows_first_part:
  "grows (bindM (getsM (\<lambda>s. Kamf (sec s))) (\<lambda>k.
     if k \<noteq> [] then sent_or_fatal e (EncodeNasPduWithSecurity X pdu hdr a b) (\<lambda>pdu. SendToGnb (Some pdu))
     else SendToGnb pdu))"
  unfolding grows_def sent_or_fatal_def EncodeNasPduWithSecurity_def NASEncode_def SendToGnb_def Let_def
  by (intro allI pres_intros) (use grows_send grows_upd_sec in \<open>unfold grows_def, blast+\<close>)

text \<open>
  The first message of every scenario makes the UE report a state: a scenario that does not read
  the channel of these reports, as the one for WebAssembly, leaves the UE waiting in its handler.
\<close>

lemma Registration_told:
  assumes "ueMgrHandler X Registration s = Ret (go, t)"
  shows "told_scenario s t"
proof -
  from assms obtain u v where u: "SetStateMM MM5G_DEREGISTERED u = Ret (v, t)" and "\<exists>fs. uevents u = uevents s @ fs"
    by (auto simp: ueMgrHandler_def InitRegistration_def thenM_apply bindM_apply [of "getsM _"] bindR_Ret_iff
        dest!: grows_Ret [OF grows_first_part, unfolded bindM_apply, simplified])
  with SetStateMM_tells [OF u] show ?thesis by (auto simp: told_scenario_def)
qed

end
