(* ===== verification/UeSays.thy ===== *)
theory UeSays
  imports UeReach
begin

text \<open>
  What a UE says: the events of a UE only grow, and every message it puts on a channel of a
  gNodeB is of one of the five shapes that the loops of the gNodeB distinguish.
\<close>

section \<open>Messages\<close>

definition nas_message :: "UEMessage \<Rightarrow> bool" where
  "nas_message m \<longleftrightarrow> (\<exists>b. m = zero_msg\<lparr>IsNas := True, Nas := b\<rparr>)"

definition idle_message :: "UEMessage \<Rightarrow> bool" where
  "idle_message m \<longleftrightarrow> m = zero_msg\<lparr>Idle := True\<rparr>"

definition closing_message :: "UEMessage \<Rightarrow> bool" where
  "closing_message m \<longleftrightarrow> m = zero_msg\<lparr>ConnectionClosed := True\<rparr>"

definition connecting_message :: "UEMessage \<Rightarrow> bool" where
  "connecting_message m \<longleftrightarrow> (\<exists>ue rx tx. m = connect_msg ue \<and> ue_gnbRx ue = Some rx \<and> ue_gnbTx ue = Some tx)"

definition paging_message :: "UEMessage \<Rightarrow> bool" where
  "paging_message m \<longleftrightarrow> (\<exists>tx. m = zero_msg\<lparr>GNBTx := Some tx, FetchPagedUEs := True\<rparr>)"

definition well_said :: "uevent \<Rightarrow> bool" where
  "well_said e \<longleftrightarrow>
     (case e of
        ToGnb _ m \<Rightarrow> nas_message m \<or> idle_message m \<or> closing_message m \<or> connecting_message m \<or> paging_message m
      | _ \<Rightarrow> True)"

lemmas message_defs = nas_message_def idle_message_def closing_message_def connecting_message_def paging_message_def

lemma well_said_simps [simp]:
  "well_said (ToScenario st)" "well_said (Closed ch)" "well_said (StopSignal c)" "well_said (StartT3580 p d)"
  "well_said (Kernel op)" "well_said (ToGnb c (zero_msg\<lparr>IsNas := True, Nas := b\<rparr>))"
  "well_said (ToGnb c (zero_msg\<lparr>Idle := True\<rparr>))" "well_said (ToGnb c (zero_msg\<lparr>ConnectionClosed := True\<rparr>))"
  "well_said (ToGnb c (zero_msg\<lparr>GNBTx := Some tx, FetchPagedUEs := True\<rparr>))"
  unfolding well_said_def message_defs uevent.case by (simp | blast)+

lemma well_said_connect: "ue_gnbRx ue = Some rx \<Longrightarrow> ue_gnbTx ue = Some tx \<Longrightarrow> well_said (ToGnb c (connect_msg ue))"
  by (auto simp: well_said_def message_defs)

section \<open>Computations\<close>

definition says :: "uevent list \<Rightarrow> ustate \<Rightarrow> bool" where
  "says evs s \<longleftrightarrow> (\<exists>es. uevents s = evs @ es \<and> (\<forall>e \<in> set es. well_said e))"

lemma says_refl: "says (uevents s) s"
  by (simp add: says_def)

lemma says_cong: "uevents t = uevents s \<Longrightarrow> says evs t = says evs s"
  by (simp add: says_def)

lemma says_emit: "says evs s \<Longrightarrow> well_said e \<Longrightarrow> uevents t = uevents s @ [e] \<Longrightarrow> says evs t"
  by (auto simp: says_def)

named_theorems says_intros \<open>introduction rules for computations that only say messages\<close>

lemma says_modM: "(\<And>s. uevents (f s) = uevents s) \<Longrightarrow> preserves (says evs) (modM f)"
  by (rule preserves_modM) (metis says_cong)

lemma says_updates [says_intros]:
  "preserves (says evs) (modM (upd_ctxU f))" "preserves (says evs) (modM (upd_usess p k))"
  "preserves (says evs) (modM (upd_sec g))"
  by (rule says_modM; simp)+

lemma says_emits:
  "well_said e \<Longrightarrow> preserves (says evs) (modM (emitU e))"
  "(\<And>s. well_said (h s)) \<Longrightarrow> preserves (says evs) (modM (\<lambda>s. emitU (h s) s))"
  by (rule preserves_modM; erule says_emit; simp)+

lemma says_channels [says_intros]:
  "preserves (says evs) makeChU" "preserves (says evs) (closeChU c)" "preserves (says evs) (stopU d)"
  by (rule preservesI; auto simp: makeChU_def closeChU_def stopU_def says_def split: if_splits)+

lemma says_SendToGnbMsg: "(\<And>c. well_said (ToGnb c m)) \<Longrightarrow> preserves (says evs) (SendToGnbMsg m)"
  by (rule preservesI) (force simp: SendToGnbMsg_def intro: says_emit split: option.splits if_splits)

lemma says_send [says_intros]: "preserves (says evs) (SendToGnb b)" "preserves (says evs) SwitchToIdle"
  unfolding SendToGnb_def SwitchToIdle_def by (rule says_SendToGnbMsg, simp)+

text \<open>A connection: two new channels are told to the gNodeB, whose answer names its network.\<close>

definition connecting :: "ustate \<Rightarrow> ustate" where
  "connecting s =
     (let t = upd_ctxU (\<lambda>c. c\<lparr>ue_gnbRx := Some (uNextChan s), ue_gnbTx := Some (Suc (uNextChan s))\<rparr>)
        (s\<lparr>uNextChan := Suc (Suc (uNextChan s))\<rparr>) in
      emitU (ToGnb (ue_gnbInboundChannel (ueC s)) (connect_msg (ueC t))) t)"

lemma ue_InitConn_apply:
  "ue_InitConn X s =
     (case chan_recv X (uevents (connecting s)) (Suc (uNextChan s)) of
        None \<Rightarrow> Hang
      | Some msg \<Rightarrow> SetAmfMccAndMnc (Mcc msg) (Mnc msg) (connecting s))"
  by (simp add: ue_InitConn_def connecting_def run_simps makeChU_def recvGnb_def Let_def split: option.split)

lemma says_connecting: "says evs s \<Longrightarrow> says evs (connecting s)"
  by (rule says_emit [OF _ well_said_connect]) (auto simp: connecting_def Let_def says_def)

lemma says_prod_apply [says_intros]:
  "(\<And>x y. preserves I (f x y z)) \<Longrightarrow> preserves I ((case p of (x, y) \<Rightarrow> f x y) z)"
  by (cases p) auto

lemma says_context [says_intros]:
  "preserves (says evs) (SetStateMM st)" "preserves (says evs) SetStateMM_NULL"
  "preserves (says evs) (SetAmfMccAndMnc a b)" "preserves (says evs) (DerivateAlgKey X)"
  "preserves (says evs) (SetIp p ip)" "preserves (says evs) (session_slot i)" "preserves (says evs) (SetStateSM p sm)"
  unfolding SetStateMM_def SetStateMM_NULL_def SetAmfMccAndMnc_def DerivateAlgKey_def SetIp_def session_slot_def
    SetStateSM_def
  by (intro pres_intros says_intros says_emits | simp)+

lemma says_InitConn [says_intros]: "preserves (says evs) (ue_InitConn X)"
proof (rule preservesI)
  fix s x t
  assume s: "says evs s" and "ue_InitConn X s = Ret (x, t)"
  then obtain msg :: UEMessage where "SetAmfMccAndMnc (Mcc msg) (Mnc msg) (connecting s) = Ret (x, t)"
    unfolding ue_InitConn_apply by (cases "chan_recv X (uevents (connecting s)) (Suc (uNextChan s))") auto
  with says_connecting [OF s] show "says evs t" using preservesD [OF says_context(3)] by blast
qed

lemma says_sessions [says_intros]:
  "preserves (says evs) (ue_GetPduSession i)" "preserves (says evs) (ue_DeletePduSession i)"
  "preserves (says evs) CreatePDUSession"
proof -
  have slot: "preserves (says evs) (bindM (session_slot i) f)" if "\<And>r. preserves (says evs) (f r)"
    for f :: "nat option option \<Rightarrow> 'b UM"
    using that by (intro pres_intros says_intros)
  show "preserves (says evs) (ue_GetPduSession i)" "preserves (says evs) (ue_DeletePduSession i)"
    unfolding ue_GetPduSession_def ue_DeletePduSession_def
    by (rule slot; rename_tac r; case_tac r; simp; intro pres_intros says_intros says_emits; simp)+
  show "preserves (says evs) CreatePDUSession"
    unfolding CreatePDUSession_def by (intro pres_intros says_intros says_modM) simp
qed

section \<open>Messages, triggers and handlers\<close>

lemma says_messages [says_intros]:
  "preserves (says evs) (NASEncode X m hdr a b)" "preserves (says evs) (EncodeNasPduWithSecurity X pdu hdr a b)"
  "preserves (says evs) (RegistrationComplete X)" "preserves (says evs) (ConfigurationUpdateComplete X)"
  "preserves (says evs) (DeregistrationRequest X)" "preserves (says evs) (SecurityModeComplete X r)"
  "preserves (says evs) (protected_or_error X pdu)" "preserves (says evs) (Request_UlNasTransport X p)"
  "preserves (says evs) (Release_UlNasTransport X p)" "preserves (says evs) (ReleasComplete_UlNasTransport X p)"
  unfolding NASEncode_def EncodeNasPduWithSecurity_def RegistrationComplete_def ConfigurationUpdateComplete_def
    DeregistrationRequest_def SecurityModeComplete_def protected_or_error_def Request_UlNasTransport_def
    Release_UlNasTransport_def ReleasComplete_UlNasTransport_def
  by (intro pres_intros says_intros | simp)+

lemma says_sent_or_fatal [says_intros]:
  "preserves (says evs) m \<Longrightarrow> (\<And>pdu. preserves (says evs) (f pdu)) \<Longrightarrow> preserves (says evs) (sent_or_fatal e m f)"
  unfolding sent_or_fatal_def by (intro pres_intros)

lemma says_triggers [says_intros]:
  "preserves (says evs) (InitRegistration X)" "preserves (says evs) (InitPduSessionReleaseComplete X p)"
  "preserves (says evs) (InitDeregistration X)" "preserves (says evs) (InitIdentifyResponse X)"
  "preserves (says evs) (InitConfigurationUpdateComplete X)" "preserves (says evs) (InitServiceRequest X)"
  "preserves (says evs) (recvGnb X c)" "preserves (says evs) (InitPduSessionRequestInner X p)"
  "preserves (says evs) (InitPduSessionRelease X p)"
  unfolding InitRegistration_def InitPduSessionReleaseComplete_def InitDeregistration_def
    InitIdentifyResponse_def InitConfigurationUpdateComplete_def InitServiceRequest_def recvGnb_def
    InitPduSessionRequestInner_def InitPduSessionRelease_def
  by (intro pres_intros says_intros | simp)+

lemma says_gmm_handlers [says_intros]:
  "preserves (says evs) (body q)" "preserves (says evs) HandlerAuthenticationReject"
  "preserves (says evs) (HandlerAuthenticationRequest X g)" "preserves (says evs) (HandlerSecurityModeCommand X g)"
  "preserves (says evs) (HandlerRegistrationAccept X g)" "preserves (says evs) HandlerServiceAccept"
  "preserves (says evs) (HandlerIdentityRequest X g)" "preserves (says evs) (HandlerConfigurationUpdateCommand X g)"
  unfolding body_def HandlerAuthenticationReject_def HandlerAuthenticationRequest_def authentication_answer_def
    DeriveRESstarAndSetKey_def DerivateKamf_def HandlerSecurityModeCommand_def HandlerRegistrationAccept_def
    use_allowed_nssai_def HandlerServiceAccept_def HandlerIdentityRequest_def HandlerConfigurationUpdateCommand_def
  by (intro pres_intros says_intros | simp)+

lemma says_transport [says_intros]:
  "preserves (says evs) (establishment_reject i)" "preserves (says evs) (new_context X m)"
  "preserves (says evs) (count_downlink X q)" "preserves (says evs) (unprotect X hdr b)"
  "preserves (says evs) (establishment_accept ea)" "preserves (says evs) (InitPduSessionRequest X)"
  "preserves (says evs) (release_command X i)" "preserves (says evs) (release_if_known X k)"
  "preserves (says evs) (T3580_expired X p)" "preserves (says evs) (HandlerDlNasTransportPduaccept X g)"
  "preserves (says evs) (DispatchNas X msg)"
  unfolding establishment_reject_def new_context_def count_downlink_def unprotect_def Let_def body_def
    establishment_accept_def InitPduSessionRequest_def release_command_def release_if_known_def T3580_expired_def
    HandlerDlNasTransportPduaccept_def DispatchNas_def dispatch_gmm_def
  by (intro pres_intros says_intros says_emits | simp)+

lemma says_TunnelMode [says_intros]:
  "preserves I a \<Longrightarrow> preserves I b \<Longrightarrow> preserves I c \<Longrightarrow>
    preserves I (case m of TunnelDisabled \<Rightarrow> a | TunnelTun \<Rightarrow> b | TunnelVrf \<Rightarrow> c)"
  by (cases m) simp_all

lemma says_loop [says_intros]:
  "preserves (says evs) (kernel op)" "preserves (says evs) (kernel_or_fatal X op)"
  "preserves (says evs) (tunnel_rules X name ip gnb g)" "preserves (says evs) (configure_interface X p gip g)"
  "preserves (says evs) (SetupGtpInterface X msg)" "preserves (says evs) (clean_session slot)"
  "preserves (says evs) StopDRX" "preserves (says evs) ue_Terminate" "preserves (says evs) (service_request X)"
  "preserves (says evs) (switch_gnb msg)" "preserves (says evs) (terminate_request X)"
  unfolding kernel_def kernel_or_fatal_def tunnel_rules_def configure_interface_def SetupGtpInterface_def
    clean_session_def StopDRX_def ue_Terminate_def service_request_def switch_gnb_def route_traffic_def
    terminate_request_def Let_def
  by (intro pres_intros says_intros says_emits | simp)+

lemma says_handlers [says_intros]:
  "preserves (says evs) (gnbMsgHandler X msg)" "preserves (says evs) (end_if go)"
  unfolding gnbMsgHandler_def end_if_def by (intro pres_intros says_intros)+

lemma says_ueMgrHandler [says_intros]: "preserves (says evs) (ueMgrHandler X cmd)"
  by (cases cmd; simp add: ueMgrHandler_def; intro pres_intros says_intros)

lemma says_verifyPaging [says_intros]: "preserves (says evs) (verifyPaging X)"
  unfolding verifyPaging_def by (intro pres_intros says_intros says_emits | simp)+

section \<open>The machine\<close>

lemma ue_step_says:
  assumes "ue_step X (s, go) (t, go')"
  shows "says (uevents s) t"
  using assms
proof cases
  case (from_gnb msg)
  then show ?thesis using preservesD [OF says_handlers(1) says_refl] by blast
next
  case (from_scenario msg u)
  then show ?thesis
    using preservesD [OF says_ueMgrHandler says_refl] preservesD [OF says_handlers(2)] by blast
next
  case scenario_closed
  then show ?thesis using preservesD [OF says_loop(8) says_refl] by blast
next
  case drx_tick
  then show ?thesis using preservesD [OF says_verifyPaging says_refl] by blast
next
  case (timer p d)
  then show ?thesis using preservesD [OF says_transport(9) says_refl] by blast
qed (simp_all add: says_def)

end
