(* ===== verification/UeGnb.thy ===== *)
theory UeGnb
  imports UeSays UeDemo GnbHandlers
begin

text \<open>
  UEs and their gNodeB together. The two sides are written separately and meet in channels; here
  the messages one side puts on a channel are the ones the other takes from it, in order. A gNodeB
  with its UEs then refines an abstract relay.
\<close>

section \<open>Channels\<close>

text \<open>The messages a UE put on a channel, those a gNodeB put on one, and what it wrote to AMFs.\<close>

fun sent_on :: "chan \<Rightarrow> uevent list \<Rightarrow> UEMessage list" where
  "sent_on c [] = []"
| "sent_on c (ToGnb d m # es) = (if d = c then m # sent_on c es else sent_on c es)"
| "sent_on c (_ # es) = sent_on c es"

fun told_on :: "chan \<Rightarrow> event list \<Rightarrow> UEMessage list" where
  "told_on c [] = []"
| "told_on c (ChanSend d m # es) = (if d = c then m # told_on c es else told_on c es)"
| "told_on c (_ # es) = told_on c es"

fun written :: "event list \<Rightarrow> (conn \<times> byte list) list" where
  "written [] = []"
| "written (SctpWrite c b # es) = (c, b) # written es"
| "written (_ # es) = written es"

lemma sent_on_append [simp]: "sent_on c (es @ es') = sent_on c es @ sent_on c es'"
  by (induction c es rule: sent_on.induct) simp_all

lemma told_on_append [simp]: "told_on c (es @ es') = told_on c es @ told_on c es'"
  by (induction c es rule: told_on.induct) simp_all

lemma written_append [simp]: "written (es @ es') = written es @ written es'"
  by (induction es rule: written.induct) simp_all

section \<open>The handshake\<close>

text \<open>A UE and its context in the gNodeB know each other.\<close>

definition linked :: "gnb_ref \<Rightarrow> ue_ref \<Rightarrow> chan \<Rightarrow> chan \<Rightarrow> world \<Rightarrow> bool" where
  "linked g r rx tx w \<longleftrightarrow>
     GetGnbUe g (ranUeNgapId (ueH w r)) w = Inr r \<and> gnbRx (ueH w r) = Some rx \<and> gnbTx (ueH w r) = Some tx"

lemma new_security_Guti: "new_security X conf pk op = Ret c \<Longrightarrow> Guti c = None"
  by (auto simp: new_security_def EncodeSuci_def GetRoutingIndicatorInOctets_def zero_security_def SetAuthSubscription_def
      bindR_Ret_iff Let_def split: prod.splits if_splits)

lemma NewUE_connects:
  assumes "NewUE X conf i inboundCh s0 = Ret ((), u)"
  obtains s msg where "uevents u = uevents (connecting s)" "uevents s = uevents s0" "uNextChan s = Suc (uNextChan s0)"
    and "ue_gnbInboundChannel (ueC s) = inboundCh" "prUeId (ueC s) = i" "Guti (UeSecurity (ueC s)) = None"
    and "ue_gnbRx (ueC u) = Some (uNextChan s)" "ue_gnbTx (ueC u) = Some (Suc (uNextChan s))"
    and "chan_recv X (uevents u) (Suc (uNextChan s)) = Some msg"
    and "amf_mcc (ueC u) = Mcc msg" "amf_mnc (ueC u) = Mnc msg"
proof -
  from assms obtain pk ue where ue: "NewRanUeContext X conf pk OpConstant (uNextChan s0) inboundCh i = Ret ue"
    and run: "ue_InitConn X (s0\<lparr>uNextChan := Suc (uNextChan s0), ueC := ue\<rparr>) = Ret ((), u)"
    by (auto simp: NewUE_def makeChU_def bindR_Ret_iff)
  from ue have "ue_gnbInboundChannel ue = inboundCh" "prUeId ue = i" "Guti (UeSecurity ue) = None"
    by (auto simp: NewRanUeContext_def bindR_Ret_iff new_security_Guti)
  moreover define s where "s = s0\<lparr>uNextChan := Suc (uNextChan s0), ueC := ue\<rparr>"
  moreover from run obtain msg :: UEMessage where msg: "chan_recv X (uevents (connecting s)) (Suc (uNextChan s)) = Some msg"
    and u: "SetAmfMccAndMnc (Mcc msg) (Mnc msg) (connecting s) = Ret ((), u)"
    unfolding ue_InitConn_apply s_def by (auto split: option.splits)
  moreover from u have "uevents u = uevents (connecting s)" "ue_gnbRx (ueC u) = Some (uNextChan s)"
    "ue_gnbTx (ueC u) = Some (Suc (uNextChan s))" "amf_mcc (ueC u) = Mcc msg" "amf_mnc (ueC u) = Mnc msg"
    by (auto simp: SetAmfMccAndMnc_def connecting_def Let_def run_simps)
  ultimately show thesis by (intro that [of s msg]) simp_all
qed

text \<open>The other side: what the gNodeB files and answers when a UE connects.\<close>

lemma listen_connects:
  assumes "gnbListen_msg E g m w = Ret (Some r, w')"
    and m: "m = zero_msg\<lparr>GNBTx := Some tx, GNBRx := Some rx, PrUeId := i, Tmsi := guti\<rparr>"
  shows "linked g r rx tx w' \<and> pRueId (ueH w' r) = i \<and> ue_st (ueH w' r) = Initialized \<and> tmsi (ueH w' r) = guti \<and>
    events w' = events w @ [ChanSend tx (zero_msg\<lparr>Mcc := mcc (controlInfo (gnbH w' g)), Mnc := mnc (controlInfo (gnbH w' g))\<rparr>)]"
proof -
  from assms have "new_connection E g m w = Ret (Some r, w')"
    by (auto simp: gnbListen_msg_def zero_msg_def run_simps split: sum.splits)
  then show ?thesis
    by (auto simp: new_connection_def m zero_msg_def NewGnBUe_def getRanUeId_def run_simps Let_def upd_defs
        upd_ctx_def send_or_hang_def sendCh_def SetPduSessions_def linked_def GetGnbUe_def sm.load_store closeCh_def
        split: option.splits if_splits)
qed

text \<open>
  C7: A new UE and its gNodeB meet. The one message the UE sends when it starts makes the gNodeB
  file a context in which the UE's two channels have the right directions, with the identifier
  of the UE, in the state \<open>Initialized\<close> and without a temporary identity; the gNodeB answers on
  the channel the UE listens on, and once that answer has arrived the UE knows the network of its
  gNodeB.
\<close>

theorem ue_gnb_handshake:
  assumes "NewUE X conf i inboundCh s0 = Ret ((), u)"
    and "gnbListen_msg E g (last (sent_on inboundCh (uevents u))) w = Ret (Some r, w')"
    and "\<And>tx. ue_gnbTx (ueC u) = Some tx \<Longrightarrow> chan_recv X (uevents u) tx = Some (last (told_on tx (events w')))"
  shows "\<exists>rx tx answer. rx \<noteq> tx \<and> ue_gnbRx (ueC u) = Some rx \<and> ue_gnbTx (ueC u) = Some tx \<and> linked g r rx tx w' \<and>
    pRueId (ueH w' r) = i \<and> ue_st (ueH w' r) = Initialized \<and> tmsi (ueH w' r) = None \<and>
    told_on tx (events w') = told_on tx (events w) @ [answer] \<and> written (events w') = written (events w) \<and>
    amf_mcc (ueC u) = mcc (controlInfo (gnbH w' g)) \<and> amf_mnc (ueC u) = mnc (controlInfo (gnbH w' g))"
proof -
  from NewUE_connects [OF assms(1)] obtain s msg where u: "uevents u = uevents (connecting s)" "uevents s = uevents s0"
    "uNextChan s = Suc (uNextChan s0)" "ue_gnbInboundChannel (ueC s) = inboundCh" "prUeId (ueC s) = i" "Guti (UeSecurity (ueC s)) = None"
    and ch: "ue_gnbRx (ueC u) = Some (uNextChan s)" "ue_gnbTx (ueC u) = Some (Suc (uNextChan s))"
    and msg: "chan_recv X (uevents u) (Suc (uNextChan s)) = Some msg" "amf_mcc (ueC u) = Mcc msg" "amf_mnc (ueC u) = Mnc msg" .
  have "last (sent_on inboundCh (uevents u)) = zero_msg\<lparr>GNBTx := Some (Suc (uNextChan s)), GNBRx := Some (uNextChan s),
      PrUeId := i, Tmsi := None\<rparr>"
    using u by (simp add: connecting_def Let_def connect_msg_def)
  from listen_connects [OF assms(2) this] assms(3) ch msg show ?thesis by (auto simp: zero_msg_def)
qed

text \<open>A demo: the UE of \<open>UeDemo\<close> connects to the gNodeB of \<open>GnbDemo\<close>.\<close>

definition demo5 :: world where
  "demo5 = demo3\<lparr>gnbH := (\<lambda>_. zero_gnb)(0 := demo_gnb4),
     ueH := (\<lambda>_. zero_gnbue)(0 := demo_ue\<lparr>gnbTx := Some 4, gnbRx := Some 3\<rparr>), nextUe := 1,
     events := [SctpWrite 5 [4], ChanSend 4 (zero_msg\<lparr>Mcc := ''208'', Mnc := ''93''\<rparr>)]\<rparr>"

lemma demo_ue0_channels: "ue_gnbRx (ueC demo_ue0) = Some 3" "ue_gnbTx (ueC demo_ue0) = Some 4"
  and demo_ue0_events: "uevents demo_ue0 = [ToGnb 0 (zero_msg\<lparr>GNBTx := Some 4, GNBRx := Some 3, PrUeId := 1\<rparr>)]"
  by (rule NewUE_connects [OF demo_NewUE],
    simp add: connecting_def connect_msg_def Let_def demo_s0_def zero_msg_def numeral_eq_Suc)+

lemma demo_run5: "gnbListen_msg demo_ext 0 (zero_msg\<lparr>GNBTx := Some 4, GNBRx := Some 3, PrUeId := 1\<rparr>) demo3 = Ret (Some 0, demo5)"
  by (simp add: demo_data demo_worlds demo5_def run_simps gnbListen_msg_def GetGnbUeByPrUeId_def
      new_connection_def NewGnBUe_def getRanUeId_def selectAmFByActive_def sm_store_def Let_def
      amf_weight_def send_or_hang_def sendCh_def SetPduSessions_def upd_ctx_def upd_defs)

lemma ue_gnb_handshake_witness:
  "linked 0 0 3 4 demo5 \<and> ue_st (ueH demo5 0) = Initialized \<and> amf_mcc (ueC demo_ue0) = ''208''"
proof -
  have "gnbListen_msg demo_ext 0 (last (sent_on 0 (uevents demo_ue0))) demo3 = Ret (Some 0, demo5)"
    by (simp add: demo_ue0_events demo_run5)
  moreover have "chan_recv demo_uext (uevents demo_ue0) tx = Some (last (told_on tx (events demo5)))"
    if "ue_gnbTx (ueC demo_ue0) = Some tx" for tx
    using that by (simp add: demo_ue0_channels demo5_def demo_uext_def)
  ultimately have "\<exists>rx tx. ue_gnbRx (ueC demo_ue0) = Some rx \<and> ue_gnbTx (ueC demo_ue0) = Some tx \<and> linked 0 0 rx tx demo5 \<and>
      ue_st (ueH demo5 0) = Initialized \<and> amf_mcc (ueC demo_ue0) = mcc (controlInfo (gnbH demo5 0))"
    using ue_gnb_handshake [OF demo_NewUE, of demo_ext 0 demo3 0 demo5] by blast
  then show ?thesis
    by (auto simp: demo_ue0_channels demo5_def demo_worlds demo_data)
qed

section \<open>The abstract relay\<close>

text \<open>
  What the AMFs and the UEs of a gNodeB should see: a history of the messages taken from UEs, by
  UE, and of the NAS messages an AMF sent down, by RAN UE NGAP ID. Of each UE the relay remembers
  whether it has sent a NAS message and the last AMF UE NGAP ID it was given. It writes one NGAP
  message for each message taken: an Initial UE Message for the first NAS message of a UE, an
  Uplink NAS Transport for every other, a UE Context Release Request for a UE that goes idle.
\<close>

datatype act = Took nat UEMessage | Down int int "byte list option"

fun taken :: "nat \<Rightarrow> act list \<Rightarrow> UEMessage list" where
  "taken k [] = []"
| "taken k (Took j m # H) = (if j = k then m # taken k H else taken k H)"
| "taken k (Down _ _ _ # H) = taken k H"

fun downs :: "int \<Rightarrow> act list \<Rightarrow> byte list option list" where
  "downs r [] = []"
| "downs r (Took _ _ # H) = downs r H"
| "downs r (Down _ q nas # H) = (if q = r then nas # downs r H else downs r H)"

text \<open>
  The information elements of these messages, as NGAP lays them out, and the messages. The
  location is the cell and the tracking area of the gNodeB; an initial message is impossible
  when the gNodeB's PLMN has no octets or the UE's temporary identity is cut short.
\<close>

abbreviation ran_id_ie :: "int \<Rightarrow> ngap_ie" where
  "ran_id_ie r \<equiv> \<lparr>ie_Id = IEIDRANUENGAPID, ie_Criticality = CritReject, ie_Value = V_RANUENGAPID r\<rparr>"

abbreviation amf_id_ie :: "int \<Rightarrow> ngap_ie" where
  "amf_id_ie a \<equiv> \<lparr>ie_Id = IEIDAMFUENGAPID, ie_Criticality = CritReject, ie_Value = V_AMFUENGAPID a\<rparr>"

abbreviation nas_ie :: "byte list option \<Rightarrow> ngap_ie" where
  "nas_ie nas \<equiv> \<lparr>ie_Id = IEIDNASPDU, ie_Criticality = CritReject, ie_Value = V_NASPDU nas\<rparr>"

definition location_ie :: "ext \<Rightarrow> GNBContext \<Rightarrow> criticality \<Rightarrow> byte list \<Rightarrow> ngap_ie" where
  "location_ie E c crit tai = \<lparr>ie_Id = IEIDUserLocationInformation, ie_Criticality = crit,
     ie_Value = V_UserLocationInformation \<lparr>loc_NRCGI_PLMN = GetPLMNIdentity E c,
       loc_NRCellIdentity = \<lparr>bs_Bytes = Some (GetGnbIdInBytes c @ [0, 0]), bs_BitLength = 36\<rparr>,
       loc_TAI_PLMN = tai, loc_TAI_TAC = GetTacInBytes c\<rparr>\<rparr>"

definition tmsi_ies :: "ext \<Rightarrow> guti5g option \<Rightarrow> ngap_ie list" where
  "tmsi_ies E guti = (case guti of None \<Rightarrow> [] | Some t \<Rightarrow>
     [\<lparr>ie_Id = IEIDFiveGSTMSI, ie_Criticality = CritReject, ie_Value = V_FiveGSTMSI
       \<lparr>AMFSetID = \<lparr>bs_Bytes = Some (take 2 (drop 5 t)), bs_BitLength = 10\<rparr>,
        AMFPointer = \<lparr>bs_Bytes = Some [guti_AMFPointer E t], bs_BitLength = 6\<rparr>,
        FiveGTMSI = guti_TMSI5G E t\<rparr>\<rparr>])"

definition initial_pdu :: "ext \<Rightarrow> GNBContext \<Rightarrow> int \<Rightarrow> guti5g option \<Rightarrow> byte list option \<Rightarrow> NGAPPDU option" where
  "initial_pdu E c r guti nas =
     (case GetMccAndMncInOctets c of
        Ret tai \<Rightarrow>
          if guti \<noteq> None \<and> length (the guti) \<le> 6 then None
          else Some \<lparr>pdu_Present = PresentInitiatingMessage, pdu_ProcedureCode = ProcInitialUEMessage,
            pdu_Criticality = CritIgnore, pdu_IEs =
              [ran_id_ie r, nas_ie nas, location_ie E c CritReject tai,
               \<lparr>ie_Id = IEIDRRCEstablishmentCause, ie_Criticality = CritIgnore,
                ie_Value = V_RRCEstablishmentCause_MoSignalling\<rparr>] @ tmsi_ies E guti @
              [\<lparr>ie_Id = IEIDUEContextRequest, ie_Criticality = CritIgnore, ie_Value = V_UEContextRequest_Requested\<rparr>]\<rparr>
      | _ \<Rightarrow> None)"

definition uplink_pdu :: "ext \<Rightarrow> GNBContext \<Rightarrow> int \<Rightarrow> int \<Rightarrow> byte list option \<Rightarrow> NGAPPDU" where
  "uplink_pdu E c a r nas =
     \<lparr>pdu_Present = PresentInitiatingMessage, pdu_ProcedureCode = ProcUplinkNASTransport,
      pdu_Criticality = CritIgnore,
      pdu_IEs = [amf_id_ie a, ran_id_ie r, nas_ie nas, location_ie E c CritIgnore (GetPLMNIdentity E c)]\<rparr>"

definition release_pdu :: "int \<Rightarrow> int \<Rightarrow> int list \<Rightarrow> NGAPPDU" where
  "release_pdu a r ids =
     \<lparr>pdu_Present = PresentInitiatingMessage, pdu_ProcedureCode = ProcUEContextReleaseRequest,
      pdu_Criticality = CritReject,
      pdu_IEs = [amf_id_ie a, ran_id_ie r] @
        (if ids = [] then [] else [\<lparr>ie_Id = IEIDPDUSessionResourceListCxtRelReq,
           ie_Criticality = CritReject, ie_Value = V_SessionIds ids\<rparr>]) @
        [\<lparr>ie_Id = IEIDCause, ie_Criticality = CritIgnore, ie_Value = V_Cause (RadioNetwork RN_UserInactivity)\<rparr>]\<rparr>"

definition relay_pdu :: "ext \<Rightarrow> GNBContext \<Rightarrow> GNBUe \<Rightarrow> GnbPDUSession list \<Rightarrow> bool \<times> int \<Rightarrow> UEMessage \<Rightarrow> NGAPPDU option" where
  "relay_pdu E c u ss st m =
     (if \<not> IsNas m then Some (release_pdu (snd st) (ranUeNgapId u) (map pduSessionId ss))
      else if fst st then Some (uplink_pdu E c (snd st) (ranUeNgapId u) (Nas m))
      else initial_pdu E c (ranUeNgapId u) (tmsi u) (Nas m))"

text \<open>The octets written are the encoding of the message, none when the encoder fails.\<close>

fun relay_next :: "(nat \<Rightarrow> int) \<Rightarrow> (nat \<Rightarrow> bool \<times> int) \<Rightarrow> act \<Rightarrow> (nat \<Rightarrow> bool \<times> int)" where
  "relay_next rid st (Took k m) = st(k := (fst (st k) \<or> IsNas m, snd (st k)))"
| "relay_next rid st (Down a r _) = (\<lambda>k. if rid k = r then (fst (st k), a) else st k)"

fun relay_write :: "ext \<Rightarrow> GNBContext \<Rightarrow> (nat \<Rightarrow> GNBUe \<times> GnbPDUSession list) \<Rightarrow> (nat \<Rightarrow> bool \<times> int) \<Rightarrow> act \<Rightarrow> (conn \<times> byte list) list" where
  "relay_write E c U st (Took k m) =
     (case relay_pdu E c (fst (U k)) (snd (U k)) (st k) m of
        None \<Rightarrow> []
      | Some p \<Rightarrow> [(the (sctpConnection (fst (U k))), case ngap_Encoder E p of None \<Rightarrow> [] | Some b \<Rightarrow> b)])"
| "relay_write E c U st (Down _ _ _) = []"

fun relay :: "ext \<Rightarrow> GNBContext \<Rightarrow> (nat \<Rightarrow> GNBUe \<times> GnbPDUSession list) \<Rightarrow> (nat \<Rightarrow> bool \<times> int) \<Rightarrow> act list \<Rightarrow> (conn \<times> byte list) list" where
  "relay E c U st [] = []"
| "relay E c U st (x # H) = relay_write E c U st x @ relay E c U (relay_next (\<lambda>k. ranUeNgapId (fst (U k))) st x) H"

lemma taken_append [simp]: "taken k (H @ H') = taken k H @ taken k H'"
  by (induction k H rule: taken.induct) simp_all

lemma downs_append [simp]: "downs r (H @ H') = downs r H @ downs r H'"
  by (induction r H rule: downs.induct) simp_all

definition relay_state :: "(nat \<Rightarrow> int) \<Rightarrow> (nat \<Rightarrow> bool \<times> int) \<Rightarrow> act list \<Rightarrow> (nat \<Rightarrow> bool \<times> int)" where
  "relay_state rid st H = foldl (relay_next rid) st H"

lemma relay_snoc:
  "relay E c U st (H @ [x]) =
    relay E c U st H @ relay_write E c U (relay_state (\<lambda>k. ranUeNgapId (fst (U k))) st H) x"
  by (induction H arbitrary: st) (simp_all add: relay_state_def)

lemma relay_state_snoc [simp]: "relay_state rid st (H @ [x]) = relay_next rid (relay_state rid st H) x"
  by (simp add: relay_state_def)

section \<open>A gNodeB with its UEs\<close>

text \<open>
  The steps of a UE on its own, without the messages of its gNodeB: together with those messages
  they are the steps of \<open>ue_step\<close>.
\<close>

inductive ue_own :: "uext \<Rightarrow> ustate \<times> bool \<Rightarrow> ustate \<times> bool \<Rightarrow> bool" for X where
  own_closed: "ue_own X (s, True) (upd_ctxU (\<lambda>c. c\<lparr>ue_gnbTx := None\<rparr>) s, True)"
| own_scenario: "ueMgrHandler X msg s = Ret (go, s') \<Longrightarrow> end_if go s' = Ret ((), t) \<Longrightarrow> ue_own X (s, True) (t, go)"
| own_scenario_closed: "ue_Terminate s = Ret ((), t) \<Longrightarrow> ue_own X (s, True) (t, False)"
| own_drx: "drx (ueC s) = Some True \<Longrightarrow> verifyPaging X s = Ret ((), t) \<Longrightarrow> ue_own X (s, True) (t, True)"
| own_timer: "StartT3580 p d \<in> set (uevents s) \<Longrightarrow> T3580_expired X p s = Ret ((), t) \<Longrightarrow> ue_own X (s, go) (t, go)"
| own_chan: "ue_own X (s, go) (s\<lparr>uNextChan := Suc (uNextChan s)\<rparr>, go)"

lemma ue_step_iff:
  "ue_step X sg sg' \<longleftrightarrow> ue_own X sg sg' \<or>
    (\<exists>msg s t. sg = (s, True) \<and> sg' = (t, True) \<and> handover_ok msg s \<and> gnbMsgHandler X msg s = Ret ((), t))"
  (is "?step \<longleftrightarrow> ?own \<or> ?hears")
proof
  assume ?step
  then show "?own \<or> ?hears" by cases (simp_all only: prod.inject, (blast intro: ue_own.intros)+)
next
  assume "?own \<or> ?hears"
  then show ?step
  proof
    assume ?own
    then show ?step by cases (simp_all only:, (blast intro: ue_step.intros)+)
  qed (auto intro: ue_step.intros)
qed

text \<open>
  The system: the gNodeB's world, its UEs, the history, and how many of the messages the gNodeB
  sent it each UE has handled. A UE moves on its own or handles the next message on its
  channel; the gNodeB takes the next message of a UE, a NAS message or the notice that the UE
  goes idle, or dispatches a Downlink NAS Transport for one of its UEs or for an unknown one.
\<close>

record sys =
  sy_gnb :: world
  sy_ue :: "nat \<Rightarrow> ustate \<times> bool"
  sy_hist :: "act list"
  sy_heard :: "nat \<Rightarrow> nat"

record ue_link =
  lk_ctx :: ue_ref
  lk_up :: chan
  lk_down :: chan

definition downlink_msg :: "int \<Rightarrow> int \<Rightarrow> byte list option \<Rightarrow> NGAPMsg" where
  "downlink_msg a r nas = \<lparr>msg_Present = PresentInitiatingMessage, msg_ProcedureCode = ProcDownlinkNASTransport,
     msg_IEs = [IE_AMFUENGAPID (Some a), IE_RANUENGAPID (Some r), IE_NASPDU (Some nas)]\<rparr>"

inductive sys_step :: "ext \<Rightarrow> gnb_ref \<Rightarrow> (nat \<Rightarrow> uext) \<Rightarrow> (nat \<Rightarrow> ue_link) \<Rightarrow> nat set \<Rightarrow> sys \<Rightarrow> sys \<Rightarrow> bool"
  for E g X L K where
  ue_moves: "k \<in> K \<Longrightarrow> ue_own (X k) (sy_ue s k) sg \<Longrightarrow> sys_step E g X L K s (s\<lparr>sy_ue := (sy_ue s)(k := sg)\<rparr>)"
| ue_hears: "k \<in> K \<Longrightarrow> sy_ue s k = (u, True) \<Longrightarrow> sy_heard s k < length (told_on (lk_down (L k)) (events (sy_gnb s))) \<Longrightarrow>
    m = told_on (lk_down (L k)) (events (sy_gnb s)) ! sy_heard s k \<Longrightarrow>
    handover_ok m u \<Longrightarrow> gnbMsgHandler (X k) m u = Ret ((), u') \<Longrightarrow>
    sys_step E g X L K s (s\<lparr>sy_ue := (sy_ue s)(k := (u', True)), sy_heard := (sy_heard s)(k := Suc (sy_heard s k))\<rparr>)"
| gnb_takes: "k \<in> K \<Longrightarrow> length (taken k (sy_hist s)) < length (sent_on (lk_up (L k)) (uevents (fst (sy_ue s k)))) \<Longrightarrow>
    m = sent_on (lk_up (L k)) (uevents (fst (sy_ue s k))) ! length (taken k (sy_hist s)) \<Longrightarrow>
    nas_message m \<or> idle_message m \<Longrightarrow>
    processingConn_msg E g (lk_ctx (L k)) (Some m) (sy_gnb s) = Ret (b, w) \<Longrightarrow>
    sys_step E g X L K s (s\<lparr>sy_gnb := w, sy_hist := sy_hist s @ [Took k m]\<rparr>)"
| amf_sends: "ngap_Decoder E bytes = Some (downlink_msg a r nas) \<Longrightarrow>
    Dispatch E amf g bytes (sy_gnb s) = Ret ((), w) \<Longrightarrow>
    sys_step E g X L K s (s\<lparr>sy_gnb := w, sy_hist := sy_hist s @ [Down a r nas]\<rparr>)"
| time_passes: "sys_step E g X L K s (s\<lparr>sy_gnb := (sy_gnb s)\<lparr>clock := clock (sy_gnb s) + d\<rparr>\<rparr>)"

text \<open>The start: the UEs in \<open>K\<close> are those of the gNodeB, each freshly connected.\<close>

definition sys_start :: "ext \<Rightarrow> gnb_ref \<Rightarrow> (nat \<Rightarrow> ue_link) \<Rightarrow> nat set \<Rightarrow> sys \<Rightarrow> bool" where
  "sys_start E g L K s \<longleftrightarrow> sy_hist s = [] \<and>
     (\<forall>r u. GetGnbUe g r (sy_gnb s) = Inr u \<longleftrightarrow>
       (\<exists>k \<in> K. u = lk_ctx (L k) \<and> r = ranUeNgapId (ueH (sy_gnb s) u))) \<and>
     inj_on (\<lambda>k. lk_ctx (L k)) K \<and> inj_on (\<lambda>k. lk_down (L k)) K \<and>
     (\<forall>k \<in> K. linked g (lk_ctx (L k)) (lk_up (L k)) (lk_down (L k)) (sy_gnb s) \<and>
       ue_st (ueH (sy_gnb s) (lk_ctx (L k))) = Initialized \<and>
       lk_down (L k) \<notin> set (closedChans (sy_gnb s)) \<and>
       sy_heard s k \<le> length (told_on (lk_down (L k)) (events (sy_gnb s))) \<and>
       (\<exists>c. sctpConnection (ueH (sy_gnb s) (lk_ctx (L k))) = Some c \<and> conn_up E c))"

section \<open>The steps of the gNodeB\<close>

text \<open>What the gNodeB does with a message of a UE in the state that the relay remembers.\<close>

definition ue_as :: "GNBUe \<Rightarrow> bool \<times> int \<Rightarrow> GNBUe" where
  "ue_as u st = u\<lparr>ue_st := (if fst st then Ongoing else Initialized), amfUeNgapId := snd st\<rparr>"

lemma ue_as_simps [simp]:
  "ranUeNgapId (ue_as u st) = ranUeNgapId u" "gnbTx (ue_as u st) = gnbTx u" "sctpConnection (ue_as u st) = sctpConnection u"
  "ue_context (ue_as u st) = ue_context u" "tmsi (ue_as u st) = tmsi u"
  by (simp_all add: ue_as_def)

lemma ue_as_st [simp]: "ue_st (ue_as u st) = (if fst st then Ongoing else Initialized)"
  by (simp add: ue_as_def)

lemma ue_as_update [simp]:
  "(ue_as u st)\<lparr>ue_st := Ongoing\<rparr> = ue_as u (True, snd st)" "(ue_as u st)\<lparr>amfUeNgapId := a\<rparr> = ue_as u (fst st, a)"
  by (cases u, simp add: ue_as_def)+

text \<open>The messages the gNodeB builds are those of the relay.\<close>

lemma initial_message_pdu:
  assumes "SendInitialUeMessage E nas (ue_as u st) c = Ret q"
  shows "\<exists>p. initial_pdu E c (ranUeNgapId u) (tmsi u) nas = Some p \<and> q = ngap_Encoder E p"
proof -
  have two: "take 2 (drop 5 t) = [t ! 5, t ! 6]" if "6 < length t" for t :: "byte list"
    using that by (simp add: take_Suc_conv_app_nth numeral_2_eq_2)
  from assms show ?thesis
    by (cases "tmsi u")
      (auto simp: SendInitialUeMessage_def BuildInitialUEMessage_def initial_pdu_def tmsi_ies_def location_ie_def
        GetNRCellIdentity_def mk_pdu_def mk_ie_def bindR_Ret_iff idx_def two split: if_splits)
qed

lemma uplink_message_pdu:
  "SendUplinkNasTransport E nas (ue_as u st) c = ngap_Encoder E (uplink_pdu E c (snd st) (ranUeNgapId u) nas)"
  by (simp add: SendUplinkNasTransport_def buildUplinkNasTransport_def uplink_pdu_def location_ie_def user_location_def
      GetNRCellIdentity_def mk_pdu_def mk_ie_def ue_as_def)

lemma release_message_pdu:
  "UeContextReleaseRequest E ss (ue_as u st) = ngap_Encoder E (release_pdu (snd st) (ranUeNgapId u) (map pduSessionId ss))"
  by (simp add: UeContextReleaseRequest_def release_pdu_def mk_pdu_def mk_ie_def ue_as_def)

lemma gnb_takes_message:
  assumes run: "processingConn_msg E g r (Some m) w = Ret (b, w')" and m: "nas_message m \<or> idle_message m"
    and pool: "GetGnbUe g (ranUeNgapId u) w = Inr r" and u: "ueH w r = ue_as u st"
    and c: "sctpConnection u = Some c" "conn_up E c"
  shows "\<exists>p. relay_pdu E (gnbH w g) u (sessions_of r w) st m = Some p \<and>
    w' = emit (SctpWrite c (case ngap_Encoder E p of None \<Rightarrow> [] | Some x \<Rightarrow> x))
      (upd_ue r (\<lambda>_. ue_as u (fst st \<or> IsNas m, snd st)) w)"
proof -
  have same: "upd_ue r (\<lambda>_. ue_as u st) w = w" by (simp add: upd_ue_def u [symmetric])
  from m show ?thesis
  proof
    assume "nas_message m"
    then obtain n where "m = zero_msg\<lparr>IsNas := True, Nas := n\<rparr>" by (auto simp: nas_message_def)
    then have m: "IsNas m" "\<not> ConnectionClosed m" "Nas m = n" by (simp_all add: zero_msg_def)
    with run pool u have "NasDispatch E r n g w = Ret ((), w')"
      by (auto simp: processingConn_msg_def run_simps bindR_Ret_iff)
    note run = this
    show ?thesis
    proof (cases "fst st")
      case True
      with u c have "NasDispatch E r n g w =
          Ret ((), emit (SctpWrite c (bytes_or_nil (SendUplinkNasTransport E n (ueH w r) (gnbH w g)))) w)"
        by (intro uplink_run) simp_all
      moreover have "(True, snd st) = st" using True by (cases st) simp
      ultimately show ?thesis using run u m True same
        by (simp add: relay_pdu_def uplink_message_pdu bytes_or_nil_def)
    next
      case False
      then have st: "ue_st (ueH w r) = Initialized" and conn: "sctpConnection (ueH w r) = Some c" using u c by simp_all
      from run st have "HandlerUeInitialized E r n g w = Ret ((), w')" by (simp add: NasDispatch_def run_simps)
      then obtain q where q: "SendInitialUeMessage E n (ue_as u st) (gnbH w g) = Ret q"
        and w': "w' = emit (SctpWrite c (bytes_or_nil q)) (upd_ue r (\<lambda>x. x\<lparr>ue_st := Ongoing\<rparr>) w)"
        using c conn by (auto simp: HandlerUeInitialized_def read_ue_gnb_def run_simps bindR_Ret_iff liftR_def u
            ue_conn_def SetUeState_def upd_ue_def SendToAmF_up)
      from initial_message_pdu [OF q] w' show ?thesis
        using m False by (auto simp: relay_pdu_def bytes_or_nil_def upd_ue_def u)
    qed
  next
    assume "idle_message m"
    then have m: "\<not> IsNas m" "\<not> ConnectionClosed m" "Idle m" by (simp_all add: idle_message_def zero_msg_def)
    with run pool u have "SendUeContextReleaseRequest E r w = Ret ((), w')"
      by (auto simp: processingConn_msg_def run_simps bindR_Ret_iff)
    with m c u same show ?thesis
      by (auto simp: SendUeContextReleaseRequest_def encode_or_fatal_def send_or_fatal_def fatal_if_def run_simps
          ue_conn_def SendToAmF_up relay_pdu_def release_message_pdu bytes_or_nil_def bindR_Ret_iff split: option.splits)
  qed
qed

lemma amf_message:
  assumes "ngap_Decoder E bytes = Some (downlink_msg a r nas)" and "Dispatch E amf g bytes w = Ret ((), w')"
  shows "(case GetGnbUe g r w of
      Inl _ \<Rightarrow> w' = w
    | Inr u \<Rightarrow> w' = (case gnbTx (ueH w u) of None \<Rightarrow> upd_ue u (\<lambda>x. x\<lparr>amfUeNgapId := a\<rparr>) w
        | Some c \<Rightarrow> emit (ChanSend c (zero_msg\<lparr>IsNas := True, Nas := nas\<rparr>)) (upd_ue u (\<lambda>x. x\<lparr>amfUeNgapId := a\<rparr>) w)))"
  using assms
  by (auto simp: Dispatch_def dispatch_msg_def downlink_msg_def HandlerDownlinkNasTransport_def run_simps
      mandatory_def with_ue_def getUeFromContext_def SetAmfUeId_def SendToUe_def sendCh_def upd_ue_def
      split: sum.splits option.splits if_splits)

section \<open>The relay is refined\<close>

definition relay_users :: "(nat \<Rightarrow> ue_link) \<Rightarrow> world \<Rightarrow> nat \<Rightarrow> GNBUe \<times> GnbPDUSession list" where
  "relay_users L w k = (ueH w (lk_ctx (L k)), sessions_of (lk_ctx (L k)) w)"

definition relay_init :: "(nat \<Rightarrow> ue_link) \<Rightarrow> world \<Rightarrow> nat \<Rightarrow> bool \<times> int" where
  "relay_init L w k = (False, amfUeNgapId (ueH w (lk_ctx (L k))))"

definition rid :: "(nat \<Rightarrow> ue_link) \<Rightarrow> world \<Rightarrow> nat \<Rightarrow> int" where
  "rid L w k = ranUeNgapId (ueH w (lk_ctx (L k)))"

text \<open>What holds all along: \<open>w0\<close> is the world at the start.\<close>

definition same_gnb :: "ext \<Rightarrow> gnb_ref \<Rightarrow> (nat \<Rightarrow> ue_link) \<Rightarrow> nat set \<Rightarrow> world \<Rightarrow> sys \<Rightarrow> bool" where
  "same_gnb E g L K w0 s \<longleftrightarrow>
     gnbH (sy_gnb s) = gnbH w0 \<and> sessH (sy_gnb s) = sessH w0 \<and> closedChans (sy_gnb s) = closedChans w0 \<and>
     (\<forall>k \<in> K. ueH (sy_gnb s) (lk_ctx (L k)) =
       ue_as (ueH w0 (lk_ctx (L k))) (relay_state (rid L w0) (relay_init L w0) (sy_hist s) k))"

definition relayed :: "ext \<Rightarrow> gnb_ref \<Rightarrow> (nat \<Rightarrow> ue_link) \<Rightarrow> nat set \<Rightarrow> world \<Rightarrow> sys \<Rightarrow> bool" where
  "relayed E g L K w0 s \<longleftrightarrow>
     written (events (sy_gnb s)) = written (events w0) @
       relay E (gnbH w0 g) (relay_users L w0) (relay_init L w0) (sy_hist s) \<and>
     (\<forall>k \<in> K. (\<exists>rest. sent_on (lk_up (L k)) (uevents (fst (sy_ue s k))) = taken k (sy_hist s) @ rest) \<and>
       told_on (lk_down (L k)) (events (sy_gnb s)) = told_on (lk_down (L k)) (events w0) @
         map (\<lambda>nas. zero_msg\<lparr>IsNas := True, Nas := nas\<rparr>) (downs (rid L w0 k) (sy_hist s)) \<and>
       sy_heard s k \<le> length (told_on (lk_down (L k)) (events (sy_gnb s))))"

lemma GetGnbUe_cong: "gnbH w = gnbH w0 \<Longrightarrow> GetGnbUe g r w = GetGnbUe g r w0"
  by (simp add: GetGnbUe_def)

lemma sessions_of_cong:
  "sessH w = sessH w0 \<Longrightarrow> ueH w r = ue_as (ueH w0 r) st \<Longrightarrow> sessions_of r w = sessions_of r w0"
  by (simp add: sessions_of_def)

lemma start_pool:
  "sys_start E g L K s0 \<Longrightarrow> k \<in> K \<Longrightarrow> GetGnbUe g (rid L (sy_gnb s0) k) (sy_gnb s0) = Inr (lk_ctx (L k))"
  by (simp add: sys_start_def linked_def rid_def)

text \<open>The gNodeB takes a message.\<close>

lemma takes_step:
  assumes start: "sys_start E g L K s0" and same: "same_gnb E g L K (sy_gnb s0) s" and rel: "relayed E g L K (sy_gnb s0) s"
    and k: "k \<in> K" and n: "length (taken k (sy_hist s)) < length (sent_on (lk_up (L k)) (uevents (fst (sy_ue s k))))"
    and mdef: "m = sent_on (lk_up (L k)) (uevents (fst (sy_ue s k))) ! length (taken k (sy_hist s))"
    and m: "nas_message m \<or> idle_message m"
    and run: "processingConn_msg E g (lk_ctx (L k)) (Some m) (sy_gnb s) = Ret (b, w)"
    and t: "t = s\<lparr>sy_gnb := w, sy_hist := sy_hist s @ [Took k m]\<rparr>"
  shows "same_gnb E g L K (sy_gnb s0) t \<and> relayed E g L K (sy_gnb s0) t"
proof -
  let ?w0 = "sy_gnb s0" and ?r = "lk_ctx (L k)"
  let ?st = "relay_state (rid L ?w0) (relay_init L ?w0) (sy_hist s) k"
  from same k have g: "gnbH (sy_gnb s) = gnbH ?w0" "sessH (sy_gnb s) = sessH ?w0" "ueH (sy_gnb s) ?r = ue_as (ueH ?w0 ?r) ?st"
    by (auto simp: same_gnb_def)
  from start k obtain c where c: "sctpConnection (ueH ?w0 ?r) = Some c" "conn_up E c" by (auto simp: sys_start_def)
  obtain p where p: "relay_pdu E (gnbH ?w0 g) (ueH ?w0 ?r) (sessions_of ?r ?w0) ?st m = Some p"
    and w: "w = emit (SctpWrite c (case ngap_Encoder E p of None \<Rightarrow> [] | Some x \<Rightarrow> x))
      (upd_ue ?r (\<lambda>_. ue_as (ueH ?w0 ?r) (fst ?st \<or> IsNas m, snd ?st)) (sy_gnb s))"
    using gnb_takes_message [OF run m _ g(3) c] start_pool [OF start k] GetGnbUe_cong [OF g(1)]
      sessions_of_cong [OF g(2,3)] g(1) by (auto simp: rid_def)
  have other: "lk_ctx (L j) \<noteq> ?r" if "j \<in> K" "j \<noteq> k" for j
    using start k that by (auto simp: sys_start_def inj_on_def)
  have "same_gnb E g L K ?w0 t"
    using same k other by (auto simp: same_gnb_def t w emit_def upd_ue_def)
  moreover obtain rest where "sent_on (lk_up (L k)) (uevents (fst (sy_ue s k))) = taken k (sy_hist s) @ m # rest"
    using rel k n mdef by (metis append_eq_conv_conj id_take_nth_drop relayed_def)
  then have "relayed E g L K ?w0 t"
    using rel c p by (auto simp: relayed_def t w emit_def upd_ue_def relay_snoc relay_users_def rid_def [abs_def])
  ultimately show ?thesis ..
qed

text \<open>An AMF sends a NAS message.\<close>

lemma amf_step:
  assumes start: "sys_start E g L K s0" and same: "same_gnb E g L K (sy_gnb s0) s" and rel: "relayed E g L K (sy_gnb s0) s"
    and run: "ngap_Decoder E bytes = Some (downlink_msg a r nas)" "Dispatch E amf g bytes (sy_gnb s) = Ret ((), w)"
    and t: "t = s\<lparr>sy_gnb := w, sy_hist := sy_hist s @ [Down a r nas]\<rparr>"
  shows "same_gnb E g L K (sy_gnb s0) t \<and> relayed E g L K (sy_gnb s0) t"
proof (cases "\<exists>k \<in> K. rid L (sy_gnb s0) k = r")
  case True
  let ?w0 = "sy_gnb s0"
  from True obtain k where k: "k \<in> K" "rid L ?w0 k = r" by blast
  have "gnbH (sy_gnb s) = gnbH ?w0" and u: "ueH (sy_gnb s) (lk_ctx (L k)) =
      ue_as (ueH ?w0 (lk_ctx (L k))) (relay_state (rid L ?w0) (relay_init L ?w0) (sy_hist s) k)"
    using same k by (auto simp: same_gnb_def)
  then have pool: "GetGnbUe g r (sy_gnb s) = Inr (lk_ctx (L k))"
    using start_pool [OF start k(1)] k(2) GetGnbUe_cong [of "sy_gnb s" ?w0 g r] by simp
  have tx: "gnbTx (ueH ?w0 (lk_ctx (L k))) = Some (lk_down (L k))" using start k by (simp add: sys_start_def linked_def)
  have w: "w = emit (ChanSend (lk_down (L k)) (zero_msg\<lparr>IsNas := True, Nas := nas\<rparr>))
      (upd_ue (lk_ctx (L k)) (\<lambda>x. x\<lparr>amfUeNgapId := a\<rparr>) (sy_gnb s))"
    using amf_message [OF run] pool u tx by simp
  have other: "rid L ?w0 j \<noteq> r \<and> lk_ctx (L j) \<noteq> lk_ctx (L k) \<and> lk_down (L j) \<noteq> lk_down (L k)"
    if j: "j \<in> K" "j \<noteq> k" for j
  proof -
    from start k(1) j have ne: "lk_ctx (L j) \<noteq> lk_ctx (L k)" "lk_down (L j) \<noteq> lk_down (L k)"
      unfolding sys_start_def inj_on_def by blast+
    moreover have "rid L ?w0 j \<noteq> r"
      using start_pool [OF start j(1)] start_pool [OF start k(1)] k(2) ne(1) by auto
    ultimately show ?thesis by simp
  qed
  have "same_gnb E g L K ?w0 t"
    unfolding same_gnb_def
  proof (intro conjI ballI)
    fix j assume "j \<in> K"
    then show "ueH (sy_gnb t) (lk_ctx (L j)) =
        ue_as (ueH ?w0 (lk_ctx (L j))) (relay_state (rid L ?w0) (relay_init L ?w0) (sy_hist t) j)"
      using same other [of j] k u by (cases "j = k") (auto simp: same_gnb_def t w emit_def upd_ue_def)
  qed (use same in \<open>simp_all add: same_gnb_def t w emit_def upd_ue_def\<close>)
  moreover have "relayed E g L K ?w0 t"
    unfolding relayed_def
  proof (intro conjI ballI)
    fix j assume "j \<in> K"
    then show "told_on (lk_down (L j)) (events (sy_gnb t)) = told_on (lk_down (L j)) (events ?w0) @
         map (\<lambda>nas. zero_msg\<lparr>IsNas := True, Nas := nas\<rparr>) (downs (rid L ?w0 j) (sy_hist t))"
      using rel other [of j] k by (cases "j = k") (auto simp: relayed_def t w emit_def upd_ue_def)
  qed (use rel in \<open>auto simp: relayed_def t w emit_def upd_ue_def relay_snoc\<close>)
  ultimately show ?thesis ..
next
  case False
  let ?w0 = "sy_gnb s0"
  have "gnbH (sy_gnb s) = gnbH ?w0" using same by (simp add: same_gnb_def)
  moreover have "GetGnbUe g r ?w0 \<noteq> Inr u" for u
    using start False by (auto simp: sys_start_def rid_def)
  ultimately obtain e where "GetGnbUe g r (sy_gnb s) = Inl e"
    using GetGnbUe_cong [of "sy_gnb s" ?w0 g r] by (cases "GetGnbUe g r ?w0") auto
  then have "w = sy_gnb s" using amf_message [OF run] by simp
  with same rel False show ?thesis by (auto simp: same_gnb_def relayed_def t relay_snoc)
qed

text \<open>A UE moves.\<close>

lemma ue_own_says: "ue_own X (s, go) (t, go') \<Longrightarrow> \<exists>es. uevents t = uevents s @ es"
  using ue_step_says [of X s go t go'] ue_step_iff [of X "(s, go)" "(t, go')"] by (auto simp: says_def)

lemma ue_moves_step:
  assumes rel: "relayed E g L K w0 s" and ue: "\<exists>es. uevents (fst sg) = uevents (fst (sy_ue s k)) @ es"
    and n: "n k \<le> length (told_on (lk_down (L k)) (events (sy_gnb s)))" "\<forall>j. j \<noteq> k \<longrightarrow> n j = sy_heard s j"
  shows "relayed E g L K w0 (s\<lparr>sy_ue := (sy_ue s)(k := sg), sy_heard := n\<rparr>)"
proof -
  from ue obtain es where "sent_on c (uevents (fst sg)) = sent_on c (uevents (fst (sy_ue s k))) @ sent_on c es" for c
    by auto
  with rel n show ?thesis by (auto simp: relayed_def)
qed

definition sys_inv :: "ext \<Rightarrow> gnb_ref \<Rightarrow> (nat \<Rightarrow> ue_link) \<Rightarrow> nat set \<Rightarrow> sys \<Rightarrow> sys \<Rightarrow> bool" where
  "sys_inv E g L K s0 s \<longleftrightarrow> sys_start E g L K s0 \<and> same_gnb E g L K (sy_gnb s0) s \<and> relayed E g L K (sy_gnb s0) s"

lemma sys_inv_start: "sys_start E g L K s0 \<Longrightarrow> sys_inv E g L K s0 s0"
  by (auto simp: sys_inv_def same_gnb_def relayed_def sys_start_def relay_state_def relay_init_def ue_as_def)

lemma sys_inv_step:
  assumes "sys_step E g X L K s t" and inv: "sys_inv E g L K s0 s"
  shows "sys_inv E g L K s0 t"
  using assms(1)
proof cases
  case (ue_moves k sg)
  obtain u go u' go' where sg: "sy_ue s k = (u, go)" "sg = (u', go')" by (cases "sy_ue s k", cases sg)
  have "relayed E g L K (sy_gnb s0) (s\<lparr>sy_ue := (sy_ue s)(k := sg), sy_heard := sy_heard s\<rparr>)"
    using inv ue_moves ue_own_says [of "X k" u go u' go'] sg
    by (intro ue_moves_step) (auto simp: sys_inv_def relayed_def)
  with inv ue_moves show ?thesis by (simp add: sys_inv_def same_gnb_def)
next
  case (ue_hears k u m u')
  then have "\<exists>es. uevents u' = uevents u @ es"
    using preservesD [OF says_handlers(1) says_refl, of "X k" m u] by (auto simp: says_def)
  with ue_hears inv have "relayed E g L K (sy_gnb s0)
      (s\<lparr>sy_ue := (sy_ue s)(k := (u', True)), sy_heard := (sy_heard s)(k := Suc (sy_heard s k))\<rparr>)"
    by (intro ue_moves_step) (auto simp: sys_inv_def)
  with inv ue_hears show ?thesis by (simp add: sys_inv_def same_gnb_def)
next
  case (gnb_takes k m b w)
  have "sys_start E g L K s0" "same_gnb E g L K (sy_gnb s0) s" "relayed E g L K (sy_gnb s0) s"
    using inv by (simp_all add: sys_inv_def)
  from takes_step [OF this gnb_takes(2,3,4,5,6,1)] inv show ?thesis by (simp add: sys_inv_def)
next
  case (amf_sends bytes a r nas amf w)
  have "sys_start E g L K s0" "same_gnb E g L K (sy_gnb s0) s" "relayed E g L K (sy_gnb s0) s"
    using inv by (simp_all add: sys_inv_def)
  from amf_step [OF this amf_sends(2,3,1)] inv show ?thesis by (simp add: sys_inv_def)
next
  case (time_passes d)
  then have "relayed E g L K (sy_gnb s0) t = relayed E g L K (sy_gnb s0) s" by (simp add: relayed_def)
  with inv time_passes show ?thesis by (simp add: sys_inv_def same_gnb_def)
qed

interpretation system: inductive_invariant "\<lambda>s. s = s0 \<and> sys_start E g L K s0" "sys_step E g X L K" "sys_inv E g L K s0"
  for E g X L K s0
  by unfold_locales (auto intro: sys_inv_start sys_inv_step)

text \<open>
  C4: A gNodeB refines the relay for the traffic of UEs that are connected to it, under any
  interleaving of what these UEs do, of the NAS messages and idle notices it takes from them and
  of the Downlink NAS Transports that AMFs send. What it has written to its AMFs is exactly what
  the relay writes for the history: one NGAP message for each message taken, on the association
  of its UE, spelled out element by element: an Initial UE Message with the UE's RAN UE NGAP ID,
  NAS octets, location and temporary identity for its first NAS message, an Uplink NAS Transport
  with both identifiers, the NAS octets and the location for every other, and a UE Context Release
  Request with both identifiers and the UE's sessions for an idle notice. The AMF UE NGAP ID is
  the last one an AMF gave the UE, and the gNodeB's context of the UE holds it. Towards the UEs,
  what a UE was told since the start is the NAS octets that AMFs sent for its RAN UE NGAP ID, each
  once and in the order of their dispatch; a transport for an unknown identifier changes nothing.
  That messages are taken from the channel of a UE in the order they were put there is Go's
  semantics of channels, part of the steps.
\<close>

theorem gnb_refines_relay:
  assumes "sys_start E g L K s0" and "(sys_step E g X L K)\<^sup>*\<^sup>* s0 s"
  shows "written (events (sy_gnb s)) = written (events (sy_gnb s0)) @
      relay E (gnbH (sy_gnb s0) g) (relay_users L (sy_gnb s0)) (relay_init L (sy_gnb s0)) (sy_hist s) \<and>
    (\<forall>k \<in> K.
      told_on (lk_down (L k)) (events (sy_gnb s)) = told_on (lk_down (L k)) (events (sy_gnb s0)) @
        map (\<lambda>nas. zero_msg\<lparr>IsNas := True, Nas := nas\<rparr>) (downs (ranUeNgapId (ueH (sy_gnb s0) (lk_ctx (L k)))) (sy_hist s)) \<and>
      (ue_st (ueH (sy_gnb s) (lk_ctx (L k))) = Ongoing, amfUeNgapId (ueH (sy_gnb s) (lk_ctx (L k)))) =
        relay_state (\<lambda>j. ranUeNgapId (ueH (sy_gnb s0) (lk_ctx (L j)))) (relay_init L (sy_gnb s0)) (sy_hist s) k)"
  using system.inv_reachable [of s0 s0 E g L K X s] assms
  by (auto simp: sys_inv_def relayed_def same_gnb_def rid_def [abs_def] ue_as_def prod_eq_iff)

text \<open>
  A demo: a UE asks for a PDU session, the gNodeB takes the message, the AMF answers, and the
  session becomes active.
\<close>

definition relay_ext :: ext where
  "relay_ext = demo_ext\<lparr>ngap_Decoder := \<lambda>_. Some (downlink_msg 7 1 (Some [203, 1]))\<rparr>"

definition demo_link :: "nat \<Rightarrow> ue_link" where
  "demo_link _ = \<lparr>lk_ctx = 0, lk_up = 3, lk_down = 4\<rparr>"

definition demo_sys :: sys where
  "demo_sys = \<lparr>sy_gnb = demo5, sy_ue = \<lambda>_. (demo_ue0, True), sy_hist = [], sy_heard = \<lambda>_. 1\<rparr>"

definition demo_asked :: UEMessage where
  "demo_asked = hd (sent_on 3 (uevents demo_ue1))"

lemma well_said_nas: "well_said (ToGnb c m) \<Longrightarrow> IsNas m \<Longrightarrow> nas_message m"
  by (auto simp: well_said_def message_defs zero_msg_def connect_msg_def)

lemma sent_on_in: "m \<in> set (sent_on c es) \<Longrightarrow> ToGnb c m \<in> set es"
  by (induction c es rule: sent_on.induct) (auto split: if_splits)

lemma demo_asked_sent: "sent_on 3 (uevents demo_ue1) = [demo_asked]" "nas_message demo_asked"
proof -
  have one: "map IsNas (sent_on 3 (uevents demo_ue1)) = [True]"
    using demo_said(2) by (auto simp: map_eq_Cons_conv said_Some)
  then show sent: "sent_on 3 (uevents demo_ue1) = [demo_asked]" by (auto simp: demo_asked_def)
  have "ue_step demo_uext (demo_ue0, True) (demo_ue1, True)"
    using from_scenario [OF demo_NewPDUSession, of demo_ue1] by (simp add: end_if_def)
  from ue_step_says [OF this] obtain es where es: "uevents demo_ue1 = uevents demo_ue0 @ es" "\<forall>e \<in> set es. well_said e"
    by (auto simp: says_def)
  then have "sent_on 3 es = [demo_asked]" using sent by (simp add: demo_ue0_events)
  then have "well_said (ToGnb 3 demo_asked)" using es(2) sent_on_in [of demo_asked 3 es] by simp
  then show "nas_message demo_asked" using one sent by (auto intro: well_said_nas)
qed

definition demo6 :: world where
  "demo6 = emit (SctpWrite 5 [5]) (upd_ue 0 (\<lambda>u. u\<lparr>ue_st := Ongoing\<rparr>) demo5)"

definition demo7 :: world where
  "demo7 = emit (ChanSend 4 demo_accept_msg) (upd_ue 0 (\<lambda>u. u\<lparr>amfUeNgapId := 7\<rparr>) demo6)"

lemma demo_run6: "processingConn_msg relay_ext 0 0 (Some demo_asked) demo5 = Ret (True, demo6)"
proof -
  have "processingConn_msg relay_ext 0 0 (Some (zero_msg\<lparr>IsNas := True, Nas := b\<rparr>)) demo5 = Ret (True, demo6)" for b
    by (simp add: demo6_def demo5_def demo_data demo_worlds relay_ext_def run_simps processingConn_msg_def GetGnbUe_def
        NasDispatch_def HandlerUeInitialized_def read_ue_gnb_def SendInitialUeMessage_def BuildInitialUEMessage_def
        GetMccAndMncInOctets_def reverse_def idx_def Let_def SetUeState_def ue_conn_def SendToAmF_def upd_defs
        mk_pdu_def bytes_or_nil_def sm_load_def)
  note run = this
  from demo_asked_sent(2) obtain b where b: "demo_asked = zero_msg\<lparr>IsNas := True, Nas := b\<rparr>"
    unfolding nas_message_def by blast
  show ?thesis unfolding b by (rule run)
qed

lemma demo_run7: "Dispatch relay_ext 0 0 None demo6 = Ret ((), demo7)"
  by (simp add: demo7_def demo6_def demo5_def demo_data demo_worlds demo_accept_msg_def relay_ext_def run_simps
      Dispatch_def dispatch_msg_def downlink_msg_def HandlerDownlinkNasTransport_def mandatory_def with_ue_def
      getUeFromContext_def GetGnbUe_def SetAmfUeId_def SendToUe_def sendCh_def upd_defs sm_load_def)

lemma demo_accept_GNBRx: "GNBRx demo_accept_msg = None"
  by (simp add: demo_accept_msg_def zero_msg_def)

lemma demo_sys_start: "sys_start relay_ext 0 demo_link {0} demo_sys"
  by (auto simp: sys_start_def demo_sys_def demo_link_def linked_def GetGnbUe_def demo5_def demo_worlds demo_data
      relay_ext_def conn_up_def sm_load_def split: option.splits if_splits)

lemma gnb_refines_relay_witness:
  "\<exists>s. (sys_step relay_ext 0 (\<lambda>_. demo_uext) demo_link {0})\<^sup>*\<^sup>* demo_sys s \<and> fst (sy_ue s 0) = demo_ue2 \<and>
    taken 0 (sy_hist s) = [demo_asked] \<and> downs 1 (sy_hist s) = [Some [203, 1]] \<and>
    written (events (sy_gnb s)) = [(5, [4]), (5, [5])]"
proof -
  let ?step = "sys_step relay_ext 0 (\<lambda>_. demo_uext) demo_link {0}"
  let ?s1 = "demo_sys\<lparr>sy_ue := (sy_ue demo_sys)(0 := (demo_ue1, True))\<rparr>"
  let ?s2 = "?s1\<lparr>sy_gnb := demo6, sy_hist := sy_hist ?s1 @ [Took 0 demo_asked]\<rparr>"
  let ?s3 = "?s2\<lparr>sy_gnb := demo7, sy_hist := sy_hist ?s2 @ [Down 7 1 (Some [203, 1])]\<rparr>"
  let ?s4 = "?s3\<lparr>sy_ue := (sy_ue ?s3)(0 := (demo_ue2, True)), sy_heard := (sy_heard ?s3)(0 := Suc (sy_heard ?s3 0))\<rparr>"
  have "?step demo_sys ?s1"
    using own_scenario [OF demo_NewPDUSession, of demo_ue1]
    by (intro ue_moves) (simp_all add: end_if_def demo_sys_def)
  moreover have "?step ?s1 ?s2"
    by (rule gnb_takes [where b = True])
      (simp_all add: demo_sys_def demo_link_def demo_asked_sent demo_run6)
  moreover have "?step ?s2 ?s3"
    by (rule amf_sends [where bytes = None and amf = 0]) (simp_all add: relay_ext_def demo_run7 [unfolded relay_ext_def])
  moreover have "?step ?s3 ?s4"
    by (rule ue_hears [where u = demo_ue1 and m = demo_accept_msg])
      (simp_all add: demo_sys_def demo_link_def demo7_def demo6_def demo5_def emit_def upd_ue_def demo_accept_run
        handover_ok_def demo_accept_GNBRx)
  ultimately have run: "?step\<^sup>*\<^sup>* demo_sys ?s4" by (meson converse_rtranclp_into_rtranclp rtranclp.rtrancl_refl)
  with gnb_refines_relay [OF demo_sys_start run] show ?thesis
    by (intro exI [of _ ?s4]) (simp add: demo_sys_def demo7_def demo6_def demo5_def emit_def upd_ue_def)
qed

end
