(* ===== verification/NgapIo.thy ===== *)
theory NgapIo
  imports UeGnb
begin

text \<open>
  The reading side of the NGAP connection (\<open>gnb/ngap/service.go\<close>): every message of an
  association is dispatched by a goroutine of its own. And the helpers that read and decode one
  message (\<open>gnb/ngap/message/ngap_control\<close>, \<open>ue/nas/message/nas_control\<close>).
\<close>

section \<open>GnbListen\<close>

text \<open>
  What a read of the association gives: an error, or octets and the stream they came on. The
  stream is read from the information beside the data, a pointer that may be nil. One round of
  the loop gives the octets whose dispatch is started, or nothing when the loop ends.
\<close>

datatype n2_read = N2Error | N2Data "byte list" "u16 option"

definition GnbListen_round :: "n2_read \<Rightarrow> (byte list option) res" where
  "GnbListen_round r =
     (case r of
        N2Error \<Rightarrow> Ret None
      | N2Data bs info \<Rightarrow>
          (case info of None \<Rightarrow> Panic NilDeref | Some stream \<Rightarrow> Ret (Some (take 65535 bs))))"

text \<open>
  The goroutine of one association and those it started. A handler runs as one step: what its
  steps do between the messages of other UEs is in the step relation of the gNodeB.
\<close>

record n2 =
  n2_world :: world
  n2_started :: "byte list list"
  n2_reads :: "n2_read list"

inductive n2_step :: "ext \<Rightarrow> amf_ref \<Rightarrow> gnb_ref \<Rightarrow> n2 \<Rightarrow> n2 \<Rightarrow> bool" for E amf g where
  n2_reads: "n2_reads s = r # rs \<Longrightarrow> GnbListen_round r = Ret (Some d) \<Longrightarrow>
    n2_step E amf g s (s\<lparr>n2_reads := rs, n2_started := n2_started s @ [d]\<rparr>)"
| n2_ends: "n2_reads s = r # rs \<Longrightarrow> GnbListen_round r = Ret None \<Longrightarrow>
    n2_step E amf g s (s\<lparr>n2_reads := []\<rparr>)"
| n2_dispatches: "n2_started s = xs @ d # ys \<Longrightarrow> Dispatch E amf g (Some d) (n2_world s) = Ret ((), w) \<Longrightarrow>
    n2_step E amf g s (s\<lparr>n2_world := w, n2_started := xs @ ys\<rparr>)"

section \<open>The order of downlink messages\<close>

text \<open>Octets that decode to a NAS message for one UE, and what the UE is then told.\<close>

definition nas_for :: "ext \<Rightarrow> int \<Rightarrow> (byte list \<Rightarrow> int) \<Rightarrow> (byte list \<Rightarrow> byte list option) \<Rightarrow> byte list \<Rightarrow> bool" where
  "nas_for E r a n b \<longleftrightarrow> length b \<le> 65535 \<and> ngap_Decoder E (Some b) = Some (downlink_msg (a b) r (n b))"

definition told :: "(byte list \<Rightarrow> byte list option) \<Rightarrow> byte list \<Rightarrow> UEMessage" where
  "told n b = zero_msg\<lparr>IsNas := True, Nas := n b\<rparr>"

text \<open>The UE is known to the gNodeB and can be told.\<close>

definition reachable_ue :: "gnb_ref \<Rightarrow> int \<Rightarrow> ue_ref \<Rightarrow> chan \<Rightarrow> world \<Rightarrow> bool" where
  "reachable_ue g r u c w \<longleftrightarrow> GetGnbUe g r w = Inr u \<and> gnbTx (ueH w u) = Some c \<and> c \<notin> set (closedChans w)"

lemma dispatch_tells:
  assumes "reachable_ue g r u c w" "nas_for E r a n b"
  obtains w' where "Dispatch E amf g (Some b) w = Ret ((), w')" "reachable_ue g r u c w'"
    "told_on c (events w') = told_on c (events w) @ [told n b]"
proof
  let ?w = "emit (ChanSend c (told n b)) (upd_ue u (\<lambda>x. x\<lparr>amfUeNgapId := a b\<rparr>) w)"
  show "Dispatch E amf g (Some b) w = Ret ((), ?w)"
    using assms
    by (auto simp: reachable_ue_def nas_for_def told_def Dispatch_def dispatch_msg_def downlink_msg_def
        HandlerDownlinkNasTransport_def run_simps mandatory_def with_ue_def getUeFromContext_def SetAmfUeId_def
        SendToUe_def sendCh_def upd_ue_def)
  show "reachable_ue g r u c ?w"
    using assms(1) by (auto simp: reachable_ue_def GetGnbUe_def emit_def upd_ue_def)
  show "told_on c (events ?w) = told_on c (events w) @ [told n b]"
    by (simp add: emit_def upd_ue_def)
qed

text \<open>What was read and not handled yet, and what is still to be read.\<close>

definition listening :: "(byte list \<Rightarrow> byte list option) \<Rightarrow> gnb_ref \<Rightarrow> int \<Rightarrow> ue_ref \<Rightarrow> chan \<Rightarrow> world \<Rightarrow> byte list list \<Rightarrow> n2 \<Rightarrow> bool" where
  "listening n g r u c w bs s \<longleftrightarrow> reachable_ue g r u c (n2_world s) \<and>
     (\<exists>done rest. mset done + mset (n2_started s) + mset rest = mset bs \<and>
        n2_reads s = map (\<lambda>b. N2Data b (Some 0)) rest \<and>
        told_on c (events (n2_world s)) = told_on c (events w) @ map (told n) done)"

lemma in_parts: "mset xs + mset ys + mset zs = mset bs \<Longrightarrow> set xs \<union> set ys \<union> set zs = set bs"
  by (metis mset_append set_append set_mset_mset)

lemma listening_step:
  assumes "listening n g r u c w bs s" "n2_step E amf g s t" "\<forall>b \<in> set bs. nas_for E r a n b"
  shows "listening n g r u c w bs t"
proof -
  from assms(1) obtain dn rest where inv: "reachable_ue g r u c (n2_world s)"
      "mset dn + mset (n2_started s) + mset rest = mset bs" "n2_reads s = map (\<lambda>b. N2Data b (Some 0)) rest"
      "told_on c (events (n2_world s)) = told_on c (events w) @ map (told n) dn"
    by (auto simp: listening_def)
  have known: "nas_for E r a n b" if "b \<in> set (n2_started s) \<union> set rest" for b
    using that assms(3) in_parts [OF inv(2)] by auto
  from assms(2) show ?thesis
  proof cases
    case (n2_reads b rs d)
    with inv(3) obtain x rest' where rest: "rest = x # rest'" "b = N2Data x (Some 0)" "rs = map (\<lambda>b. N2Data b (Some 0)) rest'"
      by (cases rest) auto
    with n2_reads known [of x] have "d = x" by (simp add: GnbListen_round_def nas_for_def)
    with inv rest n2_reads have "mset dn + mset (n2_started t) + mset rest' = mset bs" "n2_world t = n2_world s"
        "n2_reads t = map (\<lambda>b. N2Data b (Some 0)) rest'"
      by auto
    with inv show ?thesis unfolding listening_def by auto
  next
    case (n2_ends b rs)
    with inv(3) show ?thesis by (cases rest) (auto simp: GnbListen_round_def)
  next
    case (n2_dispatches xs d ys w')
    then have d: "nas_for E r a n d" using known by simp
    obtain w'' where
      "Dispatch E amf g (Some d) (n2_world s) = Ret ((), w'')" "reachable_ue g r u c w''"
      "told_on c (events w'') = told_on c (events (n2_world s)) @ [told n d]"
      by (rule dispatch_tells [OF inv(1) d])
    with inv n2_dispatches have "mset (dn @ [d]) + mset (n2_started t) + mset rest = mset bs"
        "reachable_ue g r u c (n2_world t)" "n2_reads t = map (\<lambda>b. N2Data b (Some 0)) rest"
        "told_on c (events (n2_world t)) = told_on c (events w) @ map (told n) (dn @ [d])"
      by auto
    then show ?thesis unfolding listening_def by blast
  qed
qed

lemma all_read:
  assumes "\<forall>b \<in> set bs. length b \<le> 65535"
  shows "(n2_step E amf g)\<^sup>*\<^sup>* \<lparr>n2_world = w, n2_started = ds, n2_reads = map (\<lambda>b. N2Data b (Some 0)) bs\<rparr>
    \<lparr>n2_world = w, n2_started = ds @ bs, n2_reads = []\<rparr>"
  using assms
proof (induction bs arbitrary: ds)
  case Nil
  show ?case by simp
next
  case (Cons b bs)
  have "n2_step E amf g \<lparr>n2_world = w, n2_started = ds, n2_reads = map (\<lambda>b. N2Data b (Some 0)) (b # bs)\<rparr>
      \<lparr>n2_world = w, n2_started = ds @ [b], n2_reads = map (\<lambda>b. N2Data b (Some 0)) bs\<rparr>"
    using n2_step.n2_reads [of "\<lparr>n2_world = w, n2_started = ds, n2_reads = map (\<lambda>b. N2Data b (Some 0)) (b # bs)\<rparr>"]
      Cons.prems by (simp add: GnbListen_round_def)
  also have "(n2_step E amf g)\<^sup>*\<^sup>* \<dots> \<lparr>n2_world = w, n2_started = ds @ b # bs, n2_reads = []\<rparr>"
    using Cons.IH [of "ds @ [b]"] Cons.prems by simp
  finally show ?case .
qed

lemma all_dispatched:
  assumes "mset ds = mset bs" "reachable_ue g r u c w" "\<forall>b \<in> set bs. nas_for E r a n b"
  shows "\<exists>w'. (n2_step E amf g)\<^sup>*\<^sup>* \<lparr>n2_world = w, n2_started = ds, n2_reads = []\<rparr>
      \<lparr>n2_world = w', n2_started = [], n2_reads = []\<rparr> \<and>
    told_on c (events w') = told_on c (events w) @ map (told n) bs"
  using assms
proof (induction bs arbitrary: ds w)
  case Nil
  then show ?case by auto
next
  case (Cons b bs)
  then have "b \<in> set ds" by (metis list.set_intros(1) mset_eq_setD)
  then obtain xs ys where ds: "ds = xs @ b # ys" by (auto simp: in_set_conv_decomp)
  from Cons.prems obtain w1 where w1: "Dispatch E amf g (Some b) w = Ret ((), w1)" "reachable_ue g r u c w1"
      "told_on c (events w1) = told_on c (events w) @ [told n b]"
    by (auto elim: dispatch_tells)
  have "n2_step E amf g \<lparr>n2_world = w, n2_started = ds, n2_reads = []\<rparr> \<lparr>n2_world = w1, n2_started = xs @ ys, n2_reads = []\<rparr>"
    using n2_step.n2_dispatches [of "\<lparr>n2_world = w, n2_started = ds, n2_reads = []\<rparr>"] ds w1(1) by simp
  moreover have "mset (xs @ ys) = mset bs" using Cons.prems(1) ds by simp
  with Cons.IH [of "xs @ ys", OF _ w1(2)] Cons.prems(3) obtain w' where
    "(n2_step E amf g)\<^sup>*\<^sup>* \<lparr>n2_world = w1, n2_started = xs @ ys, n2_reads = []\<rparr> \<lparr>n2_world = w', n2_started = [], n2_reads = []\<rparr>"
    "told_on c (events w') = told_on c (events w1) @ map (told n) bs" by auto
  ultimately show ?case using w1(3) by (auto intro: converse_rtranclp_into_rtranclp)
qed

text \<open>
  C8: The NAS messages an AMF sends a UE reach it in any order whatever. When the gNodeB has
  read the messages \<open>bs\<close> for one UE from an association and all of them were handled, the UE was
  told each of them exactly once; and every order of them is possible, because each is dispatched
  by a goroutine of its own, although the association and the channel to the UE keep the order.
\<close>

theorem downlink_order:
  assumes "reachable_ue g r u c w" and "\<forall>b \<in> set bs. nas_for E r a n b"
  shows "(\<exists>w'. (n2_step E amf g)\<^sup>*\<^sup>* \<lparr>n2_world = w, n2_started = [], n2_reads = map (\<lambda>b. N2Data b (Some 0)) bs\<rparr>
        \<lparr>n2_world = w', n2_started = [], n2_reads = []\<rparr> \<and>
      told_on c (events w') = told_on c (events w) @ msgs) \<longleftrightarrow>
    (\<exists>bs'. mset bs' = mset bs \<and> msgs = map (told n) bs')"
proof (intro iffI; elim exE conjE)
  fix w'
  assume run: "(n2_step E amf g)\<^sup>*\<^sup>* \<lparr>n2_world = w, n2_started = [], n2_reads = map (\<lambda>b. N2Data b (Some 0)) bs\<rparr>
        \<lparr>n2_world = w', n2_started = [], n2_reads = []\<rparr>"
    and tell: "told_on c (events w') = told_on c (events w) @ msgs"
  have "listening n g r u c w bs \<lparr>n2_world = w, n2_started = [], n2_reads = map (\<lambda>b. N2Data b (Some 0)) bs\<rparr>"
    using assms(1) by (auto simp: listening_def)
  with run have "listening n g r u c w bs \<lparr>n2_world = w', n2_started = [], n2_reads = []\<rparr>"
    by (induction rule: rtranclp_induct) (auto intro: listening_step [OF _ _ assms(2)])
  with tell show "\<exists>bs'. mset bs' = mset bs \<and> msgs = map (told n) bs'"
    by (auto simp: listening_def)
next
  fix bs'
  assume bs': "mset bs' = mset bs" "msgs = map (told n) bs'"
  then have "\<forall>b \<in> set bs'. nas_for E r a n b" using assms(2) by (metis mset_eq_setD)
  then obtain w' where "(n2_step E amf g)\<^sup>*\<^sup>* \<lparr>n2_world = w, n2_started = bs, n2_reads = []\<rparr>
      \<lparr>n2_world = w', n2_started = [], n2_reads = []\<rparr>" "told_on c (events w') = told_on c (events w) @ map (told n) bs'"
    using all_dispatched [of bs bs' g r u c w E a n amf] bs'(1) assms(1) by auto
  moreover have "(n2_step E amf g)\<^sup>*\<^sup>* \<lparr>n2_world = w, n2_started = [], n2_reads = map (\<lambda>b. N2Data b (Some 0)) bs\<rparr>
      \<lparr>n2_world = w, n2_started = bs, n2_reads = []\<rparr>"
    using all_read [of bs E amf g w "[]"] assms(2) by (simp add: nas_for_def)
  ultimately show "\<exists>w'. (n2_step E amf g)\<^sup>*\<^sup>* \<lparr>n2_world = w, n2_started = [], n2_reads = map (\<lambda>b. N2Data b (Some 0)) bs\<rparr>
        \<lparr>n2_world = w', n2_started = [], n2_reads = []\<rparr> \<and>
      told_on c (events w') = told_on c (events w) @ msgs"
    using bs'(2) by (auto intro: rtranclp_trans)
qed

definition order_ext :: ext where
  "order_ext = demo_ext\<lparr>ngap_Decoder := \<lambda>b. Some (downlink_msg 7 1 b)\<rparr>"

lemma downlink_order_witness:
  "\<exists>w'. (n2_step order_ext 0 0)\<^sup>*\<^sup>* \<lparr>n2_world = demo5, n2_started = [], n2_reads = [N2Data [1] (Some 0), N2Data [2] (Some 0)]\<rparr>
      \<lparr>n2_world = w', n2_started = [], n2_reads = []\<rparr> \<and>
    told_on 4 (events w') = told_on 4 (events demo5) @
      [zero_msg\<lparr>IsNas := True, Nas := Some [2]\<rparr>, zero_msg\<lparr>IsNas := True, Nas := Some [1]\<rparr>]"
proof -
  have "reachable_ue 0 1 0 4 demo5"
    by (simp add: reachable_ue_def GetGnbUe_def demo5_def demo_worlds demo_data sm_load_def)
  moreover have "\<forall>b \<in> set [[1], [2]]. nas_for order_ext 1 (\<lambda>_. 7) Some b"
    by (simp add: nas_for_def order_ext_def)
  ultimately show ?thesis
    using downlink_order [of 0 1 0 4 demo5 "[[1], [2]]" order_ext "\<lambda>_. 7" Some 0 "map (told Some) [[2], [1]]"]
    by (auto simp: told_def intro!: exI [of _ "[[2], [1]]"])
qed

end
