(* ===== verification/NgapDecode.thy ===== *)
theory NgapDecode
  imports UeHandlers NgapTypes
begin

text \<open>
  The helpers that read one message from the AMF and take it apart
  (\<open>gnb/ngap/message/ngap_control\<close>, \<open>ue/nas/message/nas_control\<close>).
\<close>

section \<open>Reading one message\<close>

text \<open>
  A read of the association into a buffer of 2048 octets gives an error or octets. Here the error
  of the decoder counts: \<open>dec\<close> is the pointer it returns, or nothing when it fails.
\<close>

type_synonym ngap_decoder = "byte list \<Rightarrow> (NGAPMsg option) option"

definition receive :: "ngap_decoder \<Rightarrow> string \<Rightarrow> string \<Rightarrow> byte list option \<Rightarrow> string + NGAPMsg option" where
  "receive dec receiving decoding rd =
     (case rd of
        None \<Rightarrow> Inl receiving
      | Some bs \<Rightarrow> (case dec (take 2048 bs) of None \<Rightarrow> Inl decoding | Some m \<Rightarrow> Inr m))"

definition DownlinkNasTransport :: "ngap_decoder \<Rightarrow> byte list option \<Rightarrow> string \<Rightarrow> string + NGAPMsg option" where
  "DownlinkNasTransport dec rd supi =
     receive dec (''Error receiving '' @ supi @ '' ue NGAP message in downlinkNasTransport'')
       (''Error decoding '' @ supi @ '' ue NGAP message in downlinkNasTransport'') rd"

text \<open>A verb of a format without its argument prints as \<open>%!s(MISSING)\<close>.\<close>

definition NgSetupResponse :: "ngap_decoder \<Rightarrow> byte list option \<Rightarrow> string + NGAPMsg option" where
  "NgSetupResponse dec rd =
     receive dec ''Error receiving %!s(MISSING) NG-SETUP-RESPONSE''
       ''Error decoding %!s(MISSING) NG-SETUP-RESPONSE'' rd"

section \<open>Waiting for a Configuration Update Command\<close>

text \<open>
  The goroutine that reads and the caller that waits for it at most a second. The two channels
  have no buffer, so a send and a receive happen together. After an error the goroutine goes on;
  a failed read leaves it an empty slice to decode.
\<close>

datatype recv_pc =
    Reading
  | ReadFailed
  | Decoding "byte list"
  | DecodeFailed
  | Sending "NGAPMsg option"
  | Finished

datatype wait_pc = Selecting | ReceivingAgain | Returned "NGAPMsg option"

record waiting =
  w_recv :: recv_pc
  w_main :: wait_pc
  w_closed :: bool
  w_panic :: bool

definition waiting_start :: waiting where
  "waiting_start = \<lparr>w_recv = Reading, w_main = Selecting, w_closed = False, w_panic = False\<rparr>"

text \<open>What a decoder that failed returns as its pointer is the parameter \<open>junk\<close>.\<close>

inductive DownlinkNasTransportForConfigurationUpdateCommand ::
  "ngap_decoder \<Rightarrow> NGAPMsg option \<Rightarrow> byte list option \<Rightarrow> waiting \<Rightarrow> waiting \<Rightarrow> bool"
  for dec junk rd where
  read_ok: "\<not> w_panic s \<Longrightarrow> w_recv s = Reading \<Longrightarrow> rd = Some bs \<Longrightarrow>
    DownlinkNasTransportForConfigurationUpdateCommand dec junk rd s (s\<lparr>w_recv := Decoding (take 2048 bs)\<rparr>)"
| read_fails: "\<not> w_panic s \<Longrightarrow> w_recv s = Reading \<Longrightarrow> rd = None \<Longrightarrow>
    DownlinkNasTransportForConfigurationUpdateCommand dec junk rd s (s\<lparr>w_recv := ReadFailed\<rparr>)"
| decodes: "\<not> w_panic s \<Longrightarrow> w_recv s = Decoding bs \<Longrightarrow>
    DownlinkNasTransportForConfigurationUpdateCommand dec junk rd s
      (s\<lparr>w_recv := (case dec bs of None \<Rightarrow> DecodeFailed | Some m \<Rightarrow> Sending m)\<rparr>)"
| error_told: "\<not> w_panic s \<Longrightarrow> w_recv s \<in> {ReadFailed, DecodeFailed} \<Longrightarrow> \<not> w_closed s \<Longrightarrow> w_main s = Selecting \<Longrightarrow>
    DownlinkNasTransportForConfigurationUpdateCommand dec junk rd s
      (s\<lparr>w_recv := (if w_recv s = ReadFailed then Decoding [] else Sending junk), w_main := Returned None\<rparr>)"
| message_told: "\<not> w_panic s \<Longrightarrow> w_recv s = Sending m \<Longrightarrow> \<not> w_closed s \<Longrightarrow> w_main s = Selecting \<Longrightarrow>
    DownlinkNasTransportForConfigurationUpdateCommand dec junk rd s (s\<lparr>w_recv := Finished, w_main := ReceivingAgain\<rparr>)"
| message_told_again: "\<not> w_panic s \<Longrightarrow> w_recv s = Sending m \<Longrightarrow> \<not> w_closed s \<Longrightarrow> w_main s = ReceivingAgain \<Longrightarrow>
    DownlinkNasTransportForConfigurationUpdateCommand dec junk rd s (s\<lparr>w_recv := Finished, w_main := Returned m\<rparr>)"
| timeout: "\<not> w_panic s \<Longrightarrow> w_main s = Selecting \<Longrightarrow>
    DownlinkNasTransportForConfigurationUpdateCommand dec junk rd s (s\<lparr>w_closed := True, w_main := Returned None\<rparr>)"
| send_on_closed: "\<not> w_panic s \<Longrightarrow> w_recv s \<in> {ReadFailed, DecodeFailed} \<or> w_recv s = Sending m \<Longrightarrow> w_closed s \<Longrightarrow>
    DownlinkNasTransportForConfigurationUpdateCommand dec junk rd s (s\<lparr>w_panic := True\<rparr>)"

abbreviation wait_step :: "ngap_decoder \<Rightarrow> NGAPMsg option \<Rightarrow> byte list option \<Rightarrow> waiting \<Rightarrow> waiting \<Rightarrow> bool" where
  "wait_step \<equiv> DownlinkNasTransportForConfigurationUpdateCommand"

inductive_cases wait_stepE: "wait_step dec junk rd s t"

definition waiting_inv :: "waiting \<Rightarrow> bool" where
  "waiting_inv s \<longleftrightarrow> w_main s \<in> {Selecting, ReceivingAgain, Returned None} \<and>
     (w_main s = ReceivingAgain \<longrightarrow> w_recv s = Finished) \<and> (w_closed s \<longrightarrow> w_main s = Returned None) \<and>
     (w_panic s \<longrightarrow> w_closed s)"

interpretation waits: inductive_invariant "\<lambda>s. s = waiting_start" "wait_step dec junk rd" waiting_inv for dec junk rd
proof unfold_locales
  show "waiting_inv s" if "s = waiting_start" for s using that by (simp add: waiting_inv_def waiting_start_def)
  show "waiting_inv t" if "waiting_inv s" "wait_step dec junk rd s t" for s t
    using that(2,1) by cases (auto simp: waiting_inv_def)
qed

text \<open>
  The message that \<open>DownlinkNasTransportForConfigurationUpdateCommand\<close> waits for never
  reaches its caller: if it returns, it returns nil. When the message arrives in time, the caller
  takes it from the channel, prints that it did and then waits on the same channel again, for
  ever; when the second is over first, the channels are closed and the goroutine that still reads
  panics as soon as it has a message or an error to tell.
\<close>

theorem configuration_update_never_returned:
  assumes "(wait_step dec junk rd)\<^sup>*\<^sup>* waiting_start s"
  shows "(w_main s = Returned m \<longrightarrow> m = None) \<and>
    (w_recv s = Finished \<longrightarrow> w_main s = ReceivingAgain \<and> (\<forall>t. \<not> wait_step dec junk rd s t)) \<and>
    (w_closed s \<and> \<not> w_panic s \<and> (w_recv s \<in> {ReadFailed, DecodeFailed} \<or> (\<exists>m. w_recv s = Sending m)) \<longrightarrow>
      (\<forall>t. wait_step dec junk rd s t \<longrightarrow> w_panic t))"
proof -
  have inv: "waiting_inv s" by (rule waits.inv_reachable [OF refl assms])
  have fin: "w_recv s = Finished \<longrightarrow> w_main s = ReceivingAgain"
    using assms
  proof (induction rule: rtranclp_induct)
    case base
    show ?case by (simp add: waiting_start_def)
  next
    case (step s t)
    then have "waiting_inv s" by (intro waits.inv_reachable [OF refl])
    with step(2,3) show ?case by cases (auto simp: waiting_inv_def split: option.splits if_splits)
  qed
  show ?thesis
  proof (intro conjI impI allI)
    show "m = None" if "w_main s = Returned m" using inv that by (auto simp: waiting_inv_def)
    show "w_main s = ReceivingAgain" if "w_recv s = Finished" using fin that by blast
    show "\<not> wait_step dec junk rd s t" if "w_recv s = Finished" for t
      using fin that by (auto elim: wait_stepE)
    show "w_panic t" if "w_closed s \<and> \<not> w_panic s \<and> (w_recv s \<in> {ReadFailed, DecodeFailed} \<or> (\<exists>m. w_recv s = Sending m))"
      "wait_step dec junk rd s t" for t
      using that(2,1) inv by cases (auto simp: waiting_inv_def)
  qed
qed

definition sample_command :: NGAPMsg where
  "sample_command = \<lparr>msg_Present = PresentInitiatingMessage, msg_ProcedureCode = ProcDownlinkNASTransport, msg_IEs = []\<rparr>"

lemma configuration_update_never_returned_witness:
  "\<exists>s. (wait_step (\<lambda>_. Some (Some sample_command)) None (Some [1]))\<^sup>*\<^sup>* waiting_start s \<and> w_recv s = Finished \<and>
    w_main s = ReceivingAgain \<and> (\<forall>t. \<not> wait_step (\<lambda>_. Some (Some sample_command)) None (Some [1]) s t)"
proof -
  let ?step = "wait_step (\<lambda>_. Some (Some sample_command)) None (Some [1])"
  let ?s1 = "waiting_start\<lparr>w_recv := Decoding [1]\<rparr>" and ?s2 = "waiting_start\<lparr>w_recv := Sending (Some sample_command)\<rparr>"
  let ?s3 = "waiting_start\<lparr>w_recv := Finished, w_main := ReceivingAgain\<rparr>"
  have "?step waiting_start ?s1"
    using read_ok [of waiting_start "Some [1]" "[1]"] by (simp add: waiting_start_def)
  moreover have "?step ?s1 ?s2"
    using decodes [of ?s1 "[1]" "\<lambda>_. Some (Some sample_command)"] by (simp add: waiting_start_def)
  moreover have "?step ?s2 ?s3"
    using message_told [of ?s2] by (simp add: waiting_start_def)
  ultimately have run: "?step\<^sup>*\<^sup>* waiting_start ?s3"
    by (meson rtranclp.rtrancl_into_rtrancl rtranclp.rtrancl_refl)
  from configuration_update_never_returned [OF run] run show ?thesis
    by (intro exI [of _ ?s3]) (simp add: waiting_start_def)
qed

section \<open>The NAS message in an NGAP message\<close>

text \<open>\<open>PlainNasDecode\<close> of the octets; after an error the result is nil.\<close>

definition plain_decode :: "uext \<Rightarrow> byte list \<Rightarrow> NasMessage option" where
  "plain_decode X payload = (case PlainNasDecode X payload of (m, failed) \<Rightarrow> if failed then None else Some m)"

text \<open>The first NAS PDU decides. A nil element is a panic.\<close>

fun GetNasPduFromDownlink :: "uext \<Rightarrow> IE list \<Rightarrow> (NasMessage option) res" where
  "GetNasPduFromDownlink X [] = Ret None"
| "GetNasPduFromDownlink X (IE_NASPDU p # ies) =
     (case p of None \<Rightarrow> Panic NilDeref | Some v \<Rightarrow> Ret (plain_decode X (bytes_or_nil v)))"
| "GetNasPduFromDownlink X (_ # ies) = GetNasPduFromDownlink X ies"

text \<open>The payload container of a DL NAS Transport; a message of another type has a nil pointer there.\<close>

definition accept_payload :: "uext \<Rightarrow> NasMessage \<Rightarrow> (NasMessage option) res" where
  "accept_payload X dlNas =
     (case nm_Gmm dlNas of
        None \<Rightarrow> Panic NilDeref
      | Some g \<Rightarrow>
          (case body_DLNASTransport g of None \<Rightarrow> Panic NilDeref | Some d \<Rightarrow> Ret (GetNasPduFromPduAccept X d)))"

text \<open>
  The first item of the first list that has one, with the seven octets of its security header
  removed; fewer than seven octets are a panic.
\<close>

fun GetNasPduFromDlNas :: "uext \<Rightarrow> IE list \<Rightarrow> (NasMessage option) res" where
  "GetNasPduFromDlNas X [] = Ret None"
| "GetNasPduFromDlNas X (IE_PDUSessionResourceSetupListSUReq p # ies) =
     (case p of
        None \<Rightarrow> Panic NilDeref
      | Some [] \<Rightarrow> GetNasPduFromDlNas X ies
      | Some (item # _) \<Rightarrow>
          (case si_NASPDU item of
             None \<Rightarrow> Panic NilDeref
           | Some v \<Rightarrow>
               let payload = bytes_or_nil v in
               bindR (slice payload 7 (length payload)) (\<lambda>payload. Ret (plain_decode X payload))))"
| "GetNasPduFromDlNas X (_ # ies) = GetNasPduFromDlNas X ies"

text \<open>The elements of a PDU Session Resource Setup Request; another message has a nil pointer there.\<close>

definition setup_request :: "NGAPMsg \<Rightarrow> (IE list) res" where
  "setup_request m =
     (if msg_Present m = PresentInitiatingMessage \<and> msg_ProcedureCode m = ProcPDUSessionResourceSetup
      then Ret (msg_IEs m) else Panic NilDeref)"

definition DecodeNasPduAccept :: "uext \<Rightarrow> NGAPMsg \<Rightarrow> (string + NasMessage) res" where
  "DecodeNasPduAccept X ngapMsg =
     bindR (setup_request ngapMsg) (\<lambda>ies.
     bindR (GetNasPduFromDlNas X ies) (\<lambda>nasPdu.
       case nasPdu of
         None \<Rightarrow> Ret (Inl ''Error in get NasPdu from DL NAS message'')
       | Some m \<Rightarrow>
           bindR (accept_payload X m) (\<lambda>payload.
             case payload of
               None \<Rightarrow> Ret (Inl ''Error in get NasPdu from Pdu Session establishment accept message'')
             | Some p \<Rightarrow> Ret (Inr p))))"

definition GetPduAdress :: "NasMessage \<Rightarrow> (byte list) res" where
  "GetPduAdress m =
     (case nm_Gsm m of
        None \<Rightarrow> Panic NilDeref
      | Some g \<Rightarrow>
          (case body_EstablishmentAccept g of
             None \<Rightarrow> Panic NilDeref
           | Some a \<Rightarrow> (case ea_PDUAddress a of None \<Rightarrow> Panic NilDeref | Some b \<Rightarrow> Ret b)))"

section \<open>The tunnel in an NGAP message\<close>

fun gtp_teid :: "transfer_ie list \<Rightarrow> (byte list option) res" where
  "gtp_teid [] = Ret None"
| "gtp_teid (T_ULNGUUPTNLInformation p # ies) =
     (case p of Some (Some t) \<Rightarrow> Ret (Some (GTPTEID t)) | _ \<Rightarrow> Panic NilDeref)"
| "gtp_teid (_ # ies) = gtp_teid ies"

definition getGtpTeidFromNgUpUpTnlInformation :: "ext \<Rightarrow> byte list \<Rightarrow> (string + byte list option) res" where
  "getGtpTeidFromNgUpUpTnlInformation E payload =
     (case aper_SetupRequestTransfer E payload of
        None \<Rightarrow> Ret (Inl ''aper'')
      | Some ies \<Rightarrow> bindR (gtp_teid ies) (\<lambda>t. Ret (Inr t)))"

fun getResourceSetupTransferFromPDUSessionResourceSetupRequest :: "IE list \<Rightarrow> (byte list option) res" where
  "getResourceSetupTransferFromPDUSessionResourceSetupRequest [] = Ret None"
| "getResourceSetupTransferFromPDUSessionResourceSetupRequest (IE_PDUSessionResourceSetupListSUReq p # ies) =
     (case p of
        None \<Rightarrow> Panic NilDeref
      | Some [] \<Rightarrow> getResourceSetupTransferFromPDUSessionResourceSetupRequest ies
      | Some (item # _) \<Rightarrow> Ret (si_Transfer item))"
| "getResourceSetupTransferFromPDUSessionResourceSetupRequest (_ # ies) =
     getResourceSetupTransferFromPDUSessionResourceSetupRequest ies"

definition GetGtpTeid :: "ext \<Rightarrow> NGAPMsg \<Rightarrow> (string + byte list option) res" where
  "GetGtpTeid E ngap =
     bindR (setup_request ngap) (\<lambda>ies.
     bindR (getResourceSetupTransferFromPDUSessionResourceSetupRequest ies) (\<lambda>r.
       getGtpTeidFromNgUpUpTnlInformation E (bytes_or_nil r)))"

text \<open>
  A NAS PDU too short for a security header panics, and no message of another procedure has an
  address of a session: both helpers end the process on what an AMF may send.
\<close>

lemma short_pdu_panics:
  assumes "length (bytes_or_nil v) < 7" "si_NASPDU item = Some v"
    and "msg_Present m = PresentInitiatingMessage" "msg_ProcedureCode m = ProcPDUSessionResourceSetup"
    and "msg_IEs m = IE_PDUSessionResourceSetupListSUReq (Some (item # items)) # ies"
  shows "DecodeNasPduAccept X m = Panic SliceRange"
  using assms by (simp add: DecodeNasPduAccept_def setup_request_def slice_def Let_def)

text \<open>What the two helpers give for a request with one session, whose transfer has a tunnel.\<close>

lemma GetGtpTeid_one:
  assumes "msg_Present m = PresentInitiatingMessage" "msg_ProcedureCode m = ProcPDUSessionResourceSetup"
    and "msg_IEs m = [IE_AMFUENGAPID a, IE_RANUENGAPID r, IE_PDUSessionResourceSetupListSUReq (Some (item # items))]"
    and "si_Transfer item = Some b" "aper_SetupRequestTransfer E b = Some (T_ULNGUUPTNLInformation (Some (Some t)) # ts)"
  shows "GetGtpTeid E m = Ret (Inr (Some (GTPTEID t)))"
  using assms by (simp add: GetGtpTeid_def setup_request_def getGtpTeidFromNgUpUpTnlInformation_def bytes_or_nil_def)

end
