(* ===== verification/Sctp.thy ===== *)
theory Sctp
  imports GoStd
begin

text \<open>
  The repository's own libraries. The wrapper of the SCTP library
  (\<open>lib/ngap/ngapSctp/sctp.go\<close>): the payload protocol identifier every NGAP message carries, the
  listener, the goroutine that reads an association and hands the NGAP messages on, and the number
  of clients the package keeps. And the octets of a DNN (\<open>lib/util_3gpp/3gpp_type.go\<close>).
\<close>

section \<open>The payload protocol identifier\<close>

text \<open>
  The order of the octets of an integer in memory: the lowest first, or the highest. The
  library copies the memory of the identifier to the packet, whose field has the highest first.
\<close>

definition memory16 :: "bool \<Rightarrow> u16 \<Rightarrow> byte list" where
  "memory16 little w = (let b = [ucast (drop_bit 8 w), ucast w] in if little then rev b else b)"

definition memory32 :: "bool \<Rightarrow> u32 \<Rightarrow> byte list" where
  "memory32 little w = (if little then rev (be32_put w) else be32_put w)"

text \<open>\<open>binary.LittleEndian.Uint32\<close>.\<close>

definition le32_get :: "byte list \<Rightarrow> u32 res" where
  "le32_get bs = (if length bs < 4 then Panic IndexRange else be32_get (rev (take 4 bs)))"

text \<open>The initialisation of the package on a machine with the given order.\<close>

definition NGAP_PPID :: "bool \<Rightarrow> u32 res" where
  "NGAP_PPID little =
     (let buf = memory16 little 0xABCD in
      if buf = [0xCD, 0xAB] then le32_get (be32_put 60)
      else if buf = [0xAB, 0xCD] then Ret 60
      else Ret 60)"

definition ppid :: "bool \<Rightarrow> u32" where
  "ppid little = (if little then 0x3C000000 else 60)"

lemma NGAP_PPID_value: "NGAP_PPID little = Ret (ppid little)"
proof (cases little)
  case True
  have "memory16 True 0xABCD = [0xCD, 0xAB]"
    by code_simp
  moreover have "le32_get (be32_put 60) = Ret 0x3C000000"
    by code_simp
  ultimately show ?thesis using True by (simp add: NGAP_PPID_def ppid_def)
next
  case False
  then show ?thesis by (simp add: NGAP_PPID_def Let_def ppid_def memory16_def)
qed

section \<open>State and environment\<close>

record ConnData =
  remoteAddr :: string
  cd_data :: "byte list option"
  cd_err :: "string option"

definition GetError :: "ConnData \<Rightarrow> string option" where "GetError cd = cd_err cd"
definition GetRAddr :: "ConnData \<Rightarrow> string" where "GetRAddr cd = remoteAddr cd"
definition GetData :: "ConnData \<Rightarrow> byte list option" where "GetData cd = cd_data cd"

text \<open>The parameters a message is sent with; only the identifier is set.\<close>

record SndRcvInfo =
  info_PPID :: u32
  info_Other :: "byte list"

record InitMsg =
  NumOstreams :: u16
  MaxInstreams :: u16
  MaxAttempts :: u16
  MaxInitTimeout :: u16

datatype sctp_event =
    SentParam nat SndRcvInfo
  | Subscribed nat
  | Delivered nat ConnData
  | Wrote nat "byte list"
  | ConnClosed nat
  | ListenerClosed nat

record server =
  clientNum :: int
  sctp_events :: "sctp_event list"

text \<open>
  The library and the kernel. What they answer may depend on everything done so far; an error
  is its text. Reading fills a buffer of the given length: \<open>SCTPRead\<close> gives the error, or the
  octets and the information that came with them, if any.
\<close>

datatype sctp_read = ReadError string | ReadData "byte list" "u32 option"

record sctp_lib =
  ResolveIPAddr :: "string \<Rightarrow> string + byte list"
  ListenSCTPExt :: "byte list list \<Rightarrow> int \<Rightarrow> InitMsg \<Rightarrow> string + nat"
  AcceptSCTP :: "sctp_event list \<Rightarrow> nat \<Rightarrow> string + nat"
  GetDefaultSentParam :: "nat \<Rightarrow> SndRcvInfo option"
  SetDefaultSentParam :: "sctp_event list \<Rightarrow> nat \<Rightarrow> SndRcvInfo \<Rightarrow> string option"
  SubscribeEvents :: "sctp_event list \<Rightarrow> nat \<Rightarrow> string option"
  RemoteAddr :: "sctp_event list \<Rightarrow> nat \<Rightarrow> string option"
  Conn_Write :: "sctp_event list \<Rightarrow> nat \<Rightarrow> byte list \<Rightarrow> string option"
  Listener_Close :: "sctp_event list \<Rightarrow> nat \<Rightarrow> string option"

type_synonym 'a SC = "(server, 'a) comp"

definition event_of :: "sctp_event \<Rightarrow> unit SC" where
  "event_of e = modM (\<lambda>s. s\<lparr>sctp_events := sctp_events s @ [e]\<rparr>)"

section \<open>The listener\<close>

text \<open>
  The addresses of a comma-separated list that can be resolved, in order. After an error of the
  library the listener is nil.
\<close>

fun resolved :: "sctp_lib \<Rightarrow> string list \<Rightarrow> byte list list" where
  "resolved L [] = []"
| "resolved L (i # is) = (case ResolveIPAddr L i of Inr a \<Rightarrow> a # resolved L is | Inl _ \<Rightarrow> resolved L is)"

definition Server :: "sctp_lib \<Rightarrow> string \<Rightarrow> nat option" where
  "Server L addrStr =
     (case ListenSCTPExt L (resolved L (Split (CHR '','') addrStr)) 38412
         \<lparr>NumOstreams = 3, MaxInstreams = 5, MaxAttempts = 4, MaxInitTimeout = 8\<rparr> of
        Inl _ \<Rightarrow> None | Inr ln \<Rightarrow> Some ln)"

text \<open>
  A new association: the identifier is set in what its messages are sent with, and it is
  counted. On an error nothing is counted, and nothing closes the association.
\<close>

definition Accept :: "sctp_lib \<Rightarrow> bool \<Rightarrow> nat \<Rightarrow> (string + nat) SC" where
  "Accept L little ln =
     bindM (getsM (\<lambda>s. AcceptSCTP L (sctp_events s) ln)) (\<lambda>r.
       case r of
         Inl e \<Rightarrow> retM (Inl e)
       | Inr c \<Rightarrow>
           bindM (derefM (GetDefaultSentParam L c)) (\<lambda>info.
           bindM (liftR (NGAP_PPID little)) (\<lambda>p.
             let info' = info\<lparr>info_PPID := p\<rparr> in
             bindM (getsM (\<lambda>s. SetDefaultSentParam L (sctp_events s) c info')) (\<lambda>err.
               case err of
                 Some e \<Rightarrow> retM (Inl e)
               | None \<Rightarrow>
                   thenM (event_of (SentParam c info'))
                   (bindM (getsM (\<lambda>s. SubscribeEvents L (sctp_events s) c)) (\<lambda>err.
                      case err of
                        Some e \<Rightarrow> retM (Inl e)
                      | None \<Rightarrow>
                          thenM (event_of (Subscribed c))
                          (thenM (modM (\<lambda>s. s\<lparr>clientNum := clientNum s + 1\<rparr>)) (retM (Inr c)))))))))"

section \<open>An association\<close>

text \<open>The error of closing is dropped.\<close>

definition closeConnection :: "nat \<Rightarrow> unit SC" where
  "closeConnection c =
     thenM (event_of (ConnClosed c)) (modM (\<lambda>s. s\<lparr>clientNum := clientNum s - 1\<rparr>))"

text \<open>
  The reading goroutine over what the association gives in turn; when there is nothing more, it
  waits. The buffer has 8192 octets, of which a read fills the first. Whoever listens to the
  channel takes every message.
\<close>

definition read_into :: "byte list \<Rightarrow> byte list \<Rightarrow> byte list" where
  "read_into buffer bs = take (length buffer) bs @ drop (length bs) buffer"

definition read_buffer :: "byte list" where
  "read_buffer = replicate 8192 0"

fun read_loop :: "bool \<Rightarrow> nat \<Rightarrow> string \<Rightarrow> sctp_read list \<Rightarrow> unit SC" where
  "read_loop little c raddr [] = hangM"
| "read_loop little c raddr (r # rs) =
     (let buffer = read_buffer in
      case r of
        ReadError e \<Rightarrow> event_of (Delivered c \<lparr>remoteAddr = raddr, cd_data = None, cd_err = Some e\<rparr>)
      | ReadData bs info \<Rightarrow>
          bindM (liftR (NGAP_PPID little)) (\<lambda>p.
            if info \<noteq> Some p then read_loop little c raddr rs
            else
              bindM (liftR (slice (read_into buffer bs) 0 (min (length buffer) (length bs)))) (\<lambda>d.
                thenM (event_of (Delivered c \<lparr>remoteAddr = raddr, cd_data = Some d, cd_err = None\<rparr>))
                  (read_loop little c raddr rs))))"

definition Start :: "sctp_lib \<Rightarrow> bool \<Rightarrow> nat \<Rightarrow> sctp_read list \<Rightarrow> unit SC" where
  "Start L little c reads =
     bindM (getsM (\<lambda>s. RemoteAddr L (sctp_events s) c)) (\<lambda>raddr.
       thenM (case raddr of None \<Rightarrow> skipM | Some a \<Rightarrow> read_loop little c a reads)
         (closeConnection c))"

definition SendMsg :: "sctp_lib \<Rightarrow> nat \<Rightarrow> byte list \<Rightarrow> (string option) SC" where
  "SendMsg L c msg =
     bindM (getsM (\<lambda>s. RemoteAddr L (sctp_events s) c)) (\<lambda>a.
       if a = None then retM (Some ''Connection no Remote Address'')
       else
         bindM (getsM (\<lambda>s. Conn_Write L (sctp_events s) c msg)) (\<lambda>err.
           case err of
             Some e \<Rightarrow> retM (Some e)
           | None \<Rightarrow> thenM (event_of (Wrote c msg)) (retM None)))"

definition Destroy :: "sctp_lib \<Rightarrow> nat \<Rightarrow> (string option) SC" where
  "Destroy L ln =
     bindM (getsM (\<lambda>s. Listener_Close L (sctp_events s) ln)) (\<lambda>err.
       thenM (event_of (ListenerClosed ln)) (retM err))"

section \<open>What the wrapper promises\<close>

text \<open>The messages an association delivers: those with the NGAP identifier, and then an error.\<close>

fun deliveries :: "bool \<Rightarrow> string \<Rightarrow> sctp_read list \<Rightarrow> ConnData list" where
  "deliveries little raddr [] = []"
| "deliveries little raddr (ReadError e # rs) = [\<lparr>remoteAddr = raddr, cd_data = None, cd_err = Some e\<rparr>]"
| "deliveries little raddr (ReadData bs info # rs) =
     (if info = Some (ppid little)
      then \<lparr>remoteAddr = raddr, cd_data = Some (take 8192 bs), cd_err = None\<rparr> # deliveries little raddr rs
      else deliveries little raddr rs)"

fun read_fails :: "sctp_read list \<Rightarrow> bool" where
  "read_fails [] = False"
| "read_fails (ReadError e # rs) = True"
| "read_fails (ReadData bs info # rs) = read_fails rs"

lemma buffer_slice:
  "slice (read_into b bs) 0 (min (length b) (length bs)) = Ret (take (length b) bs)"
  by (cases "length b \<le> length bs") (simp_all add: slice_def read_into_def)

lemma length_read_buffer [simp]: "length read_buffer = 8192"
  unfolding read_buffer_def by (rule length_replicate)

lemma read_loop_run:
  "read_loop little c a rs s =
     (if read_fails rs
      then Ret ((), s\<lparr>sctp_events := sctp_events s @ map (Delivered c) (deliveries little a rs)\<rparr>)
      else Hang)"
proof (induction rs arbitrary: s)
  case Nil
  show ?case by simp
next
  case (Cons r rs)
  show ?case
    by (cases r) (simp_all add: run_simps event_of_def NGAP_PPID_value Cons.IH Let_def buffer_slice [of read_buffer, simplified])
qed

section \<open>The clients of the server\<close>

text \<open>
  The server with the associations that \<open>Accept\<close> returned and whose goroutine still reads.
\<close>

inductive server_step :: "sctp_lib \<Rightarrow> bool \<Rightarrow> server \<times> nat list \<Rightarrow> server \<times> nat list \<Rightarrow> bool"
  for L little where
  accepted: "Accept L little ln s = Ret (Inr c, s') \<Longrightarrow> server_step L little (s, cs) (s', c # cs)"
| refused: "Accept L little ln s = Ret (Inl e, s') \<Longrightarrow> server_step L little (s, cs) (s', cs)"
| reading_ends: "c \<in> set cs \<Longrightarrow> Start L little c rs s = Ret ((), s') \<Longrightarrow>
    server_step L little (s, cs) (s', remove1 c cs)"
| sends: "c \<in> set cs \<Longrightarrow> SendMsg L c msg s = Ret (r, s') \<Longrightarrow> server_step L little (s, cs) (s', cs)"
| destroyed: "Destroy L ln s = Ret (r, s') \<Longrightarrow> server_step L little (s, cs) (s', cs)"

definition server_start :: "server \<times> nat list \<Rightarrow> bool" where
  "server_start x \<longleftrightarrow> x = (\<lparr>clientNum = 0, sctp_events = []\<rparr>, [])"

definition sent_with :: "sctp_event \<Rightarrow> u32 option" where
  "sent_with e = (case e of SentParam c info \<Rightarrow> Some (info_PPID info) | _ \<Rightarrow> None)"

definition server_inv :: "bool \<Rightarrow> server \<times> nat list \<Rightarrow> bool" where
  "server_inv little x \<longleftrightarrow>
     clientNum (fst x) = int (length (snd x)) \<and>
     (\<forall>e \<in> set (sctp_events (fst x)). sent_with e \<in> {None, Some (ppid little)})"

lemma sent_with_simps [simp]:
  "sent_with (SentParam c info) = Some (info_PPID info)" "sent_with (Subscribed c) = None"
  "sent_with (Delivered c d) = None" "sent_with (Wrote c m) = None" "sent_with (ConnClosed c) = None"
  "sent_with (ListenerClosed c) = None"
  by (simp_all add: sent_with_def)

lemma Accept_inv:
  assumes "Accept L little ln s = Ret (r, s')" "server_inv little (s, cs)"
  shows "server_inv little (s', case r of Inl e \<Rightarrow> cs | Inr c \<Rightarrow> c # cs)"
  using assms
  by (cases "AcceptSCTP L (sctp_events s) ln")
    (auto simp: Accept_def run_simps NGAP_PPID_value Let_def event_of_def derefM_def server_inv_def
      split: option.splits sum.splits)

lemma Start_inv:
  assumes "Start L little c rs s = Ret ((), s')" "server_inv little (s, cs)" "c \<in> set cs"
  shows "server_inv little (s', remove1 c cs)"
proof -
  have "int (length cs - Suc 0) = int (length cs) - 1" using assms(3) by (cases cs) auto
  then show ?thesis
    using assms
    by (auto simp: Start_def run_simps read_loop_run closeConnection_def event_of_def server_inv_def
        length_remove1 split: option.splits if_splits)
qed

interpretation clients: inductive_invariant server_start "server_step L little" "server_inv little" for L little
proof unfold_locales
  show "server_inv little x" if "server_start x" for x
    using that by (simp add: server_start_def server_inv_def)
next
  show "server_inv little y" if "server_inv little x" "server_step L little x y" for x y
    using that(2,1)
  proof cases
    case (accepted ln s c s' cs)
    with that(1) show ?thesis using Accept_inv [of L little ln s "Inr c" s' cs] by simp
  next
    case (refused ln s e s' cs)
    with that(1) show ?thesis using Accept_inv [of L little ln s "Inl e" s' cs] by simp
  next
    case (reading_ends c cs rs s s')
    with that(1) show ?thesis using Start_inv by simp
  next
    case (sends c cs msg s r s')
    with that(1) show ?thesis
      by (auto simp: SendMsg_def run_simps event_of_def server_inv_def split: if_splits option.splits)
  next
    case (destroyed ln s r s' cs)
    with that(1) show ?thesis by (auto simp: Destroy_def run_simps event_of_def server_inv_def)
  qed
qed

lemma clients_counted:
  assumes "server_start x" "(server_step L little)\<^sup>*\<^sup>* x (s, cs)"
  shows "clientNum s = int (length cs)"
  using clients.inv_reachable [OF assms] by (simp add: server_inv_def)

text \<open>
  An association whose parameters cannot be set is accepted by the kernel and then forgotten:
  it is not returned, not counted and not closed.
\<close>

lemma failed_accept_leaks:
  assumes "AcceptSCTP L (sctp_events s) ln = Inr c" "GetDefaultSentParam L c = Some info"
    and "SetDefaultSentParam L (sctp_events s) c (info\<lparr>info_PPID := ppid little\<rparr>) = Some e"
  shows "Accept L little ln s = Ret (Inl e, s)"
  using assms by (simp add: Accept_def run_simps NGAP_PPID_value Let_def)

text \<open>
  C31: What the goroutine of an association delivers is exactly the messages that carry the NGAP
  identifier, in the order read and each cut at the buffer's length, and then the error that ends
  it; the association is then closed and no longer counted. It never delivers a message with
  another identifier and never ends without an error.
\<close>

theorem Start_delivers:
  "Start L little c rs s =
     (case RemoteAddr L (sctp_events s) c of
        None \<Rightarrow> Ret ((), s\<lparr>clientNum := clientNum s - 1, sctp_events := sctp_events s @ [ConnClosed c]\<rparr>)
      | Some a \<Rightarrow>
          if read_fails rs
          then Ret ((), s\<lparr>clientNum := clientNum s - 1,
            sctp_events := sctp_events s @ map (Delivered c) (deliveries little a rs) @ [ConnClosed c]\<rparr>)
          else Hang)"
  by (simp add: Start_def run_simps read_loop_run closeConnection_def event_of_def split: option.split)

text \<open>
  Whatever the order of the octets in memory, the identifier the package computes lies in
  memory as the packet needs it: 60, the highest octet first.
\<close>

theorem ppid_on_the_wire:
  "bindR (NGAP_PPID little) (\<lambda>p. Ret (memory32 little p)) = Ret [0, 0, 0, 60]"
  by (cases little) (simp_all add: NGAP_PPID_value ppid_def memory32_def be32_put_def)

section \<open>The octets of a DNN\<close>

definition Dnn_MarshalBinary :: "byte list \<Rightarrow> byte list" where
  "Dnn_MarshalBinary d = of_nat (length d) # d"

definition Dnn_UnmarshalBinary :: "byte list \<Rightarrow> byte list res" where
  "Dnn_UnmarshalBinary data = slice data 1 (length data)"

text \<open>The length octet is ignored, so a DNN of any length is recovered; without octets it panics.\<close>

lemma Dnn_roundtrip: "Dnn_UnmarshalBinary (Dnn_MarshalBinary d) = Ret d"
  by (simp add: Dnn_UnmarshalBinary_def Dnn_MarshalBinary_def slice_def)

lemma Dnn_UnmarshalBinary_empty: "Dnn_UnmarshalBinary [] = Panic SliceRange"
  by (simp add: Dnn_UnmarshalBinary_def slice_def)

end
