(* ===== verification/Causes.thy ===== *)
theory Causes
  imports NgapTypes
begin

text \<open>
  The texts in which the program reports the causes it receives: NGAP causes
  (\<open>gnb/ngap/handler.go\<close>), 5GMM causes (\<open>ue/nas/dispatcher.go\<close>) and 5GSM causes
  (\<open>ue/nas/handler/handler.go\<close>). The constants of the NAS library are constructors; which octet
  is which constant is a parameter.
\<close>

section \<open>NGAP causes\<close>

primrec causeRadioNetworkToString :: "CauseRadioNetwork \<Rightarrow> string" where
  "causeRadioNetworkToString RN_Unspecified = ''Unspecified cause for radio network''"
| "causeRadioNetworkToString RN_TxnrelocoverallExpiry = ''Transfer the overall timeout of radio resources during handover''"
| "causeRadioNetworkToString RN_SuccessfulHandover = ''Successful handover''"
| "causeRadioNetworkToString RN_ReleaseDueToNgranGeneratedReason = ''Release due to NG-RAN generated reason''"
| "causeRadioNetworkToString RN_ReleaseDueTo5gcGeneratedReason = ''Release due to 5GC generated reason''"
| "causeRadioNetworkToString RN_HandoverCancelled = ''Handover cancelled''"
| "causeRadioNetworkToString RN_PartialHandover = ''Partial handover''"
| "causeRadioNetworkToString RN_HoFailureInTarget5GCNgranNodeOrTargetSystem = ''Handover failure in target 5GC NG-RAN node or target system''"
| "causeRadioNetworkToString RN_HoTargetNotAllowed = ''Handover target not allowed''"
| "causeRadioNetworkToString RN_TngrelocoverallExpiry = ''Transfer the overall timeout of radio resources during target NG-RAN relocation''"
| "causeRadioNetworkToString RN_TngrelocprepExpiry = ''Transfer the preparation timeout of radio resources during target NG-RAN relocation''"
| "causeRadioNetworkToString RN_CellNotAvailable = ''Cell not available''"
| "causeRadioNetworkToString RN_UnknownTargetID = ''Unknown target ID''"
| "causeRadioNetworkToString RN_NoRadioResourcesAvailableInTargetCell = ''No radio resources available in the target cell''"
| "causeRadioNetworkToString RN_UnknownLocalUENGAPID = ''Unknown local UE NGAP ID''"
| "causeRadioNetworkToString RN_InconsistentRemoteUENGAPID = ''Inconsistent remote UE NGAP ID''"
| "causeRadioNetworkToString RN_HandoverDesirableForRadioReason = ''Handover desirable for radio reason''"
| "causeRadioNetworkToString RN_TimeCriticalHandover = ''Time-critical handover''"
| "causeRadioNetworkToString RN_ResourceOptimisationHandover = ''Resource optimization handover''"
| "causeRadioNetworkToString RN_ReduceLoadInServingCell = ''Reduce load in serving cell''"
| "causeRadioNetworkToString RN_UserInactivity = ''User inactivity''"
| "causeRadioNetworkToString RN_RadioConnectionWithUeLost = ''Radio connection with UE lost''"
| "causeRadioNetworkToString RN_RadioResourcesNotAvailable = ''Radio resources not available''"
| "causeRadioNetworkToString RN_InvalidQosCombination = ''Invalid QoS combination''"
| "causeRadioNetworkToString RN_FailureInRadioInterfaceProcedure = ''Failure in radio interface procedure''"
| "causeRadioNetworkToString RN_InteractionWithOtherProcedure = ''Interaction with other procedure''"
| "causeRadioNetworkToString RN_UnknownPDUSessionID = ''Unknown PDU session ID''"
| "causeRadioNetworkToString RN_UnkownQosFlowID = ''Unknown QoS flow ID''"
| "causeRadioNetworkToString RN_MultiplePDUSessionIDInstances = ''Multiple PDU session ID instances''"
| "causeRadioNetworkToString RN_MultipleQosFlowIDInstances = ''Multiple QoS flow ID instances''"
| "causeRadioNetworkToString RN_EncryptionAndOrIntegrityProtectionAlgorithmsNotSupported = ''Encryption and/or integrity protection algorithms not supported''"
| "causeRadioNetworkToString RN_NgIntraSystemHandoverTriggered = ''NG intra-system handover triggered''"
| "causeRadioNetworkToString RN_NgInterSystemHandoverTriggered = ''NG inter-system handover triggered''"
| "causeRadioNetworkToString RN_XnHandoverTriggered = ''Xn handover triggered''"
| "causeRadioNetworkToString RN_NotSupported5QIValue = ''Not supported 5QI value''"
| "causeRadioNetworkToString RN_UeContextTransfer = ''UE context transfer''"
| "causeRadioNetworkToString RN_ImsVoiceEpsFallbackOrRatFallbackTriggered = ''IMS voice EPS fallback or RAT fallback triggered''"
| "causeRadioNetworkToString RN_UpIntegrityProtectionNotPossible = ''UP integrity protection not possible''"
| "causeRadioNetworkToString RN_UpConfidentialityProtectionNotPossible = ''UP confidentiality protection not possible''"
| "causeRadioNetworkToString RN_SliceNotSupported = ''Slice not supported''"
| "causeRadioNetworkToString RN_UeInRrcInactiveStateNotReachable = ''UE in RRC inactive state not reachable''"
| "causeRadioNetworkToString RN_Redirection = ''Redirection''"
| "causeRadioNetworkToString RN_ResourcesNotAvailableForTheSlice = ''Resources not available for the slice''"
| "causeRadioNetworkToString RN_UeMaxIntegrityProtectedDataRateReason = ''UE maximum integrity protected data rate reason''"
| "causeRadioNetworkToString RN_ReleaseDueToCnDetectedMobility = ''Release due to CN detected mobility''"
| "causeRadioNetworkToString (RN_Other i) = ''Unknown cause for radio network''"

primrec causeTransportToString :: "CauseTransport \<Rightarrow> string" where
  "causeTransportToString TR_TransportResourceUnavailable = ''Transport resource unavailable''"
| "causeTransportToString TR_Unspecified = ''Unspecified cause for transport''"
| "causeTransportToString (TR_Other i) = ''Unknown cause for transport''"

primrec causeNasToString :: "CauseNas \<Rightarrow> string" where
  "causeNasToString NAS_NormalRelease = ''Normal release''"
| "causeNasToString NAS_AuthenticationFailure = ''Authentication failure''"
| "causeNasToString NAS_Deregister = ''Deregister''"
| "causeNasToString NAS_Unspecified = ''Unspecified cause for NAS''"
| "causeNasToString (NAS_Other i) = ''Unknown cause for NAS''"

primrec causeProtocolToString :: "CauseProtocol \<Rightarrow> string" where
  "causeProtocolToString PR_TransferSyntaxError = ''Transfer syntax error''"
| "causeProtocolToString PR_AbstractSyntaxErrorReject = ''Abstract syntax error - Reject''"
| "causeProtocolToString PR_AbstractSyntaxErrorIgnoreAndNotify = ''Abstract syntax error - Ignore and notify''"
| "causeProtocolToString PR_MessageNotCompatibleWithReceiverState = ''Message not compatible with receiver state''"
| "causeProtocolToString PR_SemanticError = ''Semantic error''"
| "causeProtocolToString PR_AbstractSyntaxErrorFalselyConstructedMessage = ''Abstract syntax error - Falsely constructed message''"
| "causeProtocolToString PR_Unspecified = ''Unspecified cause for protocol''"
| "causeProtocolToString (PR_Other i) = ''Unknown cause for protocol''"

primrec causeMiscToString :: "CauseMisc \<Rightarrow> string" where
  "causeMiscToString MI_ControlProcessingOverload = ''Control processing overload''"
| "causeMiscToString MI_NotEnoughUserPlaneProcessingResources = ''Not enough user plane processing resources''"
| "causeMiscToString MI_HardwareFailure = ''Hardware failure''"
| "causeMiscToString MI_OmIntervention = ''OM (Operations and Maintenance) intervention''"
| "causeMiscToString MI_UnknownPLMN = ''Unknown PLMN (Public Land Mobile Network)''"
| "causeMiscToString MI_Unspecified = ''Unspecified cause for miscellaneous''"
| "causeMiscToString (MI_Other i) = ''Unknown cause for miscellaneous''"

definition causeToString :: "Cause option \<Rightarrow> string" where
  "causeToString cause =
     (case cause of
        Some (RadioNetwork c) \<Rightarrow> ''radioNetwork: '' @ causeRadioNetworkToString c
      | Some (Transport c) \<Rightarrow> ''transport: '' @ causeTransportToString c
      | Some (NasCause c) \<Rightarrow> ''nas: '' @ causeNasToString c
      | Some (Protocol c) \<Rightarrow> ''protocol: '' @ causeProtocolToString c
      | Some (Misc c) \<Rightarrow> ''misc: '' @ causeMiscToString c
      | _ \<Rightarrow> ''Cause not found'')"

section \<open>NAS causes\<close>

datatype Cause5GMM =
    GMM_IllegalUE | GMM_PEINotAccepted | GMM_IllegalME | GMM_5GSServicesNotAllowed
  | GMM_UEIdentityCannotBeDerivedByTheNetwork | GMM_ImplicitlyDeregistered | GMM_PLMNNotAllowed
  | GMM_TrackingAreaNotAllowed | GMM_RoamingNotAllowedInThisTrackingArea
  | GMM_NoSuitableCellsInTrackingArea | GMM_MACFailure | GMM_SynchFailure | GMM_Congestion
  | GMM_UESecurityCapabilitiesMismatch | GMM_SecurityModeRejectedUnspecified
  | GMM_Non5GAuthenticationUnacceptable | GMM_N1ModeNotAllowed | GMM_RestrictedServiceArea
  | GMM_LADNNotAvailable | GMM_MaximumNumberOfPDUSessionsReached
  | GMM_InsufficientResourcesForSpecificSliceAndDNN | GMM_InsufficientResourcesForSpecificSlice
  | GMM_ngKSIAlreadyInUse | GMM_Non3GPPAccessTo5GCNNotAllowed | GMM_ServingNetworkNotAuthorized
  | GMM_PayloadWasNotForwarded | GMM_DNNNotSupportedOrNotSubscribedInTheSlice
  | GMM_InsufficientUserPlaneResourcesForThePDUSession | GMM_SemanticallyIncorrectMessage
  | GMM_InvalidMandatoryInformation | GMM_MessageTypeNonExistentOrNotImplemented
  | GMM_MessageTypeNotCompatibleWithTheProtocolState
  | GMM_InformationElementNonExistentOrNotImplemented | GMM_ConditionalIEError
  | GMM_MessageNotCompatibleWithTheProtocolState | GMM_ProtocolErrorUnspecified | GMM_Other

primrec text_5gmm :: "Cause5GMM \<Rightarrow> string" where
  "text_5gmm GMM_IllegalUE = ''Illegal UE''"
| "text_5gmm GMM_PEINotAccepted = ''PEI not accepted''"
| "text_5gmm GMM_IllegalME = ''5GS services not allowed''"
| "text_5gmm GMM_5GSServicesNotAllowed = ''5GS services not allowed''"
| "text_5gmm GMM_UEIdentityCannotBeDerivedByTheNetwork = ''UE identity cannot be derived by the network''"
| "text_5gmm GMM_ImplicitlyDeregistered = ''Implicitly de-registered''"
| "text_5gmm GMM_PLMNNotAllowed = ''PLMN not allowed''"
| "text_5gmm GMM_TrackingAreaNotAllowed = ''Tracking area not allowed''"
| "text_5gmm GMM_RoamingNotAllowedInThisTrackingArea = ''Roaming not allowed in this tracking area''"
| "text_5gmm GMM_NoSuitableCellsInTrackingArea = ''No suitable cells in tracking area''"
| "text_5gmm GMM_MACFailure = ''MAC failure''"
| "text_5gmm GMM_SynchFailure = ''Synch failure''"
| "text_5gmm GMM_Congestion = ''Congestion''"
| "text_5gmm GMM_UESecurityCapabilitiesMismatch = ''UE security capabilities mismatch''"
| "text_5gmm GMM_SecurityModeRejectedUnspecified = ''Security mode rejected, unspecified''"
| "text_5gmm GMM_Non5GAuthenticationUnacceptable = ''Non-5G authentication unacceptable''"
| "text_5gmm GMM_N1ModeNotAllowed = ''N1 mode not allowed''"
| "text_5gmm GMM_RestrictedServiceArea = ''Restricted service area''"
| "text_5gmm GMM_LADNNotAvailable = ''LADN not available''"
| "text_5gmm GMM_MaximumNumberOfPDUSessionsReached = ''Maximum number of PDU sessions reached''"
| "text_5gmm GMM_InsufficientResourcesForSpecificSliceAndDNN = ''Insufficient resources for specific slice and DNN''"
| "text_5gmm GMM_InsufficientResourcesForSpecificSlice = ''Insufficient resources for specific slice''"
| "text_5gmm GMM_ngKSIAlreadyInUse = ''ngKSI already in use''"
| "text_5gmm GMM_Non3GPPAccessTo5GCNNotAllowed = ''Non-3GPP access to 5GCN not allowed''"
| "text_5gmm GMM_ServingNetworkNotAuthorized = ''Serving network not authorized''"
| "text_5gmm GMM_PayloadWasNotForwarded = ''Payload was not forwarded''"
| "text_5gmm GMM_DNNNotSupportedOrNotSubscribedInTheSlice = ''DNN not supported or not subscribed in the slice''"
| "text_5gmm GMM_InsufficientUserPlaneResourcesForThePDUSession = ''Insufficient user-plane resources for the PDU session''"
| "text_5gmm GMM_SemanticallyIncorrectMessage = ''Semantically incorrect message''"
| "text_5gmm GMM_InvalidMandatoryInformation = ''Invalid mandatory information''"
| "text_5gmm GMM_MessageTypeNonExistentOrNotImplemented = ''Message type non-existent or not implementedE''"
| "text_5gmm GMM_MessageTypeNotCompatibleWithTheProtocolState = ''Message type not compatible with the protocol state''"
| "text_5gmm GMM_InformationElementNonExistentOrNotImplemented = ''Information element non-existent or not implemented''"
| "text_5gmm GMM_ConditionalIEError = ''Conditional IE error''"
| "text_5gmm GMM_MessageNotCompatibleWithTheProtocolState = ''Message not compatible with the protocol state''"
| "text_5gmm GMM_ProtocolErrorUnspecified = ''Protocol error, unspecified. Please share the pcap with packetrusher@hpe.com.''"
| "text_5gmm GMM_Other = ''Protocol error, unspecified. Please share the pcap with packetrusher@hpe.com.''"

datatype Cause5GSM =
    GSM_InsufficientResources | GSM_MissingOrUnknownDNN | GSM_UnknownPDUSessionType
  | GSM_UserAuthenticationOrAuthorizationFailed | GSM_RequestRejectedUnspecified
  | GSM_ServiceOptionTemporarilyOutOfOrder | GSM_PTIAlreadyInUse | GSM_RegularDeactivation
  | GSM_ReactivationRequested | GSM_InvalidPDUSessionIdentity | GSM_SemanticErrorsInPacketFilter
  | GSM_SyntacticalErrorInPacketFilter | GSM_OutOfLADNServiceArea | GSM_PTIMismatch
  | GSM_PDUSessionTypeIPv4OnlyAllowed | GSM_PDUSessionTypeIPv6OnlyAllowed
  | GSM_PDUSessionDoesNotExist | GSM_InsufficientResourcesForSpecificSliceAndDNN
  | GSM_NotSupportedSSCMode | GSM_InsufficientResourcesForSpecificSlice
  | GSM_MissingOrUnknownDNNInASlice | GSM_InvalidPTIValue
  | GSM_MaximumDataRatePerUEForUserPlaneIntegrityProtectionIsTooLow
  | GSM_SemanticErrorInTheQoSOperation | GSM_SyntacticalErrorInTheQoSOperation
  | GSM_InvalidMappedEPSBearerIdentity | GSM_SemanticallyIncorrectMessage
  | GSM_InvalidMandatoryInformation | GSM_MessageTypeNonExistentOrNotImplemented
  | GSM_MessageTypeNotCompatibleWithTheProtocolState
  | GSM_InformationElementNonExistentOrNotImplemented | GSM_ConditionalIEError
  | GSM_MessageNotCompatibleWithTheProtocolState | GSM_ProtocolErrorUnspecified | GSM_Other

primrec text_5gsm :: "Cause5GSM \<Rightarrow> string" where
  "text_5gsm GSM_InsufficientResources = ''Insufficient Ressources''"
| "text_5gsm GSM_MissingOrUnknownDNN = ''Missing or Unknown DNN''"
| "text_5gsm GSM_UnknownPDUSessionType = ''Unknown PDU Session Type''"
| "text_5gsm GSM_UserAuthenticationOrAuthorizationFailed = ''User authentification or authorization failed''"
| "text_5gsm GSM_RequestRejectedUnspecified = ''Request rejected, unspecified''"
| "text_5gsm GSM_ServiceOptionTemporarilyOutOfOrder = ''Service option temporarily out of order.''"
| "text_5gsm GSM_PTIAlreadyInUse = ''PTI already in use''"
| "text_5gsm GSM_RegularDeactivation = ''Regular deactivation''"
| "text_5gsm GSM_ReactivationRequested = ''Reactivation requested''"
| "text_5gsm GSM_InvalidPDUSessionIdentity = ''Invalid PDU session identity''"
| "text_5gsm GSM_SemanticErrorsInPacketFilter = ''Semantic errors in packet filter(s)''"
| "text_5gsm GSM_SyntacticalErrorInPacketFilter = ''Syntactical error in packet filter(s)''"
| "text_5gsm GSM_OutOfLADNServiceArea = ''Out of LADN service area''"
| "text_5gsm GSM_PTIMismatch = ''PTI mismatch''"
| "text_5gsm GSM_PDUSessionTypeIPv4OnlyAllowed = ''PDU session type IPv4 only allowed''"
| "text_5gsm GSM_PDUSessionTypeIPv6OnlyAllowed = ''PDU session type IPv6 only allowed''"
| "text_5gsm GSM_PDUSessionDoesNotExist = ''PDU session does not exist''"
| "text_5gsm GSM_InsufficientResourcesForSpecificSliceAndDNN = ''Insufficient resources for specific slice and DNN''"
| "text_5gsm GSM_NotSupportedSSCMode = ''Not supported SSC mode''"
| "text_5gsm GSM_InsufficientResourcesForSpecificSlice = ''Insufficient resources for specific slice''"
| "text_5gsm GSM_MissingOrUnknownDNNInASlice = ''Missing or unknown DNN in a slice''"
| "text_5gsm GSM_InvalidPTIValue = ''Invalid PTI value''"
| "text_5gsm GSM_MaximumDataRatePerUEForUserPlaneIntegrityProtectionIsTooLow = ''Maximum data rate per UE for user-plane integrity protection is too low''"
| "text_5gsm GSM_SemanticErrorInTheQoSOperation = ''Semantic error in the QoS operation''"
| "text_5gsm GSM_SyntacticalErrorInTheQoSOperation = ''Syntactical error in the QoS operation''"
| "text_5gsm GSM_InvalidMappedEPSBearerIdentity = ''Invalid mapped EPS bearer identity''"
| "text_5gsm GSM_SemanticallyIncorrectMessage = ''Semantically incorrect message''"
| "text_5gsm GSM_InvalidMandatoryInformation = ''Invalid mandatory information''"
| "text_5gsm GSM_MessageTypeNonExistentOrNotImplemented = ''Message type non-existent or not implemented''"
| "text_5gsm GSM_MessageTypeNotCompatibleWithTheProtocolState = ''Message type not compatible with the protocol state''"
| "text_5gsm GSM_InformationElementNonExistentOrNotImplemented = ''Information element non-existent or not implemented''"
| "text_5gsm GSM_ConditionalIEError = ''Conditional IE error''"
| "text_5gsm GSM_MessageNotCompatibleWithTheProtocolState = ''Message not compatible with the protocol state''"
| "text_5gsm GSM_ProtocolErrorUnspecified = ''Protocol error, unspecified. Please open an issue on Github with pcap.''"
| "text_5gsm GSM_Other = ''Service option temporarily out of order.''"

definition cause5GMMToString :: "(byte \<Rightarrow> Cause5GMM) \<Rightarrow> byte \<Rightarrow> string" where
  "cause5GMMToString gmm octet = text_5gmm (gmm octet)"

definition cause5GSMToString :: "(byte \<Rightarrow> Cause5GSM) \<Rightarrow> byte \<Rightarrow> string" where
  "cause5GSMToString gsm octet = text_5gsm (gsm octet)"

text \<open>The log lines of the two status messages; nothing is logged for a nil pointer.\<close>

definition handleCause5GSM :: "(byte \<Rightarrow> Cause5GMM) \<Rightarrow> byte option \<Rightarrow> string option" where
  "handleCause5GSM gmm = map_option (\<lambda>octet. ''[UE][NAS] UE received a 5GSM Failure, cause: '' @ cause5GMMToString gmm octet)"

definition handleCause5GMM :: "(byte \<Rightarrow> Cause5GMM) \<Rightarrow> byte option \<Rightarrow> string option" where
  "handleCause5GMM gmm = map_option (\<lambda>octet. ''[UE][NAS] UE received a 5GMM Failure, cause: '' @ cause5GMMToString gmm octet)"

section \<open>What the texts tell\<close>

definition known_gmm :: "Cause5GMM list" where
  "known_gmm = [GMM_IllegalUE, GMM_PEINotAccepted, GMM_IllegalME, GMM_5GSServicesNotAllowed,
     GMM_UEIdentityCannotBeDerivedByTheNetwork, GMM_ImplicitlyDeregistered, GMM_PLMNNotAllowed,
     GMM_TrackingAreaNotAllowed, GMM_RoamingNotAllowedInThisTrackingArea,
     GMM_NoSuitableCellsInTrackingArea, GMM_MACFailure, GMM_SynchFailure, GMM_Congestion,
     GMM_UESecurityCapabilitiesMismatch, GMM_SecurityModeRejectedUnspecified,
     GMM_Non5GAuthenticationUnacceptable, GMM_N1ModeNotAllowed, GMM_RestrictedServiceArea,
     GMM_LADNNotAvailable, GMM_MaximumNumberOfPDUSessionsReached,
     GMM_InsufficientResourcesForSpecificSliceAndDNN, GMM_InsufficientResourcesForSpecificSlice,
     GMM_ngKSIAlreadyInUse, GMM_Non3GPPAccessTo5GCNNotAllowed, GMM_ServingNetworkNotAuthorized,
     GMM_PayloadWasNotForwarded, GMM_DNNNotSupportedOrNotSubscribedInTheSlice,
     GMM_InsufficientUserPlaneResourcesForThePDUSession, GMM_SemanticallyIncorrectMessage,
     GMM_InvalidMandatoryInformation, GMM_MessageTypeNonExistentOrNotImplemented,
     GMM_MessageTypeNotCompatibleWithTheProtocolState, GMM_InformationElementNonExistentOrNotImplemented,
     GMM_ConditionalIEError, GMM_MessageNotCompatibleWithTheProtocolState, GMM_ProtocolErrorUnspecified]"

definition known_gsm :: "Cause5GSM list" where
  "known_gsm = [GSM_InsufficientResources, GSM_MissingOrUnknownDNN, GSM_UnknownPDUSessionType,
     GSM_UserAuthenticationOrAuthorizationFailed, GSM_RequestRejectedUnspecified,
     GSM_ServiceOptionTemporarilyOutOfOrder, GSM_PTIAlreadyInUse, GSM_RegularDeactivation,
     GSM_ReactivationRequested, GSM_InvalidPDUSessionIdentity, GSM_SemanticErrorsInPacketFilter,
     GSM_SyntacticalErrorInPacketFilter, GSM_OutOfLADNServiceArea, GSM_PTIMismatch,
     GSM_PDUSessionTypeIPv4OnlyAllowed, GSM_PDUSessionTypeIPv6OnlyAllowed, GSM_PDUSessionDoesNotExist,
     GSM_InsufficientResourcesForSpecificSliceAndDNN, GSM_NotSupportedSSCMode,
     GSM_InsufficientResourcesForSpecificSlice, GSM_MissingOrUnknownDNNInASlice, GSM_InvalidPTIValue,
     GSM_MaximumDataRatePerUEForUserPlaneIntegrityProtectionIsTooLow, GSM_SemanticErrorInTheQoSOperation,
     GSM_SyntacticalErrorInTheQoSOperation, GSM_InvalidMappedEPSBearerIdentity,
     GSM_SemanticallyIncorrectMessage, GSM_InvalidMandatoryInformation,
     GSM_MessageTypeNonExistentOrNotImplemented, GSM_MessageTypeNotCompatibleWithTheProtocolState,
     GSM_InformationElementNonExistentOrNotImplemented, GSM_ConditionalIEError,
     GSM_MessageNotCompatibleWithTheProtocolState, GSM_ProtocolErrorUnspecified]"

text \<open>
  All 5GSM causes have different texts. All 5GMM causes but one have: an illegal ME is reported as
  services that are not allowed.
\<close>

lemma gsm_texts_distinct: "distinct (map text_5gsm known_gsm)"
  by code_simp

lemma gmm_texts_distinct: "distinct (map text_5gmm (removeAll GMM_IllegalME known_gmm))"
  by code_simp

lemma illegal_me_text: "text_5gmm GMM_IllegalME = text_5gmm GMM_5GSServicesNotAllowed"
  by simp

text \<open>An unknown 5GSM cause is reported as a service option that is out of order.\<close>

lemma unknown_gsm_text: "text_5gsm GSM_Other = text_5gsm GSM_ServiceOptionTemporarilyOutOfOrder"
  by simp

text \<open>
  A status message of session management is worded with the causes of mobility management: octet 26,
  which is the lack of resources of a session, is reported as an authentication failure.
\<close>

lemma status_5gsm_misworded:
  assumes "gmm 26 = GMM_Non5GAuthenticationUnacceptable" and "gsm 26 = GSM_InsufficientResources"
  shows "handleCause5GSM gmm (Some 26) = Some (''[UE][NAS] UE received a 5GSM Failure, cause: '' @ ''Non-5G authentication unacceptable'')"
    and "cause5GSMToString gsm 26 = ''Insufficient Ressources''"
  using assms by (simp_all add: handleCause5GSM_def cause5GMMToString_def cause5GSMToString_def)

end
