(* ===== verification/Cli.thy ===== *)
theory Cli
  imports Scenarios
begin

text \<open>
  The program as it is started: its commands and their options (\<open>cmd/packetrusher.go\<close>), the
  loaded configuration (\<open>config/config.go\<close>), the capture of the traffic
  (\<open>internal/utils/pcap.go\<close>), and the load distributions (\<open>internal/work_load_model\<close>).
\<close>

section \<open>Paths\<close>

text \<open>\<open>path.Clean\<close>: the elements kept so far are in \<open>acc\<close>, the last one first.\<close>

fun clean_parts :: "bool \<Rightarrow> string list \<Rightarrow> string list \<Rightarrow> string list" where
  "clean_parts rooted [] acc = acc"
| "clean_parts rooted (p # ps) acc =
     (if p = [] \<or> p = ''.'' then clean_parts rooted ps acc
      else if p = ''..'' then
        (case acc of
           [] \<Rightarrow> clean_parts rooted ps (if rooted then [] else [p])
         | q # qs \<Rightarrow> clean_parts rooted ps (if q = ''..'' then p # acc else qs))
      else clean_parts rooted ps (p # acc))"

definition Clean :: "string \<Rightarrow> string" where
  "Clean s =
     (if s = [] then ''.''
      else
        let rooted = HasPrefix s ''/'';
            t = join (CHR ''/'') (rev (clean_parts rooted (Split (CHR ''/'') s) [])) in
        if rooted then CHR ''/'' # t else if t = [] then ''.'' else t)"

text \<open>\<open>path.Dir\<close>: the text up to the last slash, cleaned.\<close>

definition path_Dir :: "string \<Rightarrow> string" where
  "path_Dir s = Clean (rev (dropWhile (\<lambda>c. c \<noteq> CHR ''/'') (rev s)))"

text \<open>\<open>filepath.Abs\<close>: a relative path is one in the working directory, which may be unknown.\<close>

definition filepath_Abs :: "string option \<Rightarrow> string \<Rightarrow> string option" where
  "filepath_Abs wd s =
     (if HasPrefix s ''/'' then Some (Clean s)
      else case wd of None \<Rightarrow> None | Some d \<Rightarrow> Some (Clean (d @ ''/'' @ s)))"

section \<open>The loaded configuration\<close>

record cfg_env =
  os_Executable :: "string option"
  os_Getwd :: "string option"
  yaml_file :: "string \<Rightarrow> Config option"
  net_LookupIP :: "string \<Rightarrow> byte list list option"

text \<open>The package's pointer to the configuration, and the level of the log.\<close>

record cfg_state =
  cfg_ptr :: "Config option"
  log_level :: u32

type_synonym 'a CM = "(cfg_state, 'a) comp"

definition getDefautlConfigPath :: "cfg_env \<Rightarrow> string res" where
  "getDefautlConfigPath V =
     (case os_Executable V of
        None \<Rightarrow> Fatal ''Failed to get executable path. ''
      | Some b \<Rightarrow>
          (case filepath_Abs (os_Getwd V) (path_Dir b @ ''/config/config.yml'') of
             None \<Rightarrow> Fatal ''Could not find defautl config at''
           | Some p \<Rightarrow> Ret p))"

text \<open>Level 4 is \<open>InfoLevel\<close>; the levels of the library have 32 bits.\<close>

definition setLogLevel :: "Config \<Rightarrow> unit CM" where
  "setLogLevel cfg =
     modM (\<lambda>s. s\<lparr>log_level := (if cfg_LogLevel cfg = 0 then 4 else of_int (cfg_LogLevel cfg))\<rparr>)"

definition Load :: "cfg_env \<Rightarrow> string \<Rightarrow> Config CM" where
  "Load V configPath =
     bindM (liftR (readConfig (yaml_file V) (net_LookupIP V) configPath)) (\<lambda>c.
     thenM (modM (\<lambda>s. s\<lparr>cfg_ptr := Some c\<rparr>))
     (thenM (setLogLevel c) (retM c)))"

definition LoadDefaultConfig :: "cfg_env \<Rightarrow> Config CM" where
  "LoadDefaultConfig V = bindM (liftR (getDefautlConfigPath V)) (Load V)"

definition GetConfig :: "cfg_env \<Rightarrow> Config CM" where
  "GetConfig V =
     thenM (bindM (getsM cfg_ptr) (\<lambda>p. if p = None then bindM (LoadDefaultConfig V) (\<lambda>_. skipM) else skipM))
     (bindM (getsM cfg_ptr) derefM)"

section \<open>Options\<close>

text \<open>
  The options of the program and of its commands, with their defaults, and what was given on the
  command line, by any of the names of an option; the last one counts. How the library reads
  the text of an option is left out.
\<close>

datatype flag_value = PathV string | IntV int | BoolV bool

record flag =
  fl_Name :: string
  fl_Aliases :: "string list"
  fl_Value :: flag_value

definition PathFlag :: "string \<Rightarrow> string \<Rightarrow> flag" where
  "PathFlag n v = \<lparr>fl_Name = n, fl_Aliases = [], fl_Value = PathV v\<rparr>"

definition IntFlag :: "string \<Rightarrow> int \<Rightarrow> string list \<Rightarrow> flag" where
  "IntFlag n v as = \<lparr>fl_Name = n, fl_Aliases = as, fl_Value = IntV v\<rparr>"

definition BoolFlag :: "string \<Rightarrow> bool \<Rightarrow> string list \<Rightarrow> flag" where
  "BoolFlag n v as = \<lparr>fl_Name = n, fl_Aliases = as, fl_Value = BoolV v\<rparr>"

record cli_context =
  cx_flags :: "flag list"
  cx_given :: "(string \<times> flag_value) list"

definition names_of :: "flag \<Rightarrow> string list" where
  "names_of f = fl_Name f # fl_Aliases f"

fun lookup_flag :: "flag list \<Rightarrow> string \<Rightarrow> flag option" where
  "lookup_flag [] n = None"
| "lookup_flag (f # fs) n = (if n \<in> set (names_of f) then Some f else lookup_flag fs n)"

definition given :: "cli_context \<Rightarrow> string \<Rightarrow> flag_value option" where
  "given c n =
     (case lookup_flag (cx_flags c) n of
        None \<Rightarrow> None
      | Some f \<Rightarrow> map_option snd (find (\<lambda>(k, v). k \<in> set (names_of f)) (rev (cx_given c))))"

definition flag_value :: "cli_context \<Rightarrow> string \<Rightarrow> flag_value option" where
  "flag_value c n =
     (case given c n of Some v \<Rightarrow> Some v | None \<Rightarrow> map_option fl_Value (lookup_flag (cx_flags c) n))"

definition IsSet :: "cli_context \<Rightarrow> string \<Rightarrow> bool" where
  "IsSet c n \<longleftrightarrow> given c n \<noteq> None"

text \<open>An option of another type, or one that the command does not have, reads as zero.\<close>

definition cli_Path :: "cli_context \<Rightarrow> string \<Rightarrow> string" where
  "cli_Path c n = (case flag_value c n of Some (PathV s) \<Rightarrow> s | _ \<Rightarrow> [])"

definition cli_Int :: "cli_context \<Rightarrow> string \<Rightarrow> int" where
  "cli_Int c n = (case flag_value c n of Some (IntV i) \<Rightarrow> i | _ \<Rightarrow> 0)"

definition cli_Bool :: "cli_context \<Rightarrow> string \<Rightarrow> bool" where
  "cli_Bool c n = (case flag_value c n of Some (BoolV b) \<Rightarrow> b | _ \<Rightarrow> False)"

definition setConfig :: "cfg_env \<Rightarrow> cli_context \<Rightarrow> Config CM" where
  "setConfig V c = (if IsSet c ''config'' then Load V (cli_Path c ''config'') else LoadDefaultConfig V)"

section \<open>Capturing the traffic\<close>

text \<open>
  The interfaces of the host with their names and addresses; the addresses of one may not be
  readable. \<open>pc_Write\<close> is the write of the packet with the given number.
\<close>

record pcap_env =
  pc_Create :: "string \<Rightarrow> bool"
  pc_LinkList :: "(string \<times> byte list list option) list option"
  pc_WriteHeader :: bool
  pc_OpenEthernet :: "string \<Rightarrow> bool"
  pc_Write :: "nat \<Rightarrow> byte list \<Rightarrow> bool"

text \<open>\<open>net.IP.Equal\<close>: an IPv4 address and the same one in IPv6 form are equal.\<close>

definition IP_Equal :: "byte list \<Rightarrow> byte list \<Rightarrow> bool" where
  "IP_Equal a b \<longleftrightarrow>
     (if length a = length b then a = b
      else if length a = 4 \<and> length b = 16 then take 12 b = v4InV6Prefix \<and> a = drop 12 b
      else if length a = 16 \<and> length b = 4 then take 12 a = v4InV6Prefix \<and> drop 12 a = b
      else False)"

fun find_link :: "byte list \<Rightarrow> (string \<times> byte list list option) list \<Rightarrow> string option" where
  "find_link ip [] = None"
| "find_link ip ((name, addrs) # links) =
     (case addrs of
        None \<Rightarrow> find_link ip links
      | Some as \<Rightarrow> if list_ex (\<lambda>a. IP_Equal a ip) as then Some name else find_link ip links)"

text \<open>The interface whose packets are captured.\<close>

definition CaptureTraffic :: "cfg_env \<Rightarrow> pcap_env \<Rightarrow> string \<Rightarrow> string CM" where
  "CaptureTraffic V P path =
     (if \<not> pc_Create P path then fatalM ''create''
      else
        bindM (GetConfig V) (\<lambda>config.
          let ip = (case ParseIP (cf_ControlIp (cfg_gnb config)) of None \<Rightarrow> [] | Some b \<Rightarrow> b) in
          case pc_LinkList P of
            None \<Rightarrow> fatalM ''Unable to capture traffic to AMF as we are unable to get Links informations''
          | Some links \<Rightarrow>
              (case find_link ip links of
                 None \<Rightarrow> fatalM ''Unable to find network interface providing gNodeB IP''
               | Some name \<Rightarrow>
                   if \<not> pc_WriteHeader P then fatalM ''WriteFileHeader''
                   else if \<not> pc_OpenEthernet P name then fatalM ''OpenEthernet''
                   else retM name)))"

text \<open>The goroutine that writes the packets: what is in the file, and a failed write ends the process.\<close>

fun capture_packets :: "pcap_env \<Rightarrow> byte list list \<Rightarrow> byte list list \<Rightarrow> (byte list list) res" where
  "capture_packets P [] file = Ret file"
| "capture_packets P (p # ps) file =
     (if pc_Write P (length file) p then capture_packets P ps (file @ [p]) else Fatal ''pcap.WritePacket()'')"

section \<open>A custom scenario\<close>

text \<open>
  The whole of \<open>TestWithCustomScenario\<close>: a gNodeB, a UE on it, and the calls that the compiled
  scenario makes. The WebAssembly runtime is a parameter: \<open>host\<close> is the error, if any, of
  making the module of host functions, \<open>guest\<close> is the file run by the runtime, or an error of
  the runtime or of reading the file. The channel of the UE's state changes is discarded, so
  nobody reads it. At the end the process waits for ever.
\<close>

definition TestWithCustomScenario :: "ext \<Rightarrow> uext \<Rightarrow> string option \<Rightarrow> (string \<Rightarrow> (host_call list) option) \<Rightarrow> (ustate \<Rightarrow> ustate) \<Rightarrow>
    Config \<Rightarrow> string \<Rightarrow> world \<Rightarrow> ustate \<Rightarrow> (world \<times> ustate \<times> bool) res" where
  "TestWithCustomScenario E X host guest between cfg scenarioPath w u =
     bindR (InitGnb E 1 (cfg_gnb cfg) w) (\<lambda>(_, w).
     bindR (NewUE X (cfg_ue cfg) 1 (inbound 1 w) u) (\<lambda>(_, u).
       case host of
         Some e \<Rightarrow> Fatal e
       | None \<Rightarrow>
           (case guest scenarioPath of
              None \<Rightarrow> Fatal ''failed to instantiate module''
            | Some calls \<Rightarrow>
                bindR (custom_scenario X False between calls (u, True)) (\<lambda>(_, u). Ret (w, u)))))"

section \<open>Commands\<close>

text \<open>Everything outside that the commands use.\<close>

record app =
  ap_cfg :: cfg_env
  ap_pcap :: pcap_env
  ap_multi :: multi_env
  ap_ext :: ext
  ap_uext :: uext
  ap_host :: "string option"
  ap_guest :: "string \<Rightarrow> (host_call list) option"
  ap_between :: "ustate \<Rightarrow> ustate"
  ap_wait :: "unit M"
  ap_world :: world
  ap_ustate :: ustate

text \<open>
  What a command has done when it returns, or, for the commands that wait for ever at their end,
  when they begin to wait.
\<close>

datatype outcome =
    UsagePrinted
  | UesRun multi
  | GnbRun world
  | ScenarioRun world ustate bool
  | ResponsesCounted int
  | AvailabilityLogged "bool list"

definition app_flags :: "flag list" where
  "app_flags = [PathFlag ''config'' []]"

definition ue_flags :: "flag list" where
  "ue_flags = [BoolFlag ''disableTunnel'' False [''t''], PathFlag ''pcap'' ''./dump.pcap'']"

definition multi_ue_flags :: "flag list" where
  "multi_ue_flags =
     [IntFlag ''number-of-ues'' 1 [''n''],
      IntFlag ''timeBetweenRegistration'' 500 [''tr''],
      IntFlag ''timeBeforeDeregistration'' 0 [''td''],
      IntFlag ''timeBeforeNgapHandover'' 0 [''ngh''],
      IntFlag ''timeBeforeXnHandover'' 0 [''xnh''],
      IntFlag ''timeBeforeIdle'' 0 [''idl''],
      IntFlag ''timeBeforeReconnecting'' 1000 [''tbr''],
      IntFlag ''numPduSessions'' 1 [''nPdu''],
      BoolFlag ''loop'' False [''l''],
      BoolFlag ''tunnel'' False [''t''],
      BoolFlag ''tunnel-vrf'' True [],
      BoolFlag ''dedicatedGnb'' False [''d''],
      PathFlag ''pcap'' ''./dump.pcap'']"

definition scenario_flags :: "flag list" where
  "scenario_flags = [PathFlag ''scenario'' []]"

definition load_flags :: "flag list" where
  "load_flags = [IntFlag ''number-of-requests'' 1 [''n''], IntFlag ''time'' 1 [''t'']]"

definition availability_flags :: "flag list" where
  "availability_flags = [IntFlag ''time'' 1 [''t'']]"

definition capture_if_set :: "app \<Rightarrow> cli_context \<Rightarrow> unit CM" where
  "capture_if_set A c =
     (if IsSet c ''pcap'' then bindM (CaptureTraffic (ap_cfg A) (ap_pcap A) (cli_Path c ''pcap'')) (\<lambda>_. skipM)
      else skipM)"

text \<open>The options of a scenario for many UEs; each UE gets its number and the gNodeBs when it starts.\<close>

definition sim_of :: "Config \<Rightarrow> cli_context \<Rightarrow> UESimulationConfig" where
  "sim_of cfg c = \<lparr>sc_UeId = 0, sc_Gnbs = [], sc_Cfg = cfg,
     TimeBeforeDeregistration = cli_Int c ''timeBeforeDeregistration'',
     TimeBeforeNgapHandover = cli_Int c ''timeBeforeNgapHandover'',
     TimeBeforeXnHandover = cli_Int c ''timeBeforeXnHandover'',
     TimeBeforeIdle = cli_Int c ''timeBeforeIdle'',
     TimeBeforeReconnecting = cli_Int c ''timeBeforeReconnecting'',
     NumPduSessions = cli_Int c ''numPduSessions''\<rparr>"

definition multi_flags_of :: "Config \<Rightarrow> cli_context \<Rightarrow> multi_flags" where
  "multi_flags_of cfg c =
     \<lparr>number_of_ues = (if IsSet c ''number-of-ues'' then Some (cli_Int c ''number-of-ues'') else None),
      flag_tunnel = cli_Bool c ''tunnel'', flag_tunnel_vrf = cli_Bool c ''tunnel-vrf'',
      flag_dedicatedGnb = cli_Bool c ''dedicatedGnb'', flag_loop = cli_Bool c ''loop'',
      flag_timeBetweenRegistration = cli_Int c ''timeBetweenRegistration'', flag_sim = sim_of cfg c\<rparr>"

text \<open>What a template gives, with the state of the configuration unchanged.\<close>

definition runs :: "('a \<Rightarrow> outcome) \<Rightarrow> 'a res \<Rightarrow> outcome CM" where
  "runs f r = liftR (bindR r (\<lambda>x. Ret (f x)))"

definition ue_action :: "app \<Rightarrow> cli_context \<Rightarrow> outcome CM" where
  "ue_action A c =
     bindM (setConfig (ap_cfg A) c) (\<lambda>cfg.
     let tunnelEnabled = \<not> cli_Bool c ''disableTunnel'' in
     thenM (capture_if_set A c)
     (runs (UesRun \<circ> snd) (TestAttachUeWithConfiguration (ap_multi A) tunnelEnabled cfg initial_multi)))"

definition gnb_action :: "app \<Rightarrow> cli_context \<Rightarrow> outcome CM" where
  "gnb_action A c =
     bindM (setConfig (ap_cfg A) c) (\<lambda>cfg.
       runs (GnbRun \<circ> snd) (InitGnb (ap_ext A) 1 (cfg_gnb cfg) (ap_world A)))"

definition multi_ue_action :: "app \<Rightarrow> cli_context \<Rightarrow> outcome CM" where
  "multi_ue_action A c =
     bindM (setConfig (ap_cfg A) c) (\<lambda>cfg.
       if \<not> IsSet c ''number-of-ues'' then retM UsagePrinted
       else
         thenM (capture_if_set A c)
         (runs (UesRun \<circ> snd) (multi_ue_pdu (ap_multi A) (multi_flags_of cfg c) initial_multi)))"

definition custom_scenario_action :: "app \<Rightarrow> cli_context \<Rightarrow> outcome CM" where
  "custom_scenario_action A c =
     bindM (setConfig (ap_cfg A) c) (\<lambda>cfg.
       if \<not> IsSet c ''scenario'' then retM UsagePrinted
       else
         runs (\<lambda>(w, u, listening). ScenarioRun w u listening)
           (TestWithCustomScenario (ap_ext A) (ap_uext A) (ap_host A) (ap_guest A) (ap_between A) cfg (cli_Path c ''scenario'')
             (ap_world A) (ap_ustate A)))"

definition amf_load_loop_action :: "app \<Rightarrow> cli_context \<Rightarrow> outcome CM" where
  "amf_load_loop_action A c =
     bindM (setConfig (ap_cfg A) c) (\<lambda>cfg.
     let numRqs = cli_Int c ''number-of-requests''; time = cli_Int c ''time'' in
       runs (ResponsesCounted \<circ> fst) (TestRqsLoop (ap_ext A) (ap_wait A) (cfg_gnb cfg) numRqs time (ap_world A)))"

definition amf_availability_action :: "app \<Rightarrow> cli_context \<Rightarrow> outcome CM" where
  "amf_availability_action A c =
     bindM (setConfig (ap_cfg A) c) (\<lambda>cfg.
     let time = cli_Int c ''time'' in
       runs (AvailabilityLogged \<circ> fst) (TestAvailability (ap_ext A) (ap_wait A) (cfg_gnb cfg) time (ap_world A)))"

text \<open>The commands with their names and aliases; the library runs the first that has the given name.\<close>

record command =
  cmd_names :: "string list"
  cmd_flags :: "flag list"
  cmd_Action :: "app \<Rightarrow> cli_context \<Rightarrow> outcome CM"

definition commands :: "command list" where
  "commands =
     [\<lparr>cmd_names = [''ue''], cmd_flags = ue_flags, cmd_Action = ue_action\<rparr>,
      \<lparr>cmd_names = [''gnb''], cmd_flags = [], cmd_Action = gnb_action\<rparr>,
      \<lparr>cmd_names = [''multi-ue-pdu'', ''multi-ue''], cmd_flags = multi_ue_flags, cmd_Action = multi_ue_action\<rparr>,
      \<lparr>cmd_names = [''custom-scenario'', ''c''], cmd_flags = scenario_flags, cmd_Action = custom_scenario_action\<rparr>,
      \<lparr>cmd_names = [''amf-load-loop''], cmd_flags = load_flags, cmd_Action = amf_load_loop_action\<rparr>,
      \<lparr>cmd_names = [''Test availability of AMF'', ''amf-availability''], cmd_flags = availability_flags,
       cmd_Action = amf_availability_action\<rparr>]"

text \<open>Without a command of that name the library prints its help.\<close>

definition main_run :: "app \<Rightarrow> string \<Rightarrow> (string \<times> flag_value) list \<Rightarrow> outcome CM" where
  "main_run A name args =
     (case find (\<lambda>cmd. name \<in> set (cmd_names cmd)) commands of
        None \<Rightarrow> retM UsagePrinted
      | Some cmd \<Rightarrow> cmd_Action cmd A \<lparr>cx_flags = cmd_flags cmd @ app_flags, cx_given = args\<rparr>)"

section \<open>Load distributions\<close>

text \<open>
  The numbers of a distribution, each drawn with a seed of its own. The library's generator is a
  parameter; a negative length cannot be made. C's \<open>unsigned int\<close> has 32 bits.
\<close>

definition draws :: "('d \<Rightarrow> int \<Rightarrow> u32) \<Rightarrow> 'd \<Rightarrow> int \<Rightarrow> int \<Rightarrow> (u64 list) res" where
  "draws random x n const_seed =
     (if n < 0 then Panic SliceRange
      else foldR (\<lambda>i dist. upd_int dist (i - 1) (ucast (random x (wrap64 (const_seed + i))))) [1..n] (replicate (nat n) 0))"

definition gaussianlDistribution :: "('d \<Rightarrow> int \<Rightarrow> u32) \<Rightarrow> 'd \<Rightarrow> int \<Rightarrow> int \<Rightarrow> (u64 list) res" where
  "gaussianlDistribution randomNumberFromGaussian sigma n const_seed = draws randomNumberFromGaussian sigma n const_seed"

definition PoissonDistribution :: "('d \<Rightarrow> int \<Rightarrow> u32) \<Rightarrow> 'd \<Rightarrow> int \<Rightarrow> int \<Rightarrow> (u64 list) res" where
  "PoissonDistribution randomNumberFromPoisson mean n const_seed = draws randomNumberFromPoisson mean n const_seed"

definition ExponentialDistribution :: "('d \<Rightarrow> int \<Rightarrow> u32) \<Rightarrow> 'd \<Rightarrow> int \<Rightarrow> int \<Rightarrow> (u64 list) res" where
  "ExponentialDistribution randomNumberFromExponential mean n const_seed =
     draws randomNumberFromExponential mean n const_seed"

section \<open>Configuration once loaded\<close>

lemma GetConfig_loaded: "cfg_ptr s = Some c \<Longrightarrow> GetConfig V s = Ret (c, s)"
  by (simp add: GetConfig_def run_simps)

lemma Load_loads: "Load V p s = Ret (c, s') \<Longrightarrow> cfg_ptr s' = Some c \<and> GetConfig V s' = Ret (c, s')"
  by (auto simp: Load_def run_simps bindR_Ret_iff setLogLevel_def liftR_def GetConfig_loaded)

lemma setConfig_loads: "setConfig V c s = Ret (cfg, s') \<Longrightarrow> GetConfig V s' = Ret (cfg, s')"
  by (auto simp: setConfig_def LoadDefaultConfig_def run_simps bindR_Ret_iff liftR_def dest: Load_loads split: if_splits)

section \<open>The default configuration file\<close>

text \<open>A name of a file or directory.\<close>

definition plain_name :: "string \<Rightarrow> bool" where
  "plain_name p \<longleftrightarrow> p \<notin> {[], ''.'', ''..''} \<and> CHR ''/'' \<notin> set p"

lemma clean_parts_plain:
  "\<forall>p \<in> set ps. plain_name p \<Longrightarrow> clean_parts rooted ps acc = rev ps @ acc"
  by (induction ps arbitrary: acc) (auto simp: plain_name_def)

lemma Clean_rooted:
  assumes "\<forall>p \<in> set ps. plain_name p"
  shows "Clean (CHR ''/'' # join (CHR ''/'') ps) = CHR ''/'' # join (CHR ''/'') ps"
proof (cases "ps = []")
  case True
  then show ?thesis by (simp add: Clean_def HasPrefix_def Let_def)
next
  case False
  have "Split (CHR ''/'') (CHR ''/'' # join (CHR ''/'') ps) = [] # ps"
    using Split_join [OF False, of "CHR ''/''"] assms by (simp add: plain_name_def)
  then show ?thesis using clean_parts_plain [OF assms, of True "[]"]
    by (simp add: Clean_def HasPrefix_def Let_def del: Split.simps)
qed

lemma Clean_trailing:
  assumes "\<forall>p \<in> set ps. plain_name p" "ps \<noteq> []"
  shows "Clean (CHR ''/'' # join (CHR ''/'') ps @ ''/'') = CHR ''/'' # join (CHR ''/'') ps"
proof -
  have "join (CHR ''/'') ps @ ''/'' = join (CHR ''/'') (ps @ [[]])" using join_append [OF assms(2), of "[[]]"] by simp
  moreover have "Split (CHR ''/'') (join (CHR ''/'') (ps @ [[]])) = ps @ [[]]"
    using assms by (intro Split_join) (auto simp: plain_name_def)
  moreover have "clean_parts True (ps @ [[]]) acc = rev ps @ acc" for acc
    using assms(1) by (induction ps arbitrary: acc) (auto simp: plain_name_def)
  ultimately show ?thesis by (simp add: Clean_def HasPrefix_def Let_def)
qed

lemma path_Dir_file:
  assumes "\<forall>p \<in> set ds. plain_name p" "plain_name b"
  shows "path_Dir (CHR ''/'' # join (CHR ''/'') (ds @ [b])) = CHR ''/'' # join (CHR ''/'') ds"
proof -
  have cut: "rev (dropWhile (\<lambda>c. c \<noteq> CHR ''/'') (rev (s @ CHR ''/'' # b))) = s @ ''/''" for s
  proof -
    have "dropWhile (\<lambda>c. c \<noteq> CHR ''/'') (rev b @ CHR ''/'' # rev s) = CHR ''/'' # rev s"
      using assms(2) by (subst dropWhile_append2) (auto simp: plain_name_def)
    then show ?thesis by simp
  qed
  show ?thesis
  proof (cases "ds = []")
    case True
    then show ?thesis using cut [of "[]"] by (simp add: path_Dir_def Clean_def HasPrefix_def Let_def)
  next
    case False
    then show ?thesis
      using cut [of "CHR ''/'' # join (CHR ''/'') ds"] join_append [OF False, of "[b]"] Clean_trailing [OF assms(1) False]
      by (simp add: path_Dir_def)
  qed
qed

end
