(* ===== verification/CliProps.thy ===== *)
theory CliProps
  imports Cli ToolsProps
begin

text \<open>
  Properties of the commands: the command for one UE as a case of the one for many, and which
  configuration a command runs with.
\<close>

section \<open>One UE is a case of many\<close>

lemma find_after: "find P (xs @ ys) = (case find P xs of None \<Rightarrow> find P ys | Some x \<Rightarrow> Some x)"
  by (induction xs) auto

text \<open>The two options that both commands have.\<close>

definition shared_args :: "(string \<times> flag_value) list \<Rightarrow> bool" where
  "shared_args args \<longleftrightarrow> (\<forall>(k, v) \<in> set args. k = ''config'' \<or> k = ''pcap'')"

lemma other_options:
  assumes "shared_args args" "x \<notin> {''config'', ''pcap''}"
  shows "find (\<lambda>(k, v). k = x) (rev args) = None"
    and "y \<notin> {''config'', ''pcap''} \<Longrightarrow> find (\<lambda>(k, v). k = x \<or> k = y) (rev args) = None"
  using assms by (auto simp: find_None_iff shared_args_def)

lemmas flag_tables = ue_flags_def multi_ue_flags_def app_flags_def names_of_def PathFlag_def IntFlag_def BoolFlag_def

text \<open>The two command lines, for a UE with its tunnel or without.\<close>

definition ue_line :: "bool \<Rightarrow> (string \<times> flag_value) list" where
  "ue_line off = (if off then [(''t'', BoolV True)] else [])"

definition multi_ue_line :: "bool \<Rightarrow> (string \<times> flag_value) list" where
  "multi_ue_line off = [(''n'', IntV 1), (''d'', BoolV True), (''tbr'', IntV 0)] @ (if off then [] else [(''t'', BoolV True)])"

lemma ue_line_values:
  assumes "shared_args args"
  shows "given \<lparr>cx_flags = ue_flags @ app_flags, cx_given = ue_line off @ args\<rparr> ''disableTunnel'' = (if off then Some (BoolV True) else None)"
    "given \<lparr>cx_flags = ue_flags @ app_flags, cx_given = ue_line off @ args\<rparr> ''config'' = map_option snd (find (\<lambda>(k, v). k = ''config'') (rev args))"
    "given \<lparr>cx_flags = ue_flags @ app_flags, cx_given = ue_line off @ args\<rparr> ''pcap'' = map_option snd (find (\<lambda>(k, v). k = ''pcap'') (rev args))"
  by (simp_all add: given_def find_after other_options [OF assms] flag_tables ue_line_def split: option.split)

lemma multi_ue_line_values:
  fixes off :: bool
  assumes "shared_args args"
  defines "c \<equiv> \<lparr>cx_flags = multi_ue_flags @ app_flags, cx_given = multi_ue_line off @ args\<rparr>"
  shows "given c ''number-of-ues'' = Some (IntV 1)" "given c ''dedicatedGnb'' = Some (BoolV True)"
    "given c ''tunnel'' = (if off then None else Some (BoolV True))"
    "given c ''tunnel-vrf'' = None" "given c ''loop'' = None" "given c ''timeBetweenRegistration'' = None"
    "given c ''timeBeforeNgapHandover'' = None" "given c ''timeBeforeXnHandover'' = None" "given c ''numPduSessions'' = None"
    "given c ''timeBeforeDeregistration'' = None" "given c ''timeBeforeIdle'' = None"
    "given c ''timeBeforeReconnecting'' = Some (IntV 0)"
    "given c ''config'' = map_option snd (find (\<lambda>(k, v). k = ''config'') (rev args))"
    "given c ''pcap'' = map_option snd (find (\<lambda>(k, v). k = ''pcap'') (rev args))"
  unfolding c_def
  by (simp_all add: given_def find_after other_options [OF assms(1)] flag_tables multi_ue_line_def split: option.split)

lemma ue_defaults:
  "lookup_flag (ue_flags @ app_flags) ''disableTunnel'' = Some (BoolFlag ''disableTunnel'' False [''t''])"
  "lookup_flag (ue_flags @ app_flags) ''config'' = Some (PathFlag ''config'' [])"
  "lookup_flag (ue_flags @ app_flags) ''pcap'' = Some (PathFlag ''pcap'' ''./dump.pcap'')"
  by (simp_all add: flag_tables)

lemma multi_ue_defaults:
  "map_option fl_Value (lookup_flag (multi_ue_flags @ app_flags) ''config'') = Some (PathV [])"
  "map_option fl_Value (lookup_flag (multi_ue_flags @ app_flags) ''pcap'') = Some (PathV ''./dump.pcap'')"
  "map_option fl_Value (lookup_flag (multi_ue_flags @ app_flags) ''tunnel'') = Some (BoolV False)"
  "map_option fl_Value (lookup_flag (multi_ue_flags @ app_flags) ''tunnel-vrf'') = Some (BoolV True)"
  "map_option fl_Value (lookup_flag (multi_ue_flags @ app_flags) ''loop'') = Some (BoolV False)"
  "map_option fl_Value (lookup_flag (multi_ue_flags @ app_flags) ''timeBetweenRegistration'') = Some (IntV 500)"
  "map_option fl_Value (lookup_flag (multi_ue_flags @ app_flags) ''timeBeforeNgapHandover'') = Some (IntV 0)"
  "map_option fl_Value (lookup_flag (multi_ue_flags @ app_flags) ''timeBeforeXnHandover'') = Some (IntV 0)"
  "map_option fl_Value (lookup_flag (multi_ue_flags @ app_flags) ''numPduSessions'') = Some (IntV 1)"
  "map_option fl_Value (lookup_flag (multi_ue_flags @ app_flags) ''timeBeforeDeregistration'') = Some (IntV 0)"
  "map_option fl_Value (lookup_flag (multi_ue_flags @ app_flags) ''timeBeforeIdle'') = Some (IntV 0)"
  by (simp_all add: flag_tables)

text \<open>The configuration that is loaded stays through the start of a capture.\<close>

lemma setConfig_ptr: "setConfig V c s = Ret (cfg, s') \<Longrightarrow> cfg_ptr s' = Some cfg"
  by (auto simp: setConfig_def LoadDefaultConfig_def run_simps bindR_Ret_iff liftR_def dest: Load_loads split: if_splits)

lemma capture_keeps: "cfg_ptr s = Some cfg \<Longrightarrow> capture_if_set A c s = Ret (x, t) \<Longrightarrow> t = s"
  by (auto simp: capture_if_set_def CaptureTraffic_def GetConfig_loaded run_simps Let_def split: if_splits option.splits)

text \<open>Every UE that a test of one round starts has the shared configuration with its number.\<close>

definition starts_only :: "UESimulationConfig \<Rightarrow> multi \<Rightarrow> bool" where
  "starts_only c s \<longleftrightarrow> (\<forall>d. StartUe d \<in> set (mu_actions s) \<longrightarrow> d = c\<lparr>sc_UeId := sc_UeId d\<rparr>)"

lemma starts_only_act: "starts_only c s \<Longrightarrow> act a s = Ret (x, t) \<Longrightarrow> (\<And>d. a = StartUe d \<Longrightarrow> d = c\<lparr>sc_UeId := sc_UeId d\<rparr>) \<Longrightarrow> starts_only c t"
  by (auto simp: act_def starts_only_def)

lemma starts_only_send: "preserves (starts_only c) (send_scenario V i m)"
  by (rule preservesI) (auto simp: send_scenario_def run_simps act_def starts_only_def split: if_splits)

lemma starts_only_start: "preserves (starts_only c) (start_ue V c i)"
  by (rule preservesI)
    (auto simp: start_ue_def send_scenario_def run_simps act_def starts_only_def split: if_splits)

lemma TestMultiUesInQueue_starts:
  assumes "TestMultiUesInQueue V n m d False interval sc initial_multi = Ret ((), s)"
    and "g = gnbs_needed d n sc"
  shows "starts_only (queue_sim V g m sc) s"
proof -
  let ?c = "queue_sim V g m sc"
  have "preserves (starts_only ?c) (\<lambda>s. case multi_rounds V ?c n False s of None \<Rightarrow> Hang | Some r \<Rightarrow> r)"
  proof (rule preservesI)
    fix s x t
    assume s: "starts_only ?c s" and run: "(case multi_rounds V ?c n False s of None \<Rightarrow> Hang | Some r \<Rightarrow> r) = Ret (x, t)"
    have "preserves (starts_only ?c) (forM [1..n] (start_ue V ?c))"
      by (intro pres_intros starts_only_start)
    from preservesD [OF this s] run s show "starts_only ?c t"
      by (subst (asm) multi_rounds.simps) (auto split: if_splits res.splits)
  qed
  moreover have "preserves (starts_only ?c) (act (MakeGnbs k))" "preserves (starts_only ?c) (act WaitInterrupt)" for k
    by (rule preservesI, erule starts_only_act, assumption, simp)+
  ultimately have "preserves (starts_only ?c) (TestMultiUesInQueue V n m d False interval sc)"
    unfolding TestMultiUesInQueue_def Let_def queue_sim_def [symmetric] gnbs_needed_def [unfolded Let_def, symmetric] assms(2)
    by (intro pres_intros starts_only_send)
  from preservesD [OF this _ assms(1)] show ?thesis by (simp add: starts_only_def initial_multi_def)
qed

text \<open>
  C29: The command \<open>ue\<close> does exactly what \<open>multi-ue -n 1 -d -t --timeBeforeReconnecting 0\<close> does,
  with the same configuration and the same capture of the traffic: it starts a dedicated gNodeB
  and UEs with one PDU session each, no timer armed, and a tunnel with a VRF. The option \<open>-t\<close> has
  opposite meanings: with \<open>ue\<close> it leaves the tunnel out, with \<open>multi-ue\<close> it asks for it. The
  configuration of every UE that is started, but for its tunnel mode, is the one loaded.
\<close>

theorem ue_command_is_multi_ue:
  assumes "shared_args args"
  shows "main_run A ''ue'' ((if off then [(''t'', BoolV True)] else []) @ args) s =
      main_run A ''multi-ue''
        ([(''n'', IntV 1), (''d'', BoolV True), (''tbr'', IntV 0)] @ (if off then [] else [(''t'', BoolV True)]) @ args) s \<and>
    (\<forall>m s' c. main_run A ''ue'' ((if off then [(''t'', BoolV True)] else []) @ args) s = Ret (UesRun m, s') \<longrightarrow>
       StartUe c \<in> set (mu_actions m) \<longrightarrow>
       (\<exists>cfg. cfg_ptr s' = Some cfg \<and>
          c = \<lparr>sc_UeId = sc_UeId c, sc_Gnbs = me_gnbs (ap_multi A) 1 (cfg_gnb cfg),
            sc_Cfg = cfg\<lparr>cfg_ue := (cfg_ue cfg)\<lparr>conf_TunnelMode := if off then TunnelDisabled else TunnelVrf\<rparr>\<rparr>,
            TimeBeforeDeregistration = 0, TimeBeforeNgapHandover = 0, TimeBeforeXnHandover = 0,
            TimeBeforeIdle = 0, TimeBeforeReconnecting = 0, NumPduSessions = 1\<rparr>))"
proof
  let ?c = "\<lparr>cx_flags = ue_flags @ app_flags, cx_given = ue_line off @ args\<rparr>"
  let ?d = "\<lparr>cx_flags = multi_ue_flags @ app_flags, cx_given = multi_ue_line off @ args\<rparr>"
  let ?sim = "\<lambda>cfg. \<lparr>sc_UeId = 0, sc_Gnbs = [], sc_Cfg = cfg, TimeBeforeDeregistration = 0, TimeBeforeNgapHandover = 0,
    TimeBeforeXnHandover = 0, TimeBeforeIdle = 0, TimeBeforeReconnecting = 0, NumPduSessions = 1\<rparr>"
  let ?mode = "if off then TunnelDisabled else TunnelVrf"
  note vals = ue_line_values [OF assms, of off] multi_ue_line_values [OF assms, of off] multi_ue_defaults
  have path: "cli_Path ?c n = cli_Path ?d n \<and> IsSet ?c n = IsSet ?d n" if "n = ''config'' \<or> n = ''pcap''" for n
    using that by (elim disjE) (simp_all add: vals ue_defaults PathFlag_def cli_Path_def flag_value_def IsSet_def split: option.split)
  have same: "setConfig V ?c = setConfig V ?d" "capture_if_set A ?c = capture_if_set A ?d" for V
    using path by (simp_all add: setConfig_def capture_if_set_def)
  have flags: "multi_flags_of cfg ?d = \<lparr>number_of_ues = Some 1, flag_tunnel = \<not> off, flag_tunnel_vrf = True,
      flag_dedicatedGnb = True, flag_loop = False, flag_timeBetweenRegistration = 500, flag_sim = ?sim cfg\<rparr>"
    "IsSet ?d ''number-of-ues''" "cli_Bool ?c ''disableTunnel'' = off" for cfg
    by (simp_all add: vals ue_defaults BoolFlag_def multi_flags_of_def sim_of_def IsSet_def cli_Int_def cli_Bool_def flag_value_def)
  have attach: "TestAttachUeWithConfiguration V (\<not> off) cfg = TestMultiUesInQueue V 1 ?mode True False 500 (?sim cfg)" for V cfg
    by (simp add: TestAttachUeWithConfiguration_def)
  have ue: "main_run A ''ue'' ((if off then [(''t'', BoolV True)] else []) @ args) s = ue_action A ?c s"
    by (simp add: main_run_def commands_def ue_line_def)
  have "ue_action A ?c s = multi_ue_action A ?d s"
    by (simp add: ue_action_def multi_ue_action_def multi_ue_pdu_def tunnel_mode_def Let_def same flags attach)
  then show "main_run A ''ue'' ((if off then [(''t'', BoolV True)] else []) @ args) s =
      main_run A ''multi-ue''
        ([(''n'', IntV 1), (''d'', BoolV True), (''tbr'', IntV 0)] @ (if off then [] else [(''t'', BoolV True)]) @ args) s"
    by (simp add: main_run_def commands_def ue_line_def multi_ue_line_def)
  show "\<forall>m s' c. main_run A ''ue'' ((if off then [(''t'', BoolV True)] else []) @ args) s = Ret (UesRun m, s') \<longrightarrow>
       StartUe c \<in> set (mu_actions m) \<longrightarrow>
       (\<exists>cfg. cfg_ptr s' = Some cfg \<and>
          c = \<lparr>sc_UeId = sc_UeId c, sc_Gnbs = me_gnbs (ap_multi A) 1 (cfg_gnb cfg),
            sc_Cfg = cfg\<lparr>cfg_ue := (cfg_ue cfg)\<lparr>conf_TunnelMode := ?mode\<rparr>\<rparr>,
            TimeBeforeDeregistration = 0, TimeBeforeNgapHandover = 0, TimeBeforeXnHandover = 0,
            TimeBeforeIdle = 0, TimeBeforeReconnecting = 0, NumPduSessions = 1\<rparr>)"
  proof (intro allI impI)
    fix m s' c
    assume run: "main_run A ''ue'' ((if off then [(''t'', BoolV True)] else []) @ args) s = Ret (UesRun m, s')"
      and c: "StartUe c \<in> set (mu_actions m)"
    from run obtain cfg s1 where cfg: "setConfig (ap_cfg A) ?c s = Ret (cfg, s1)" "capture_if_set A ?c s1 = Ret ((), s')"
      and test: "TestMultiUesInQueue (ap_multi A) 1 ?mode True False 500 (?sim cfg) initial_multi = Ret ((), m)"
      unfolding ue by (auto simp: ue_action_def run_simps Let_def flags attach runs_def liftR_def bindR_Ret_iff)
    have g: "gnbs_needed True 1 (?sim cfg) = 1" by (simp add: gnbs_needed_def)
    from TestMultiUesInQueue_starts [OF test g [symmetric]] c
    have "c = (queue_sim (ap_multi A) 1 ?mode (?sim cfg))\<lparr>sc_UeId := sc_UeId c\<rparr>"
      unfolding starts_only_def by blast
    moreover have "cfg_ptr s' = Some cfg"
      using setConfig_ptr [OF cfg(1)] capture_keeps [OF _ cfg(2)] by simp
    ultimately show "\<exists>cfg. cfg_ptr s' = Some cfg \<and>
          c = \<lparr>sc_UeId = sc_UeId c, sc_Gnbs = me_gnbs (ap_multi A) 1 (cfg_gnb cfg),
            sc_Cfg = cfg\<lparr>cfg_ue := (cfg_ue cfg)\<lparr>conf_TunnelMode := ?mode\<rparr>\<rparr>,
            TimeBeforeDeregistration = 0, TimeBeforeNgapHandover = 0, TimeBeforeXnHandover = 0,
            TimeBeforeIdle = 0, TimeBeforeReconnecting = 0, NumPduSessions = 1\<rparr>"
      by (simp add: queue_sim_def)
  qed
qed

lemma ue_command_is_multi_ue_witness:
  "\<forall>A s. main_run A ''ue'' [(''t'', BoolV True), (''config'', PathV ''c.yml'')] s =
    main_run A ''multi-ue'' [(''n'', IntV 1), (''d'', BoolV True), (''tbr'', IntV 0), (''config'', PathV ''c.yml'')] s"
proof -
  have "shared_args [(''config'', PathV ''c.yml'')]" by (simp add: shared_args_def)
  from ue_command_is_multi_ue [OF this, of _ True] show ?thesis by simp
qed

section \<open>The default configuration\<close>

text \<open>
  Without \<open>--config\<close> the configuration is read from \<open>config/config.yml\<close> in the directory of
  the executable, whatever the working directory is; the help of the option promises
  \<open>./config/config.yml\<close>. The file's contents, with its hosts resolved, are what every part of the
  program then gets from \<open>GetConfig\<close>.
\<close>

theorem default_config_beside_executable:
  assumes "os_Executable V = Some (CHR ''/'' # join (CHR ''/'') (ds @ [b]))"
    and "\<forall>p \<in> set ds. plain_name p" and "plain_name b" and "\<not> IsSet c ''config''"
  shows "let p = CHR ''/'' # join (CHR ''/'') (ds @ [''config'', ''config.yml'']) in
    setConfig V c s = Load V p s \<and>
    (\<forall>cfg s'. setConfig V c s = Ret (cfg, s') \<longrightarrow>
      readConfig (yaml_file V) (net_LookupIP V) p = Ret cfg \<and> GetConfig V s' = Ret (cfg, s'))"
proof -
  let ?file = "[''config'', ''config.yml'']" and ?dir = "CHR ''/'' # join (CHR ''/'') ds"
  have clean: "Clean (?dir @ ''/config/config.yml'') = CHR ''/'' # join (CHR ''/'') (ds @ ?file)"
  proof (cases "ds = []")
    case True
    have "Clean (''/'' @ ''/config/config.yml'') = ''/config/config.yml''" by code_simp
    with True show ?thesis by simp
  next
    case False
    have "\<forall>p \<in> set (ds @ ?file). plain_name p" using assms(2) by (simp add: plain_name_def)
    from Clean_rooted [OF this] show ?thesis using join_append [OF False, of ?file] by simp
  qed
  have rooted: "HasPrefix (?dir @ ''/config/config.yml'') ''/''" by (simp add: HasPrefix_def)
  have path: "getDefautlConfigPath V = Ret (CHR ''/'' # join (CHR ''/'') (ds @ ?file))"
    by (simp only: getDefautlConfigPath_def filepath_Abs_def assms(1) path_Dir_file [OF assms(2,3)] option.case rooted
        if_True clean)
  then have "setConfig V c s = Load V (CHR ''/'' # join (CHR ''/'') (ds @ ?file)) s"
    using assms(4) by (simp add: setConfig_def LoadDefaultConfig_def run_simps)
  then show ?thesis
    using setConfig_loads [of V c s]
    by (auto simp: Let_def Load_def run_simps bindR_Ret_iff liftR_def)
qed

definition demo_cfg_env :: cfg_env where
  "demo_cfg_env = \<lparr>os_Executable = Some ''/opt/pr/rusher'', os_Getwd = Some ''/tmp'',
     yaml_file = (\<lambda>p. if p = ''/opt/pr/config/config.yml''
       then Some \<lparr>cfg_gnb = \<lparr>cf_GnbId = ''000008'', cf_Mcc = ''999'', cf_Mnc = ''70'', cf_Tac = ''000001'', cf_Sst = ''01'',
           cf_Sd = ''010203'', cf_ControlIp = ''gnb'', cf_DataIp = ''gnb'', cf_ControlPort = 9487, cf_DataPort = 2152, cf_AMFs = []\<rparr>,
         cfg_ue = demo_ueconf, cfg_LogLevel = 0\<rparr>
       else None),
     net_LookupIP = (\<lambda>h. if h = ''gnb'' then Some [[10, 0, 0, 1]] else None)\<rparr>"

lemma default_config_beside_executable_witness:
  "\<exists>cfg s. setConfig demo_cfg_env \<lparr>cx_flags = app_flags, cx_given = []\<rparr> \<lparr>cfg_ptr = None, log_level = 5\<rparr> = Ret (cfg, s) \<and>
    cf_ControlIp (cfg_gnb cfg) = ''10.0.0.1'' \<and> log_level s = 4 \<and> GetConfig demo_cfg_env s = Ret (cfg, s)"
proof -
  let ?c = "\<lparr>cx_flags = app_flags, cx_given = []\<rparr>" and ?s = "\<lparr>cfg_ptr = None, log_level = 5\<rparr>"
  have "os_Executable demo_cfg_env = Some (CHR ''/'' # join (CHR ''/'') ([''opt'', ''pr''] @ [''rusher'']))"
    by (simp add: demo_cfg_env_def)
  moreover have "\<forall>p \<in> set [''opt'', ''pr'']. plain_name p" "plain_name ''rusher''" by (simp_all add: plain_name_def)
  moreover have "\<not> IsSet ?c ''config''" by (simp add: IsSet_def given_def app_flags_def)
  ultimately have set: "setConfig demo_cfg_env ?c ?s = Load demo_cfg_env ''/opt/pr/config/config.yml'' ?s"
    and get: "\<And>cfg s'. setConfig demo_cfg_env ?c ?s = Ret (cfg, s') \<Longrightarrow> GetConfig demo_cfg_env s' = Ret (cfg, s')"
    using default_config_beside_executable [of demo_cfg_env "[''opt'', ''pr'']" "''rusher''" ?c ?s]
    by (simp_all add: Let_def)
  have "IP_String [10, 0, 0, 1] = ''10.0.0.1''" by code_simp
  then have host: "resolvHost (net_LookupIP demo_cfg_env) ''gnb'' = Ret ''10.0.0.1''"
    by (simp add: resolvHost_def demo_cfg_env_def To4_def)
  have "\<exists>cfg s. Load demo_cfg_env ''/opt/pr/config/config.yml'' ?s = Ret (cfg, s) \<and>
      cf_ControlIp (cfg_gnb cfg) = ''10.0.0.1'' \<and> log_level s = 4"
    using host by (simp add: Load_def readConfig_def run_simps setLogLevel_def demo_cfg_env_def)
  with set get show ?thesis by metis
qed

section \<open>Captures and distributions\<close>

text \<open>The interface of a capture is the first one that has the address of the gNodeB.\<close>

lemma find_link_first:
  "find_link ip links = Some name \<longleftrightarrow>
     (\<exists>before as after. links = before @ (name, Some as) # after \<and> list_ex (\<lambda>a. IP_Equal a ip) as \<and>
       (\<forall>(m, addrs) \<in> set before. \<forall>bs. addrs = Some bs \<longrightarrow> \<not> list_ex (\<lambda>a. IP_Equal a ip) bs))" (is "?l \<longleftrightarrow> ?r links")
proof (induction links)
  case Nil
  show ?case by simp
next
  case (Cons l links)
  obtain m addrs where l: "l = (m, addrs)" by (cases l)
  show ?case
  proof (cases "\<exists>as. addrs = Some as \<and> list_ex (\<lambda>a. IP_Equal a ip) as")
    case True
    then obtain as where as: "addrs = Some as" "list_ex (\<lambda>a. IP_Equal a ip) as" by blast
    have "?r (l # links) \<longleftrightarrow> m = name"
    proof
      show "m = name" if "?r (l # links)" using that as by (auto simp: l Cons_eq_append_conv)
      show "?r (l # links)" if "m = name"
        using that as by (intro exI [of _ "[]"] exI [of _ as] exI [of _ links]) (simp add: l)
    qed
    with as show ?thesis by (simp add: l)
  next
    case False
    then have "find_link ip (l # links) = find_link ip links" by (auto simp: l split: option.split)
    moreover have "?r (l # links) = ?r links"
    proof
      assume "?r (l # links)"
      then obtain before as after where r: "l # links = before @ (name, Some as) # after" "list_ex (\<lambda>a. IP_Equal a ip) as"
        "\<forall>(m, addrs) \<in> set before. \<forall>bs. addrs = Some bs \<longrightarrow> \<not> list_ex (\<lambda>a. IP_Equal a ip) bs" by blast
      with False obtain rest where "before = l # rest" by (cases before) (auto simp: l)
      with r show "?r links" by (intro exI [of _ rest] exI [of _ as] exI [of _ after]) simp
    next
      assume "?r links"
      then obtain before as after where r: "links = before @ (name, Some as) # after" "list_ex (\<lambda>a. IP_Equal a ip) as"
        "\<forall>(m, addrs) \<in> set before. \<forall>bs. addrs = Some bs \<longrightarrow> \<not> list_ex (\<lambda>a. IP_Equal a ip) bs" by blast
      with False show "?r (l # links)"
        by (intro exI [of _ "l # before"] exI [of _ as] exI [of _ after]) (simp add: l)
    qed
    ultimately show ?thesis using Cons.IH by simp
  qed
qed

text \<open>A distribution has the length asked for, and its numbers are drawn with successive seeds.\<close>

lemma draws_prefix:
  assumes "m \<le> length ds"
  shows "foldR (\<lambda>i d. upd_int d (i - 1) (f i)) [1..int m] ds = Ret (map f [1..int m] @ drop m ds)"
  using assms
proof (induction m)
  case 0
  show ?case by simp
next
  case (Suc m)
  have "[1..int (Suc m)] = [1..int m] @ [int m + 1]" using upto_rec2 [of 1 "int m + 1"] by (simp add: add.commute)
  moreover have "upd_int (map f [1..int m] @ drop m ds) (int m) v = Ret (map f [1..int m] @ v # drop (Suc m) ds)" for v
    using Suc.prems by (simp add: upd_int_def list_update_append Cons_nth_drop_Suc [symmetric])
  ultimately show ?case using Suc by (simp add: foldR_append)
qed

lemma draws_run:
  "draws random x n seed =
     (if n < 0 then Panic SliceRange else Ret (map (\<lambda>i. ucast (random x (wrap64 (seed + i)))) [1..n]))"
  using draws_prefix [of "nat n" "replicate (nat n) 0" "\<lambda>i. ucast (random x (wrap64 (seed + i)))"]
  by (cases "n < 0") (simp_all add: draws_def)

end
