(* ===== verification/Plmn.thy ===== *)
theory Plmn
  imports GnbProps UeContext
begin

text \<open>
  The network identity as UE and gNodeB put it on the wire: both write the digits of MCC and
  MNC into three octets, the UE in the order of NAS, the gNodeB in the order of NGAP.
\<close>

lemma hex_of_six:
  assumes "list_all (\<lambda>c. \<exists>d < 16. c = hex_char d) [a, b, c, d, e, f]"
  shows "hex_of (fst (hex_decode [a, b, c, d, e, f])) = [a, b, c, d, e, f]"
proof -
  obtain p q r s t u where "a = hex_char p" "b = hex_char q" "c = hex_char r" "d = hex_char s"
    "e = hex_char t" "f = hex_char u" "p < 16" "q < 16" "r < 16" "s < 16" "t < 16" "u < 16"
    using assms by auto
  then show ?thesis by (simp add: hex_of_hex_pair del: hex_decode.simps(3))
qed

text \<open>
  C40: UE and gNodeB encode a network identity in three octets whose hexadecimal digits are
  the digits of MCC and MNC in a fixed order. For an MNC of two digits both write the same
  octets, which the gNodeB decodes to MCC and MNC again. For an MNC of three digits the UE, as
  NAS demands, writes the last digit of the MNC beside the last of the MCC, the gNodeB, as
  NGAP demands, the first; so the octets agree only when the three digits of the MNC are equal.
\<close>

theorem plmn_octets_of_ue_and_gnb:
  assumes "plmn_digits mc mn" and "sec_mcc c = mc" and "sec_mnc c = mn"
    and "mcc (controlInfo g) = mc" and "mnc (controlInfo g) = mn"
  shows "\<exists>o1 o2. ue_GetMccAndMncInOctets c = Ret o1 \<and> GetMccAndMncInOctets g = Ret o2 \<and>
    (if length mn = 2
     then hex_of o1 = [mc ! 1, mc ! 0, CHR ''f'', mc ! 2, mn ! 1, mn ! 0] \<and> o2 = o1 \<and>
       convertMccMnc (hex_of o1) = Ret (mc, mn)
     else hex_of o1 = [mc ! 1, mc ! 0, mn ! 2, mc ! 2, mn ! 1, mn ! 0] \<and>
       hex_of o2 = [mc ! 1, mc ! 0, mn ! 0, mc ! 2, mn ! 2, mn ! 1] \<and>
       (o1 = o2 \<longleftrightarrow> mn ! 0 = mn ! 1 \<and> mn ! 1 = mn ! 2))"
proof -
  obtain m0 m1 m2 where mc: "mc = [m0, m1, m2]"
    using assms(1) by (auto simp: plmn_digits_def numeral_3_eq_3 length_Suc_conv)
  have dig: "\<exists>d < 16. x = hex_char d" if "x \<in> set mc \<union> set mn" for x
  proof -
    have "\<forall>x \<in> set mc \<union> set mn. 48 \<le> code x \<and> code x \<le> 57"
      using assms(1) by (simp add: plmn_digits_def list_all_iff)
    with that obtain d where "d < 10" "x = hex_char d" using digit_hex_char by blast
    then show ?thesis by (intro exI [of _ d]) simp
  qed
  have f: "\<exists>d < 16. CHR ''f'' = hex_char d"
    by (rule exI [of _ 15]) (simp add: hex_char_digits)
  consider n0 n1 where "mn = [n0, n1]" | n0 n1 n2 where "mn = [n0, n1, n2]"
    using assms(1) by (auto simp: plmn_digits_def numeral_2_eq_2 numeral_3_eq_3 length_Suc_conv)
  then show ?thesis
  proof cases
    case (1 n0 n1)
    let ?t = "[m1, m0, CHR ''f'', m2, n1, n0]"
    have t: "hex_of (fst (hex_decode ?t)) = ?t"
      by (rule hex_of_six) (use dig f in \<open>simp add: mc 1\<close>)
    have "ue_GetMccAndMncInOctets c = Ret (fst (hex_decode ?t))" "GetMccAndMncInOctets g = Ret (fst (hex_decode ?t))"
      using assms(2-5) by (simp_all add: ue_GetMccAndMncInOctets_def GetMccAndMncInOctets_def mc 1 reverse_def
          idx_def Let_def del: hex_decode.simps)
    with t show ?thesis
      by (simp add: mc 1 convertMccMnc_def idx_def Let_def del: hex_decode.simps hex_of.simps length_hex_of)
  next
    case (2 n0 n1 n2)
    let ?t = "[m1, m0, n2, m2, n1, n0]" and ?u = "[m1, m0, n0, m2, n2, n1]"
    have t: "hex_of (fst (hex_decode ?t)) = ?t" "hex_of (fst (hex_decode ?u)) = ?u"
      by (rule hex_of_six, use dig in \<open>simp add: mc 2\<close>)+
    then have "fst (hex_decode ?t) = fst (hex_decode ?u) \<longleftrightarrow> n0 = n1 \<and> n1 = n2"
      by (metis list.inject)
    moreover have "ue_GetMccAndMncInOctets c = Ret (fst (hex_decode ?t))" "GetMccAndMncInOctets g = Ret (fst (hex_decode ?u))"
      using assms(2-5) by (simp_all add: ue_GetMccAndMncInOctets_def GetMccAndMncInOctets_def mc 2 reverse_def
          idx_def Let_def numeral_3_eq_3 del: hex_decode.simps)
    ultimately show ?thesis
      using t by (simp add: mc 2 numeral_2_eq_2 del: hex_decode.simps hex_of.simps)
  qed
qed

text \<open>The gNodeB of the demonstration and a UE with an MNC of three digits.\<close>

lemma plmn_octets_of_ue_and_gnb_witness:
  "\<forall>c. \<exists>o1 o2. ue_GetMccAndMncInOctets (c\<lparr>sec_mcc := ''310'', sec_mnc := ''012''\<rparr>) = Ret o1 \<and>
     GetMccAndMncInOctets (demo_gnb\<lparr>controlInfo := (controlInfo demo_gnb)\<lparr>mcc := ''310'', mnc := ''012''\<rparr>\<rparr>) = Ret o2 \<and>
     hex_of o1 = ''132010'' \<and> hex_of o2 = ''130021''"
proof
  fix c :: SECURITY
  have "plmn_digits ''310'' ''012''" by (simp add: plmn_digits_def)
  from plmn_octets_of_ue_and_gnb [OF this, of "c\<lparr>sec_mcc := ''310'', sec_mnc := ''012''\<rparr>"
      "demo_gnb\<lparr>controlInfo := (controlInfo demo_gnb)\<lparr>mcc := ''310'', mnc := ''012''\<rparr>\<rparr>"]
  show "\<exists>o1 o2. ue_GetMccAndMncInOctets (c\<lparr>sec_mcc := ''310'', sec_mnc := ''012''\<rparr>) = Ret o1 \<and>
     GetMccAndMncInOctets (demo_gnb\<lparr>controlInfo := (controlInfo demo_gnb)\<lparr>mcc := ''310'', mnc := ''012''\<rparr>\<rparr>) = Ret o2 \<and>
     hex_of o1 = ''132010'' \<and> hex_of o2 = ''130021''"
    by (simp add: numeral_2_eq_2 del: hex_of.simps) blast
qed

end
