(* ===== verification/Spec2Isabelle.thy ===== *)
theory Spec2Isabelle
  imports GnbAmf UeSessions UeSecurity UeRefine UeEnd UeTunnel ToolsProps
    NgapIo NgapDecode Sctp Causes CliProps Plmn
begin

text \<open>
  A model of PacketRusher (\<open>src/PacketRusher\<close>), the simulator of 5G base stations
  (gNodeBs) and user equipment (UEs) that drives a 5G core network, with theorems about it.

  \<^bold>\<open>The program.\<close> A simulated gNodeB keeps a context (\<open>GNBContext\<close>) with four
  pools: its UEs by RAN UE NGAP ID, its UEs by the identifier of the test tool, its AMFs, and
  the downlink TEIDs of its PDU sessions. Three kinds of goroutine act on it. One per AMF
  reads NGAP messages from an SCTP association and hands each to the handler of its procedure;
  one accepts connections of UEs from a channel; one per UE reads the messages of that UE and
  turns its NAS messages into NGAP messages. A simulated UE (\<open>UEContext\<close>) is one goroutine
  that reads the NAS messages of its gNodeB, the commands of a scenario and its paging timer,
  with a security context and sixteen slots of PDU sessions; for an active session it sets up a
  data plane in the kernel by the commands of a tunnel tool and a link tool, which can also be
  called from the command line. The scenarios start gNodeBs and UEs, number them, and tell the
  UEs what to do.

  \<^bold>\<open>Foundations.\<close>
  \<^item> \<open>Prelude\<close>: results (value, panic, \<open>log.Fatal\<close>, a goroutine that waits for
    ever), computations over a state, the loops the code uses, \<open>sync.Map\<close> as a locale
    with its laws and its interpretation, invariants of step relations as a locale.
  \<^item> \<open>GoStd\<close>, \<open>GoNet\<close>: what the program uses of Go's standard library: integer parsing
    and printing, the wrap-around of 64-bit integers, hexadecimal, string splitting and fields,
    slices with their panics, big-endian words, reading and printing of IP addresses, masks and networks.

  \<^bold>\<open>The gNodeB\<close> (\<open>internal/control_test_engine/gnb\<close>).
  \<^item> \<open>GnbTypes\<close>, \<open>NgapTypes\<close>: the data of \<open>gnb/context\<close> and of the NGAP
    messages; the store of all contexts, \<open>world\<close>; the parameters of the model, \<open>ext\<close>.
  \<^item> \<open>GnbContext\<close>: every operation of \<open>gnb/context/{amf,ue,context}.go\<close> that does
    more than read or write one field; \<open>GnbInv\<close>: the well-formedness invariant
    \<open>gnb_wf\<close> of a gNodeB and its preservation by each of them.
  \<^item> \<open>GnbBuilders\<close>: the NGAP messages of \<open>gnb/ngap/message/ngap_control\<close>;
    \<open>GnbTrigger\<close>: \<open>gnb/ngap/trigger\<close>, the senders, \<open>InitConn\<close>.
  \<^item> \<open>GnbNgap\<close>, \<open>GnbDispatch\<close>: the handlers of \<open>gnb/ngap/handler.go\<close> and the
    dispatch of \<open>gnb/ngap/dispatcher.go\<close>.
  \<^item> \<open>GnbService\<close>: \<open>gnb/nas\<close> (the UE side of a gNodeB) and \<open>gnb/gnb.go\<close>.
  \<^item> \<open>GnbReach\<close>: the gNodeBs as a state machine: a step is one message handled, a UE or
    an AMF connected, a timer, or a termination; the invariant holds in every reachable state.
  \<^item> \<open>GnbDemo\<close>: concrete worlds, reached by steps of the machine, on which the witnesses
    are evaluated. \<open>GnbProps\<close>, \<open>GnbSessions\<close>, \<open>GnbHandlers\<close>, \<open>GnbAmf\<close>: the
    properties, of identities and AMF choice, of sessions and deletion, of the message handlers,
    and of AMF management and handover. \<open>Plmn\<close>: the PLMN octets of a UE and of a gNodeB compared.

  \<^bold>\<open>The UE\<close> (\<open>internal/control_test_engine/ue\<close>, \<open>internal/common/{auth,sidf}\<close>).
  \<^item> \<open>Suci\<close>, \<open>SuciProps\<close>: concealment of the subscriber identity and its inverse
    (\<open>sidf/suci.go\<close>), and the proof that one undoes the other.
  \<^item> \<open>NasTypes\<close>, \<open>UeTypes\<close>: the NAS messages, the data of \<open>ue/context\<close>, the state
    \<open>ustate\<close> and the parameters \<open>uext\<close>.
  \<^item> \<open>UeContext\<close>, \<open>UeAuth\<close>: the operations of \<open>ue/context/context.go\<close>: sessions,
    identities, authentication and key agreement, key derivation.
  \<^item> \<open>UeMessages\<close>, \<open>UeTrigger\<close>, \<open>UeHandlers\<close>: the NAS messages a UE sends and their
    protection (\<open>ue/nas/message\<close>), the triggers, the dispatch with the removal of the protection,
    and the handlers.
  \<^item> \<open>UeLoop\<close>: the loop of \<open>ue/ue.go\<close> as the step relation \<open>ue_step\<close>, and the kernel
    commands of \<open>ue/gtp/service/service.go\<close>. \<open>UeInv\<close>, \<open>UeReach\<close>: the invariant
    \<open>ue_wf\<close> of the sessions and their channels, preserved by every step.
  \<^item> \<open>UeDemo\<close>: a UE that registers and sets up a session. \<open>UeSessions\<close>,
    \<open>UeLifecycle\<close>, \<open>UeSecurity\<close>: the properties of sessions, of the session procedures, of
    authentication and the protection of messages. \<open>UeRefine\<close>: an abstract machine of PDU
    sessions, labelled by what the inputs of a UE ask for, which the UE refines step by step. \<open>UeEnd\<close>: a UE can be ended, and is silent afterwards.

  \<^bold>\<open>UEs, gNodeB and AMFs together.\<close>
  \<^item> \<open>UeSays\<close>: the shapes of everything a UE sends; \<open>UeGnb\<close>: the two sides of the channels.
    A system of UEs (\<open>ue_step\<close>), their gNodeB (\<open>processingConn_msg\<close>, \<open>Dispatch\<close>) and its AMFs
    takes steps in any order (\<open>sys_step\<close>); for the NAS and idle messages of connected UEs and for
    Downlink NAS Transports it refines an abstract relay (\<open>relay\<close>), a function from the history of
    messages to what the gNodeB writes, with the NGAP messages spelled out (\<open>relay_pdu\<close>). The handshake of a new UE is there too.
  \<^item> \<open>NgapIo\<close>: the reading loop of an association (\<open>gnb/ngap/service.go\<close>) with the goroutines
    it starts, and in which orders a UE gets its messages. The relay's history is in the order of
    handling; this is how it differs from the order of sending.
  \<^item> \<open>NgapDecode\<close>: the helpers that read and take apart one message, among them a wait with a
    goroutine, two channels and a timeout, as a step relation. \<open>Causes\<close>: the texts of NGAP, 5GMM and
    5GSM causes.
  \<^item> \<open>Sctp\<close>: \<open>lib/ngap/ngapSctp/sctp.go\<close>: the identifier of NGAP's payload, which \<open>SendToAmF\<close>
    sends with, the listener, the reading goroutine, the number of clients with its invariant.

  \<^bold>\<open>The tools and the scenarios.\<close>
  \<^item> \<open>TunTypes\<close>, \<open>TunOptions\<close>, \<open>TunCmd\<close>: the tool \<open>internal/cmd/gogtp5g-tunnel\<close>:
    the parser of arguments and object identifiers, the options of each kind of rule with the
    flow descriptions, the commands, the command tree and the main function. \<open>TunCmd\<close> also holds
    the link tool \<open>internal/cmd/gogtp5g-link\<close>. \<open>TunFacts\<close>: what a command
    line asks for (\<open>commanded\<close>), and that every parser ends. \<open>TunProps\<close>: the properties of the tool. \<open>UeTunnel\<close>: the UE and the
    tool together.
  \<^item> \<open>Tools\<close>: \<open>internal/common/tools/tools.go\<close>, the resolution of host names of
    \<open>config/config.go\<close>, and the test with many UEs; \<open>Scenarios\<close>: the other templates, the
    monitor and the sample scenario. \<open>ToolsProps\<close>: their properties.
  \<^item> \<open>Cli\<close>: the commands of \<open>cmd/packetrusher.go\<close> with their options and defaults, the loading of
    the configuration, the packet capture, the work load models; \<open>CliProps\<close>: their properties.

  \<^bold>\<open>Interfaces.\<close> \<open>sync.Map\<close> and the invariants of step relations are locales of
  \<open>Prelude\<close>, interpreted on the model's maps and on the machines of the gNodeB, the UE, the two together,
  the scenario of a UE, the server of the SCTP wrapper and the wait for a command; the reachability theorems rest on these interpretations.

  \<^bold>\<open>Modelling decisions.\<close> Contexts are shared by pointer in the program, so the state is a
  store of contexts addressed by references, and a pool maps keys to references. Everything that
  leaves a component is appended to a list of events, which the ordering properties speak
  about. Code outside the repository is a field of a record of parameters (\<open>ext\<close> for the gNodeB,
  \<open>uext\<close> for the UE, \<open>tenv\<close> for the tunnel tool, others for the link tool and the templates): the
  codecs, the SCTP and netlink libraries, cryptographic functions, the orders in which
  \<open>sync.Map.Range\<close> visits a map. What a theorem assumes about them is among its premises: that a
  \<open>Range\<close> visits every entry once (\<open>range_order\<close>), that an association accepts a write
  (\<open>conn_up\<close>), that the netlink library succeeds (\<open>tenv_up\<close>), that the kernel commands of the
  UE are those of the tool (\<open>tool_backed\<close>), that decryption undoes encryption, that users still
  listen to a channel. A parameter may depend on everything done before, so a library may answer
  differently each time.

  \<^bold>\<open>Recursion.\<close> Most recursion is structural. Two loops of the code have no bound in the code
  and are \<open>partial_function (option)\<close>, so that not ending is a value: the loop of the options
  parsers (\<open>opt_loop\<close>), which is proved to end because each round takes a token, and the rounds of
  the test with many UEs, which go on for ever with \<open>--loop\<close> unless an interrupt arrives. No fuel is used.

  \<^bold>\<open>Not modelled.\<close> Handlers run to their end one after the other: the interleaving of
  goroutines inside a handler and the blocking of channels of capacity one are not modelled,
  save where a goroutine waits for ever, in \<open>NgapDecode\<close>, and between the goroutines of
  \<open>NgapIo\<close>. Log output other than the texts of causes, usage texts, durations, the reading of the
  text of an option, the parsing of the YAML file and the WebAssembly runtime are not modelled, nor
  is the core network of the program's own tests. The user-plane gateway of the gNodeB
  (\<open>gnb/data/service/service.go\<close>) is left out because it calls methods that no type of the
  repository has, and so does not compile. Functions that only read or write one field of a
  context are the fields of its record. The identifiers of UEs and AMFs are 64-bit integers that
  wrap (\<open>wrap64\<close>), as in the code: that a new identifier is above all others holds below the
  wrap, and the theorem on identifiers says so. The host module of the WebAssembly scenario is
  instantiated by the runtime, whose answer is a parameter: when it is an error the process ends.
\<close>

end
